(* ===== verification/Prelude.thy ===== *)
theory Prelude
  imports Main "HOL-Library.Word"
begin

text \<open>
  Shared vocabulary of the development: Go's 64-bit integers as wrapped integers, decimal
  printing, Go maps as association lists in iteration order, and the small list facts the
  components share.  Nothing here models a file of the repository by itself.
\<close>

section \<open>Collections of proof rules\<close>

named_theorems go_defs \<open>definitions of the model that proofs unfold together\<close>
named_theorems frame_simps \<open>what an operation leaves unchanged\<close>

section \<open>Sixty-four bit integers\<close>

text \<open>
  Go's \<open>int\<close>, \<open>int64\<close> and \<open>time.Duration\<close> are 64-bit two's complement integers.  The model
  uses \<open>int\<close> and applies \<open>wrap64\<close> after every operation of the source that can overflow.
\<close>

type_synonym duration = int
type_synonym instant = int

definition wrap64 :: "int \<Rightarrow> int" where
  "wrap64 x = (x + 2 ^ 63) mod 2 ^ 64 - 2 ^ 63"

definition int64 :: "int \<Rightarrow> bool" where
  "int64 x \<longleftrightarrow> - (2 ^ 63) \<le> x \<and> x < 2 ^ 63"

lemma wrap64_id [simp]: "int64 x \<Longrightarrow> wrap64 x = x"
  by (simp add: wrap64_def int64_def)

lemma int64_wrap64 [simp]: "int64 (wrap64 x)"
  by (simp add: wrap64_def int64_def)

lemma wrap64_sint: "wrap64 x = sint (word_of_int x :: 64 word)"
  by (simp add: wrap64_def sint_sbintrunc' signed_take_bit_eq_take_bit_shift take_bit_eq_mod)

lemma int64_bounds: "int64 x \<Longrightarrow> - (2 ^ 63) \<le> x" "int64 x \<Longrightarrow> x < 2 ^ 63"
  by (simp_all add: int64_def)

text \<open>The units of \<open>time.Duration\<close>, in nanoseconds.\<close>

definition Second :: duration where "Second = 1000000000"
definition Minute :: duration where "Minute = 60 * Second"
definition Hour :: duration where "Hour = 60 * Minute"

lemmas duration_units = Second_def Minute_def Hour_def

lemma wrap64_sub_add: "wrap64 (wrap64 (n + x) - n) = wrap64 x"
proof -
  have "wrap64 (n + x) - n + 2 ^ 63 = (n + x + 2 ^ 63) mod 2 ^ 64 - n" by (simp add: wrap64_def)
  then have "(wrap64 (n + x) - n + 2 ^ 63) mod 2 ^ 64 = (n + x + 2 ^ 63 - n) mod 2 ^ 64"
    by (simp only: mod_diff_left_eq)
  then show ?thesis by (simp add: wrap64_def add_ac)
qed

text \<open>\<open>time.Time.IsZero\<close>: January 1 of year 1, as nanoseconds of the Unix epoch.\<close>

definition zero_time :: instant where
  "zero_time = - 62135596800 * 1000000000"

definition IsZero :: "instant \<Rightarrow> bool" where
  "IsZero t \<longleftrightarrow> t = zero_time"

section \<open>Decimal printing\<close>

text \<open>\<open>%d\<close> of \<open>fmt\<close> and \<open>strconv.Itoa\<close>.\<close>

fun digits_of_nat :: "nat \<Rightarrow> string" where
  "digits_of_nat n =
     (if n < 10 then [char_of (48 + n)] else digits_of_nat (n div 10) @ [char_of (48 + n mod 10)])"

declare digits_of_nat.simps [simp del]

definition show_int :: "int \<Rightarrow> string" where
  "show_int i = (if i < 0 then CHR ''-'' # digits_of_nat (nat (- i)) else digits_of_nat (nat i))"

lemma digits_of_nat_nonempty [simp]: "digits_of_nat n \<noteq> []"
  by (subst digits_of_nat.simps) simp

lemma show_int_nonempty [simp]: "show_int i \<noteq> []"
  by (simp add: show_int_def)

section \<open>Go maps\<close>

text \<open>
  A Go \<open>map[string]string\<close> is an association list: the list is one order in which \<open>range\<close> may
  visit the map, which Go leaves open.  A well-formed map has distinct keys.
\<close>

type_synonym ('k, 'v) go_map = "('k \<times> 'v) list"

definition go_map_ok :: "('k, 'v) go_map \<Rightarrow> bool" where
  "go_map_ok m \<longleftrightarrow> distinct (map fst m)"

text \<open>\<open>m[k]\<close> on a map to strings: the zero value where the key is missing.\<close>

definition map_get :: "('k, string) go_map \<Rightarrow> 'k \<Rightarrow> string" where
  "map_get m k = (case map_of m k of None \<Rightarrow> [] | Some v \<Rightarrow> v)"

text \<open>\<open>m[k] = v\<close>: overwrite in place, or add.\<close>

fun map_set :: "'k \<Rightarrow> 'v \<Rightarrow> ('k, 'v) go_map \<Rightarrow> ('k, 'v) go_map" where
  "map_set k v [] = [(k, v)]"
| "map_set k v ((k', v') # m) = (if k = k' then (k, v) # m else (k', v') # map_set k v m)"

lemma map_of_map_set: "map_of (map_set k v m) = (map_of m)(k \<mapsto> v)"
  by (induction k v m rule: map_set.induct) (auto simp: fun_eq_iff)

lemma keys_map_set: "fst ` set (map_set k v m) = insert k (fst ` set m)"
  by (induction k v m rule: map_set.induct) auto

lemma map_set_ok: "go_map_ok m \<Longrightarrow> go_map_ok (map_set k v m)"
  by (induction k v m rule: map_set.induct) (auto simp: go_map_ok_def keys_map_set)

section \<open>Lists\<close>

lemma length_filter_map_update:
  "(\<And>r. P (f r) = P r) \<Longrightarrow> length (filter P (map f xs)) = length (filter P xs)"
  by (induction xs) auto

lemma take_length_concat_take: "take (length (concat (take k xs))) (concat xs) = concat (take k xs)"
proof -
  have "concat xs = concat (take k xs) @ concat (drop k xs)"
    by (metis append_take_drop_id concat_append)
  then show ?thesis by simp
qed

lemma drop_length_concat_take: "drop (length (concat (take k xs))) (concat xs) = concat (drop k xs)"
proof -
  have "concat xs = concat (take k xs) @ concat (drop k xs)"
    by (metis append_take_drop_id concat_append)
  then show ?thesis by simp
qed

end
