(* ===== verification/GoStrings.thy ===== *)
theory GoStrings
  imports Prelude
begin

text \<open>
  Go strings: a string is a list of bytes (HOL's 8-bit \<open>char\<close>), read as UTF-8 where the source
  ranges over it or counts runes.  The functions of \<open>unicode/utf8\<close> and \<open>strings\<close> that the
  program uses are translated here, invalid encodings included, with the facts about decoding
  and trimming on which message splitting rests.
\<close>

section \<open>Decoding runes\<close>

definition byte :: "char \<Rightarrow> nat" where
  "byte c = of_char c"

definition RuneError :: nat where
  "RuneError = 0xFFFD"

definition cont :: "char \<Rightarrow> bool" where
  "cont c \<longleftrightarrow> 0x80 \<le> byte c \<and> byte c \<le> 0xBF"

text \<open>
  \<open>utf8.DecodeRuneInString\<close>: the rune and the number of bytes it takes.  The second byte of a
  three or four byte sequence has a narrower range after some first bytes (no overlong forms, no
  surrogates, nothing above U+10FFFF); every malformed sequence is one \<open>RuneError\<close> byte.
\<close>

definition decode2 :: "nat \<Rightarrow> string \<Rightarrow> nat \<times> nat" where
  "decode2 b0 s =
     (case s of
        c1 # _ \<Rightarrow> if cont c1 then ((b0 - 0xC0) * 0x40 + (byte c1 - 0x80), 2) else (RuneError, 1)
      | [] \<Rightarrow> (RuneError, 1))"

definition decode3 :: "nat \<Rightarrow> string \<Rightarrow> nat \<times> nat" where
  "decode3 b0 s =
     (case s of
        c1 # c2 # _ \<Rightarrow>
          if (if b0 = 0xE0 then 0xA0 else 0x80) \<le> byte c1
             \<and> byte c1 \<le> (if b0 = 0xED then 0x9F else 0xBF) \<and> cont c2
          then ((b0 - 0xE0) * 0x1000 + (byte c1 - 0x80) * 0x40 + (byte c2 - 0x80), 3)
          else (RuneError, 1)
      | _ \<Rightarrow> (RuneError, 1))"

definition decode4 :: "nat \<Rightarrow> string \<Rightarrow> nat \<times> nat" where
  "decode4 b0 s =
     (case s of
        c1 # c2 # c3 # _ \<Rightarrow>
          if (if b0 = 0xF0 then 0x90 else 0x80) \<le> byte c1
             \<and> byte c1 \<le> (if b0 = 0xF4 then 0x8F else 0xBF) \<and> cont c2 \<and> cont c3
          then ((b0 - 0xF0) * 0x40000 + (byte c1 - 0x80) * 0x1000
                 + (byte c2 - 0x80) * 0x40 + (byte c3 - 0x80), 4)
          else (RuneError, 1)
      | _ \<Rightarrow> (RuneError, 1))"

fun DecodeRune :: "string \<Rightarrow> nat \<times> nat" where
  "DecodeRune [] = (RuneError, 0)"
| "DecodeRune (c0 # s) =
     (let b0 = byte c0 in
      if b0 < 0x80 then (b0, 1)
      else if 0xC2 \<le> b0 \<and> b0 \<le> 0xDF then decode2 b0 s
      else if 0xE0 \<le> b0 \<and> b0 \<le> 0xEF then decode3 b0 s
      else if 0xF0 \<le> b0 \<and> b0 \<le> 0xF4 then decode4 b0 s
      else (RuneError, 1))"

lemmas decode_defs = decode2_def decode3_def decode4_def

text \<open>\<open>utf8.AppendRune\<close>, the conversion of one rune back to bytes.\<close>

definition EncodeRune :: "nat \<Rightarrow> string" where
  "EncodeRune r0 =
     (let r = (if 0x10FFFF < r0 \<or> (0xD800 \<le> r0 \<and> r0 \<le> 0xDFFF) then RuneError else r0) in
      if r < 0x80 then [char_of r]
      else if r < 0x800 then [char_of (0xC0 + r div 0x40), char_of (0x80 + r mod 0x40)]
      else if r < 0x10000 then
        [char_of (0xE0 + r div 0x1000), char_of (0x80 + r div 0x40 mod 0x40),
         char_of (0x80 + r mod 0x40)]
      else
        [char_of (0xF0 + r div 0x40000), char_of (0x80 + r div 0x1000 mod 0x40),
         char_of (0x80 + r div 0x40 mod 0x40), char_of (0x80 + r mod 0x40)])"

lemma decode_width: "s \<noteq> [] \<Longrightarrow> 0 < snd (DecodeRune s) \<and> snd (DecodeRune s) \<le> length s"
  by (cases s) (auto simp: Let_def decode_defs split: list.splits if_splits)

lemma decode_width_pos: "0 < snd (DecodeRune (c # s))"
  using decode_width [of "c # s"] by simp

lemma decode_width_le: "snd (DecodeRune (c # s)) \<le> Suc (length s)"
  using decode_width [of "c # s"] by simp

text \<open>A rune is decided by its own bytes: cutting the string after them changes nothing.\<close>

lemma decode2_take: "snd (decode2 b s) \<le> Suc k \<Longrightarrow> decode2 b (take k s) = decode2 b s"
  by (cases k; cases s) (auto simp: decode2_def split: if_splits)

lemma decode3_take: "snd (decode3 b s) \<le> Suc k \<Longrightarrow> decode3 b (take k s) = decode3 b s"
  by (cases k; cases s; cases "tl s"; cases "k - 1") (auto simp: decode3_def split: if_splits)

lemma decode4_take: "snd (decode4 b s) \<le> Suc k \<Longrightarrow> decode4 b (take k s) = decode4 b s"
  by (cases k; cases s; cases "tl s"; cases "tl (tl s)"; cases "k - 1"; cases "k - 2")
     (auto simp: decode4_def split: if_splits)

lemma decode_take:
  assumes "s \<noteq> []" and "snd (DecodeRune s) \<le> k"
  shows "DecodeRune (take k s) = DecodeRune s"
proof -
  from assms decode_width [of s] obtain c0 s' k' where s: "s = c0 # s'" and k: "k = Suc k'"
    by (cases s; cases k) auto
  show ?thesis
    using assms(2) unfolding s k
    by (auto simp: Let_def decode2_take decode3_take decode4_take split: if_splits)
qed

text \<open>
  What follows a nonempty string cannot change its first rune unless it starts with a
  continuation byte.
\<close>

lemma decode2_append: "\<not> cont c \<Longrightarrow> decode2 b (s @ c # w) = decode2 b s"
  by (cases s) (auto simp: decode2_def)

lemma decode3_append: "\<not> cont c \<Longrightarrow> decode3 b (s @ c # w) = decode3 b s"
  by (cases s; cases "tl s"; cases w) (auto simp: decode3_def cont_def split: if_splits)

lemma decode4_append: "\<not> cont c \<Longrightarrow> decode4 b (s @ c # w) = decode4 b s"
  by (cases s; cases "tl s"; cases "tl (tl s)"; cases w; cases "tl w")
     (auto simp: decode4_def cont_def split: if_splits)

lemma decode_append:
  "s \<noteq> [] \<Longrightarrow> \<not> cont c \<Longrightarrow> DecodeRune (s @ c # w) = DecodeRune s"
  by (cases s) (simp_all add: Let_def decode2_append decode3_append decode4_append)

declare DecodeRune.simps(2) [simp del]

section \<open>Strings as sequences of runes\<close>

text \<open>
  \<open>chunks s\<close> cuts a string at its rune boundaries, the places a \<open>range\<close> loop visits.  The rune
  of a chunk is \<open>fst (DecodeRune chunk)\<close>, its index in the string the length of the chunks
  before it.
\<close>

function chunks :: "string \<Rightarrow> string list" where
  "chunks [] = []"
| "chunks (c # s) =
     (let n = snd (DecodeRune (c # s)) in take n (c # s) # chunks (drop n (c # s)))"
  by pat_completeness auto
termination
  by (relation "measure length") (auto simp: decode_width_pos)

declare chunks.simps(2) [simp del]

lemmas chunks_Cons = chunks.simps(2)

lemma chunks_nonempty:
  "s \<noteq> [] \<Longrightarrow> chunks s = take (snd (DecodeRune s)) s # chunks (drop (snd (DecodeRune s)) s)"
  by (cases s) (simp_all add: chunks_Cons Let_def)

lemma chunks_Nil_iff [simp]: "chunks s = [] \<longleftrightarrow> s = []"
  by (cases s) (simp_all add: chunks_Cons Let_def)

lemma concat_chunks [simp]: "concat (chunks s) = s"
  by (induction s rule: chunks.induct) (simp_all add: chunks_Cons Let_def)

lemma chunk_nonempty: "c \<in> set (chunks s) \<Longrightarrow> c \<noteq> []"
proof (induction s rule: chunks.induct)
  case (2 x s)
  then show ?case
    using decode_width_pos [of x s] by (auto simp: chunks_Cons Let_def)
qed simp

text \<open>\<open>utf8.RuneCountInString\<close> and the conversions between strings and rune slices.\<close>

definition RuneCountInString :: "string \<Rightarrow> nat" where
  "RuneCountInString s = length (chunks s)"

definition runes :: "string \<Rightarrow> nat list" where
  "runes s = map (\<lambda>c. fst (DecodeRune c)) (chunks s)"

definition string_of_runes :: "nat list \<Rightarrow> string" where
  "string_of_runes rs = concat (map EncodeRune rs)"

lemma RuneCount_Nil [simp]: "RuneCountInString [] = 0"
  by (simp add: RuneCountInString_def)

lemma RuneCount_0_iff [simp]: "RuneCountInString s = 0 \<longleftrightarrow> s = []"
  by (simp add: RuneCountInString_def)

lemma RuneCount_le_length: "RuneCountInString s \<le> length s"
proof (induction s rule: chunks.induct)
  case (2 c s)
  then show ?case
    using decode_width_pos [of c s]
    by (simp add: RuneCountInString_def chunks_Cons Let_def)
qed simp

text \<open>Any run of consecutive chunks decodes to itself.\<close>

lemma chunks_concat_drop: "chunks (concat (drop k (chunks s))) = drop k (chunks s)"
proof (induction s arbitrary: k rule: chunks.induct)
  case (2 c s)
  then show ?case
    by (cases k) (simp_all add: chunks_Cons Let_def)
qed simp

lemma concat_take_chunks: "\<exists>m. concat (take k (chunks s)) = take m s"
  by (metis append_eq_conv_conj append_take_drop_id concat_append concat_chunks)

lemma chunks_concat_take: "chunks (concat (take k (chunks s))) = take k (chunks s)"
proof (induction s arbitrary: k rule: chunks.induct)
  case (2 c s)
  let ?n = "snd (DecodeRune (c # s))"
  show ?case
  proof (cases k)
    case (Suc k')
    obtain m where m: "concat (take k' (chunks (drop ?n (c # s)))) = take m (drop ?n (c # s))"
      using concat_take_chunks by blast
    have pre: "concat (take k (chunks (c # s))) = take (?n + m) (c # s)"
      using Suc m by (simp add: chunks_Cons Let_def take_add)
    have dec: "DecodeRune (take (?n + m) (c # s)) = DecodeRune (c # s)"
      by (rule decode_take) simp_all
    have ne: "take (?n + m) (c # s) \<noteq> []"
      using decode_width_pos [of c s] by simp
    have "chunks (take (?n + m) (c # s))
        = take ?n (c # s) # chunks (take m (drop ?n (c # s)))"
      using chunks_nonempty [OF ne] by (simp add: dec drop_take)
    also have "\<dots> = take ?n (c # s) # take k' (chunks (drop ?n (c # s)))"
      using 2 [OF refl, of k'] m by simp
    finally show ?thesis
      using pre Suc by (simp add: chunks_Cons Let_def)
  qed simp
qed simp

lemma RuneCount_concat_take: "RuneCountInString (concat (take k (chunks s))) = min k (RuneCountInString s)"
  by (simp add: RuneCountInString_def chunks_concat_take min.commute)

lemma RuneCount_concat_drop: "RuneCountInString (concat (drop k (chunks s))) = RuneCountInString s - k"
  by (simp add: RuneCountInString_def chunks_concat_drop)

section \<open>Trimming white space\<close>

text \<open>\<open>unicode.IsSpace\<close>: Latin-1 spaces and the property White_Space.\<close>

definition IsSpace :: "nat \<Rightarrow> bool" where
  "IsSpace r \<longleftrightarrow>
     (9 \<le> r \<and> r \<le> 13) \<or> r = 32 \<or> r = 0x85 \<or> r = 0xA0 \<or> r = 0x1680
     \<or> (0x2000 \<le> r \<and> r \<le> 0x200A) \<or> r = 0x2028 \<or> r = 0x2029 \<or> r = 0x202F
     \<or> r = 0x205F \<or> r = 0x3000"

definition space_chunk :: "string \<Rightarrow> bool" where
  "space_chunk c \<longleftrightarrow> IsSpace (fst (DecodeRune c))"

definition trim_chunks :: "string list \<Rightarrow> string list" where
  "trim_chunks cs = rev (dropWhile space_chunk (rev (dropWhile space_chunk cs)))"

text \<open>
  \<open>strings.TrimSpace\<close>: drop the white-space runes at both ends.  Go decodes the right end
  backwards; UTF-8 synchronises itself, so it finds the same runes
  (\<open>chunks_snoc_space\<close> below: a string that ends in the encoding of a space has it as its
  last chunk).
\<close>

definition TrimSpace :: "string \<Rightarrow> string" where
  "TrimSpace s = concat (trim_chunks (chunks s))"

lemma trim_chunks_range: "\<exists>i n. trim_chunks cs = take n (drop i cs)"
proof -
  have "\<exists>n. rev (dropWhile space_chunk (rev xs)) = take n xs" for xs
    by (metis append_eq_conv_conj rev_append rev_rev_ident takeWhile_dropWhile_id)
  moreover have "\<exists>i. dropWhile space_chunk cs = drop i cs"
    by (metis append_eq_conv_conj takeWhile_dropWhile_id)
  ultimately show ?thesis
    unfolding trim_chunks_def by metis
qed

lemma chunks_concat_range: "chunks (concat (take n (drop i (chunks s)))) = take n (drop i (chunks s))"
  by (metis chunks_concat_drop chunks_concat_take)

lemma chunks_TrimSpace: "chunks (TrimSpace s) = trim_chunks (chunks s)"
  unfolding TrimSpace_def using trim_chunks_range chunks_concat_range by metis

lemma length_trim_chunks: "length (trim_chunks cs) \<le> length cs"
  by (metis trim_chunks_range length_take length_drop diff_le_self min.cobounded1 order_trans
      min.coboundedI1)

lemma RuneCount_TrimSpace: "RuneCountInString (TrimSpace s) \<le> RuneCountInString s"
  by (simp add: RuneCountInString_def chunks_TrimSpace length_trim_chunks)

lemma trim_chunks_ends:
  assumes "trim_chunks cs \<noteq> []"
  shows "\<not> space_chunk (hd (trim_chunks cs))" and "\<not> space_chunk (last (trim_chunks cs))"
proof -
  let ?d = "dropWhile space_chunk cs" and ?t = "trim_chunks cs"
  obtain n where n: "?t = take n ?d"
    unfolding trim_chunks_def
    by (metis append_eq_conv_conj rev_append rev_rev_ident takeWhile_dropWhile_id)
  with assms have "?d \<noteq> []" and "hd ?t = hd ?d"
    by (auto simp: hd_take)
  then show "\<not> space_chunk (hd ?t)"
    by (metis hd_dropWhile)
  have "dropWhile space_chunk (rev ?d) \<noteq> []"
    using assms by (simp add: trim_chunks_def)
  then show "\<not> space_chunk (last ?t)"
    unfolding trim_chunks_def by (metis hd_dropWhile last_rev)
qed

lemma trim_chunks_id:
  "cs = [] \<or> (\<not> space_chunk (hd cs) \<and> \<not> space_chunk (last cs)) \<Longrightarrow> trim_chunks cs = cs"
  unfolding trim_chunks_def
  by (metis dropWhile.simps(1) dropWhile_eq_self_iff hd_rev rev_is_Nil_conv rev_rev_ident)

lemma trim_chunks_idem: "trim_chunks (trim_chunks cs) = trim_chunks cs"
  by (metis trim_chunks_ends trim_chunks_id)

lemma TrimSpace_idem [simp]: "TrimSpace (TrimSpace s) = TrimSpace s"
  by (metis TrimSpace_def chunks_TrimSpace trim_chunks_idem)

lemma TrimSpace_Nil [simp]: "TrimSpace [] = []"
  by (simp add: TrimSpace_def trim_chunks_def)

lemma trim_chunks_filter:
  "filter (\<lambda>c. \<not> space_chunk c) (trim_chunks cs) = filter (\<lambda>c. \<not> space_chunk c) cs"
proof -
  have "filter (\<lambda>c. \<not> P c) (dropWhile P xs) = filter (\<lambda>c. \<not> P c) xs" for P :: "'a \<Rightarrow> bool" and xs
    by (induction xs) auto
  then show ?thesis
    unfolding trim_chunks_def by (metis rev_filter rev_rev_ident)
qed

text \<open>A trimmed string starts with a rune that is no space, unless it is empty.\<close>

lemma trimmed_hd: "TrimSpace s = s \<Longrightarrow> s \<noteq> [] \<Longrightarrow> \<not> space_chunk (hd (chunks s))"
  by (metis chunks_Nil_iff chunks_TrimSpace trim_chunks_ends(1))

lemma trim_chunks_Nil_iff: "trim_chunks cs = [] \<longleftrightarrow> (\<forall>c \<in> set cs. space_chunk c)"
proof
  assume "trim_chunks cs = []"
  then have "\<forall>c \<in> set (dropWhile space_chunk cs). space_chunk c"
    by (simp add: trim_chunks_def)
  then have "dropWhile space_chunk cs = []"
    by (metis hd_dropWhile list.set_sel(1))
  then show "\<forall>c \<in> set cs. space_chunk c" by simp
qed (auto simp: trim_chunks_def dest: set_dropWhileD)

lemma TrimSpace_Nil_iff: "TrimSpace s = [] \<longleftrightarrow> (\<forall>c \<in> set (chunks s). space_chunk c)"
  by (metis chunks_Nil_iff chunks_TrimSpace trim_chunks_Nil_iff)

text \<open>
  Decoding synchronises at every byte that is no continuation byte, so the chunks of a
  concatenation are the chunks of its parts there.
\<close>

lemma chunks_append:
  assumes "\<not> cont c"
  shows "chunks (t @ c # w) = chunks t @ chunks (c # w)"
proof (induction t rule: chunks.induct)
  case (2 x t)
  let ?n = "snd (DecodeRune (x # t))"
  let ?xt = "x # t"
  have len: "?n \<le> length ?xt"
    using decode_width_le [of x t] by simp
  have "DecodeRune (?xt @ c # w) = DecodeRune ?xt"
    by (rule decode_append) (use assms in simp_all)
  then have "chunks (?xt @ c # w) = take ?n (?xt @ c # w) # chunks (drop ?n (?xt @ c # w))"
    by (metis append_is_Nil_conv chunks_nonempty list.distinct(1))
  also have "\<dots> = take ?n ?xt # chunks (drop ?n ?xt @ c # w)"
    using len by (simp del: append_Cons)
  also have "\<dots> = chunks ?xt @ chunks (c # w)"
    using 2 [OF refl] by (simp add: chunks_Cons [of x t] Let_def)
  finally show ?case .
qed simp

lemma chunks_snoc_space:
  "\<not> cont c \<Longrightarrow> DecodeRune (c # w) = (r, Suc (length w)) \<Longrightarrow> chunks (t @ c # w) = chunks t @ [c # w]"
  by (simp add: chunks_append chunks_Cons)

lemma RuneCount_append:
  "\<not> cont c \<Longrightarrow> RuneCountInString (t @ c # w) = RuneCountInString t + RuneCountInString (c # w)"
  by (simp add: RuneCountInString_def chunks_append)

section \<open>ASCII strings\<close>

definition ascii :: "string \<Rightarrow> bool" where
  "ascii s \<longleftrightarrow> (\<forall>c \<in> set s. byte c < 0x80)"

lemma decode_ascii: "byte c < 0x80 \<Longrightarrow> DecodeRune (c # s) = (byte c, 1)"
  by (simp add: DecodeRune.simps)

lemma chunks_ascii_Cons: "byte c < 0x80 \<Longrightarrow> chunks (c # s) = [c] # chunks s"
  by (simp add: chunks_Cons decode_ascii)

lemma chunks_ascii: "ascii s \<Longrightarrow> chunks s = map (\<lambda>c. [c]) s"
  by (induction s) (auto simp: ascii_def chunks_ascii_Cons)

lemma RuneCount_ascii: "ascii s \<Longrightarrow> RuneCountInString s = length s"
  by (simp add: RuneCountInString_def chunks_ascii)

section \<open>Encoding a decoded rune\<close>

text \<open>Encoding gives back the bytes that were decoded, unless they were malformed.\<close>

lemma snoc64: "z < 64 \<Longrightarrow> (u * 64 + z) div 64 = (u::nat)" "z < 64 \<Longrightarrow> (u * 64 + z) mod 64 = z"
  by simp_all

lemmas div_4096 = div_mult2_eq [of _ 64 64, simplified]
lemmas div_262144 = div_mult2_eq [of _ 64 4096, simplified]

lemma EncodeRune_ascii: "r < 0x80 \<Longrightarrow> EncodeRune r = [char_of r]"
  by (simp add: EncodeRune_def)

lemma EncodeRune2: "2 \<le> x \<Longrightarrow> x < 32 \<Longrightarrow> y < 64 \<Longrightarrow>
  EncodeRune (x * 64 + y) = [char_of (0xC0 + x), char_of (0x80 + y)]"
  by (simp add: EncodeRune_def Let_def)

lemma EncodeRune3:
  assumes "x < 16" "y < 64" "z < 64" "x = 0 \<Longrightarrow> 32 \<le> y" "x = 13 \<Longrightarrow> y < 32"
  shows "EncodeRune ((x * 64 + y) * 64 + z) = [char_of (0xE0 + x), char_of (0x80 + y), char_of (0x80 + z)]"
proof -
  let ?r = "(x * 64 + y) * 64 + z"
  have r: "?r div 4096 = x" "?r div 64 mod 64 = y" "?r mod 64 = z"
    using assms(2,3) by (simp_all only: div_4096 snoc64)
  have "\<not> (0x10FFFF < ?r \<or> (0xD800 \<le> ?r \<and> ?r \<le> 0xDFFF))"
    using assms by (cases "x < 13"; cases "x = 13") auto
  moreover have "0x800 \<le> ?r" "?r < 0x10000"
    using assms by (cases "x = 0"; simp)+
  ultimately show ?thesis
    unfolding EncodeRune_def Let_def by (simp only: if_False r) simp
qed

lemma EncodeRune4:
  assumes "x < 5" "y < 64" "z < 64" "w < 64" "x = 0 \<Longrightarrow> 16 \<le> y" "x = 4 \<Longrightarrow> y < 16"
  shows "EncodeRune (((x * 64 + y) * 64 + z) * 64 + w)
   = [char_of (0xF0 + x), char_of (0x80 + y), char_of (0x80 + z), char_of (0x80 + w)]"
proof -
  let ?r = "((x * 64 + y) * 64 + z) * 64 + w"
  have r: "?r div 262144 = x" "?r div 4096 mod 64 = y" "?r div 64 mod 64 = z" "?r mod 64 = w"
    using assms(2-4) by (simp_all only: div_4096 div_262144 snoc64)
  have "\<not> (0x10FFFF < ?r \<or> (0xD800 \<le> ?r \<and> ?r \<le> 0xDFFF))" "0x10000 \<le> ?r"
    using assms by (cases "x = 0"; cases "x = 4"; simp)+
  then show ?thesis
    unfolding EncodeRune_def Let_def by (simp only: if_False r) simp
qed

lemma char_of_byte [simp]: "char_of (byte c) = c"
  by (simp add: byte_def)

lemma cont_digit: "cont c \<Longrightarrow> \<exists>y < 64. byte c = 0x80 + y"
  by (auto simp: cont_def intro: exI [of _ "byte c - 0x80"])

lemma range_digit: "lo \<le> byte c \<Longrightarrow> byte c \<le> hi \<Longrightarrow> 0x80 \<le> lo \<Longrightarrow> hi \<le> 0xBF \<Longrightarrow>
   \<exists>y < 64. byte c = 0x80 + y \<and> lo \<le> 0x80 + y \<and> 0x80 + y \<le> hi"
  by (auto intro: exI [of _ "byte c - 0x80"])

lemma encode_decode2:
  assumes "decode2 b s = (r, n)" "0xC2 \<le> b" "b \<le> 0xDF"
  shows "(r, n) = (RuneError, 1) \<or> n = 2 \<and> EncodeRune r = char_of b # take 1 s"
proof -
  obtain x where x: "b = 0xC0 + x" "2 \<le> x" "x < 32"
    using assms(2,3) that [of "b - 0xC0"] by simp
  show ?thesis
    using assms(1) x EncodeRune2
    by (auto simp: decode2_def split: list.splits if_splits dest!: cont_digit)
       (metis char_of_byte)+
qed

lemma encode_decode3:
  assumes "decode3 b s = (r, n)" "0xE0 \<le> b" "b \<le> 0xEF"
  shows "(r, n) = (RuneError, 1) \<or> n = 3 \<and> EncodeRune r = char_of b # take 2 s"
proof -
  obtain x where x: "b = 0xE0 + x" "x < 16"
    using assms(2,3) that [of "b - 0xE0"] by simp
  consider "(r, n) = (RuneError, 1)" | c1 c2 t where "s = c1 # c2 # t"
      "(if b = 0xE0 then 0xA0 else 0x80) \<le> byte c1" "byte c1 \<le> (if b = 0xED then 0x9F else 0xBF)" "cont c2"
      "r = (b - 0xE0) * 0x1000 + (byte c1 - 0x80) * 0x40 + (byte c2 - 0x80)" "n = 3"
    using assms(1) by (auto simp: decode3_def split: list.splits if_splits)
  then show ?thesis
  proof cases
    case 2
    obtain y where y: "byte c1 = 0x80 + y" "y < 64"
      using 2(2,3) that [of "byte c1 - 0x80"] by (auto split: if_splits)
    obtain z where z: "byte c2 = 0x80 + z" "z < 64"
      using cont_digit [OF 2(4)] by blast
    have "r = (x * 64 + y) * 64 + z" using 2(5) x y z by simp
    moreover have "EncodeRune ((x * 64 + y) * 64 + z) = [char_of (0xE0 + x), char_of (0x80 + y), char_of (0x80 + z)]"
      by (rule EncodeRune3) (use 2(2,3) x y z in \<open>auto split: if_splits\<close>)
    ultimately show ?thesis using 2(1,6) x(1) by (simp flip: y(1) z(1))
  qed simp
qed

lemma encode_decode4:
  assumes "decode4 b s = (r, n)" "0xF0 \<le> b" "b \<le> 0xF4"
  shows "(r, n) = (RuneError, 1) \<or> n = 4 \<and> EncodeRune r = char_of b # take 3 s"
proof -
  obtain x where x: "b = 0xF0 + x" "x < 5"
    using assms(2,3) that [of "b - 0xF0"] by simp
  consider "(r, n) = (RuneError, 1)" | c1 c2 c3 t where "s = c1 # c2 # c3 # t"
      "(if b = 0xF0 then 0x90 else 0x80) \<le> byte c1" "byte c1 \<le> (if b = 0xF4 then 0x8F else 0xBF)"
      "cont c2" "cont c3" "n = 4"
      "r = (b - 0xF0) * 0x40000 + (byte c1 - 0x80) * 0x1000 + (byte c2 - 0x80) * 0x40 + (byte c3 - 0x80)"
    using assms(1) by (auto simp: decode4_def split: list.splits if_splits)
  then show ?thesis
  proof cases
    case 2
    obtain y where y: "byte c1 = 0x80 + y" "y < 64"
      using 2(2,3) that [of "byte c1 - 0x80"] by (auto split: if_splits)
    obtain z where z: "byte c2 = 0x80 + z" "z < 64"
      using cont_digit [OF 2(4)] by blast
    obtain w where w: "byte c3 = 0x80 + w" "w < 64"
      using cont_digit [OF 2(5)] by blast
    have "r = ((x * 64 + y) * 64 + z) * 64 + w" using 2(7) x y z w by simp
    moreover have "EncodeRune (((x * 64 + y) * 64 + z) * 64 + w)
        = [char_of (0xF0 + x), char_of (0x80 + y), char_of (0x80 + z), char_of (0x80 + w)]"
      by (rule EncodeRune4) (use 2(2,3) x y z w in \<open>auto split: if_splits\<close>)
    ultimately show ?thesis using 2(1,6) x(1) by (simp flip: y(1) z(1) w(1))
  qed simp
qed

lemma encode_decode:
  assumes "s \<noteq> []" and "DecodeRune s \<noteq> (RuneError, 1)"
  shows "EncodeRune (fst (DecodeRune s)) = take (snd (DecodeRune s)) s"
proof -
  obtain c t where s: "s = c # t" using assms(1) by (cases s) auto
  obtain r n where rn: "DecodeRune s = (r, n)" by fastforce
  then have ne: "(r, n) \<noteq> (RuneError, 1)" using assms(2) by simp
  from rn [unfolded s DecodeRune.simps Let_def] ne
  consider "byte c < 0x80" "(r, n) = (byte c, 1)"
    | "0xC2 \<le> byte c" "byte c \<le> 0xDF" "decode2 (byte c) t = (r, n)"
    | "0xE0 \<le> byte c" "byte c \<le> 0xEF" "decode3 (byte c) t = (r, n)"
    | "0xF0 \<le> byte c" "byte c \<le> 0xF4" "decode4 (byte c) t = (r, n)"
    by (metis (no_types, lifting))
  then show ?thesis
  proof cases
    case 1
    then show ?thesis using rn by (simp add: s EncodeRune_ascii)
  next
    case 2
    then show ?thesis using encode_decode2 [OF 2(3,1,2)] ne rn by (auto simp: s)
  next
    case 3
    then show ?thesis using encode_decode3 [OF 3(3,1,2)] ne rn by (auto simp: s)
  next
    case 4
    then show ?thesis using encode_decode4 [OF 4(3,1,2)] ne rn by (auto simp: s)
  qed
qed

lemma decode_append_valid:
  assumes "s \<noteq> []" and "DecodeRune s \<noteq> (RuneError, 1)"
  shows "DecodeRune (s @ t) = DecodeRune s"
proof -
  have d2: "decode2 b (u @ t) = decode2 b u" if "decode2 b u \<noteq> (RuneError, 1)" for b u
    using that by (cases u) (simp_all add: decode2_def)
  have d3: "decode3 b (u @ t) = decode3 b u" if "decode3 b u \<noteq> (RuneError, 1)" for b u
    using that by (cases u; cases "tl u") (simp_all add: decode3_def)
  have d4: "decode4 b (u @ t) = decode4 b u" if "decode4 b u \<noteq> (RuneError, 1)" for b u
    using that by (cases u; cases "tl u"; cases "tl (tl u)") (simp_all add: decode4_def)
  obtain c u where s: "s = c # u" using assms(1) by (cases s) auto
  show ?thesis
    using assms(2) d2 [of "byte c" u] d3 [of "byte c" u] d4 [of "byte c" u]
    by (auto simp: s DecodeRune.simps Let_def split: if_splits)
qed

lemma chunk_decode: "c \<in> set (chunks s) \<Longrightarrow> snd (DecodeRune c) = length c"
proof (induction s rule: chunks.induct)
  case (2 x s)
  let ?n = "snd (DecodeRune (x # s))"
  have "DecodeRune (take ?n (x # s)) = DecodeRune (x # s)"
    by (rule decode_take) simp_all
  moreover have "length (take ?n (x # s)) = ?n"
    using decode_width_le [of x s] by simp
  ultimately show ?case
    using 2 by (auto simp: chunks_Cons Let_def)
qed simp

section \<open>The package strings\<close>

definition HasPrefix :: "string \<Rightarrow> string \<Rightarrow> bool" where
  "HasPrefix s p \<longleftrightarrow> take (length p) s = p"

fun Contains :: "string \<Rightarrow> string \<Rightarrow> bool" where
  "Contains [] sub = (sub = [])"
| "Contains (c # s) sub = (HasPrefix (c # s) sub \<or> Contains s sub)"

fun Join :: "string list \<Rightarrow> string \<Rightarrow> string" where
  "Join [] sep = []"
| "Join [p] sep = p"
| "Join (p # q # ps) sep = p @ sep @ Join (q # ps) sep"

text \<open>\<open>strings.ReplaceAll\<close>; an empty \<open>old\<close> matches at every rune boundary.\<close>

function replace_from :: "string \<Rightarrow> string \<Rightarrow> string \<Rightarrow> string" where
  "replace_from old new [] = []"
| "replace_from old new (c # s) =
     (if old \<noteq> [] \<and> HasPrefix (c # s) old then new @ replace_from old new (drop (length old) (c # s))
      else c # replace_from old new s)"
  by pat_completeness auto
termination
  by (relation "measure (\<lambda>(old, new, s). length s)") auto

definition ReplaceAll :: "string \<Rightarrow> string \<Rightarrow> string \<Rightarrow> string" where
  "ReplaceAll s old new =
     (if old = [] then concat (map (\<lambda>c. new @ c) (chunks s)) @ new else replace_from old new s)"

text \<open>\<open>strings.TrimRight\<close> with a cutset of one ASCII byte.\<close>

definition TrimRightByte :: "string \<Rightarrow> char \<Rightarrow> string" where
  "TrimRightByte s c = rev (dropWhile (\<lambda>x. x = c) (rev s))"

text \<open>
  \<open>strings.ToLower\<close> and \<open>strings.ToUpper\<close>: rune by rune, the ASCII letters as here, all other
  runes by the Unicode case tables, the argument \<open>uni\<close>.
\<close>

definition ascii_lower :: "nat \<Rightarrow> nat" where
  "ascii_lower r = (if 65 \<le> r \<and> r \<le> 90 then r + 32 else r)"

definition ascii_upper :: "nat \<Rightarrow> nat" where
  "ascii_upper r = (if 97 \<le> r \<and> r \<le> 122 then r - 32 else r)"

definition ToLower :: "(nat \<Rightarrow> nat) \<Rightarrow> string \<Rightarrow> string" where
  "ToLower uni s = string_of_runes (map (\<lambda>r. if r < 0x80 then ascii_lower r else uni r) (runes s))"

definition ToUpper :: "(nat \<Rightarrow> nat) \<Rightarrow> string \<Rightarrow> string" where
  "ToUpper uni s = string_of_runes (map (\<lambda>r. if r < 0x80 then ascii_upper r else uni r) (runes s))"

section \<open>Quoting\<close>

definition quote :: char where "quote = CHR 0x22"
definition backslash :: char where "backslash = CHR 0x5C"

definition hexdigit :: "nat \<Rightarrow> char" where
  "hexdigit n = (if n < 10 then char_of (48 + n) else char_of (87 + n))"

fun hex_digits :: "nat \<Rightarrow> nat \<Rightarrow> string" where
  "hex_digits 0 n = []"
| "hex_digits (Suc k) n = hex_digits k (n div 16) @ [hexdigit (n mod 16)]"

text \<open>
  \<open>strconv.Quote\<close>, which \<open>fmt\<close> uses for \<open>%q\<close>.  \<open>uni_print\<close> says which runes beyond ASCII are
  printable (\<open>strconv.IsPrint\<close>).
\<close>

definition quote_chunk :: "(nat \<Rightarrow> bool) \<Rightarrow> string \<Rightarrow> string" where
  "quote_chunk uni_print c =
     (let b = hd c; r = fst (DecodeRune c) in
      if DecodeRune c = (RuneError, 1) then backslash # CHR ''x'' # hex_digits 2 (byte b)
      else if b = quote \<or> b = backslash then [backslash, b]
      else if (r < 0x80 \<and> 0x20 \<le> r \<and> r < 0x7F) \<or> (0x80 \<le> r \<and> uni_print r) then c
      else if r = 7 then [backslash, CHR ''a'']
      else if r = 8 then [backslash, CHR ''b'']
      else if r = 12 then [backslash, CHR ''f'']
      else if r = 10 then [backslash, CHR ''n'']
      else if r = 13 then [backslash, CHR ''r'']
      else if r = 9 then [backslash, CHR ''t'']
      else if r = 11 then [backslash, CHR ''v'']
      else if r < 0x20 \<or> r = 0x7F then backslash # CHR ''x'' # hex_digits 2 r
      else if r < 0x10000 then backslash # CHR ''u'' # hex_digits 4 r
      else backslash # CHR ''U'' # hex_digits 8 r)"

definition Quote :: "(nat \<Rightarrow> bool) \<Rightarrow> string \<Rightarrow> string" where
  "Quote uni_print s = quote # concat (map (quote_chunk uni_print) (chunks s)) @ [quote]"

section \<open>Decoding what was encoded\<close>

lemma byte_char_of: "n < 256 \<Longrightarrow> byte (char_of n) = n"
  by (simp add: byte_def)

lemma digits64: "r < 0x800 \<Longrightarrow> r div 64 < (32::nat)" "r < 0x10000 \<Longrightarrow> r div 0x1000 < (16::nat)"
  "r \<le> 0x10FFFF \<Longrightarrow> r div 0x40000 < (5::nat)"
  by simp_all

lemma decode2_encode:
  assumes "2 \<le> x" "x < 32" "y < 64"
  shows "DecodeRune (char_of (0xC0 + x) # char_of (0x80 + y) # t) = (x * 64 + y, 2)"
  using assms by (simp add: DecodeRune.simps Let_def decode2_def byte_char_of cont_def)

lemma decode3_encode:
  assumes "x < 16" "y < 64" "z < 64" "x = 0 \<Longrightarrow> 32 \<le> y" "x = 13 \<Longrightarrow> y < 32"
  shows "DecodeRune (char_of (0xE0 + x) # char_of (0x80 + y) # char_of (0x80 + z) # t)
    = ((x * 64 + y) * 64 + z, 3)"
  using assms by (auto simp: DecodeRune.simps Let_def decode3_def byte_char_of cont_def)

lemma decode4_encode:
  assumes "x < 5" "y < 64" "z < 64" "w < 64" "x = 0 \<Longrightarrow> 16 \<le> y" "x = 4 \<Longrightarrow> y < 16"
  shows "DecodeRune (char_of (0xF0 + x) # char_of (0x80 + y) # char_of (0x80 + z) # char_of (0x80 + w) # t)
    = (((x * 64 + y) * 64 + z) * 64 + w, 4)"
  using assms by (auto simp: DecodeRune.simps Let_def decode4_def byte_char_of cont_def)

lemma div64_lt: "r < n * 64 \<Longrightarrow> r div 64 < (n::nat)"
  by (simp add: less_mult_imp_div_less)

lemma split64: obtains x y where "r = x * 64 + y" "y < (64::nat)"
  by (metis div_mult_mod_eq mod_less_divisor zero_less_numeral)

lemma decode_encode: "snd (DecodeRune (EncodeRune r0 @ t)) = length (EncodeRune r0)"
proof -
  define r where "r = (if 0x10FFFF < r0 \<or> (0xD800 \<le> r0 \<and> r0 \<le> 0xDFFF) then RuneError else r0)"
  have same: "EncodeRune r0 = EncodeRune r"
    by (cases "0x10FFFF < r0 \<or> (0xD800 \<le> r0 \<and> r0 \<le> 0xDFFF)") (simp_all only: EncodeRune_def r_def if_True if_False Let_def RuneError_def, simp_all)
  have r: "r \<le> 0x10FFFF" "\<not> (0xD800 \<le> r \<and> r \<le> 0xDFFF)"
    by (auto simp: r_def RuneError_def)
  obtain q y where q: "r = q * 64 + y" "y < 64" by (rule split64)
  obtain p z where p: "q = p * 64 + z" "z < 64" by (rule split64)
  obtain o' v where o: "p = o' * 64 + v" "v < 64" by (rule split64)
  consider "r < 0x80" | "0x80 \<le> r" "r < 0x800" | "0x800 \<le> r" "r < 0x10000" | "0x10000 \<le> r" by linarith
  then show ?thesis
  proof cases
    case 1
    then show ?thesis unfolding same by (simp add: EncodeRune_ascii decode_ascii byte_char_of)
  next
    case 2
    then show ?thesis unfolding same q(1) using q by (subst (1 2) EncodeRune2) (simp_all add: decode2_encode)
  next
    case 3
    have "p < 16" "p = 0 \<Longrightarrow> 32 \<le> z" "p = 13 \<Longrightarrow> z < 32"
      using 3 r q p by auto
    then show ?thesis unfolding same q(1) p(1) using q p
      by (subst (1 2) EncodeRune3) (simp_all add: decode3_encode)
  next
    case 4
    have "o' < 5" "o' = 0 \<Longrightarrow> 16 \<le> v" "o' = 4 \<Longrightarrow> v < 16"
      using 4 r q p o by auto
    then show ?thesis unfolding same q(1) p(1) o(1) using q p o
      by (subst (1 2) EncodeRune4) (simp_all add: decode4_encode)
  qed
qed

lemma EncodeRune_nonempty [simp]: "EncodeRune r \<noteq> []"
  by (simp add: EncodeRune_def Let_def)

lemma chunks_encode: "chunks (EncodeRune r @ t) = EncodeRune r # chunks t"
  using decode_encode [of r t] by (cases "EncodeRune r") (simp_all add: chunks_Cons Let_def)

lemma RuneCount_string_of_runes [simp]: "RuneCountInString (string_of_runes rs) = length rs"
proof -
  have "chunks (string_of_runes rs) = map EncodeRune rs"
    by (induction rs) (simp_all add: string_of_runes_def chunks_encode)
  then show ?thesis by (simp add: RuneCountInString_def)
qed

lemma EncodeRune_ascii_char: "c \<in> set (EncodeRune r) \<Longrightarrow> byte c < 0x80 \<Longrightarrow> r = byte c"
  by (auto simp: EncodeRune_def Let_def byte_def RuneError_def split: if_splits)

end
