(* ===== verification/Splitting.thy ===== *)
theory Splitting
  imports GoStrings
begin

text \<open>
  Splitting a passthrough message into Telegram-sized parts
  (\<open>internal/service/delivery_service.go\<close>: \<open>splitMessage\<close>, \<open>lastFittingCut\<close>,
  \<open>joinRendered\<close>, \<open>telegramChars\<close>).  The loop of \<open>splitMessage\<close> does not stop for a limit of
  0, so it is a partial function; \<open>splitLoop_returns\<close> shows that it returns for every
  positive limit.
\<close>

section \<open>The code\<close>

definition nl :: char where "nl = CHR 0x0A"
definition tab :: char where "tab = CHR 0x09"

definition MaxTelegramMessageChars :: nat where
  "MaxTelegramMessageChars = 4096"

definition telegramChars :: "string \<Rightarrow> nat" where
  "telegramChars message = RuneCountInString message"

definition joinRendered :: "string list \<Rightarrow> string" where
  "joinRendered parts = Join parts ([nl, nl] @ ''---'' @ [nl, nl])"

text \<open>The \<open>range\<close> loop of \<open>lastFittingCut\<close> over what is left of the message.\<close>

function cut_from :: "nat \<Rightarrow> string \<Rightarrow> nat \<Rightarrow> nat \<Rightarrow> nat \<Rightarrow> nat" where
  "cut_from limit [] index charCount lastWhitespace = index"
| "cut_from limit (c # s) index charCount lastWhitespace =
     (if charCount = limit then (if 0 < lastWhitespace then lastWhitespace else index)
      else
        let char = fst (DecodeRune (c # s));
            width = snd (DecodeRune (c # s));
            lastWhitespace' =
              (if char = byte nl \<or> char = byte (CHR '' '') \<or> char = byte tab then index
               else lastWhitespace)
        in cut_from limit (drop width (c # s)) (index + width) (charCount + 1) lastWhitespace')"
  by pat_completeness auto
termination
  by (relation "measure (\<lambda>(_, s, _). length s)") (auto simp: decode_width_pos)

definition lastFittingCut :: "string \<Rightarrow> nat \<Rightarrow> nat" where
  "lastFittingCut message limit = cut_from limit message 0 0 0"

partial_function (option) splitLoop :: "nat \<Rightarrow> string \<Rightarrow> string list \<Rightarrow> string list option" where
  "splitLoop limit remaining parts =
     (if remaining = [] then Some parts
      else if telegramChars remaining \<le> limit then Some (parts @ [remaining])
      else
        let cut = lastFittingCut remaining limit;
            segment = take cut remaining;
            part = TrimSpace segment;
            part = (if part = [] then TrimSpace (take cut remaining) else part)
        in splitLoop limit (TrimSpace (drop cut remaining)) (parts @ [part]))"

definition splitMessage :: "string \<Rightarrow> nat \<Rightarrow> string list option" where
  "splitMessage message limit =
     (if telegramChars message \<le> limit then Some [message]
      else splitLoop limit (TrimSpace message) [])"

section \<open>What the cut guarantees\<close>

text \<open>The text that counts: all runes but white space.\<close>

definition ink :: "string \<Rightarrow> string" where
  "ink s = concat (filter (\<lambda>c. \<not> space_chunk c) (chunks s))"

lemma ink_Nil [simp]: "ink [] = []"
  by (simp add: ink_def)

lemma ink_TrimSpace [simp]: "ink (TrimSpace s) = ink s"
  by (simp add: ink_def chunks_TrimSpace trim_chunks_filter)

lemma length_TrimSpace: "length (TrimSpace s) \<le> length s"
proof -
  obtain i n where "trim_chunks (chunks s) = take n (drop i (chunks s))"
    using trim_chunks_range by blast
  moreover have "length (concat (take n cs)) \<le> length (concat cs)" for n and cs :: "string list"
    by (metis append_take_drop_id concat_append le_add1 length_append)
  moreover have "length (concat (drop n cs)) \<le> length (concat cs)" for n and cs :: "string list"
    by (metis append_take_drop_id concat_append le_add2 length_append)
  ultimately show ?thesis
    unfolding TrimSpace_def by (metis concat_chunks order_trans)
qed

text \<open>
  The interface of a cut function: it returns the byte index of a rune boundary with at most
  \<open>limit\<close> runes before it, and never 0 when there is something to cut.
\<close>

locale message_cutter =
  fixes cut :: "string \<Rightarrow> nat \<Rightarrow> nat"
  assumes cut_boundary: "\<exists>k \<le> limit. cut s limit = length (concat (take k (chunks s)))"
    and cut_progress: "0 < limit \<Longrightarrow> s \<noteq> [] \<Longrightarrow> 0 < cut s limit"
begin

lemma head_fits: "RuneCountInString (TrimSpace (take (cut s limit) s)) \<le> limit"
proof -
  obtain k where k: "k \<le> limit" "cut s limit = length (concat (take k (chunks s)))"
    using cut_boundary by blast
  then have "take (cut s limit) s = concat (take k (chunks s))"
    by (metis concat_chunks take_length_concat_take)
  then have "RuneCountInString (take (cut s limit) s) \<le> limit"
    using k by (simp add: RuneCount_concat_take)
  then show ?thesis
    using RuneCount_TrimSpace order_trans by blast
qed

lemma tail_shorter:
  assumes "0 < limit" and "s \<noteq> []"
  shows "length (TrimSpace (drop (cut s limit) s)) < length s"
proof -
  have "length (drop (cut s limit) s) < length s"
    using cut_progress [OF assms] assms by simp
  then show ?thesis
    using length_TrimSpace le_less_trans by blast
qed

lemma ink_split: "ink (take (cut s limit) s) @ ink (drop (cut s limit) s) = ink s"
proof -
  obtain k where k: "cut s limit = length (concat (take k (chunks s)))"
    using cut_boundary by blast
  have "take (cut s limit) s = concat (take k (chunks s))"
    "drop (cut s limit) s = concat (drop k (chunks s))"
    using k by (metis concat_chunks take_length_concat_take)
      (metis k concat_chunks drop_length_concat_take)
  then show ?thesis
    by (simp add: ink_def chunks_concat_take chunks_concat_drop flip: concat_append filter_append)
qed

lemma head_nonempty:
  assumes "0 < limit" and "s \<noteq> []" and "TrimSpace s = s"
  shows "TrimSpace (take (cut s limit) s) \<noteq> []"
proof -
  obtain k where k: "cut s limit = length (concat (take k (chunks s)))"
    using cut_boundary by blast
  have take: "take (cut s limit) s = concat (take k (chunks s))"
    using k by (metis concat_chunks take_length_concat_take)
  have "0 < k"
    using cut_progress [OF assms(1,2)] k by (cases k) auto
  then have "hd (chunks s) \<in> set (take k (chunks s))"
    using assms(2) by (cases "chunks s"; cases k) auto
  then show ?thesis
    using trimmed_hd [OF assms(3,2)] take
    by (auto simp: TrimSpace_Nil_iff chunks_concat_take)
qed

end

section \<open>The code's cut keeps the interface\<close>

lemma cut_from_boundary:
  assumes "rest = concat (drop j (chunks m))" and "index = length (concat (take j (chunks m)))"
    and "lastWhitespace = length (concat (take i (chunks m)))" and "i \<le> j" and "j \<le> limit"
  shows "\<exists>k \<le> limit. cut_from limit rest index j lastWhitespace = length (concat (take k (chunks m)))"
  using assms
proof (induction limit rest index j lastWhitespace arbitrary: i rule: cut_from.induct)
  case (1 limit index charCount lastWhitespace)
  then show ?case by auto
next
  case (2 limit c s index j ws)
  show ?case
  proof (cases "j = limit")
    case True
    then have "cut_from limit (c # s) index j ws \<in> {ws, index}" by simp
    with 2(3-6) show ?thesis
      by (metis insertE singletonD order_trans)
  next
    case False
    let ?r = "fst (DecodeRune (c # s))" and ?w = "snd (DecodeRune (c # s))"
    let ?ws = "if ?r = byte nl \<or> ?r = byte (CHR '' '') \<or> ?r = byte tab then index else ws"
    have "drop j (chunks m) = chunks (c # s)"
      using 2(2) chunks_concat_drop by metis
    then have split: "drop j (chunks m) = take ?w (c # s) # chunks (drop ?w (c # s))"
      by (simp add: chunks_nonempty)
    then have j: "j < length (chunks m)"
      by (metis drop_eq_Nil list.distinct(1) not_le)
    have nth: "chunks m ! j = take ?w (c # s)"
      using split by (rule nth_via_drop)
    have rest: "drop ?w (c # s) = concat (drop (Suc j) (chunks m))"
      using split by (metis concat_chunks drop_Suc drop_tl list.sel(3))
    have idx: "index + ?w = length (concat (take (Suc j) (chunks m)))"
      using nth j 2(3) decode_width_le [of c s] by (simp add: take_Suc_conv_app_nth min_absorb2)
    have "?ws = index \<or> ?ws = ws" by simp
    then obtain i' where i': "i' \<le> Suc j" "?ws = length (concat (take i' (chunks m)))"
      using 2(3-5) by (metis le_SucI order_refl)
    have "\<exists>k \<le> limit. cut_from limit (drop ?w (c # s)) (index + ?w) (j + 1) ?ws
        = length (concat (take k (chunks m)))"
      using False 2(6) i' rest idx by (intro 2(1) [OF False refl refl refl]) auto
    then show ?thesis
      using False by (simp add: Let_def)
  qed
qed

lemma cut_from_pos:
  assumes "0 < limit" and "0 < index \<or> (charCount < limit \<and> rest \<noteq> [])"
  shows "0 < cut_from limit rest index charCount lastWhitespace"
  using assms
proof (induction limit rest index charCount lastWhitespace rule: cut_from.induct)
  case (2 limit c s index j ws)
  then show ?case
    using decode_width_pos [of c s] by (auto simp: Let_def)
qed simp

interpretation fitting: message_cutter lastFittingCut
proof
  fix limit s
  show "\<exists>k \<le> limit. lastFittingCut s limit = length (concat (take k (chunks s)))"
    unfolding lastFittingCut_def
    by (rule cut_from_boundary [where i = 0]) simp_all
  show "0 < limit \<Longrightarrow> s \<noteq> [] \<Longrightarrow> 0 < lastFittingCut s limit"
    unfolding lastFittingCut_def by (rule cut_from_pos) simp_all
qed

section \<open>The loop\<close>

text \<open>What one call of the loop achieves, by induction on the length of what is left.\<close>

lemma splitLoop_step:
  "remaining \<noteq> [] \<Longrightarrow> \<not> telegramChars remaining \<le> limit \<Longrightarrow>
   splitLoop limit remaining parts =
     splitLoop limit (TrimSpace (drop (lastFittingCut remaining limit) remaining))
       (parts @ [TrimSpace (take (lastFittingCut remaining limit) remaining)])"
  by (subst splitLoop.simps) (simp add: Let_def)

lemma splitLoop_returns:
  assumes "0 < limit" and "TrimSpace remaining = remaining"
  shows "\<exists>ps. splitLoop limit remaining parts = Some (parts @ ps)
    \<and> (\<forall>p \<in> set ps. p \<noteq> [] \<and> telegramChars p \<le> limit)
    \<and> concat (map ink ps) = ink remaining"
  using assms(2)
proof (induction "length remaining" arbitrary: remaining parts rule: less_induct)
  case less
  let ?cut = "lastFittingCut remaining limit"
  let ?tail = "TrimSpace (drop ?cut remaining)" and ?head = "TrimSpace (take ?cut remaining)"
  consider "remaining = []" | "remaining \<noteq> []" "telegramChars remaining \<le> limit"
    | "remaining \<noteq> []" "\<not> telegramChars remaining \<le> limit" by blast
  then show ?case
  proof cases
    case 1
    then show ?thesis by (subst splitLoop.simps) auto
  next
    case 2
    then show ?thesis
      by (subst splitLoop.simps) (auto intro: exI [of _ "[remaining]"])
  next
    case 3
    have "length ?tail < length remaining"
      using fitting.tail_shorter [OF assms(1)] 3(1) .
    from less(1) [OF this, of "parts @ [?head]"] obtain ps where ps:
      "splitLoop limit ?tail (parts @ [?head]) = Some ((parts @ [?head]) @ ps)"
      "\<forall>p \<in> set ps. p \<noteq> [] \<and> telegramChars p \<le> limit" "concat (map ink ps) = ink ?tail"
      by auto
    have "?head \<noteq> []"
      by (rule fitting.head_nonempty [OF assms(1) 3(1) less(2)])
    moreover have "telegramChars ?head \<le> limit"
      unfolding telegramChars_def by (rule fitting.head_fits)
    moreover have "ink ?head @ concat (map ink ps) = ink remaining"
      using ps(3) fitting.ink_split by simp
    ultimately show ?thesis
      using ps 3 by (auto simp: splitLoop_step intro!: exI [of _ "?head # ps"])
  qed
qed

text \<open>
  The result of \<open>splitMessage\<close> for a positive limit: it returns, its parts fit, and no ink is
  lost, added or moved.
\<close>

lemma splitMessage_spec:
  assumes "0 < limit"
  obtains ps where "splitMessage m limit = Some ps"
    and "\<forall>p \<in> set ps. telegramChars p \<le> limit"
    and "m \<noteq> [] \<Longrightarrow> \<forall>p \<in> set ps. p \<noteq> []"
    and "concat (map ink ps) = ink m"
proof (cases "telegramChars m \<le> limit")
  case True
  then show ?thesis by (intro that [of "[m]"]) (simp_all add: splitMessage_def)
next
  case False
  with splitLoop_returns [OF assms TrimSpace_idem, of m "[]"] that show ?thesis
    by (auto simp: splitMessage_def)
qed

end
