(* ===== verification/Models.thy ===== *)
theory Models
  imports GoStrings
begin

text \<open>
  The webhook data model (\<open>internal/models/grafana.go\<close>).  A decoded JSON value of Go's
  \<open>interface{}\<close> is one of its six shapes; a number keeps its IEEE bits.  Instants are UTC
  nanoseconds.
\<close>

datatype json_value =
    JNull
  | JBool bool
  | JNumber "64 word"
  | JString string
  | JArray "json_value list"
  | JObject "(string \<times> json_value) list"

record Alert =
  Alert_Status :: string
  Alert_Labels :: "(string, string) go_map"
  Alert_Annotations :: "(string, string) go_map"
  Alert_StartsAt :: instant
  Alert_EndsAt :: instant
  Alert_GeneratorURL :: string
  Alert_Fingerprint :: string
  Alert_SilenceURL :: string
  Alert_DashboardURL :: string
  Alert_PanelURL :: string
  Alert_Values :: "(string, json_value) go_map"
  Alert_ValueString :: string

record WebhookPayload =
  Payload_Receiver :: string
  Payload_Status :: string
  Payload_OrgID :: int
  Payload_Alerts :: "Alert list"
  Payload_GroupLabels :: "(string, string) go_map"
  Payload_CommonLabels :: "(string, string) go_map"
  Payload_CommonAnnotations :: "(string, string) go_map"
  Payload_ExternalURL :: string
  Payload_Version :: string
  Payload_GroupKey :: string
  Payload_TruncatedAlerts :: int
  Payload_Title :: string
  Payload_State :: string
  Payload_Message :: string

text \<open>The counting loops over the alerts.\<close>

fun count_status :: "string \<Rightarrow> Alert list \<Rightarrow> int \<Rightarrow> int" where
  "count_status st [] count = count"
| "count_status st (alert # alerts) count =
     count_status st alerts (if Alert_Status alert = st then wrap64 (count + 1) else count)"

definition FiringCount :: "WebhookPayload \<Rightarrow> int" where
  "FiringCount p = count_status ''firing'' (Payload_Alerts p) 0"

definition ResolvedCount :: "WebhookPayload \<Rightarrow> int" where
  "ResolvedCount p = count_status ''resolved'' (Payload_Alerts p) 0"

lemma count_status_filter:
  "0 \<le> count \<Longrightarrow> int64 (count + int (length alerts)) \<Longrightarrow>
   count_status st alerts count = count + int (length (filter (\<lambda>a. Alert_Status a = st) alerts))"
proof (induction st alerts count rule: count_status.induct)
  case (2 st alert alerts count)
  then have "int64 (count + 1)" by (simp add: int64_def)
  with 2 show ?case by (auto simp: int64_def algebra_simps)
qed simp

end
