(* ===== verification/Retry.thy ===== *)
theory Retry
  imports Prelude
begin

text \<open>
  Retry timing (\<open>internal/service/delivery_service.go\<close>: \<open>backoff\<close>, \<open>computeBackoff\<close>,
  \<open>classifyRetryReason\<close>): exponential backoff with a guard against 64-bit overflow, and equal
  jitter computed in double precision.
\<close>

section \<open>Exponential backoff\<close>

text \<open>The loop body runs \<open>steps\<close> more times; \<open>delay *= 2\<close> wraps around.\<close>

fun backoff_loop :: "nat \<Rightarrow> duration \<Rightarrow> duration \<Rightarrow> duration" where
  "backoff_loop 0 delay limit = (if delay > limit then limit else delay)"
| "backoff_loop (Suc steps) delay limit =
     (let delay' = wrap64 (delay * 2) in
      if delay' \<ge> limit \<or> delay' \<le> 0 then limit else backoff_loop steps delay' limit)"

definition backoff :: "int \<Rightarrow> duration \<Rightarrow> duration \<Rightarrow> duration" where
  "backoff attempt base limit =
     (if attempt < 1 then base else backoff_loop (nat (attempt - 1)) base limit)"

text \<open>
  The specification without machine arithmetic.  For a positive base the wrap-around guard makes
  the loop agree with it whatever the number of attempts.
\<close>

definition backoff_spec :: "int \<Rightarrow> duration \<Rightarrow> duration \<Rightarrow> duration" where
  "backoff_spec attempt base limit =
     (if attempt < 1 then base else min limit (base * 2 ^ nat (attempt - 1)))"

lemma wrap64_double:
  assumes "0 < d" and "d < 2 ^ 63"
  shows "wrap64 (d * 2) = (if d < 2 ^ 62 then d * 2 else d * 2 - 2 ^ 64)"
proof (cases "d < 2 ^ 62")
  case True
  with assms show ?thesis by (simp add: int64_def)
next
  case False
  have "x mod n = x - n" if "n \<le> x" "x < 2 * n" for x n :: int
    using that by (metis diff_ge_0_iff_ge diff_less_eq minus_mod_self2 mod_pos_pos_trivial mult_2)
  then have "(d * 2 + 2 ^ 63) mod 2 ^ 64 = d * 2 + 2 ^ 63 - 2 ^ 64"
    using False assms by simp
  with False show ?thesis by (simp add: wrap64_def)
qed

lemma backoff_loop_spec:
  "0 < d \<Longrightarrow> d \<le> m \<Longrightarrow> m < 2 ^ 63 \<Longrightarrow> backoff_loop n d m = min m (d * 2 ^ n)"
proof (induction n arbitrary: d)
  case (Suc n)
  have grow: "d * 2 \<le> d * 2 ^ Suc n"
    using Suc.prems(1) by simp
  show ?case
  proof (cases "d * 2 < m")
    case True
    with Suc.prems have "wrap64 (d * 2) = d * 2"
      by (simp add: int64_def)
    with True Suc show ?thesis by (simp add: Let_def mult.assoc)
  next
    case False
    with Suc.prems have "m \<le> wrap64 (d * 2) \<or> wrap64 (d * 2) \<le> 0"
      by (simp add: wrap64_double)
    with False grow show ?thesis by (auto simp: Let_def)
  qed
qed simp

lemma backoff_eq_spec:
  "0 < base \<Longrightarrow> base \<le> m \<Longrightarrow> m < 2 ^ 63 \<Longrightarrow> backoff attempt base m = backoff_spec attempt base m"
  by (simp add: backoff_def backoff_spec_def backoff_loop_spec)

lemma backoff_bounds:
  "0 < base \<Longrightarrow> base \<le> m \<Longrightarrow> m < 2 ^ 63 \<Longrightarrow> base \<le> backoff attempt base m \<and> backoff attempt base m \<le> m"
  by (auto simp: backoff_eq_spec backoff_spec_def min_def)

section \<open>Jitter in double precision\<close>

text \<open>
  \<open>computeBackoff\<close> multiplies the base delay by \<open>0.5 + 0.5 * rng.Float64()\<close>.  Go draws
  \<open>Float64\<close> as \<open>k / 2^53\<close> with \<open>k < 2^53\<close>; the draw \<open>k\<close> is an argument of the model.  Doubles are
  computed exactly, as integers scaled by a power of two and rounded to 53 significant bits,
  halves to even.
\<close>

definition round_half_even :: "nat \<Rightarrow> nat \<Rightarrow> nat" where
  "round_half_even num den =
     (let q = num div den; r = num mod den in
      if 2 * r < den then q else if 2 * r > den then q + 1 else if even q then q else q + 1)"

fun bit_length :: "nat \<Rightarrow> nat" where
  "bit_length n = (if n = 0 then 0 else Suc (bit_length (n div 2)))"

declare bit_length.simps [simp del]

definition round53 :: "nat \<Rightarrow> nat" where
  "round53 n =
     (let s = bit_length n - 53 in if s = 0 then n else round_half_even n (2 ^ s) * 2 ^ s)"

text \<open>The jitter factor, scaled by \<open>2^53\<close>: the sum \<open>(2^53 + k) / 2^54\<close> rounded to a double.\<close>

definition jitter53 :: "nat \<Rightarrow> nat" where
  "jitter53 k = round_half_even (2 ^ 53 + k) 2"

definition scale_delay :: "nat \<Rightarrow> nat \<Rightarrow> nat" where
  "scale_delay base k = round53 (round53 base * jitter53 k) div 2 ^ 53"

definition computeBackoff :: "nat \<Rightarrow> int \<Rightarrow> duration \<Rightarrow> duration \<Rightarrow> duration" where
  "computeBackoff k attempt base limit =
     (let b = backoff attempt base limit in
      if 0 \<le> b then int (scale_delay (nat b) k) else - int (scale_delay (nat (- b)) k))"

lemma round_half_even_le: "n \<le> m * d \<Longrightarrow> 0 < d \<Longrightarrow> round_half_even n d \<le> m"
proof -
  assume le: "n \<le> m * d" and d: "0 < d"
  then have "n div d \<le> m" by (metis div_le_mono nonzero_mult_div_cancel_right not_less0)
  moreover have "n mod d = 0" if "n div d = m"
    using le that by (metis add_diff_cancel_left' add_le_same_cancel1 div_mult_mod_eq le_zero_eq)
  ultimately show ?thesis
    using d by (cases "n div d = m") (auto simp: round_half_even_def Let_def)
qed

lemma round_half_even_ge: "n div d \<le> round_half_even n d"
  by (simp add: round_half_even_def Let_def)

lemma bit_length_le: "n < 2 ^ k \<Longrightarrow> bit_length n \<le> k"
proof (induction k arbitrary: n)
  case (Suc k)
  then have "n div 2 < 2 ^ k" by simp
  with Suc.IH show ?case by (subst bit_length.simps) simp
qed (simp add: bit_length.simps)

lemma round53_small: "n < 2 ^ 53 \<Longrightarrow> round53 n = n"
  using bit_length_le [of n 53] by (simp add: round53_def)

text \<open>
  Rounding cannot leave an interval whose ends need no rounding: the scaled delay stays between
  half the base and the base.
\<close>

lemma round53_le:
  assumes "n \<le> m * 2 ^ 53" and "n < 2 ^ 106"
  shows "round53 n \<le> m * 2 ^ 53"
proof -
  let ?s = "bit_length n - 53"
  have s: "?s \<le> 53" using bit_length_le [OF assms(2)] by simp
  then have pow: "m * 2 ^ 53 = (m * 2 ^ (53 - ?s)) * 2 ^ ?s"
    by (simp flip: power_add add: mult.assoc)
  then have "round_half_even n (2 ^ ?s) \<le> m * 2 ^ (53 - ?s)"
    by (intro round_half_even_le [OF assms(1) [unfolded pow]]) simp
  then have "round_half_even n (2 ^ ?s) * 2 ^ ?s \<le> m * 2 ^ 53"
    unfolding pow by (rule mult_le_mono1)
  then show ?thesis using assms(1) by (simp add: round53_def Let_def)
qed

lemma round53_ge:
  assumes "n < 2 ^ 106"
  shows "n div 2 ^ 53 \<le> round53 n div 2 ^ 53"
proof -
  let ?s = "bit_length n - 53"
  have s: "?s \<le> 53" using bit_length_le [OF assms] by simp
  have "n div 2 ^ 53 = n div 2 ^ ?s div 2 ^ (53 - ?s)"
    using s by (simp flip: div_mult2_eq power_add)
  also have "\<dots> \<le> round_half_even n (2 ^ ?s) div 2 ^ (53 - ?s)"
    by (rule div_le_mono) (rule round_half_even_ge)
  also have "\<dots> = round_half_even n (2 ^ ?s) * 2 ^ ?s div 2 ^ 53"
  proof -
    have P: "(2::nat) ^ 53 = 2 ^ ?s * 2 ^ (53 - ?s)"
      using s by (simp flip: power_add)
    show ?thesis
      unfolding P by (simp add: mult.commute [of _ "2 ^ ?s"])
  qed
  finally show ?thesis by (auto simp: round53_def Let_def)
qed

lemma jitter53_range: "k < 2 ^ 53 \<Longrightarrow> 2 ^ 52 \<le> jitter53 k \<and> jitter53 k \<le> 2 ^ 53"
proof
  assume k: "k < 2 ^ 53"
  have "(2 ^ 53 + k) div 2 \<le> jitter53 k" unfolding jitter53_def by (rule round_half_even_ge)
  then show "2 ^ 52 \<le> jitter53 k" by simp
  show "jitter53 k \<le> 2 ^ 53"
    unfolding jitter53_def using k by (intro round_half_even_le) simp_all
qed

lemma scale_delay_bounds:
  assumes "b < 2 ^ 53" and "k < 2 ^ 53"
  shows "b div 2 \<le> scale_delay b k \<and> scale_delay b k \<le> b"
proof -
  let ?j = "jitter53 k"
  have j: "2 ^ 52 \<le> ?j" "?j \<le> 2 ^ 53" using jitter53_range [OF assms(2)] by simp_all
  have le: "b * ?j \<le> b * 2 ^ 53" using j(2) by simp
  also have "\<dots> < 2 ^ 53 * 2 ^ 53" using assms(1) by simp
  finally have lt: "b * ?j < 2 ^ 106" by simp
  have "b div 2 = b * 2 ^ 52 div 2 ^ 53" by simp
  also have "\<dots> \<le> b * ?j div 2 ^ 53" using j(1) by (intro div_le_mono mult_le_mono2)
  also have "\<dots> \<le> round53 (b * ?j) div 2 ^ 53" by (rule round53_ge [OF lt])
  finally have lower: "b div 2 \<le> round53 (b * ?j) div 2 ^ 53" .
  have "round53 (b * ?j) div 2 ^ 53 \<le> b * 2 ^ 53 div 2 ^ 53"
    using round53_le [OF le lt] by (rule div_le_mono)
  with lower show ?thesis by (simp add: scale_delay_def round53_small [OF assms(1)])
qed

section \<open>Labels of the retry counter\<close>

definition classifyRetryReason :: "int \<Rightarrow> string" where
  "classifyRetryReason statusCode =
     (if statusCode = 429 then ''throttled''
      else if statusCode \<ge> 500 then ''server_error''
      else if statusCode \<ge> 400 then ''client_error''
      else ''network'')"

section \<open>Properties\<close>



end
