(* ===== verification/Failure.thy ===== *)
theory Failure
  imports GoStrings
begin

text \<open>
  Go errors as values.  A sentinel error is a constructor, \<open>fmt.Errorf("op: %w", err)\<close> is
  \<open>Wrapped\<close>, an error that only prints differently is \<open>Rephrased\<close>, and \<open>errors.Is\<close> and \<open>errors.As\<close> look through wrapping.  \<open>APIError\<close> is the
  client's structured error (\<open>internal/telegram/client.go\<close>).
\<close>

datatype ctx_err = Canceled | DeadlineExceeded

record APIError =
  StatusCode :: int
  ErrorCode :: int
  Description :: string
  Retryable :: bool
  RetryAfter :: duration

datatype err =
    ErrText string
  | CtxErr ctx_err
  | ErrAlreadyExists
  | ErrNotFound
  | SqliteErr int string
  | ApiErr APIError
  | ErrRenderFatal string
  | Wrapped string err
  | Rephrased string err

definition APIError_Error :: "APIError \<Rightarrow> string" where
  "APIError_Error e =
     ''telegram api error: status='' @ show_int (StatusCode e) @ '' code='' @ show_int (ErrorCode e)
     @ '' description='' @ Description e"

fun ctx_text :: "ctx_err \<Rightarrow> string" where
  "ctx_text Canceled = ''context canceled''"
| "ctx_text DeadlineExceeded = ''context deadline exceeded''"

text \<open>\<open>err.Error()\<close>.\<close>

fun err_text :: "err \<Rightarrow> string" where
  "err_text (ErrText s) = s"
| "err_text (CtxErr c) = ctx_text c"
| "err_text ErrAlreadyExists = ''delivery already exists''"
| "err_text ErrNotFound = ''delivery not found''"
| "err_text (SqliteErr code s) = s"
| "err_text (ApiErr e) = APIError_Error e"
| "err_text (ErrRenderFatal s) = ''render fatal: '' @ s"
| "err_text (Wrapped s e) = s @ '': '' @ err_text e"
| "err_text (Rephrased s e) = s"

text \<open>\<open>errors.Is(err, target)\<close> for a sentinel \<open>target\<close>, and \<open>errors.As\<close> for the two error types.\<close>

fun errors_Is :: "err \<Rightarrow> err \<Rightarrow> bool" where
  "errors_Is (Wrapped s e) target = errors_Is e target"
| "errors_Is (Rephrased s e) target = errors_Is e target"
| "errors_Is e target = (e = target)"

fun is_render_fatal :: "err \<Rightarrow> bool" where
  "is_render_fatal (ErrRenderFatal s) = True"
| "is_render_fatal (Wrapped s e) = is_render_fatal e"
| "is_render_fatal (Rephrased s e) = is_render_fatal e"
| "is_render_fatal e = False"

fun as_api :: "err \<Rightarrow> APIError option" where
  "as_api (ApiErr e) = Some e"
| "as_api (Wrapped s e) = as_api e"
| "as_api (Rephrased s e) = as_api e"
| "as_api e = None"

fun as_sqlite :: "err \<Rightarrow> (int \<times> string) option" where
  "as_sqlite (SqliteErr code s) = Some (code, s)"
| "as_sqlite (Wrapped s e) = as_sqlite e"
| "as_sqlite (Rephrased s e) = as_sqlite e"
| "as_sqlite e = None"

type_synonym 'a result = "err + 'a"

fun err_of :: "'a result \<Rightarrow> err option" where
  "err_of (Inl e) = Some e"
| "err_of (Inr x) = None"

lemma err_of_None_iff: "err_of r = None \<longleftrightarrow> (\<exists>x. r = Inr x)"
  by (cases r) auto

end
