(* ===== verification/World.thy ===== *)
theory World
  imports Failure
begin

text \<open>
  The state the services share and the environment they run in.  The state holds the table of
  deliveries (\<open>internal/store/migrations.go\<close>), the events sent to the metrics registry
  (\<open>internal/metrics/metrics.go\<close>) and the messages handed to Telegram.  The environment is what
  the program cannot decide: clocks, driver errors, file sizes, cancellation, random bytes and
  the answers of the Telegram client.  Every interaction takes the next \<open>tick\<close>, and the
  environment is a function of the tick, so an arbitrary environment is an arbitrary function.
\<close>

section \<open>The table\<close>

record row =
  c_event_id :: string
  c_idempotency_key :: string
  c_status :: string
  c_original_payload :: string
  c_rendered_message :: string
  c_rendered_parts :: string
  c_split_count :: int
  c_sent_parts :: int
  c_attempt_count :: int
  c_next_retry_at :: "instant option"
  c_last_error :: string
  c_telegram_chat_id :: string
  c_telegram_message_id :: "int option"
  c_created_at :: instant
  c_updated_at :: instant
  c_delivered_at :: "instant option"
  c_last_attempt_at :: "instant option"

section \<open>Metrics\<close>

text \<open>One event per update of a collector; durations are left out.\<close>

datatype metric =
    HTTPRequest string string string
  | WebhookEvent string
  | PayloadSize nat
  | DeliveryAttempt string
  | SetQueueMessages int
  | SetOldestQueuedAge int
  | DeliveryRetry string
  | DeliveryDeadLetter
  | TemplateRender string
  | StoreOperation string string
  | TelegramRequest string string
  | SetStoreSize int
  | RotationRun string
  | RotatedRecords string nat
  | SetDiskPressure nat
  | StoreRejection string

section \<open>State\<close>

record send =
  send_chat :: string
  send_text :: string
  send_mode :: string
  send_accepted :: bool

record world =
  tbl :: "row list"
  ticks :: nat
  mlog :: "metric list"
  sends :: "send list"

definition step :: "world \<Rightarrow> world" where
  "step w = w\<lparr>ticks := Suc (ticks w)\<rparr>"

definition emit :: "metric \<Rightarrow> world \<Rightarrow> world" where
  "emit m w = w\<lparr>mlog := mlog w @ [m]\<rparr>"

lemma step_simps [simp]:
  "tbl (step w) = tbl w" "mlog (step w) = mlog w" "sends (step w) = sends w"
  "ticks (step w) = Suc (ticks w)"
  by (simp_all add: step_def)

lemma emit_simps [simp]:
  "tbl (emit m w) = tbl w" "mlog (emit m w) = mlog w @ [m]" "sends (emit m w) = sends w"
  "ticks (emit m w) = ticks w"
  by (simp_all add: emit_def)

section \<open>Environment\<close>

text \<open>
  A statement can fail when it is executed (and then changes nothing), when a row is scanned, or
  when its rows are counted or iterated.  A statement run with the caller's context fails when
  that context is done, as \<open>database/sql\<close> documents; a detached context (\<open>context.Background\<close>
  with a timeout) does not see the caller's cancellation.
\<close>

datatype db_stage = AtExec | AtScan | AtRows

datatype ctx = Caller | Detached

datatype stat_result = StatSize int | StatNotExist | StatErr err

record SentMessage =
  MessageID :: int
  ChatID :: int

record env =
  clock :: "nat \<Rightarrow> instant"
  db_fault :: "nat \<Rightarrow> (db_stage \<times> err) option"
  ctx_done :: "nat \<Rightarrow> ctx_err option"
  stat :: "nat \<Rightarrow> string \<Rightarrow> stat_result"
  rng :: "nat \<Rightarrow> nat"
  rand_read :: "nat \<Rightarrow> nat \<Rightarrow> string result"
  uni_lower :: "nat \<Rightarrow> nat"
  telegram :: "nat \<Rightarrow> string \<Rightarrow> string \<Rightarrow> string \<Rightarrow> SentMessage result"

definition now :: "env \<Rightarrow> world \<Rightarrow> instant" where
  "now E w = clock E (ticks w)"

definition ctx_Err :: "env \<Rightarrow> ctx \<Rightarrow> world \<Rightarrow> ctx_err option" where
  "ctx_Err E c w = (case c of Caller \<Rightarrow> ctx_done E (ticks w) | Detached \<Rightarrow> None)"

definition fault :: "env \<Rightarrow> ctx \<Rightarrow> world \<Rightarrow> (db_stage \<times> err) option" where
  "fault E c w =
     (case ctx_Err E c w of Some e \<Rightarrow> Some (AtExec, CtxErr e) | None \<Rightarrow> db_fault E (ticks w))"

text \<open>An environment in which nothing fails any more from tick \<open>k\<close> on.\<close>

definition calm_from :: "env \<Rightarrow> nat \<Rightarrow> bool" where
  "calm_from E k \<longleftrightarrow> (\<forall>j \<ge> k. db_fault E j = None \<and> ctx_done E j = None)"

lemma calm_fault: "calm_from E k \<Longrightarrow> k \<le> ticks w \<Longrightarrow> fault E c w = None"
  by (simp add: calm_from_def fault_def ctx_Err_def split: ctx.splits)

lemma calm_ctx: "calm_from E k \<Longrightarrow> k \<le> ticks w \<Longrightarrow> ctx_Err E c w = None"
  by (simp add: calm_from_def ctx_Err_def split: ctx.splits)

end
