(* ===== verification/GoJson.thy ===== *)
theory GoJson
  imports GoStrings
begin

text \<open>
  The part of \<open>encoding/json\<close> the store uses on its \<open>rendered_parts\<close> column: \<open>json.Marshal\<close> and
  \<open>json.Unmarshal\<close> of a slice of strings, escapes, surrogate pairs and malformed UTF-8
  included.  A nil slice is \<open>None\<close>.  Everything that is not \<open>null\<close> or an array of strings and
  \<open>null\<close>s is an error, as in Go.  The main result is the round trip
  \<open>unmarshal_marshal\<close>: what comes back is the text with malformed bytes replaced by U+FFFD.
\<close>

section \<open>Encoding\<close>

text \<open>\<open>htmlSafeSet\<close>: printable ASCII and DEL, without quote, backslash, \<open><\<close>, \<open>>\<close> and \<open>&\<close>.\<close>

definition html_safe :: "char \<Rightarrow> bool" where
  "html_safe c \<longleftrightarrow> 0x20 \<le> byte c \<and> byte c < 0x80
     \<and> c \<noteq> quote \<and> c \<noteq> backslash \<and> c \<noteq> CHR ''<'' \<and> c \<noteq> CHR ''>'' \<and> c \<noteq> CHR ''&''"

definition escape_ascii :: "char \<Rightarrow> string" where
  "escape_ascii c =
     (if html_safe c then [c]
      else if c = backslash \<or> c = quote then [backslash, c]
      else if c = CHR 0x08 then [backslash, CHR ''b'']
      else if c = CHR 0x0C then [backslash, CHR ''f'']
      else if c = CHR 0x0A then [backslash, CHR ''n'']
      else if c = CHR 0x0D then [backslash, CHR ''r'']
      else if c = CHR 0x09 then [backslash, CHR ''t'']
      else backslash # ''u00'' @ [hexdigit (byte c div 16), hexdigit (byte c mod 16)])"

text \<open>One rune of the string, given by its bytes.\<close>

definition escape_chunk :: "string \<Rightarrow> string" where
  "escape_chunk c =
     (if byte (hd c) < 0x80 then escape_ascii (hd c)
      else if DecodeRune c = (RuneError, 1) then backslash # ''ufffd''
      else if fst (DecodeRune c) = 0x2028 then backslash # ''u2028''
      else if fst (DecodeRune c) = 0x2029 then backslash # ''u2029''
      else c)"

definition marshal_string :: "string \<Rightarrow> string" where
  "marshal_string s = quote # concat (map escape_chunk (chunks s)) @ [quote]"

definition marshal_strings :: "string list option \<Rightarrow> string" where
  "marshal_strings ps =
     (case ps of None \<Rightarrow> ''null'' | Some xs \<Rightarrow> ''['' @ Join (map marshal_string xs) '','' @ '']'')"

section \<open>Decoding\<close>

definition hexval :: "char \<Rightarrow> nat option" where
  "hexval c =
     (if 48 \<le> byte c \<and> byte c \<le> 57 then Some (byte c - 48)
      else if 97 \<le> byte c \<and> byte c \<le> 102 then Some (byte c - 87)
      else if 65 \<le> byte c \<and> byte c \<le> 70 then Some (byte c - 55)
      else None)"

text \<open>\<open>getu4\<close>, on the text after the \<open>u\<close>.\<close>

definition getu4 :: "string \<Rightarrow> nat option" where
  "getu4 s =
     (case s of
        a # b # c # d # _ \<Rightarrow>
          (case (hexval a, hexval b, hexval c, hexval d) of
             (Some x, Some y, Some z, Some w) \<Rightarrow> Some (((x * 16 + y) * 16 + z) * 16 + w)
           | _ \<Rightarrow> None)
      | _ \<Rightarrow> None)"

definition simple_escape :: "char \<Rightarrow> char option" where
  "simple_escape e =
     (if e = quote \<or> e = backslash \<or> e = CHR ''/'' then Some e
      else if e = CHR ''b'' then Some (CHR 0x08)
      else if e = CHR ''f'' then Some (CHR 0x0C)
      else if e = CHR ''n'' then Some (CHR 0x0A)
      else if e = CHR ''r'' then Some (CHR 0x0D)
      else if e = CHR ''t'' then Some (CHR 0x09)
      else None)"

text \<open>
  \<open>utf16.DecodeRune\<close> of \<open>hi\<close> and the escape that follows, if that is the second half of a
  surrogate pair.
\<close>

definition surrogate_pair :: "nat \<Rightarrow> string \<Rightarrow> nat option" where
  "surrogate_pair hi s =
     (if take 2 s = [backslash, CHR ''u''] \<and> hi < 0xDC00 then
        (case getu4 (drop 2 s) of
           Some lo \<Rightarrow>
             if 0xDC00 \<le> lo \<and> lo \<le> 0xDFFF
             then Some ((hi - 0xD800) * 0x400 + (lo - 0xDC00) + 0x10000) else None
         | None \<Rightarrow> None)
      else None)"

text \<open>\<open>unquote\<close>, on the text after the opening quote; the rest of the text is returned too.\<close>

function unquote :: "string \<Rightarrow> (string \<times> string) option" where
  "unquote [] = None"
| "unquote (c # s) =
     (if c = quote then Some ([], s)
      else if byte c < 0x20 then None
      else if c = backslash then
        (case s of
           [] \<Rightarrow> None
         | e # t \<Rightarrow>
             (case simple_escape e of
                Some x \<Rightarrow> map_option (apfst (\<lambda>out. x # out)) (unquote t)
              | None \<Rightarrow>
                  if e \<noteq> CHR ''u'' then None
                  else
                    (case getu4 t of
                       None \<Rightarrow> None
                     | Some rr \<Rightarrow>
                         if 0xD800 \<le> rr \<and> rr \<le> 0xDFFF then
                           (case surrogate_pair rr (drop 4 t) of
                              Some dec \<Rightarrow>
                                map_option (apfst (\<lambda>out. EncodeRune dec @ out)) (unquote (drop 10 t))
                            | None \<Rightarrow>
                                map_option (apfst (\<lambda>out. EncodeRune RuneError @ out)) (unquote (drop 4 t)))
                         else map_option (apfst (\<lambda>out. EncodeRune rr @ out)) (unquote (drop 4 t)))))
      else if byte c < 0x80 then map_option (apfst (\<lambda>out. c # out)) (unquote s)
      else
        map_option (apfst (\<lambda>out. EncodeRune (fst (DecodeRune (c # s))) @ out))
          (unquote (drop (snd (DecodeRune (c # s))) (c # s))))"
  by pat_completeness auto
termination
  by (relation "measure length") (auto simp: decode_width_pos)

declare unquote.simps(2) [simp del]

lemma unquote_shorter: "unquote s = Some (out, rest) \<Longrightarrow> length rest < length s"
proof (induction "length s" arbitrary: s out rest rule: less_induct)
  case less
  have IH: "length rest < length s" if "unquote t = Some (out', rest)" "length t < length s" for t out'
    using less(1) that less_trans by blast
  show ?case
  proof (cases s)
    case (Cons c s')
    with less(2) decode_width_pos [of c s'] show ?thesis
      unfolding Cons unquote.simps
      by (auto split: if_splits list.splits option.splits) (drule IH; simp add: Cons)+
  qed (use less(2) in simp)
qed

text \<open>White space between tokens, one element, the elements of an array, the whole text.\<close>

fun skip_ws :: "string \<Rightarrow> string" where
  "skip_ws [] = []"
| "skip_ws (c # s) = (if c \<in> {CHR '' '', CHR 0x09, CHR 0x0A, CHR 0x0D} then skip_ws s else c # s)"

lemma skip_ws_le: "length (skip_ws s) \<le> length s"
  by (induction s) auto

definition element :: "string \<Rightarrow> (string \<times> string) option" where
  "element s =
     (if take 1 s = [quote] then unquote (drop 1 s)
      else if take 4 s = ''null'' then Some ([], drop 4 s)
      else None)"

lemma element_shorter: "element s = Some (p, rest) \<Longrightarrow> length rest < length s"
  by (cases s) (auto simp: element_def split: if_splits dest!: unquote_shorter)

function elements :: "string \<Rightarrow> (string list \<times> string) option" where
  "elements s =
     (case element (skip_ws s) of
        None \<Rightarrow> None
      | Some (p, t) \<Rightarrow>
          (case skip_ws t of
             [] \<Rightarrow> None
           | c # u \<Rightarrow>
               if c = CHR '','' then map_option (apfst (\<lambda>ps. p # ps)) (elements u)
               else if c = CHR '']'' then Some ([p], u)
               else None))"
  by pat_completeness auto
termination
proof (relation "measure length")
  fix s x p t c u
  assume 1: "element (skip_ws s) = Some x" "(p, t) = x" and 2: "skip_ws t = c # u"
  have "length u < length (skip_ws t)" using 2 by simp
  also have "\<dots> \<le> length t" by (rule skip_ws_le)
  also have "\<dots> < length (skip_ws s)" using 1 element_shorter by blast
  also have "\<dots> \<le> length s" by (rule skip_ws_le)
  finally show "(u, s) \<in> measure length" by simp
qed simp

declare elements.simps [simp del]

definition unmarshal_strings :: "string \<Rightarrow> string list option option" where
  "unmarshal_strings text =
     (let s = skip_ws text in
      if take 4 s = ''null'' then (if skip_ws (drop 4 s) = [] then Some None else None)
      else if take 1 s = ''['' then
        (if take 1 (skip_ws (drop 1 s)) = '']'' then
           (if skip_ws (drop 1 (skip_ws (drop 1 s))) = [] then Some (Some []) else None)
         else
           (case elements (drop 1 s) of
              Some (ps, rest) \<Rightarrow> if skip_ws rest = [] then Some (Some ps) else None
            | None \<Rightarrow> None))
      else None)"

section \<open>Round trip\<close>

text \<open>What a string becomes when its malformed bytes are replaced by U+FFFD.\<close>

definition scrub :: "string \<Rightarrow> string" where
  "scrub s = string_of_runes (runes s)"

definition valid_utf8 :: "string \<Rightarrow> bool" where
  "valid_utf8 s \<longleftrightarrow> (\<forall>c \<in> set (chunks s). DecodeRune c \<noteq> (RuneError, 1))"

lemma byte_inject [simp]: "byte c = byte d \<longleftrightarrow> c = d"
  by (metis char_of_byte)

lemma hexval_hexdigit: "n < 16 \<Longrightarrow> hexval (hexdigit n) = Some n"
  by (auto simp: hexval_def hexdigit_def byte_def)

abbreviation scrub_chunk :: "string \<Rightarrow> string" where
  "scrub_chunk c \<equiv> EncodeRune (fst (DecodeRune c))"

abbreviation push :: "string \<Rightarrow> (string \<times> string) option \<Rightarrow> (string \<times> string) option" where
  "push p \<equiv> map_option (apfst (\<lambda>out. p @ out))"

lemma backslash_facts: "backslash \<noteq> quote" "\<not> byte backslash < 0x20" "simple_escape (CHR ''u'') = None"
  by (simp_all add: backslash_def quote_def byte_def simple_escape_def)

lemma unquote_u:
  assumes "length u = 4" "getu4 (u @ t) = Some r" "\<not> (0xD800 \<le> r \<and> r \<le> 0xDFFF)"
  shows "unquote (backslash # CHR ''u'' # u @ t) = push (EncodeRune r) (unquote t)"
  using assms unfolding unquote.simps(2) by (simp only: backslash_facts list.case option.case if_False if_True) auto

lemma unquote_simple: "simple_escape e = Some x \<Longrightarrow> unquote (backslash # e # t) = push [x] (unquote t)"
  unfolding unquote.simps(2) by (simp add: backslash_facts)

lemma unquote_plain:
  "c \<noteq> quote \<Longrightarrow> c \<noteq> backslash \<Longrightarrow> 0x20 \<le> byte c \<Longrightarrow> byte c < 0x80 \<Longrightarrow>
   unquote (c # t) = push [c] (unquote t)"
  unfolding unquote.simps(2) by simp

lemma unquote_ascii:
  assumes "byte x < 0x80"
  shows "unquote (escape_ascii x @ t) = push [x] (unquote t)"
proof -
  let ?simple = "{backslash, quote, CHR 0x08, CHR 0x0C, CHR 0x0A, CHR 0x0D, CHR 0x09}"
  consider "html_safe x" | "\<not> html_safe x" "x \<in> ?simple" | "\<not> html_safe x" "x \<notin> ?simple" by blast
  then show ?thesis
  proof cases
    case 1
    then show ?thesis by (simp add: escape_ascii_def html_safe_def unquote_plain)
  next
    case 2
    have "\<exists>e. escape_ascii x = [backslash, e] \<and> simple_escape e = Some x"
      using 2 by (auto simp: escape_ascii_def simple_escape_def quote_def backslash_def)
    then show ?thesis by (auto simp: unquote_simple)
  next
    case 3
    let ?u = "''00'' @ [hexdigit (byte x div 16), hexdigit (byte x mod 16)]"
    have "byte x div 16 < 16" "byte x mod 16 < 16" using assms by simp_all
    moreover have "hexval (CHR ''0'') = Some 0" by (simp add: hexval_def byte_def)
    ultimately have "getu4 (?u @ t) = Some (byte x)"
      by (simp add: getu4_def hexval_hexdigit)
    moreover have "escape_ascii x = backslash # CHR ''u'' # ?u"
      using 3 by (simp add: escape_ascii_def)
    ultimately show ?thesis
      using unquote_u [of ?u t "byte x"] assms by (simp add: EncodeRune_ascii)
  qed
qed

lemma unquote_chunk:
  assumes "c \<in> set (chunks s)"
  shows "unquote (escape_chunk c @ t) = push (scrub_chunk c) (unquote t)"
proof -
  obtain x c' where c: "c = x # c'"
    using chunk_nonempty [OF assms] by (cases c) auto
  have width: "snd (DecodeRune c) = length c"
    by (rule chunk_decode [OF assms])
  consider (asc) "byte x < 0x80" | (bad) "\<not> byte x < 0x80" "DecodeRune c = (RuneError, 1)"
    | (ls) "\<not> byte x < 0x80" "DecodeRune c \<noteq> (RuneError, 1)" "fst (DecodeRune c) = 0x2028 \<or> fst (DecodeRune c) = 0x2029"
    | (raw) "\<not> byte x < 0x80" "DecodeRune c \<noteq> (RuneError, 1)" "fst (DecodeRune c) \<noteq> 0x2028" "fst (DecodeRune c) \<noteq> 0x2029"
    by blast
  then show ?thesis
  proof cases
    case asc
    then show ?thesis
      by (simp add: c escape_chunk_def unquote_ascii decode_ascii EncodeRune_ascii)
  next
    case bad
    have "getu4 (''fffd'' @ t) = Some RuneError"
      by (simp add: getu4_def hexval_def byte_def RuneError_def)
    with bad show ?thesis
      using unquote_u [of "''fffd''" t RuneError] by (simp add: c escape_chunk_def RuneError_def)
  next
    case ls
    have "getu4 (''2028'' @ t) = Some 0x2028" "getu4 (''2029'' @ t) = Some 0x2029"
      by (simp_all add: getu4_def hexval_def byte_def)
    with ls show ?thesis
      using unquote_u [of "''2028''" t "0x2028"] unquote_u [of "''2029''" t "0x2029"] by (auto simp: c escape_chunk_def)
  next
    case raw
    have "DecodeRune (c @ t) = DecodeRune c"
      by (rule decode_append_valid) (use raw c in auto)
    then have "unquote (c @ t) = push (scrub_chunk c) (unquote t)"
      using raw(1) width
      by (simp add: c unquote.simps(2)) (auto simp: quote_def backslash_def byte_def)
    then show ?thesis using raw by (simp add: c escape_chunk_def)
  qed
qed

lemma push_push: "push p (push q x) = push (p @ q) x"
  by (cases x) (auto simp: apfst_def map_prod_def)

lemma unquote_chunks:
  "(\<And>c. c \<in> set cs \<Longrightarrow> \<exists>s. c \<in> set (chunks s)) \<Longrightarrow>
   unquote (concat (map escape_chunk cs) @ quote # t) = Some (concat (map scrub_chunk cs), t)"
proof (induction cs)
  case Nil
  then show ?case by (simp add: unquote.simps(2))
next
  case (Cons c cs)
  then obtain s where "c \<in> set (chunks s)" by auto
  with Cons show ?case by (simp add: unquote_chunk)
qed

lemma scrub_chunks: "scrub s = concat (map scrub_chunk (chunks s))"
  by (simp add: scrub_def string_of_runes_def runes_def comp_def)

lemma unquote_marshal: "unquote (drop 1 (marshal_string s) @ t) = Some (scrub s, t)"
  unfolding marshal_string_def scrub_chunks
  using unquote_chunks [of "chunks s" t] by auto

lemma element_marshal: "element (marshal_string s @ t) = Some (scrub s, t)"
  using unquote_marshal [of s t] by (simp add: element_def marshal_string_def)

lemma skip_ws_marshal: "skip_ws (marshal_string s @ t) = marshal_string s @ t"
  by (simp add: marshal_string_def quote_def)

lemma elements_marshal:
  "xs \<noteq> [] \<Longrightarrow> elements (Join (map marshal_string xs) '','' @ '']'' @ t) = Some (map scrub xs, t)"
proof (induction xs rule: induct_list012)
  case (2 x)
  then show ?case
    by (subst elements.simps) (simp add: skip_ws_marshal element_marshal)
next
  case (3 x y zs)
  have "elements (Join (map marshal_string (x # y # zs)) '','' @ '']'' @ t)
      = elements (marshal_string x @ '','' @ Join (map marshal_string (y # zs)) '','' @ '']'' @ t)"
    by simp
  also have "\<dots> = Some (map scrub (x # y # zs), t)"
    using 3(2) by (subst elements.simps) (simp add: skip_ws_marshal element_marshal)
  finally show ?case .
qed simp

lemma unmarshal_marshal: "unmarshal_strings (marshal_strings ps) = Some (map_option (map scrub) ps)"
proof (cases ps)
  case None
  then show ?thesis by (simp add: unmarshal_strings_def marshal_strings_def)
next
  case (Some xs)
  show ?thesis
  proof (cases xs)
    case Nil
    then show ?thesis by (simp add: Some unmarshal_strings_def marshal_strings_def)
  next
    case (Cons x ys)
    let ?t = "Join (map marshal_string xs) '','' @ '']''"
    obtain u where "?t = marshal_string x @ u"
      using Cons by (cases ys) auto
    then have "skip_ws ?t = ?t" "take 1 ?t = [quote]"
      using skip_ws_marshal [of x u] by (simp_all add: marshal_string_def)
    moreover have "[quote] \<noteq> '']''" by (simp add: quote_def)
    moreover have "elements ?t = Some (map scrub xs, [])"
      using elements_marshal [of xs "[]"] Cons by simp
    ultimately show ?thesis
      by (simp add: Some unmarshal_strings_def marshal_strings_def)
  qed
qed

text \<open>Well-formed text survives unchanged.\<close>

lemma scrub_valid: "valid_utf8 s \<Longrightarrow> scrub s = s"
proof -
  assume v: "valid_utf8 s"
  have "scrub_chunk c = c" if "c \<in> set (chunks s)" for c
    using v that encode_decode [of c] chunk_nonempty [OF that] chunk_decode [OF that]
    by (simp add: valid_utf8_def)
  then have "map scrub_chunk (chunks s) = chunks s" by (simp add: map_idI)
  then show ?thesis by (simp add: scrub_chunks)
qed

lemma map_scrub_valid: "\<forall>p \<in> set ps. valid_utf8 p \<Longrightarrow> map scrub ps = ps"
  by (simp add: map_idI scrub_valid)

lemma ascii_valid_utf8: "ascii s \<Longrightarrow> valid_utf8 s"
  by (auto simp: valid_utf8_def chunks_ascii ascii_def decode_ascii RuneError_def)

lemma scrub_is_valid: "valid_utf8 (scrub s)"
proof -
  have "chunks (concat (map scrub_chunk cs)) = map scrub_chunk cs" for cs
    by (induction cs) (simp_all add: chunks_encode)
  then have chunks: "chunks (scrub s) = map scrub_chunk (chunks s)" by (simp only: scrub_chunks)
  have "DecodeRune (EncodeRune r) \<noteq> (RuneError, 1)" for r
  proof
    assume d: "DecodeRune (EncodeRune r) = (RuneError, 1)"
    then have "length (EncodeRune r) = 1" using decode_encode [of r "[]"] by simp
    then obtain c where c: "EncodeRune r = [c]" by (auto simp: length_Suc_conv)
    then have "byte c < 0x80"
      by (auto simp: EncodeRune_def Let_def byte_char_of RuneError_def split: if_splits)
    then show False using d c by (simp add: decode_ascii RuneError_def)
  qed
  then show ?thesis by (auto simp: valid_utf8_def chunks)
qed

lemma scrub_scrub [simp]: "scrub (scrub s) = scrub s"
  by (rule scrub_valid [OF scrub_is_valid])

end
