(* ===== verification/Store.thy ===== *)
theory Store
  imports World GoJson
begin

text \<open>
  The SQLite store (\<open>internal/store/sqlite.go\<close>).  Each SQL statement is translated clause by
  clause into an operation on the table, a list of rows in rowid order.  Every operation also
  reports to the metrics through \<open>observe\<close>, as the code does.
\<close>

section \<open>States of a delivery\<close>

definition StatusReceived :: string where "StatusReceived = ''received''"
definition StatusQueued :: string where "StatusQueued = ''queued''"
definition StatusSending :: string where "StatusSending = ''sending''"
definition StatusDelivered :: string where "StatusDelivered = ''delivered''"
definition StatusRetryScheduled :: string where "StatusRetryScheduled = ''retry_scheduled''"
definition StatusFailed :: string where "StatusFailed = ''failed''"
definition StatusDeadLetter :: string where "StatusDeadLetter = ''dead_letter''"

lemmas status_defs =
  StatusReceived_def StatusQueued_def StatusSending_def StatusDelivered_def
  StatusRetryScheduled_def StatusFailed_def StatusDeadLetter_def

lemma status_neq [simp]:
  "StatusReceived \<noteq> StatusQueued"
  "StatusReceived \<noteq> StatusSending"
  "StatusReceived \<noteq> StatusDelivered"
  "StatusReceived \<noteq> StatusRetryScheduled"
  "StatusReceived \<noteq> StatusFailed"
  "StatusReceived \<noteq> StatusDeadLetter"
  "StatusQueued \<noteq> StatusReceived"
  "StatusQueued \<noteq> StatusSending"
  "StatusQueued \<noteq> StatusDelivered"
  "StatusQueued \<noteq> StatusRetryScheduled"
  "StatusQueued \<noteq> StatusFailed"
  "StatusQueued \<noteq> StatusDeadLetter"
  "StatusSending \<noteq> StatusReceived"
  "StatusSending \<noteq> StatusQueued"
  "StatusSending \<noteq> StatusDelivered"
  "StatusSending \<noteq> StatusRetryScheduled"
  "StatusSending \<noteq> StatusFailed"
  "StatusSending \<noteq> StatusDeadLetter"
  "StatusDelivered \<noteq> StatusReceived"
  "StatusDelivered \<noteq> StatusQueued"
  "StatusDelivered \<noteq> StatusSending"
  "StatusDelivered \<noteq> StatusRetryScheduled"
  "StatusDelivered \<noteq> StatusFailed"
  "StatusDelivered \<noteq> StatusDeadLetter"
  "StatusRetryScheduled \<noteq> StatusReceived"
  "StatusRetryScheduled \<noteq> StatusQueued"
  "StatusRetryScheduled \<noteq> StatusSending"
  "StatusRetryScheduled \<noteq> StatusDelivered"
  "StatusRetryScheduled \<noteq> StatusFailed"
  "StatusRetryScheduled \<noteq> StatusDeadLetter"
  "StatusFailed \<noteq> StatusReceived"
  "StatusFailed \<noteq> StatusQueued"
  "StatusFailed \<noteq> StatusSending"
  "StatusFailed \<noteq> StatusDelivered"
  "StatusFailed \<noteq> StatusRetryScheduled"
  "StatusFailed \<noteq> StatusDeadLetter"
  "StatusDeadLetter \<noteq> StatusReceived"
  "StatusDeadLetter \<noteq> StatusQueued"
  "StatusDeadLetter \<noteq> StatusSending"
  "StatusDeadLetter \<noteq> StatusDelivered"
  "StatusDeadLetter \<noteq> StatusRetryScheduled"
  "StatusDeadLetter \<noteq> StatusFailed"
  by (simp_all add: status_defs)

text \<open>
  The \<open>IN\<close> lists of the queries: what may be claimed, what counts as queued, and the terminal
  states, the only ones rotation may touch.
\<close>

definition pending_statuses :: "string list" where
  "pending_statuses = [StatusReceived, StatusQueued, StatusRetryScheduled]"

definition queued_statuses :: "string list" where
  "queued_statuses = [StatusReceived, StatusQueued, StatusSending, StatusRetryScheduled]"

definition terminal_statuses :: "string list" where
  "terminal_statuses = [StatusDelivered, StatusFailed, StatusDeadLetter]"

lemmas status_lists = pending_statuses_def queued_statuses_def terminal_statuses_def

section \<open>Records\<close>

record Record =
  Rec_EventID :: string
  Rec_IdempotencyKey :: string
  Rec_Status :: string
  Rec_OriginalPayload :: string
  Rec_RenderedMessage :: string
  Rec_RenderedParts :: "string list option"
  Rec_SplitCount :: int
  Rec_SentParts :: int
  Rec_AttemptCount :: int
  Rec_NextRetryAt :: "instant option"
  Rec_LastError :: string
  Rec_TelegramChatID :: string
  Rec_TelegramMessageID :: "int option"
  Rec_CreatedAt :: instant
  Rec_UpdatedAt :: instant
  Rec_DeliveredAt :: "instant option"
  Rec_LastAttemptAt :: "instant option"

definition scanRecordValues :: "row \<Rightarrow> Record result" where
  "scanRecordValues r =
     (let record = (\<lambda>parts. \<lparr>
        Rec_EventID = c_event_id r, Rec_IdempotencyKey = c_idempotency_key r,
        Rec_Status = c_status r, Rec_OriginalPayload = c_original_payload r,
        Rec_RenderedMessage = c_rendered_message r, Rec_RenderedParts = parts,
        Rec_SplitCount = c_split_count r, Rec_SentParts = c_sent_parts r,
        Rec_AttemptCount = c_attempt_count r, Rec_NextRetryAt = c_next_retry_at r,
        Rec_LastError = c_last_error r, Rec_TelegramChatID = c_telegram_chat_id r,
        Rec_TelegramMessageID = c_telegram_message_id r, Rec_CreatedAt = c_created_at r,
        Rec_UpdatedAt = c_updated_at r, Rec_DeliveredAt = c_delivered_at r,
        Rec_LastAttemptAt = c_last_attempt_at r \<rparr>)
      in if c_rendered_parts r \<noteq> [] then
           (case unmarshal_strings (c_rendered_parts r) of
              None \<Rightarrow> Inl (Wrapped ''unmarshal rendered parts'' (ErrText ''invalid JSON''))
            | Some parts \<Rightarrow> Inr (record parts))
         else Inr (record None))"

text \<open>The row that \<open>CreateReceived\<close> inserts; \<open>parts\<close> is the marshalled slice.\<close>

definition insert_row :: "Record \<Rightarrow> string \<Rightarrow> row" where
  "insert_row record parts = \<lparr>
     c_event_id = Rec_EventID record, c_idempotency_key = Rec_IdempotencyKey record,
     c_status = Rec_Status record, c_original_payload = Rec_OriginalPayload record,
     c_rendered_message = Rec_RenderedMessage record, c_rendered_parts = parts,
     c_split_count = Rec_SplitCount record, c_sent_parts = Rec_SentParts record,
     c_attempt_count = Rec_AttemptCount record, c_next_retry_at = Rec_NextRetryAt record,
     c_last_error = Rec_LastError record, c_telegram_chat_id = Rec_TelegramChatID record,
     c_telegram_message_id = Rec_TelegramMessageID record, c_created_at = Rec_CreatedAt record,
     c_updated_at = Rec_UpdatedAt record, c_delivered_at = Rec_DeliveredAt record,
     c_last_attempt_at = Rec_LastAttemptAt record \<rparr>"

section \<open>Statements\<close>

definition update_where :: "(row \<Rightarrow> bool) \<Rightarrow> (row \<Rightarrow> row) \<Rightarrow> row list \<Rightarrow> row list" where
  "update_where P f t = map (\<lambda>r. if P r then f r else r) t"

abbreviation update_id :: "string \<Rightarrow> (row \<Rightarrow> row) \<Rightarrow> row list \<Rightarrow> row list" where
  "update_id eventID \<equiv> update_where (\<lambda>r. c_event_id r = eventID)"

definition sql_exec :: "env \<Rightarrow> ctx \<Rightarrow> (row list \<Rightarrow> row list) \<Rightarrow> world \<Rightarrow> world \<times> unit result" where
  "sql_exec E c f w =
     (case fault E c w of
        Some (AtExec, e) \<Rightarrow> (step w, Inl e)
      | _ \<Rightarrow> (step (w\<lparr>tbl := f (tbl w)\<rparr>), Inr ()))"

text \<open>\<open>result.RowsAffected()\<close> of the statement executed at \<open>w\<close>.\<close>

definition RowsAffected :: "env \<Rightarrow> ctx \<Rightarrow> world \<Rightarrow> nat \<Rightarrow> nat result" where
  "RowsAffected E c w n = (case fault E c w of Some (AtRows, e) \<Rightarrow> Inl e | _ \<Rightarrow> Inr n)"

text \<open>\<open>scanRecord\<close>: no row is no error.\<close>

definition scanRecord :: "env \<Rightarrow> ctx \<Rightarrow> world \<Rightarrow> row option \<Rightarrow> Record option result" where
  "scanRecord E c w r =
     (case fault E c w of
        Some (_, e) \<Rightarrow> Inl e
      | None \<Rightarrow>
          (case r of
             None \<Rightarrow> Inr None
           | Some r \<Rightarrow> (case scanRecordValues r of Inl e \<Rightarrow> Inl e | Inr record \<Rightarrow> Inr (Some record))))"

text \<open>\<open>observe\<close>: the result label of a store operation.\<close>

definition observe_label :: "err option \<Rightarrow> string" where
  "observe_label e =
     (case e of
        None \<Rightarrow> ''success''
      | Some e \<Rightarrow>
          if errors_Is e ErrAlreadyExists then ''duplicate''
          else if errors_Is e ErrNotFound then ''not_found''
          else ''error'')"

definition observe :: "string \<Rightarrow> err option \<Rightarrow> world \<Rightarrow> world" where
  "observe operation e w = emit (StoreOperation operation (observe_label e)) w"

lemma observe_simps [simp]:
  "tbl (observe op e w) = tbl w" "sends (observe op e w) = sends w" "ticks (observe op e w) = ticks w"
  "mlog (observe op e w) = mlog w @ [StoreOperation op (observe_label e)]"
  by (simp_all add: observe_def)

text \<open>\<open>fmt.Errorf("op: %w", err)\<close> on the error of a result.\<close>

fun wrap_err :: "string \<Rightarrow> 'a result \<Rightarrow> 'a result" where
  "wrap_err s (Inl e) = Inl (Wrapped s e)"
| "wrap_err s (Inr x) = Inr x"

text \<open>An \<open>UPDATE\<close> whose only failure is that of its execution.\<close>

definition exec_update :: "env \<Rightarrow> ctx \<Rightarrow> string \<Rightarrow> string \<Rightarrow> (row list \<Rightarrow> row list) \<Rightarrow> world \<Rightarrow> world \<times> unit result" where
  "exec_update E c operation msg f w =
     (let (w', r) = sql_exec E c f w in (observe operation (err_of r) w', wrap_err msg r))"

section \<open>Operations\<close>

definition GetByIdempotencyKey :: "env \<Rightarrow> ctx \<Rightarrow> string \<Rightarrow> world \<Rightarrow> world \<times> Record option result" where
  "GetByIdempotencyKey E c key w =
     (let r = scanRecord E c w (find (\<lambda>r. c_idempotency_key r = key) (tbl w))
      in (observe ''get_by_idempotency_key'' (err_of r) (step w), r))"

definition GetByEventID :: "env \<Rightarrow> ctx \<Rightarrow> string \<Rightarrow> world \<Rightarrow> world \<times> Record option result" where
  "GetByEventID E c eventID w =
     (let r = scanRecord E c w (find (\<lambda>r. c_event_id r = eventID) (tbl w))
      in (observe ''get_by_event_id'' (err_of r) (step w), r))"

text \<open>
  The primary key and the unique key of the schema: SQLite refuses the insert with an extended
  error code (2067 \<open>SQLITE_CONSTRAINT_UNIQUE\<close>, 1555 \<open>SQLITE_CONSTRAINT_PRIMARYKEY\<close>).
\<close>

definition unique_violation :: "row list \<Rightarrow> row \<Rightarrow> err option" where
  "unique_violation t r =
     (if \<exists>x \<in> set t. c_event_id x = c_event_id r then
        Some (SqliteErr 1555 ''constraint failed: UNIQUE constraint failed: deliveries.event_id (1555)'')
      else if \<exists>x \<in> set t. c_idempotency_key x = c_idempotency_key r then
        Some (SqliteErr 2067
          ''constraint failed: UNIQUE constraint failed: deliveries.idempotency_key (2067)'')
      else None)"

definition isUniqueConstraint :: "env \<Rightarrow> err \<Rightarrow> bool" where
  "isUniqueConstraint E e =
     (case as_sqlite e of
        None \<Rightarrow> False
      | Some (code, text) \<Rightarrow>
          if code = 2067 \<or> code = 1555 then True
          else code mod 256 = 19 \<and> Contains (ToLower (uni_lower E) text) ''unique'')"

definition CreateReceived :: "env \<Rightarrow> ctx \<Rightarrow> Record \<Rightarrow> world \<Rightarrow> world \<times> unit result" where
  "CreateReceived E c record w =
     (let parts = marshal_strings (Rec_RenderedParts record);
          new = insert_row record parts;
          outcome =
            (case fault E c w of Some (AtExec, e) \<Rightarrow> Some e | _ \<Rightarrow> unique_violation (tbl w) new)
      in case outcome of
           Some e \<Rightarrow>
             if isUniqueConstraint E e then
               (observe ''create_received'' (Some ErrAlreadyExists) (step w), Inl ErrAlreadyExists)
             else (observe ''create_received'' (Some e) (step w), Inl (Wrapped ''insert delivery'' e))
         | None \<Rightarrow>
             (observe ''create_received'' None (step (w\<lparr>tbl := tbl w @ [new]\<rparr>)), Inr ()))"

definition queue_row :: "string \<Rightarrow> instant \<Rightarrow> string \<Rightarrow> instant \<Rightarrow> row \<Rightarrow> row" where
  "queue_row status nextRetryAt lastError t r =
     r\<lparr>c_status := status, c_next_retry_at := Some nextRetryAt, c_last_error := lastError,
       c_updated_at := t\<rparr>"

definition updateStatus ::
  "env \<Rightarrow> ctx \<Rightarrow> string \<Rightarrow> string \<Rightarrow> string \<Rightarrow> instant \<Rightarrow> string \<Rightarrow> world \<Rightarrow> world \<times> unit result" where
  "updateStatus E c operation eventID status nextRetryAt lastError w =
     exec_update E c operation operation
       (update_id eventID (queue_row status nextRetryAt lastError (now E w))) w"

definition MarkQueued :: "env \<Rightarrow> ctx \<Rightarrow> string \<Rightarrow> instant \<Rightarrow> world \<Rightarrow> world \<times> unit result" where
  "MarkQueued E c eventID nextRetryAt w =
     updateStatus E c ''mark_queued'' eventID StatusQueued nextRetryAt [] w"

definition requeue_row :: "instant \<Rightarrow> instant \<Rightarrow> row \<Rightarrow> row" where
  "requeue_row nextRetryAt t r =
     r\<lparr>c_status := StatusQueued, c_next_retry_at := Some nextRetryAt, c_last_error := [],
       c_attempt_count := 0, c_updated_at := t\<rparr>"

definition requeueable :: "string \<Rightarrow> row \<Rightarrow> bool" where
  "requeueable eventID r \<longleftrightarrow> c_event_id r = eventID \<and> c_status r \<in> {StatusFailed, StatusDeadLetter}"

definition Requeue :: "env \<Rightarrow> ctx \<Rightarrow> string \<Rightarrow> instant \<Rightarrow> world \<Rightarrow> world \<times> unit result" where
  "Requeue E c eventID nextRetryAt w =
     (let n = length (filter (requeueable eventID) (tbl w));
          (w', r) = sql_exec E c (update_where (requeueable eventID) (requeue_row nextRetryAt (now E w))) w
      in case r of
           Inl e \<Rightarrow> (observe ''requeue'' (Some e) w', Inl (Wrapped ''requeue'' e))
         | Inr _ \<Rightarrow>
             (case RowsAffected E c w n of
                Inl e \<Rightarrow> (observe ''requeue'' (Some e) w', Inl (Wrapped ''requeue rows affected'' e))
              | Inr affected \<Rightarrow>
                  if affected = 0 then (observe ''requeue'' (Some ErrNotFound) w', Inl ErrNotFound)
                  else (observe ''requeue'' None w', Inr ())))"

definition requeue_sending_row :: "instant \<Rightarrow> instant \<Rightarrow> row \<Rightarrow> row" where
  "requeue_sending_row nextRetryAt t r =
     r\<lparr>c_status := StatusQueued, c_next_retry_at := Some nextRetryAt, c_updated_at := t\<rparr>"

definition RequeueSending :: "env \<Rightarrow> ctx \<Rightarrow> instant \<Rightarrow> world \<Rightarrow> world \<times> nat result" where
  "RequeueSending E c nextRetryAt w =
     (let n = length (filter (\<lambda>r. c_status r = StatusSending) (tbl w));
          (w', r) = sql_exec E c
            (update_where (\<lambda>r. c_status r = StatusSending) (requeue_sending_row nextRetryAt (now E w))) w
      in case r of
           Inl e \<Rightarrow> (observe ''requeue_sending'' (Some e) w', Inl (Wrapped ''requeue sending'' e))
         | Inr _ \<Rightarrow>
             (case RowsAffected E c w n of
                Inl e \<Rightarrow>
                  (observe ''requeue_sending'' (Some e) w', Inl (Wrapped ''requeue sending rows affected'' e))
              | Inr affected \<Rightarrow> (observe ''requeue_sending'' None w', Inr affected)))"

text \<open>
  \<open>ClaimForSend\<close>: one \<open>UPDATE ... RETURNING\<close> gated on the status.  A failure while the
  returned row is scanned leaves the update in place.
\<close>

definition claimable :: "string \<Rightarrow> row \<Rightarrow> bool" where
  "claimable eventID r \<longleftrightarrow> c_event_id r = eventID \<and> c_status r \<in> set pending_statuses"

definition claim_row :: "instant \<Rightarrow> row \<Rightarrow> row" where
  "claim_row t r =
     r\<lparr>c_status := StatusSending, c_attempt_count := c_attempt_count r + 1, c_updated_at := t,
       c_last_attempt_at := Some t, c_next_retry_at := None\<rparr>"

definition ClaimForSend ::
  "env \<Rightarrow> ctx \<Rightarrow> string \<Rightarrow> instant \<Rightarrow> world \<Rightarrow> world \<times> Record option result" where
  "ClaimForSend E c eventID t w =
     (let hit = find (claimable eventID) (tbl w);
          (w', _) = sql_exec E c (update_where (claimable eventID) (claim_row t)) w;
          r = scanRecord E c w (map_option (claim_row t) hit)
      in (observe ''claim_for_send'' (err_of r) w', r))"

definition parts_row :: "string \<Rightarrow> string list \<Rightarrow> instant \<Rightarrow> row \<Rightarrow> row" where
  "parts_row renderedMessage parts t r =
     r\<lparr>c_rendered_message := renderedMessage, c_rendered_parts := marshal_strings (Some parts),
       c_split_count := int (length parts), c_updated_at := t\<rparr>"

definition SaveRenderedParts ::
  "env \<Rightarrow> ctx \<Rightarrow> string \<Rightarrow> string \<Rightarrow> string list \<Rightarrow> world \<Rightarrow> world \<times> unit result" where
  "SaveRenderedParts E c eventID renderedMessage parts w =
     exec_update E c ''save_rendered_parts'' ''save rendered parts''
       (update_id eventID (parts_row renderedMessage parts (now E w))) w"

definition chunk_row :: "int \<Rightarrow> int option \<Rightarrow> instant \<Rightarrow> row \<Rightarrow> row" where
  "chunk_row sentParts firstMessageID t r =
     (case firstMessageID of
        Some m \<Rightarrow>
          r\<lparr>c_sent_parts := sentParts,
            c_telegram_message_id :=
              (case c_telegram_message_id r of Some x \<Rightarrow> Some x | None \<Rightarrow> Some m),
            c_updated_at := t\<rparr>
      | None \<Rightarrow> r\<lparr>c_sent_parts := sentParts, c_updated_at := t\<rparr>)"

definition MarkChunkSent ::
  "env \<Rightarrow> ctx \<Rightarrow> string \<Rightarrow> int \<Rightarrow> int option \<Rightarrow> world \<Rightarrow> world \<times> unit result" where
  "MarkChunkSent E c eventID sentParts firstMessageID w =
     exec_update E c ''mark_chunk_sent'' ''mark chunk sent''
       (update_id eventID (chunk_row sentParts firstMessageID (now E w))) w"

definition delivered_row :: "string \<Rightarrow> string \<Rightarrow> int \<Rightarrow> instant \<Rightarrow> row \<Rightarrow> row" where
  "delivered_row renderedMessage chatID splitCount deliveredAt r =
     r\<lparr>c_status := StatusDelivered, c_rendered_message := renderedMessage,
       c_telegram_chat_id := chatID, c_split_count := splitCount, c_sent_parts := splitCount,
       c_delivered_at := Some deliveredAt, c_updated_at := deliveredAt, c_next_retry_at := None,
       c_last_error := []\<rparr>"

definition MarkDelivered ::
  "env \<Rightarrow> ctx \<Rightarrow> string \<Rightarrow> string \<Rightarrow> string \<Rightarrow> int \<Rightarrow> instant \<Rightarrow> world \<Rightarrow> world \<times> unit result" where
  "MarkDelivered E c eventID renderedMessage chatID splitCount deliveredAt w =
     exec_update E c ''mark_delivered'' ''mark delivered''
       (update_id eventID (delivered_row renderedMessage chatID splitCount deliveredAt)) w"

definition retry_row :: "string \<Rightarrow> string \<Rightarrow> instant \<Rightarrow> instant \<Rightarrow> row \<Rightarrow> row" where
  "retry_row renderedMessage lastError nextRetryAt t r =
     r\<lparr>c_status := StatusRetryScheduled, c_rendered_message := renderedMessage,
       c_last_error := lastError, c_next_retry_at := Some nextRetryAt, c_updated_at := t\<rparr>"

definition ScheduleRetry ::
  "env \<Rightarrow> ctx \<Rightarrow> string \<Rightarrow> string \<Rightarrow> string \<Rightarrow> instant \<Rightarrow> world \<Rightarrow> world \<times> unit result" where
  "ScheduleRetry E c eventID renderedMessage lastError nextRetryAt w =
     exec_update E c ''schedule_retry'' ''schedule retry''
       (update_id eventID (retry_row renderedMessage lastError nextRetryAt (now E w))) w"

definition terminal_row :: "string \<Rightarrow> string \<Rightarrow> string \<Rightarrow> instant \<Rightarrow> row \<Rightarrow> row" where
  "terminal_row status renderedMessage lastError t r =
     r\<lparr>c_status := status, c_rendered_message := renderedMessage, c_last_error := lastError,
       c_next_retry_at := None, c_updated_at := t\<rparr>"

definition markTerminal ::
  "env \<Rightarrow> ctx \<Rightarrow> string \<Rightarrow> string \<Rightarrow> string \<Rightarrow> string \<Rightarrow> string \<Rightarrow> world \<Rightarrow> world \<times> unit result" where
  "markTerminal E c operation eventID status renderedMessage lastError w =
     exec_update E c operation operation
       (update_id eventID (terminal_row status renderedMessage lastError (now E w))) w"

definition MarkFailed :: "env \<Rightarrow> ctx \<Rightarrow> string \<Rightarrow> string \<Rightarrow> string \<Rightarrow> world \<Rightarrow> world \<times> unit result" where
  "MarkFailed E c eventID renderedMessage lastError w =
     markTerminal E c ''mark_failed'' eventID StatusFailed renderedMessage lastError w"

definition MarkDeadLetter :: "env \<Rightarrow> ctx \<Rightarrow> string \<Rightarrow> string \<Rightarrow> string \<Rightarrow> world \<Rightarrow> world \<times> unit result" where
  "MarkDeadLetter E c eventID renderedMessage lastError w =
     markTerminal E c ''mark_dead_letter'' eventID StatusDeadLetter renderedMessage lastError w"

end
