(* ===== verification/GoTime.thy ===== *)
theory GoTime
  imports GoStrings
begin

text \<open>
  The parts of Go's \<open>time\<close> package the program uses: saturating differences, rounding of
  durations, and the layouts it formats instants with.  An instant is a number of nanoseconds
  since the Unix epoch; a zone is its offset in seconds and its abbreviation.
\<close>

section \<open>Durations\<close>

text \<open>\<open>time.Time.Sub\<close> saturates at the limits of a duration.\<close>

definition time_Sub :: "instant \<Rightarrow> instant \<Rightarrow> duration" where
  "time_Sub t u = max (- (2 ^ 63)) (min (2 ^ 63 - 1) (t - u))"

text \<open>\<open>Duration.Round\<close>; Go's remainder takes the sign of the dividend.\<close>

definition go_rem :: "int \<Rightarrow> int \<Rightarrow> int" where
  "go_rem a b = sgn a * (\<bar>a\<bar> mod \<bar>b\<bar>)"

definition Round :: "duration \<Rightarrow> duration \<Rightarrow> duration" where
  "Round d m =
     (if m \<le> 0 then d
      else
        let r = go_rem d m in
        if d < 0 then
          let r = - r in
          if r + r < m then d + r
          else let d1 = wrap64 (d - m + r) in if d1 < d then d1 else - (2 ^ 63)
        else if r + r < m then d - r
        else let d1 = wrap64 (d + m - r) in if d1 > d then d1 else 2 ^ 63 - 1)"

section \<open>The calendar\<close>

text \<open>Year, month and day of a day number of the Unix epoch, proleptic Gregorian.\<close>

definition civil :: "int \<Rightarrow> int \<times> int \<times> int" where
  "civil days =
     (let z = days + 719468;
          era = z div 146097;
          doe = z mod 146097;
          yoe = (doe - doe div 1460 + doe div 36524 - doe div 146096) div 365;
          doy = doe - (365 * yoe + yoe div 4 - yoe div 100);
          mp = (5 * doy + 2) div 153;
          day = doy - (153 * mp + 2) div 5 + 1;
          month = (if mp < 10 then mp + 3 else mp - 9);
          year = yoe + era * 400 + (if month \<le> 2 then 1 else 0)
      in (year, month, day))"

definition pad_left :: "nat \<Rightarrow> string \<Rightarrow> string" where
  "pad_left n s = replicate (n - length s) (CHR ''0'') @ s"

definition fmt_year :: "int \<Rightarrow> string" where
  "fmt_year y = (if y < 0 then CHR ''-'' # pad_left 4 (show_int (- y)) else pad_left 4 (show_int y))"

definition two :: "int \<Rightarrow> string" where
  "two n = pad_left 2 (show_int n)"

definition date_of :: "instant \<Rightarrow> string" where
  "date_of t =
     (case civil (t div 1000000000 div 86400) of
        (y, m, d) \<Rightarrow> fmt_year y @ ''-'' @ two m @ ''-'' @ two d)"

definition second_of_day :: "instant \<Rightarrow> int" where
  "second_of_day t = t div 1000000000 mod 86400"

definition hour_minute :: "instant \<Rightarrow> string" where
  "hour_minute t = two (second_of_day t div 3600) @ '':'' @ two (second_of_day t div 60 mod 60)"

text \<open>The fraction of a second without trailing zeros, with its point.\<close>

definition fraction_of :: "instant \<Rightarrow> string" where
  "fraction_of t =
     (let n = t mod 1000000000 in
      if n = 0 then [] else CHR ''.'' # TrimRightByte (pad_left 9 (show_int n)) (CHR ''0''))"

text \<open>\<open>t.UTC().Format(time.RFC3339Nano)\<close>.\<close>

definition RFC3339Nano_UTC :: "instant \<Rightarrow> string" where
  "RFC3339Nano_UTC t =
     date_of t @ ''T'' @ hour_minute t @ '':'' @ two (second_of_day t mod 60) @ fraction_of t @ ''Z''"

type_synonym zone = "int \<times> string"

definition local_instant :: "instant \<Rightarrow> zone \<Rightarrow> instant" where
  "local_instant t z = t + fst z * 1000000000"

end
