(* ===== verification/StoreQueries.thy ===== *)
theory StoreQueries
  imports Store GoTime
begin

text \<open>
  The reading, deleting and maintenance operations of the store
  (\<open>internal/store/sqlite.go\<close>: \<open>ListDueEventIDs\<close> to \<open>SizeBytes\<close>).  \<open>ORDER BY\<close> is a stable
  sort; SQLite leaves the order of equal keys open, and no property depends on it.  A negative
  \<open>LIMIT\<close> is none.
\<close>

section \<open>Queries\<close>

definition limit_rows :: "int \<Rightarrow> 'a list \<Rightarrow> 'a list" where
  "limit_rows limit xs = (if limit < 0 then xs else take (nat limit) xs)"

text \<open>
  What the driver does with a query of the given rows: it fails at execution, at the scan of a
  row (if there is one), or when the iteration ends.
\<close>

definition query_fault :: "env \<Rightarrow> ctx \<Rightarrow> world \<Rightarrow> 'a list \<Rightarrow> (db_stage \<times> err) option" where
  "query_fault E c w rows =
     (case fault E c w of
        Some (AtScan, e) \<Rightarrow> if rows = [] then None else Some (AtScan, e)
      | f \<Rightarrow> f)"

definition due :: "instant \<Rightarrow> row \<Rightarrow> bool" where
  "due t r \<longleftrightarrow> c_status r \<in> set pending_statuses
     \<and> (case c_next_retry_at r of None \<Rightarrow> True | Some x \<Rightarrow> x \<le> t)"

definition due_ids :: "instant \<Rightarrow> int \<Rightarrow> row list \<Rightarrow> string list" where
  "due_ids t limit rows = map c_event_id (limit_rows limit (sort_key c_created_at (filter (due t) rows)))"

definition ListDueEventIDs :: "env \<Rightarrow> ctx \<Rightarrow> instant \<Rightarrow> int \<Rightarrow> world \<Rightarrow> world \<times> string list result" where
  "ListDueEventIDs E c t limit w =
     (let ids = due_ids t limit (tbl w); op = ''list_due_event_ids'' in
      case query_fault E c w ids of
        Some (AtExec, e) \<Rightarrow> (observe op (Some e) (step w), Inl (Wrapped ''list due event ids'' e))
      | Some (AtScan, e) \<Rightarrow> (observe op (Some e) (step w), Inl (Wrapped ''scan due event id'' e))
      | Some (AtRows, e) \<Rightarrow> (observe op (Some e) (step w), Inl (Wrapped ''iterate due event ids'' e))
      | None \<Rightarrow> (observe op None (step w), Inr ids))"

definition CountQueued :: "env \<Rightarrow> ctx \<Rightarrow> world \<Rightarrow> world \<times> nat result" where
  "CountQueued E c w =
     (let r = (case fault E c w of
                 Some (_, e) \<Rightarrow> Inl e
               | None \<Rightarrow> Inr (length (filter (\<lambda>r. c_status r \<in> set queued_statuses) (tbl w))))
      in (observe ''count_queued'' (err_of r) (step w), wrap_err ''count queued'' r))"

fun min_time :: "instant list \<Rightarrow> instant option" where
  "min_time [] = None"
| "min_time (t # ts) = (case min_time ts of None \<Rightarrow> Some t | Some u \<Rightarrow> Some (min t u))"

definition OldestQueuedAge :: "env \<Rightarrow> ctx \<Rightarrow> instant \<Rightarrow> world \<Rightarrow> world \<times> duration result" where
  "OldestQueuedAge E c t w =
     (case fault E c w of
        Some (_, e) \<Rightarrow>
          (observe ''oldest_queued_age'' (Some e) (step w), Inl (Wrapped ''oldest queued age'' e))
      | None \<Rightarrow>
          (observe ''oldest_queued_age'' None (step w),
           Inr (case min_time (map c_created_at (filter (\<lambda>r. c_status r \<in> set queued_statuses) (tbl w))) of
                  None \<Rightarrow> 0
                | Some oldest \<Rightarrow> time_Sub t oldest)))"

section \<open>Rotation\<close>

definition rotatable :: "instant \<Rightarrow> instant \<Rightarrow> row \<Rightarrow> bool" where
  "rotatable deliveredBefore terminalBefore r \<longleftrightarrow>
     (c_status r = StatusDelivered \<and> c_updated_at r \<le> deliveredBefore)
     \<or> (c_status r \<in> {StatusFailed, StatusDeadLetter} \<and> c_updated_at r \<le> terminalBefore)"

definition rotatable_rows :: "instant \<Rightarrow> instant \<Rightarrow> int \<Rightarrow> row list \<Rightarrow> row list" where
  "rotatable_rows deliveredBefore terminalBefore limit rows =
     limit_rows limit (sort_key c_updated_at (filter (rotatable deliveredBefore terminalBefore) rows))"

fun scan_all :: "row list \<Rightarrow> Record list result" where
  "scan_all [] = Inr []"
| "scan_all (r # rs) =
     (case scanRecordValues r of
        Inl e \<Rightarrow> Inl e
      | Inr record \<Rightarrow> (case scan_all rs of Inl e \<Rightarrow> Inl e | Inr records \<Rightarrow> Inr (record # records)))"

definition SelectRotatable ::
  "env \<Rightarrow> ctx \<Rightarrow> instant \<Rightarrow> instant \<Rightarrow> int \<Rightarrow> world \<Rightarrow> world \<times> Record list result" where
  "SelectRotatable E c deliveredBefore terminalBefore limit w =
     (let rows = rotatable_rows deliveredBefore terminalBefore limit (tbl w); op = ''select_rotatable'' in
      case query_fault E c w rows of
        Some (AtExec, e) \<Rightarrow> (observe op (Some e) (step w), Inl (Wrapped ''select rotatable'' e))
      | Some (AtScan, e) \<Rightarrow> (observe op (Some e) (step w), Inl (Wrapped ''scan rotatable'' e))
      | f \<Rightarrow>
          (case scan_all rows of
             Inl e \<Rightarrow> (observe op (Some e) (step w), Inl (Wrapped ''scan rotatable'' e))
           | Inr records \<Rightarrow>
               (case f of
                  Some (_, e) \<Rightarrow> (observe op (Some e) (step w), Inl (Wrapped ''iterate rotatable'' e))
                | None \<Rightarrow> (observe op None (step w), Inr records))))"

definition delete_ids :: "string list \<Rightarrow> row list \<Rightarrow> row list" where
  "delete_ids ids t = filter (\<lambda>r. c_event_id r \<notin> set ids) t"

definition deleteBatchSize :: nat where
  "deleteBatchSize = 500"

text \<open>The loop over batches of at most \<open>deleteBatchSize\<close> parameters.\<close>

function delete_batches :: "env \<Rightarrow> ctx \<Rightarrow> string list \<Rightarrow> world \<Rightarrow> world \<times> unit result" where
  "delete_batches E c eventIDs w =
     (if eventIDs = [] then (observe ''delete_by_event_ids'' None w, Inr ())
      else
        (case sql_exec E c (delete_ids (take deleteBatchSize eventIDs)) w of
           (w', Inl e) \<Rightarrow> (observe ''delete_by_event_ids'' (Some e) w', Inl (Wrapped ''delete batch'' e))
         | (w', Inr _) \<Rightarrow> delete_batches E c (drop deleteBatchSize eventIDs) w'))"
  by pat_completeness auto
termination
  by (relation "measure (\<lambda>(_, _, ids, _). length ids)") (auto simp: deleteBatchSize_def)

declare delete_batches.simps [simp del]

definition DeleteByEventIDs :: "env \<Rightarrow> ctx \<Rightarrow> string list \<Rightarrow> world \<Rightarrow> world \<times> unit result" where
  "DeleteByEventIDs E c eventIDs w =
     (if eventIDs = [] then (observe ''delete_by_event_ids'' None w, Inr ())
      else delete_batches E c eventIDs w)"

definition placeholders :: "int \<Rightarrow> string" where
  "placeholders n = (if n \<le> 0 then [] else concat (replicate (nat (n - 1)) ''?, '') @ ''?'')"

definition DeleteTerminalBefore ::
  "env \<Rightarrow> ctx \<Rightarrow> instant \<Rightarrow> instant \<Rightarrow> int \<Rightarrow> world \<Rightarrow> world \<times> nat result" where
  "DeleteTerminalBefore E c deliveredBefore terminalBefore limit w =
     (let ids = map c_event_id (rotatable_rows deliveredBefore terminalBefore limit (tbl w));
          n = length (filter (\<lambda>r. c_event_id r \<in> set ids) (tbl w));
          op = ''delete_terminal_before'';
          (w', r) = sql_exec E c (delete_ids ids) w
      in case r of
           Inl e \<Rightarrow> (observe op (Some e) w', Inl (Wrapped ''delete terminal before'' e))
         | Inr _ \<Rightarrow>
             (case RowsAffected E c w n of
                Inl e \<Rightarrow> (observe op (Some e) w', Inl (Wrapped ''delete terminal before rows affected'' e))
              | Inr affected \<Rightarrow> (observe op None w', Inr affected)))"

section \<open>Maintenance\<close>

definition Vacuum :: "env \<Rightarrow> ctx \<Rightarrow> world \<Rightarrow> world \<times> unit result" where
  "Vacuum E c w = exec_update E c ''vacuum'' ''vacuum'' (\<lambda>t. t) w"

definition CheckpointWAL :: "env \<Rightarrow> ctx \<Rightarrow> world \<Rightarrow> world \<times> unit result" where
  "CheckpointWAL E c w =
     (let (w', r) = sql_exec E c (\<lambda>t. t) w in (observe ''checkpoint_wal'' (err_of r) w', r))"

definition Ping :: "env \<Rightarrow> ctx \<Rightarrow> world \<Rightarrow> world \<times> unit result" where
  "Ping E c w = sql_exec E c (\<lambda>t. t) w"

text \<open>The main file, the write-ahead log and the shared-memory file; a missing file counts 0.\<close>

fun stat_sum :: "(string \<Rightarrow> stat_result) \<Rightarrow> string list \<Rightarrow> int \<Rightarrow> int result" where
  "stat_sum st [] acc = Inr acc"
| "stat_sum st (path # paths) acc =
     (case st path of
        StatSize n \<Rightarrow> stat_sum st paths (wrap64 (acc + n))
      | StatNotExist \<Rightarrow> stat_sum st paths acc
      | StatErr e \<Rightarrow> Inl (Wrapped (''stat '' @ path) e))"

definition SizeBytes :: "env \<Rightarrow> string \<Rightarrow> world \<Rightarrow> world \<times> int result" where
  "SizeBytes E path w =
     (step w, stat_sum (stat E (ticks w)) [path, path @ ''-wal'', path @ ''-shm''] 0)"

section \<open>Facts\<close>

lemma set_limit_rows: "set (limit_rows n xs) \<subseteq> set xs"
  by (auto simp: limit_rows_def dest: in_set_takeD)

lemma rotatable_rows_sound:
  "r \<in> set (rotatable_rows d b n t) \<Longrightarrow> r \<in> set t \<and> rotatable d b r"
  using set_limit_rows [of n "sort_key c_updated_at (filter (rotatable d b) t)"]
  by (auto simp: rotatable_rows_def)

lemma rotatable_terminal: "rotatable d b r \<Longrightarrow> c_status r \<in> set terminal_statuses"
  by (auto simp: rotatable_def terminal_statuses_def)

lemma due_ids_sound: "i \<in> set (due_ids t n rows) \<Longrightarrow> \<exists>r \<in> set rows. c_event_id r = i \<and> due t r"
  using set_limit_rows [of n "sort_key c_created_at (filter (due t) rows)"]
  by (auto simp: due_ids_def)

lemma length_limit_rows: "0 \<le> n \<Longrightarrow> length (limit_rows n xs) \<le> nat n"
  by (simp add: limit_rows_def)

lemma scan_all_ids:
  "scan_all rows = Inr records \<Longrightarrow>
   map Rec_EventID records = map c_event_id rows \<and> map Rec_Status records = map c_status rows"
proof (induction rows arbitrary: records)
  case (Cons r rows)
  then show ?case
    by (auto simp: scanRecordValues_def Let_def split: sum.splits if_splits option.splits)
qed simp

lemma delete_ids_append: "delete_ids (a @ b) t = delete_ids b (delete_ids a t)"
  by (auto simp: delete_ids_def intro: filter_cong)

lemma delete_ids_Nil [simp]: "delete_ids [] t = t"
  by (simp add: delete_ids_def)

end
