(* ===== verification/Config.thy ===== *)
theory Config
  imports Failure Models
begin

text \<open>
  The configuration (\<open>internal/config/config.go\<close>): the record, \<open>Validate\<close>, the fallbacks of the
  environment variables and \<open>Parse\<close> with the flags it defines.  \<open>url.Parse\<close>,
  \<open>time.LoadLocation\<close>, \<open>time.ParseDuration\<close>, the process environment, the Unicode tables
  beyond ASCII and the printing of decoded JSON values are the fields of \<open>host\<close>, an argument of
  the definitions that use them.
\<close>

section \<open>The host\<close>

record url =
  Scheme :: string
  Url_User :: "(string \<times> string option) option"
  Url_Host :: string
  Path :: string
  RawQuery :: string
  Fragment :: string

record host =
  url_Parse :: "string \<Rightarrow> url result"
  url_String :: "url \<Rightarrow> string"
  userinfo_String :: "string \<times> string option \<Rightarrow> string"
  LoadLocation_ok :: "string \<Rightarrow> bool"
  ParseDuration :: "string \<Rightarrow> duration option"
  LookupEnv :: "string \<Rightarrow> string option"
  unicode_upper :: "nat \<Rightarrow> nat"
  unicode_lower :: "nat \<Rightarrow> nat"
  unicode_fold :: "nat \<Rightarrow> nat"
  unicode_print :: "nat \<Rightarrow> bool"
  fmt_v :: "json_value \<Rightarrow> string"

section \<open>The record\<close>

record Config =
  AppHost :: string
  AppPort :: int
  LogLevel :: string
  Environment :: string
  TelegramBotToken :: string
  TelegramChatID :: string
  TelegramBaseURL :: string
  TelegramProxyURL :: string
  WebhookSecret :: string
  BasicAuthUsername :: string
  BasicAuthPassword :: string
  BasicAuthRealm :: string
  AlertMessageSource :: string
  AlertLocalTimezone :: string
  AlertTemplatePath :: string
  MessageParseMode :: string
  HTTPReadTimeout :: duration
  HTTPWriteTimeout :: duration
  HTTPShutdownTimeout :: duration
  HTTPIdleTimeout :: duration
  MaxRequestBodyBytes :: int
  MaxHeaderBytes :: int
  MaxDeliveryAttempts :: int
  RetryBaseDelay :: duration
  RetryMaxDelay :: duration
  RecoveryInterval :: duration
  WorkerBatchSize :: int
  StorePath :: string
  StoreMaxSizeBytes :: int
  StoreRotationEnabled :: bool
  StoreRotationHighWatermark :: int
  StoreRotationLowWatermark :: int
  StoreRetentionDelivered :: duration
  StoreRetentionDeadLetter :: duration
  StoreRotationInterval :: duration
  StoreVacuumAfterRotation :: bool

definition Address :: "Config \<Rightarrow> string" where
  "Address c = AppHost c @ '':'' @ show_int (AppPort c)"

definition BasicAuthEnabled :: "Config \<Rightarrow> bool" where
  "BasicAuthEnabled c \<longleftrightarrow> BasicAuthUsername c \<noteq> [] \<and> BasicAuthPassword c \<noteq> []"

definition UsesTemplateRenderer :: "Config \<Rightarrow> bool" where
  "UsesTemplateRenderer c \<longleftrightarrow> AlertMessageSource c = ''template''"

datatype location = LocalTime | Named string

definition AlertDisplayLocation :: "host \<Rightarrow> Config \<Rightarrow> location" where
  "AlertDisplayLocation H c =
     (if TrimSpace (AlertLocalTimezone c) = [] then LocalTime
      else if LoadLocation_ok H (AlertLocalTimezone c) then Named (AlertLocalTimezone c)
      else LocalTime)"

section \<open>Validation\<close>

definition validateTelegramBaseURL :: "host \<Rightarrow> string \<Rightarrow> err option" where
  "validateTelegramBaseURL H raw =
     (let rawURL = TrimSpace raw in
      if rawURL = [] then None
      else
        (case url_Parse H rawURL of
           Inl e \<Rightarrow> Some (Wrapped ''parse telegram base URL'' e)
         | Inr parsed \<Rightarrow>
             if Scheme parsed \<noteq> ''http'' \<and> Scheme parsed \<noteq> ''https'' then
               Some (ErrText (''telegram base URL scheme '' @ Quote (unicode_print H) (Scheme parsed) @ '' is not supported''))
             else if Url_Host parsed = [] then Some (ErrText ''telegram base URL must include a host'')
             else if Url_User parsed \<noteq> None then
               Some (ErrText ''telegram base URL must not contain credentials'')
             else if RawQuery parsed \<noteq> [] \<or> Fragment parsed \<noteq> [] then
               Some (ErrText ''telegram base URL must not contain query parameters or fragments'')
             else None))"

definition validateTelegramProxyURL :: "host \<Rightarrow> string \<Rightarrow> err option" where
  "validateTelegramProxyURL H raw =
     (let rawURL = TrimSpace raw in
      if rawURL = [] then None
      else
        (case url_Parse H rawURL of
           Inl e \<Rightarrow> Some (Wrapped ''parse telegram proxy URL'' e)
         | Inr parsed \<Rightarrow>
             if Url_Host parsed = [] then Some (ErrText ''telegram proxy URL must include a host'')
             else if RawQuery parsed \<noteq> [] \<or> Fragment parsed \<noteq> [] then
               Some (ErrText ''telegram proxy URL must not contain query parameters or fragments'')
             else if Path parsed \<noteq> [] \<and> Path parsed \<noteq> ''/'' then
               Some (ErrText ''telegram proxy URL must not contain a path'')
             else
               let scheme = ToLower (unicode_lower H) (Scheme parsed) in
               if scheme \<in> {''http'', ''https'', ''socks5''} then None
               else if scheme = ''mtproto'' then
                 Some (ErrText (''mtproto proxies are not supported for the HTTP Telegram Bot API client; ''
                   @ ''use socks5/http(s), a local Bot API server, or network-level egress instead''))
               else Some (ErrText (''telegram proxy URL scheme '' @ Quote (unicode_print H) (Scheme parsed) @ '' is not supported''))))"

text \<open>The problems in the order of the checks; an empty list is no problem.\<close>

definition problem :: "bool \<Rightarrow> string \<Rightarrow> string list" where
  "problem b s = (if b then [s] else [])"

fun problem_of :: "err option \<Rightarrow> string list" where
  "problem_of None = []"
| "problem_of (Some e) = [err_text e]"

definition problems :: "host \<Rightarrow> Config \<Rightarrow> string list" where
  "problems H c =
     problem (AppHost c = []) ''app host is required''
     @ problem (AppPort c \<le> 0 \<or> AppPort c > 65535) ''app port must be between 1 and 65535''
     @ problem (TelegramBotToken c = []) ''telegram bot token is required''
     @ problem (TelegramChatID c = []) ''telegram chat id is required''
     @ problem_of (validateTelegramBaseURL H (TelegramBaseURL c))
     @ problem_of (validateTelegramProxyURL H (TelegramProxyURL c))
     @ problem (AlertLocalTimezone c \<noteq> [] \<and> \<not> LoadLocation_ok H (AlertLocalTimezone c))
         ''alert local timezone must be a valid IANA timezone''
     @ problem (AlertMessageSource c \<noteq> ''template'' \<and> AlertMessageSource c \<noteq> ''alertmanager'')
         ''alert message source must be either template or alertmanager''
     @ problem (AlertMessageSource c = ''template'' \<and> AlertTemplatePath c = [])
         ''alert template path is required''
     @ problem ((BasicAuthUsername c = []) \<noteq> (BasicAuthPassword c = []))
         ''basic auth username and password must be configured together''
     @ problem (BasicAuthEnabled c \<and> BasicAuthRealm c = [])
         ''basic auth realm must not be empty when basic auth is enabled''
     @ problem (ToUpper (unicode_upper H) (MessageParseMode c) \<noteq> ''HTML'')
         ''only HTML parse mode is supported in v1''
     @ problem (MaxRequestBodyBytes c \<le> 0) ''max request body bytes must be positive''
     @ problem (MaxHeaderBytes c \<le> 0) ''max header bytes must be positive''
     @ problem (HTTPReadTimeout c \<le> 0) ''http read timeout must be positive''
     @ problem (HTTPWriteTimeout c \<le> 0) ''http write timeout must be positive''
     @ problem (HTTPShutdownTimeout c \<le> 0) ''http shutdown timeout must be positive''
     @ problem (HTTPIdleTimeout c \<le> 0) ''http idle timeout must be positive''
     @ problem (MaxDeliveryAttempts c < 1) ''max delivery attempts must be positive''
     @ problem (RetryBaseDelay c \<le> 0 \<or> RetryMaxDelay c \<le> 0 \<or> RetryBaseDelay c > RetryMaxDelay c)
         ''retry delays must be positive and base must not exceed max''
     @ problem (RecoveryInterval c \<le> 0) ''recovery interval must be positive''
     @ problem (WorkerBatchSize c \<le> 0) ''worker batch size must be positive''
     @ problem (StorePath c = []) ''store path is required''
     @ problem (StoreMaxSizeBytes c \<le> 0) ''store max size must be positive''
     @ problem (StoreRotationHighWatermark c \<le> 0 \<or> StoreRotationHighWatermark c > StoreMaxSizeBytes c)
         ''store rotation high watermark must be positive and not exceed store max size''
     @ problem (StoreRotationLowWatermark c \<le> 0 \<or> StoreRotationLowWatermark c \<ge> StoreRotationHighWatermark c)
         ''store rotation low watermark must be positive and below high watermark''
     @ problem (StoreRetentionDelivered c \<le> 0 \<or> StoreRetentionDeadLetter c \<le> 0)
         ''store retention windows must be positive''
     @ problem (StoreRotationInterval c \<le> 0) ''store rotation interval must be positive''"

definition Validate :: "host \<Rightarrow> Config \<Rightarrow> err option" where
  "Validate H c = (if problems H c \<noteq> [] then Some (ErrText (Join (problems H c) ''; '')) else None)"

lemma problem_Nil [simp]: "problem b s = [] \<longleftrightarrow> \<not> b"
  by (simp add: problem_def)

lemma problem_of_Nil [simp]: "problem_of e = [] \<longleftrightarrow> e = None"
  by (cases e) simp_all

text \<open>What a validated configuration guarantees, as the rest of the program relies on it.\<close>

definition retry_ok :: "Config \<Rightarrow> bool" where
  "retry_ok c \<longleftrightarrow> 1 \<le> MaxDeliveryAttempts c \<and> 0 < RetryBaseDelay c \<and> RetryBaseDelay c \<le> RetryMaxDelay c"

definition watermarks_ok :: "Config \<Rightarrow> bool" where
  "watermarks_ok c \<longleftrightarrow> 0 < StoreRotationLowWatermark c
     \<and> StoreRotationLowWatermark c < StoreRotationHighWatermark c
     \<and> StoreRotationHighWatermark c \<le> StoreMaxSizeBytes c"

lemma Validate_None_iff: "Validate H c = None \<longleftrightarrow> problems H c = []"
  by (simp add: Validate_def)

lemma problems_Nil:
  assumes "problems H c = []"
  shows "retry_ok c" and "watermarks_ok c"
    and "AlertMessageSource c = ''template'' \<or> AlertMessageSource c = ''alertmanager''"
    and "1 \<le> AppPort c" and "AppPort c \<le> 65535" and "0 < WorkerBatchSize c"
    and "0 < RecoveryInterval c" and "0 < StoreRotationInterval c"
    and "0 < StoreRetentionDelivered c" and "0 < StoreRetentionDeadLetter c"
    and "0 < MaxRequestBodyBytes c" and "0 < HTTPWriteTimeout c"
    and "BasicAuthEnabled c \<longleftrightarrow> BasicAuthUsername c \<noteq> []"
  using assms by (auto simp: problems_def retry_ok_def watermarks_ok_def BasicAuthEnabled_def)

end
