(* ===== verification/ConfigParse.thy ===== *)
theory ConfigParse
  imports Config
begin

text \<open>
  \<open>Parse\<close> (\<open>internal/config/config.go\<close>): defaults from the environment, then the flags of the
  command line, then \<open>Validate\<close>.  The parsers of \<open>strconv\<close> and the argument loop of \<open>flag\<close>
  are translated as the standard library has them; the text of a flag error is left out.
\<close>

section \<open>Numbers and booleans\<close>

definition digit_of :: "char \<Rightarrow> nat option" where
  "digit_of c =
     (let b = byte c in
      if 48 \<le> b \<and> b \<le> 57 then Some (b - 48)
      else if 97 \<le> b \<and> b \<le> 122 then Some (b - 87)
      else if 65 \<le> b \<and> b \<le> 90 then Some (b - 55)
      else None)"

fun digits_value :: "bool \<Rightarrow> nat \<Rightarrow> string \<Rightarrow> nat \<Rightarrow> nat option" where
  "digits_value us base [] n = Some n"
| "digits_value us base (c # s) n =
     (if us \<and> c = CHR ''_'' then digits_value us base s n
      else
        (case digit_of c of
           None \<Rightarrow> None
         | Some d \<Rightarrow> if d < base then digits_value us base s (n * base + d) else None))"

definition lower_is :: "char \<Rightarrow> char \<Rightarrow> bool" where
  "lower_is l c \<longleftrightarrow> ascii_lower (byte c) = byte l"

text \<open>\<open>underscoreOK\<close>: the loop over the digits; \<open>prev\<close> is the class of the previous byte.\<close>

fun under_loop :: "bool \<Rightarrow> char \<Rightarrow> string \<Rightarrow> bool" where
  "under_loop hex prev [] = (prev \<noteq> CHR ''_'')"
| "under_loop hex prev (c # s) =
     (if (48 \<le> byte c \<and> byte c \<le> 57)
         \<or> (hex \<and> 97 \<le> ascii_lower (byte c) \<and> ascii_lower (byte c) \<le> 102)
      then under_loop hex (CHR ''0'') s
      else if c = CHR ''_'' then prev = CHR ''0'' \<and> under_loop hex (CHR ''_'') s
      else prev \<noteq> CHR ''_'' \<and> under_loop hex (CHR ''!'') s)"

definition base_prefix :: "string \<Rightarrow> bool" where
  "base_prefix s \<longleftrightarrow> 2 \<le> length s \<and> s ! 0 = CHR ''0''
     \<and> (lower_is (CHR ''b'') (s ! 1) \<or> lower_is (CHR ''o'') (s ! 1) \<or> lower_is (CHR ''x'') (s ! 1))"

definition underscoreOK :: "string \<Rightarrow> bool" where
  "underscoreOK s =
     (if base_prefix s then under_loop (lower_is (CHR ''x'') (s ! 1)) (CHR ''0'') (drop 2 s)
      else under_loop False (CHR ''^'') s)"

text \<open>\<open>strconv.ParseUint(s, base, 64)\<close> for base 10 and base 0, without the range check.\<close>

definition parse_digits :: "bool \<Rightarrow> string \<Rightarrow> nat option" where
  "parse_digits base0 s =
     (if s = [] then None
      else if \<not> base0 then digits_value False 10 s 0
      else if \<not> underscoreOK s then None
      else if s ! 0 \<noteq> CHR ''0'' then digits_value True 10 s 0
      else if 3 \<le> length s \<and> lower_is (CHR ''b'') (s ! 1) then digits_value True 2 (drop 2 s) 0
      else if 3 \<le> length s \<and> lower_is (CHR ''o'') (s ! 1) then digits_value True 8 (drop 2 s) 0
      else if 3 \<le> length s \<and> lower_is (CHR ''x'') (s ! 1) then digits_value True 16 (drop 2 s) 0
      else digits_value True 8 (drop 1 s) 0)"

definition ParseInt :: "bool \<Rightarrow> string \<Rightarrow> int option" where
  "ParseInt base0 s =
     (let neg = (s \<noteq> [] \<and> hd s = CHR ''-'');
          body = (if s \<noteq> [] \<and> hd s \<in> {CHR ''-'', CHR ''+''} then tl s else s)
      in case parse_digits base0 body of
           None \<Rightarrow> None
         | Some n \<Rightarrow>
             let v = (if neg then - int n else int n) in if int64 v then Some v else None)"

definition ParseBool :: "string \<Rightarrow> bool option" where
  "ParseBool s =
     (if s \<in> {''1'', ''t'', ''T'', ''TRUE'', ''true'', ''True''} then Some True
      else if s \<in> {''0'', ''f'', ''F'', ''FALSE'', ''false'', ''False''} then Some False
      else None)"

section \<open>Environment variables\<close>

definition envString :: "host \<Rightarrow> string \<Rightarrow> string \<Rightarrow> string" where
  "envString H key fallback =
     (case LookupEnv H key of Some v \<Rightarrow> TrimSpace v | None \<Rightarrow> fallback)"

definition env_value :: "(string \<Rightarrow> 'a option) \<Rightarrow> host \<Rightarrow> string \<Rightarrow> 'a \<Rightarrow> 'a" where
  "env_value parse H key fallback =
     (case LookupEnv H key of
        None \<Rightarrow> fallback
      | Some raw \<Rightarrow>
          if TrimSpace raw = [] then fallback
          else (case parse (TrimSpace raw) of None \<Rightarrow> fallback | Some v \<Rightarrow> v))"

definition envInt :: "host \<Rightarrow> string \<Rightarrow> int \<Rightarrow> int" where
  "envInt H key fallback = env_value (ParseInt False) H key fallback"

definition envInt64 :: "host \<Rightarrow> string \<Rightarrow> int \<Rightarrow> int" where
  "envInt64 H key fallback = env_value (ParseInt False) H key fallback"

definition envBool :: "host \<Rightarrow> string \<Rightarrow> bool \<Rightarrow> bool" where
  "envBool H key fallback = env_value ParseBool H key fallback"

definition envDuration :: "host \<Rightarrow> string \<Rightarrow> duration \<Rightarrow> duration" where
  "envDuration H key fallback = env_value (ParseDuration H) H key fallback"

section \<open>Flags\<close>

text \<open>
  What the flags write: the configuration and the two retention windows in hours, which are
  local variables of \<open>Parse\<close>.
\<close>

record flags =
  f_cfg :: Config
  f_deliveredHours :: int
  f_deadLetterHours :: int

definition default_flags :: "host \<Rightarrow> flags" where
  "default_flags H = \<lparr> f_cfg = \<lparr>
     AppHost = envString H ''APP_HOST'' ''0.0.0.0'',
     AppPort = envInt H ''APP_PORT'' 8080,
     LogLevel = envString H ''LOG_LEVEL'' ''INFO'',
     Environment = envString H ''ENVIRONMENT'' ''production'',
     TelegramBotToken = envString H ''TELEGRAM_BOT_TOKEN'' [],
     TelegramChatID = envString H ''TELEGRAM_CHAT_ID'' [],
     TelegramBaseURL = envString H ''TELEGRAM_BASE_URL'' [],
     TelegramProxyURL = envString H ''TELEGRAM_PROXY_URL'' [],
     WebhookSecret = envString H ''WEBHOOK_SECRET'' [],
     BasicAuthUsername = envString H ''BASIC_AUTH_USERNAME'' [],
     BasicAuthPassword = envString H ''BASIC_AUTH_PASSWORD'' [],
     BasicAuthRealm = envString H ''BASIC_AUTH_REALM'' ''webhook-telegram-proxy'',
     AlertMessageSource = envString H ''ALERT_MESSAGE_SOURCE'' ''template'',
     AlertLocalTimezone = envString H ''ALERT_LOCAL_TIMEZONE'' [],
     AlertTemplatePath = envString H ''ALERT_TEMPLATE_PATH'' ''templates/telegram_alert.tmpl'',
     MessageParseMode = envString H ''MESSAGE_PARSE_MODE'' ''HTML'',
     HTTPReadTimeout = envDuration H ''HTTP_READ_TIMEOUT'' (5 * Second),
     HTTPWriteTimeout = envDuration H ''HTTP_WRITE_TIMEOUT'' (10 * Second),
     HTTPShutdownTimeout = envDuration H ''HTTP_SHUTDOWN_TIMEOUT'' (10 * Second),
     HTTPIdleTimeout = envDuration H ''HTTP_IDLE_TIMEOUT'' (60 * Second),
     MaxRequestBodyBytes = envInt64 H ''MAX_REQUEST_BODY_BYTES'' 1048576,
     MaxHeaderBytes = envInt H ''MAX_HEADER_BYTES'' 1048576,
     MaxDeliveryAttempts = envInt H ''MAX_DELIVERY_ATTEMPTS'' 5,
     RetryBaseDelay = envDuration H ''RETRY_BASE_DELAY'' (2 * Second),
     RetryMaxDelay = envDuration H ''RETRY_MAX_DELAY'' (2 * Minute),
     RecoveryInterval = envDuration H ''RECOVERY_INTERVAL'' (15 * Second),
     WorkerBatchSize = envInt H ''WORKER_BATCH_SIZE'' 32,
     StorePath = envString H ''STORE_PATH'' ''data/webhook-telegram-proxy.db'',
     StoreMaxSizeBytes = envInt64 H ''STORE_MAX_SIZE_BYTES'' (100 * 1024 * 1024),
     StoreRotationEnabled = envBool H ''STORE_ROTATION_ENABLED'' True,
     StoreRotationHighWatermark = envInt64 H ''STORE_ROTATION_HIGH_WATERMARK_BYTES'' (80 * 1024 * 1024),
     StoreRotationLowWatermark = envInt64 H ''STORE_ROTATION_LOW_WATERMARK_BYTES'' (60 * 1024 * 1024),
     StoreRetentionDelivered = 0,
     StoreRetentionDeadLetter = 0,
     StoreRotationInterval = envDuration H ''STORE_ROTATION_INTERVAL'' Minute,
     StoreVacuumAfterRotation = envBool H ''STORE_VACUUM_AFTER_ROTATION'' False \<rparr>,
     f_deliveredHours = envInt H ''STORE_RETENTION_DELIVERED_HOURS'' 168,
     f_deadLetterHours = envInt H ''STORE_RETENTION_DEAD_LETTER_HOURS'' 720 \<rparr>"

text \<open>A flag: a boolean one takes its value only after \<open>=\<close>.  Setting fails on a bad value.\<close>

datatype flag =
    StringVar "string \<Rightarrow> flags \<Rightarrow> flags"
  | IntVar "int \<Rightarrow> flags \<Rightarrow> flags"
  | DurationVar "duration \<Rightarrow> flags \<Rightarrow> flags"
  | BoolVar "bool \<Rightarrow> flags \<Rightarrow> flags"

fun is_bool_flag :: "flag \<Rightarrow> bool" where
  "is_bool_flag (BoolVar f) = True"
| "is_bool_flag f = False"

fun flag_Set :: "host \<Rightarrow> flag \<Rightarrow> string \<Rightarrow> flags \<Rightarrow> flags option" where
  "flag_Set H (StringVar f) v fs = Some (f v fs)"
| "flag_Set H (IntVar f) v fs = map_option (\<lambda>i. f i fs) (ParseInt True v)"
| "flag_Set H (DurationVar f) v fs = map_option (\<lambda>d. f d fs) (ParseDuration H v)"
| "flag_Set H (BoolVar f) v fs = map_option (\<lambda>b. f b fs) (ParseBool v)"

abbreviation on_cfg :: "(Config \<Rightarrow> Config) \<Rightarrow> flags \<Rightarrow> flags" where
  "on_cfg g fs \<equiv> fs\<lparr>f_cfg := g (f_cfg fs)\<rparr>"

definition formal_flags :: "(string \<times> flag) list" where
  "formal_flags = [
     (''app-host'', StringVar (\<lambda>v. on_cfg (AppHost_update (\<lambda>_. v)))),
     (''app-port'', IntVar (\<lambda>v. on_cfg (AppPort_update (\<lambda>_. v)))),
     (''log-level'', StringVar (\<lambda>v. on_cfg (LogLevel_update (\<lambda>_. v)))),
     (''environment'', StringVar (\<lambda>v. on_cfg (Environment_update (\<lambda>_. v)))),
     (''telegram-bot-token'', StringVar (\<lambda>v. on_cfg (TelegramBotToken_update (\<lambda>_. v)))),
     (''telegram-chat-id'', StringVar (\<lambda>v. on_cfg (TelegramChatID_update (\<lambda>_. v)))),
     (''telegram-base-url'', StringVar (\<lambda>v. on_cfg (TelegramBaseURL_update (\<lambda>_. v)))),
     (''telegram-proxy-url'', StringVar (\<lambda>v. on_cfg (TelegramProxyURL_update (\<lambda>_. v)))),
     (''webhook-secret'', StringVar (\<lambda>v. on_cfg (WebhookSecret_update (\<lambda>_. v)))),
     (''basic-auth-username'', StringVar (\<lambda>v. on_cfg (BasicAuthUsername_update (\<lambda>_. v)))),
     (''basic-auth-password'', StringVar (\<lambda>v. on_cfg (BasicAuthPassword_update (\<lambda>_. v)))),
     (''basic-auth-realm'', StringVar (\<lambda>v. on_cfg (BasicAuthRealm_update (\<lambda>_. v)))),
     (''alert-message-source'', StringVar (\<lambda>v. on_cfg (AlertMessageSource_update (\<lambda>_. v)))),
     (''alert-local-timezone'', StringVar (\<lambda>v. on_cfg (AlertLocalTimezone_update (\<lambda>_. v)))),
     (''alert-template-path'', StringVar (\<lambda>v. on_cfg (AlertTemplatePath_update (\<lambda>_. v)))),
     (''message-parse-mode'', StringVar (\<lambda>v. on_cfg (MessageParseMode_update (\<lambda>_. v)))),
     (''http-read-timeout'', DurationVar (\<lambda>v. on_cfg (HTTPReadTimeout_update (\<lambda>_. v)))),
     (''http-write-timeout'', DurationVar (\<lambda>v. on_cfg (HTTPWriteTimeout_update (\<lambda>_. v)))),
     (''http-shutdown-timeout'', DurationVar (\<lambda>v. on_cfg (HTTPShutdownTimeout_update (\<lambda>_. v)))),
     (''http-idle-timeout'', DurationVar (\<lambda>v. on_cfg (HTTPIdleTimeout_update (\<lambda>_. v)))),
     (''max-request-body-bytes'', IntVar (\<lambda>v. on_cfg (MaxRequestBodyBytes_update (\<lambda>_. v)))),
     (''max-header-bytes'', IntVar (\<lambda>v. on_cfg (MaxHeaderBytes_update (\<lambda>_. v)))),
     (''max-delivery-attempts'', IntVar (\<lambda>v. on_cfg (MaxDeliveryAttempts_update (\<lambda>_. v)))),
     (''retry-base-delay'', DurationVar (\<lambda>v. on_cfg (RetryBaseDelay_update (\<lambda>_. v)))),
     (''retry-max-delay'', DurationVar (\<lambda>v. on_cfg (RetryMaxDelay_update (\<lambda>_. v)))),
     (''recovery-interval'', DurationVar (\<lambda>v. on_cfg (RecoveryInterval_update (\<lambda>_. v)))),
     (''worker-batch-size'', IntVar (\<lambda>v. on_cfg (WorkerBatchSize_update (\<lambda>_. v)))),
     (''store-path'', StringVar (\<lambda>v. on_cfg (StorePath_update (\<lambda>_. v)))),
     (''store-max-size-bytes'', IntVar (\<lambda>v. on_cfg (StoreMaxSizeBytes_update (\<lambda>_. v)))),
     (''store-rotation-enabled'', BoolVar (\<lambda>v. on_cfg (StoreRotationEnabled_update (\<lambda>_. v)))),
     (''store-rotation-high-watermark-bytes'',
        IntVar (\<lambda>v. on_cfg (StoreRotationHighWatermark_update (\<lambda>_. v)))),
     (''store-rotation-low-watermark-bytes'',
        IntVar (\<lambda>v. on_cfg (StoreRotationLowWatermark_update (\<lambda>_. v)))),
     (''store-rotation-interval'', DurationVar (\<lambda>v. on_cfg (StoreRotationInterval_update (\<lambda>_. v)))),
     (''store-vacuum-after-rotation'', BoolVar (\<lambda>v. on_cfg (StoreVacuumAfterRotation_update (\<lambda>_. v)))),
     (''store-retention-delivered-hours'', IntVar (\<lambda>v fs. fs\<lparr>f_deliveredHours := v\<rparr>)),
     (''store-retention-dead-letter-hours'', IntVar (\<lambda>v fs. fs\<lparr>f_deadLetterHours := v\<rparr>))]"

text \<open>\<open>name\<close> and \<open>value\<close> of \<open>name=value\<close>; the name is not empty and does not start with \<open>=\<close>.\<close>

definition split_value :: "string \<Rightarrow> string \<times> string option" where
  "split_value s =
     (let name = takeWhile (\<lambda>c. c \<noteq> CHR ''='') s in
      if length name < length s then (name, Some (drop (Suc (length name)) s)) else (name, None))"

text \<open>\<open>FlagSet.Parse\<close>: one flag after the other; the first argument that is no flag ends it.\<close>

fun parse_flags :: "host \<Rightarrow> string list \<Rightarrow> flags \<Rightarrow> flags result" where
  "parse_flags H [] fs = Inr fs"
| "parse_flags H (s # args) fs =
     (if length s < 2 \<or> hd s \<noteq> CHR ''-'' then Inr fs
      else if s = ''--'' then Inr fs
      else
        let body = (if s ! 1 = CHR ''-'' then drop 2 s else drop 1 s) in
        if body = [] \<or> hd body = CHR ''-'' \<or> hd body = CHR ''='' then Inl (ErrText ''bad flag syntax'')
        else
          let (name, val) = split_value body in
          (case map_of formal_flags name of
             None \<Rightarrow>
               Inl (ErrText (if name = ''help'' \<or> name = ''h'' then ''flag: help requested''
                             else ''flag provided but not defined''))
           | Some flag \<Rightarrow>
               if is_bool_flag flag then
                 (case flag_Set H flag (case val of Some v \<Rightarrow> v | None \<Rightarrow> ''true'') fs of
                    None \<Rightarrow> Inl (ErrText ''invalid boolean value'')
                  | Some fs' \<Rightarrow> parse_flags H args fs')
               else
                 (case val of
                    Some v \<Rightarrow>
                      (case flag_Set H flag v fs of
                         None \<Rightarrow> Inl (ErrText ''invalid value'')
                       | Some fs' \<Rightarrow> parse_flags H args fs')
                  | None \<Rightarrow>
                      (case args of
                         [] \<Rightarrow> Inl (ErrText ''flag needs an argument'')
                       | v # rest \<Rightarrow>
                           (case flag_Set H flag v fs of
                              None \<Rightarrow> Inl (ErrText ''invalid value'')
                            | Some fs' \<Rightarrow> parse_flags H rest fs')))))"

section \<open>Parse\<close>

definition retention :: "int \<Rightarrow> duration" where
  "retention hours = wrap64 (hours * Hour)"

definition Parse :: "host \<Rightarrow> string list \<Rightarrow> Config result" where
  "Parse H args =
     (case parse_flags H args (default_flags H) of
        Inl e \<Rightarrow> Inl e
      | Inr fs \<Rightarrow>
          let cfg = (f_cfg fs)\<lparr>StoreRetentionDelivered := retention (f_deliveredHours fs),
                               StoreRetentionDeadLetter := retention (f_deadLetterHours fs)\<rparr>
          in (case Validate H cfg of Some e \<Rightarrow> Inl e | None \<Rightarrow> Inr cfg))"

lemma Parse_valid: "Parse H args = Inr cfg \<Longrightarrow> problems H cfg = []"
  by (auto simp: Parse_def Let_def Validate_None_iff split: sum.splits option.splits)

end
