(* ===== verification/Template.thy ===== *)
theory Template
  imports Config GoTime "HOL-Library.Char_ord" "HOL-Library.List_Lexorder"
begin

text \<open>
  The template data and the functions offered to templates (\<open>internal/template/renderer.go\<close>).
  Executing a template is \<open>text/template\<close> on a file the operator supplies: in the model it is
  the argument \<open>Execute\<close> of \<open>Render\<close>.  A map is visited in the order of its association list.
\<close>

section \<open>Data\<close>

type_synonym Pair = "string \<times> string"
type_synonym string_map = "(string, string) go_map"

record ActionLink =
  Link_Label :: string
  Link_URL :: string

record AlertData =
  Ad_Status :: string
  Ad_Name :: string
  Ad_Severity :: string
  Ad_Summary :: string
  Ad_Description :: string
  Ad_StartsAt :: instant
  Ad_EndsAt :: instant
  Ad_GeneratorURL :: string
  Ad_SilenceURL :: string
  Ad_DashboardURL :: string
  Ad_PanelURL :: string
  Ad_ValueString :: string
  Ad_Labels :: string_map
  Ad_Annotations :: string_map
  Ad_WhereLines :: "string list"
  Ad_SinceUTC :: string
  Ad_SinceLocal :: string
  Ad_SinceAgo :: string
  Ad_ResolvedUTC :: string
  Ad_ResolvedLocal :: string
  Ad_Duration :: string
  Ad_ActionLinks :: "ActionLink list"

record MessageData =
  Md_Receiver :: string
  Md_Status :: string
  Md_GroupKey :: string
  Md_ExternalURL :: string
  Md_Title :: string
  Md_Message :: string
  Md_FiringCount :: int
  Md_ResolvedCount :: int
  Md_TotalAlerts :: int
  Md_TruncatedAlerts :: int
  Md_CommonLabels :: string_map
  Md_CommonAnnotations :: string_map
  Md_Alerts :: "AlertData list"
  Md_PartIndex :: int
  Md_PartCount :: int
  Md_StatusIcon :: string
  Md_EnvironmentName :: string
  Md_EnvironmentIcon :: string
  Md_GroupContext :: string

definition noisyLabels :: "string list" where
  "noisyLabels =
     [''alertname'', ''severity'', ''status'', ''grafana_folder'', ''folder'', ''rule_uid'',
      ''dashboard_uid'', ''panel_id'', ''__alert_rule_uid__'', ''pod_template_hash'', ''__name__'',
      ''prometheus'']"

definition exporterPodPrefixes :: "string list" where
  "exporterPodPrefixes =
     [''kube-prometheus-stack-kube-state-metrics-'', ''kube-prometheus-stack-prometheus-node-exporter-'',
      ''kube-prometheus-stack-operator-'', ''kube-state-metrics-'', ''node-exporter-'']"

definition groupContextPriority :: "string list" where
  "groupContextPriority = [''namespace'', ''cluster'', ''service'', ''team'', ''environment'', ''env'']"

definition whereLabelPriority :: "string list" where
  "whereLabelPriority =
     [''deployment'', ''statefulset'', ''daemonset'', ''job_name'', ''namespace'', ''pod'', ''container'',
      ''instance'', ''node'', ''mount'', ''device'']"

section \<open>Text\<close>

text \<open>\<open>html.EscapeString\<close> and the ellipsis U+2026.\<close>

definition escape_char :: "char \<Rightarrow> string" where
  "escape_char c =
     (if c = CHR ''&'' then ''&amp;''
      else if c = CHR 0x27 then ''&#39;''
      else if c = CHR ''<'' then ''&lt;''
      else if c = CHR ''>'' then ''&gt;''
      else if c = quote then ''&#34;''
      else [c])"

definition EscapeString :: "string \<Rightarrow> string" where
  "EscapeString s = concat (map escape_char s)"

definition ellipsis :: string where
  "ellipsis = EncodeRune 0x2026"

definition sanitize :: "string \<Rightarrow> nat \<Rightarrow> string" where
  "sanitize value maxLen =
     (let trimmed = TrimSpace value in
      if trimmed = [] then []
      else
        let escaped = EscapeString trimmed; rs = runes escaped in
        if length rs \<le> maxLen then escaped
        else if maxLen \<le> 1 then string_of_runes (take maxLen rs)
        else string_of_runes (take (maxLen - 1) rs) @ ellipsis)"

definition truncate :: "string \<Rightarrow> int \<Rightarrow> string" where
  "truncate value limit =
     (if limit \<le> 0 \<or> value = [] then []
      else
        let rs = runes value in
        if int (length rs) \<le> limit then value
        else if limit = 1 then string_of_runes (take 1 rs)
        else string_of_runes (take (nat (limit - 1)) rs) @ ellipsis)"

fun firstNonEmpty :: "string list \<Rightarrow> string" where
  "firstNonEmpty [] = []"
| "firstNonEmpty (v # vs) = (if TrimSpace v \<noteq> [] then v else firstNonEmpty vs)"

definition orDash :: "string \<Rightarrow> string" where
  "orDash value = (if TrimSpace value = [] then EncodeRune 0x2014 else value)"

definition icon_key :: "host \<Rightarrow> string \<Rightarrow> string" where
  "icon_key H value = ToLower (unicode_lower H) (TrimSpace value)"

definition severityIcon :: "host \<Rightarrow> string \<Rightarrow> string" where
  "severityIcon H value =
     (let k = icon_key H value in
      if k = ''critical'' then EncodeRune 0x1F534
      else if k = ''warning'' then EncodeRune 0x1F7E0
      else if k = ''info'' then EncodeRune 0x1F7E1
      else EncodeRune 0x26AA)"

definition statusIcon :: "host \<Rightarrow> string \<Rightarrow> string" where
  "statusIcon H value =
     (let k = icon_key H value in
      if k = ''firing'' then EncodeRune 0x1F525
      else if k = ''resolved'' then EncodeRune 0x2705
      else EncodeRune 0x26AA)"

definition envIcon :: "host \<Rightarrow> string \<Rightarrow> string" where
  "envIcon H value =
     (let k = icon_key H value in
      if k = ''prod'' then EncodeRune 0x1F7E5
      else if k = ''staging'' then EncodeRune 0x1F7E8
      else if k = ''dev'' then EncodeRune 0x1F7E9
      else EncodeRune 0x2B1C)"

section \<open>Times\<close>

definition compactDuration :: "duration \<Rightarrow> string" where
  "compactDuration value0 =
     (let value = (if value0 < 0 then wrap64 (- value0) else value0) in
      if value < Minute then ''<1m''
      else
        let totalMinutes = Round value Minute div Minute in
        if totalMinutes < 60 then show_int totalMinutes @ ''m''
        else
          let totalHours = totalMinutes div 60; minutes = totalMinutes mod 60 in
          if totalHours < 24 then
            if minutes = 0 then show_int totalHours @ ''h''
            else show_int totalHours @ ''h'' @ show_int minutes @ ''m''
          else
            let days = totalHours div 24; hours = totalHours mod 24 in
            if hours = 0 then show_int days @ ''d''
            else show_int days @ ''d'' @ show_int hours @ ''h'')"

definition formatTemplateTime :: "instant \<Rightarrow> zone \<Rightarrow> string" where
  "formatTemplateTime value z =
     (if IsZero value then []
      else let t = local_instant value z in date_of t @ '' '' @ hour_minute t @ '' '' @ snd z)"

definition formatUTCTime :: "instant \<Rightarrow> string" where
  "formatUTCTime value = (if IsZero value then [] else formatTemplateTime value (0, ''UTC''))"

definition sinceTime :: "instant \<Rightarrow> instant \<Rightarrow> string" where
  "sinceTime t value =
     (if IsZero value then []
      else if t < value then ''in '' @ compactDuration (time_Sub value t)
      else compactDuration (time_Sub t value) @ '' ago'')"

definition durationBetween :: "instant \<Rightarrow> instant \<Rightarrow> string" where
  "durationBetween start end =
     (if IsZero start \<or> IsZero end \<or> end < start then [] else compactDuration (time_Sub end start))"

text \<open>The display location gives the zone in force at an instant.\<close>

type_synonym display = "(instant \<Rightarrow> zone) option"

definition formatLocalTime :: "display \<Rightarrow> instant \<Rightarrow> string" where
  "formatLocalTime loc value =
     (case loc of
        None \<Rightarrow> []
      | Some at \<Rightarrow>
          if IsZero value then []
          else if snd (at value) = ''UTC'' then []
          else hour_minute (local_instant value (at value)) @ '' '' @ snd (at value))"

definition formatSince :: "display \<Rightarrow> instant \<Rightarrow> instant \<Rightarrow> string \<times> string \<times> string" where
  "formatSince loc t value =
     (if IsZero value then ([], [], [])
      else (formatUTCTime value, formatLocalTime loc value, sinceTime t value))"

definition formatResolved :: "display \<Rightarrow> instant \<Rightarrow> string \<times> string" where
  "formatResolved loc value =
     (if IsZero value then ([], []) else (formatUTCTime value, formatLocalTime loc value))"

section \<open>Functions only the template calls\<close>

definition join :: "string list \<Rightarrow> string \<Rightarrow> string" where
  "join values separator = Join values separator"

definition list_values :: "string list \<Rightarrow> string list" where
  "list_values values = (if values = [] then [] else [] @ values)"

definition appendString :: "string list \<Rightarrow> string \<Rightarrow> string list" where
  "appendString values v = values @ [v]"

definition sub :: "int \<Rightarrow> int \<Rightarrow> int" where
  "sub left right = wrap64 (left - right)"

definition isZeroTime :: "instant \<Rightarrow> bool" where
  "isZeroTime v \<longleftrightarrow> IsZero v"

section \<open>Maps and pairs\<close>

text \<open>The dynamic types that the template functions tell apart.\<close>

datatype any_pairs = AnyNil | AnyPairs "Pair list" | AnyMap string_map | AnyOther

fun mapToPairs :: "any_pairs \<Rightarrow> Pair list" where
  "mapToPairs AnyNil = []"
| "mapToPairs (AnyPairs typed) = sort_key fst typed"
| "mapToPairs (AnyMap typed) = map (\<lambda>key. (key, map_get typed key)) (sort (map fst typed))"
| "mapToPairs AnyOther = []"

definition pairsToMap :: "Pair list \<Rightarrow> string_map" where
  "pairsToMap values = foldl (\<lambda>result (k, v). map_set k v result) [] values"

definition joinPairs :: "any_pairs \<Rightarrow> string" where
  "joinPairs values = Join (map (\<lambda>(k, v). k @ ''='' @ v) (mapToPairs values)) '', ''"

definition sanitizeStringMap :: "string_map \<Rightarrow> nat \<Rightarrow> nat \<Rightarrow> string_map" where
  "sanitizeStringMap values maxKeyLen maxValueLen =
     foldl (\<lambda>m (k, v). map_set (sanitize k maxKeyLen) (sanitize v maxValueLen) m) [] values"

text \<open>\<open>strings.EqualFold\<close>: the runes agree up to simple case folding.\<close>

definition fold_rune :: "host \<Rightarrow> nat \<Rightarrow> nat" where
  "fold_rune H r = (if r < 0x80 then ascii_upper r else unicode_fold H r)"

definition EqualFold :: "host \<Rightarrow> string \<Rightarrow> string \<Rightarrow> bool" where
  "EqualFold H s t \<longleftrightarrow> map (fold_rune H) (runes s) = map (fold_rune H) (runes t)"

definition isExporterPod :: "string \<Rightarrow> bool" where
  "isExporterPod name \<longleftrightarrow> list_ex (HasPrefix name) exporterPodPrefixes"

definition filterLabels :: "host \<Rightarrow> any_pairs \<Rightarrow> string_map" where
  "filterLabels H values =
     filter (\<lambda>(key, value). \<not> (ToLower (unicode_lower H) key \<in> set noisyLabels)
                \<and> \<not> (EqualFold H key ''pod'' \<and> isExporterPod value))
       (pairsToMap (mapToPairs values))"

text \<open>The first entry of the map whose key matches, as the inner loops with \<open>break\<close> find it.\<close>

definition find_fold :: "host \<Rightarrow> string_map \<Rightarrow> string \<Rightarrow> Pair option" where
  "find_fold H source key = find (\<lambda>(sourceKey, _). EqualFold H sourceKey key) source"

fun select_preferred :: "host \<Rightarrow> string_map \<Rightarrow> string list \<Rightarrow> string_map \<Rightarrow> string_map" where
  "select_preferred H source [] selected = selected"
| "select_preferred H source (key # preferred) selected =
     select_preferred H source preferred
       (case find_fold H source key of None \<Rightarrow> selected | Some (k, v) \<Rightarrow> map_set k v selected)"

definition selectOnlyPreferredLabels :: "host \<Rightarrow> string_map \<Rightarrow> string list \<Rightarrow> string_map" where
  "selectOnlyPreferredLabels H source preferred = select_preferred H source preferred []"

definition seen_keys :: "host \<Rightarrow> string_map \<Rightarrow> string list \<Rightarrow> string list" where
  "seen_keys H source preferred =
     map (\<lambda>(k, _). ToLower (unicode_lower H) k) (List.map_filter (find_fold H source) preferred)"

definition selectPriorityLabels :: "host \<Rightarrow> string_map \<Rightarrow> string list \<Rightarrow> string_map" where
  "selectPriorityLabels H source preferred =
     foldl (\<lambda>selected (k, v).
              if ToLower (unicode_lower H) k \<in> set (seen_keys H source preferred) then selected
              else map_set k v selected)
       (select_preferred H source preferred []) source"

definition orderedLabelPairs :: "host \<Rightarrow> string_map \<Rightarrow> string list \<Rightarrow> Pair list" where
  "orderedLabelPairs H source preferred =
     List.map_filter (find_fold H source) preferred
     @ sort_key fst
         (filter (\<lambda>(k, _). ToLower (unicode_lower H) k \<notin> set (seen_keys H source preferred)) source)"

definition renderGroupContext :: "host \<Rightarrow> string_map \<Rightarrow> string" where
  "renderGroupContext H labels =
     (let preferred = selectOnlyPreferredLabels H (filterLabels H (AnyMap labels)) groupContextPriority;
          selected = (if preferred = [] then filterLabels H (AnyMap labels) else preferred)
      in if selected = [] then [] else joinPairs (AnyMap selected))"

definition renderWhereLines :: "host \<Rightarrow> string_map \<Rightarrow> string list" where
  "renderWhereLines H labels =
     map (\<lambda>(k, v). ''- '' @ k @ '': '' @ v)
       (orderedLabelPairs H (filterLabels H (AnyMap labels)) whereLabelPriority)"

definition link :: "nat \<Rightarrow> string \<Rightarrow> string \<Rightarrow> ActionLink list" where
  "link icon label url =
     (if url \<noteq> [] then [\<lparr> Link_Label = EncodeRune icon @ '' '' @ label, Link_URL = url \<rparr>] else [])"

definition buildActionLinks :: "string_map \<Rightarrow> string \<Rightarrow> string \<Rightarrow> string \<Rightarrow> string \<Rightarrow> ActionLink list" where
  "buildActionLinks annotations generatorURL dashboardURL panelURL silenceURL =
     link 0x1F4D5 ''runbook'' (TrimSpace (map_get annotations ''runbook_url''))
     @ link 0x1F4CA ''graph'' generatorURL
     @ link 0x1F4C8 ''dashboard'' dashboardURL
     @ link 0x1F50D ''panel'' panelURL
     @ link 0x1F515 ''silence'' silenceURL"

fun pick :: "string_map \<Rightarrow> string list \<Rightarrow> string" where
  "pick source [] = []"
| "pick source (key # keys) =
     (if TrimSpace (map_get source key) \<noteq> [] then TrimSpace (map_get source key) else pick source keys)"

definition pickFirst :: "any_pairs \<Rightarrow> string list \<Rightarrow> string" where
  "pickFirst values keys = pick (pairsToMap (mapToPairs values)) keys"

definition normalizeEnvironment :: "host \<Rightarrow> string \<Rightarrow> string" where
  "normalizeEnvironment H value =
     (let normalized = ToLower (unicode_lower H) (TrimSpace value) in
      if normalized = [] then []
      else if normalized = ''prod'' \<or> normalized = ''production'' then ''prod''
      else if normalized = ''staging'' \<or> normalized = ''stage'' then ''staging''
      else if normalized = ''dev'' \<or> normalized = ''development'' \<or> normalized = ''test'' then ''dev''
      else if Contains normalized ''prod'' then ''prod''
      else if Contains normalized ''stag'' then ''staging''
      else if Contains normalized ''dev'' \<or> Contains normalized ''test'' then ''dev''
      else [])"

fun first_environment :: "host \<Rightarrow> string list \<Rightarrow> string" where
  "first_environment H [] = []"
| "first_environment H (candidate # candidates) =
     (let normalized = normalizeEnvironment H candidate in
      if normalized \<in> {''prod'', ''staging'', ''dev''} then normalized
      else first_environment H candidates)"

definition environmentName :: "host \<Rightarrow> any_pairs \<Rightarrow> string" where
  "environmentName H values =
     (let source = pairsToMap (mapToPairs values) in
      first_environment H (map (map_get source) [''env'', ''environment'', ''cluster'']))"

definition formatValues :: "host \<Rightarrow> (string, json_value) go_map \<Rightarrow> string" where
  "formatValues H values =
     Join (map (\<lambda>key. key @ ''='' @ (case map_of values key of None \<Rightarrow> ''<nil>'' | Some v \<Rightarrow> fmt_v H v))
            (sort (map fst values))) '', ''"

section \<open>Building the data\<close>

definition alert_data :: "host \<Rightarrow> display \<Rightarrow> instant \<Rightarrow> Alert \<Rightarrow> AlertData" where
  "alert_data H loc t alert =
     (let labels = sanitizeStringMap (Alert_Labels alert) 128 1024;
          annotations = sanitizeStringMap (Alert_Annotations alert) 128 2048;
          (startUTC, startLocal, startAgo) = formatSince loc t (Alert_StartsAt alert);
          (resolvedUTC, resolvedLocal) = formatResolved loc (Alert_EndsAt alert);
          label = map_get (Alert_Labels alert);
          annotation = map_get (Alert_Annotations alert)
      in \<lparr> Ad_Status = sanitize (Alert_Status alert) 32,
           Ad_Name = sanitize (firstNonEmpty [label ''alertname'', Alert_Fingerprint alert, ''unnamed-alert'']) 256,
           Ad_Severity = sanitize (firstNonEmpty [label ''severity'', ''unknown'']) 64,
           Ad_Summary = sanitize (firstNonEmpty [annotation ''summary'', annotation ''message'']) 1024,
           Ad_Description = sanitize (annotation ''description'') 4096,
           Ad_StartsAt = Alert_StartsAt alert,
           Ad_EndsAt = Alert_EndsAt alert,
           Ad_GeneratorURL = sanitize (Alert_GeneratorURL alert) 2048,
           Ad_SilenceURL = sanitize (Alert_SilenceURL alert) 2048,
           Ad_DashboardURL = sanitize (Alert_DashboardURL alert) 2048,
           Ad_PanelURL = sanitize (Alert_PanelURL alert) 2048,
           Ad_ValueString = sanitize (firstNonEmpty [Alert_ValueString alert, formatValues H (Alert_Values alert)]) 1024,
           Ad_Labels = labels,
           Ad_Annotations = annotations,
           Ad_WhereLines = renderWhereLines H labels,
           Ad_SinceUTC = startUTC,
           Ad_SinceLocal = startLocal,
           Ad_SinceAgo = startAgo,
           Ad_ResolvedUTC = resolvedUTC,
           Ad_ResolvedLocal = resolvedLocal,
           Ad_Duration = durationBetween (Alert_StartsAt alert) (Alert_EndsAt alert),
           Ad_ActionLinks =
             buildActionLinks annotations (sanitize (Alert_GeneratorURL alert) 2048)
               (sanitize (Alert_DashboardURL alert) 2048) (sanitize (Alert_PanelURL alert) 2048)
               (sanitize (Alert_SilenceURL alert) 2048) \<rparr>)"

text \<open>Every alert reads the clock once; \<open>nows i\<close> is what the \<open>i\<close>-th read returns.\<close>

definition BuildData :: "host \<Rightarrow> display \<Rightarrow> (nat \<Rightarrow> instant) \<Rightarrow> WebhookPayload \<Rightarrow> MessageData" where
  "BuildData H loc nows payload =
     (let alerts = map (\<lambda>(i, alert). alert_data H loc (nows i) alert) (enumerate 0 (Payload_Alerts payload));
          commonLabels = sanitizeStringMap (Payload_CommonLabels payload) 128 1024;
          envName = environmentName H (AnyMap commonLabels)
      in \<lparr> Md_Receiver = sanitize (Payload_Receiver payload) 128,
           Md_Status = sanitize (Payload_Status payload) 32,
           Md_GroupKey = sanitize (Payload_GroupKey payload) 256,
           Md_ExternalURL = sanitize (Payload_ExternalURL payload) 2048,
           Md_Title = sanitize (Payload_Title payload) 256,
           Md_Message = sanitize (Payload_Message payload) 2048,
           Md_FiringCount = FiringCount payload,
           Md_ResolvedCount = ResolvedCount payload,
           Md_TotalAlerts = wrap64 (int (length (Payload_Alerts payload)) + Payload_TruncatedAlerts payload),
           Md_TruncatedAlerts = Payload_TruncatedAlerts payload,
           Md_CommonLabels = commonLabels,
           Md_CommonAnnotations = sanitizeStringMap (Payload_CommonAnnotations payload) 128 2048,
           Md_Alerts = alerts,
           Md_PartIndex = 1,
           Md_PartCount = 1,
           Md_StatusIcon = statusIcon H (Payload_Status payload),
           Md_EnvironmentName = ToUpper (unicode_upper H) envName,
           Md_EnvironmentIcon = envIcon H envName,
           Md_GroupContext = renderGroupContext H commonLabels \<rparr>)"

fun count_alert_data :: "string \<Rightarrow> AlertData list \<Rightarrow> int \<Rightarrow> int" where
  "count_alert_data st [] count = count"
| "count_alert_data st (alert # alerts) count =
     count_alert_data st alerts (if Ad_Status alert = st then wrap64 (count + 1) else count)"

definition CloneWithAlerts :: "MessageData \<Rightarrow> AlertData list \<Rightarrow> int \<Rightarrow> int \<Rightarrow> MessageData" where
  "CloneWithAlerts data alerts partIndex partCount =
     data\<lparr>Md_Alerts := alerts,
          Md_TotalAlerts := wrap64 (int (length alerts) + Md_TruncatedAlerts data),
          Md_FiringCount := count_alert_data ''firing'' alerts 0,
          Md_ResolvedCount := count_alert_data ''resolved'' alerts 0,
          Md_PartIndex := partIndex,
          Md_PartCount := partCount\<rparr>"

end
