(* ===== verification/TemplateFacts.thy ===== *)
theory TemplateFacts
  imports Template
begin

text \<open>
  What sanitising guarantees for a template that interpolates text into Telegram's HTML mode:
  the markup characters are gone and the length is bounded.  Truncation happens after escaping,
  so it can cut an entity in two.
\<close>

section \<open>No markup\<close>

definition markup :: "char \<Rightarrow> bool" where
  "markup c \<longleftrightarrow> c \<in> {CHR ''<'', CHR ''>'', CHR 0x22, CHR 0x27}"

lemma markup_ascii: "markup c \<Longrightarrow> byte c < 0x80"
  by (auto simp: markup_def byte_def)

lemma escape_no_markup: "c \<in> set (EscapeString s) \<Longrightarrow> \<not> markup c"
  by (auto simp: EscapeString_def escape_char_def markup_def quote_def split: if_splits)

lemma string_of_runes_markup: "c \<in> set (string_of_runes rs) \<Longrightarrow> markup c \<Longrightarrow> byte c \<in> set rs"
  by (auto simp: string_of_runes_def dest: EncodeRune_ascii_char markup_ascii)

lemma rune_ascii_chunk:
  assumes "ch \<in> set (chunks s)" and "fst (DecodeRune ch) = byte c" and "byte c < 0x80"
  shows "c \<in> set ch"
proof -
  have "DecodeRune ch \<noteq> (RuneError, 1)" using assms(2,3) by (auto simp: RuneError_def)
  then have "EncodeRune (byte c) = take (snd (DecodeRune ch)) ch"
    using encode_decode [of ch] chunk_nonempty [OF assms(1)] assms(2) by simp
  moreover have "snd (DecodeRune ch) = length ch" by (rule chunk_decode [OF assms(1)])
  ultimately have "ch = [c]" using assms(3) by (simp add: EncodeRune_ascii)
  then show ?thesis by simp
qed

lemma runes_markup: "byte c \<in> set (runes s) \<Longrightarrow> byte c < 0x80 \<Longrightarrow> c \<in> set s"
  using rune_ascii_chunk [of _ s c] concat_chunks [of s]
  by (metis (no_types, lifting) UN_I imageE list.set_map runes_def set_concat)

lemma truncated_no_markup:
  assumes "\<forall>c \<in> set s. \<not> markup c" and "c \<in> set (string_of_runes (take n (runes s)))"
  shows "\<not> markup c"
  using assms string_of_runes_markup [of c] runes_markup [of c s] markup_ascii [of c] in_set_takeD
  by metis

lemma ellipsis_no_markup: "c \<in> set ellipsis \<Longrightarrow> \<not> markup c"
  using EncodeRune_ascii_char [of c "0x2026"] markup_ascii [of c] by (auto simp: ellipsis_def)

lemma sanitize_markup: "c \<in> set (sanitize value n) \<Longrightarrow> \<not> markup c"
  using truncated_no_markup [of "EscapeString (TrimSpace value)" c] escape_no_markup [of _ "TrimSpace value"]
    ellipsis_no_markup [of c]
  by (auto simp: sanitize_def Let_def split: if_splits)

section \<open>Bounded length\<close>

lemma RuneCount_ellipsis: "RuneCountInString (s @ ellipsis) = Suc (RuneCountInString s)" if "s = string_of_runes rs"
proof -
  have "s @ ellipsis = string_of_runes (rs @ [0x2026])"
    using that by (simp add: string_of_runes_def ellipsis_def)
  then show ?thesis using that by simp
qed

lemma length_runes: "length (runes s) = RuneCountInString s"
  by (simp add: runes_def RuneCountInString_def)

lemma sanitize_length: "RuneCountInString (sanitize value n) \<le> n"
  by (auto simp: sanitize_def Let_def RuneCount_ellipsis [OF refl] length_runes)

lemma truncate_length: "0 \<le> n \<Longrightarrow> int (RuneCountInString (truncate value n)) \<le> n"
  by (auto simp: truncate_def Let_def RuneCount_ellipsis [OF refl] length_runes)

section \<open>The alerts left out\<close>

text \<open>
  The template announces \<open>sub .TotalAlerts (len .Alerts)\<close> more alerts: in every message that is the
  number the sender says it has truncated.
\<close>

lemma more_alerts:
  "sub (Md_TotalAlerts (CloneWithAlerts data alerts i n)) (int (length (Md_Alerts (CloneWithAlerts data alerts i n))))
   = wrap64 (Md_TruncatedAlerts data)"
  "sub (Md_TotalAlerts (BuildData H loc nows payload)) (int (length (Md_Alerts (BuildData H loc nows payload))))
   = wrap64 (Payload_TruncatedAlerts payload)"
  by (simp_all add: sub_def CloneWithAlerts_def BuildData_def Let_def wrap64_sub_add)

end
