(* ===== verification/Telegram.thy ===== *)
theory Telegram
  imports ConfigParse GoTime GoJson World
begin

text \<open>
  The Telegram client (\<open>internal/telegram/client.go\<close>).  The HTTP transport, the decoding of a
  response body and \<open>http.ParseTime\<close> are fields of \<open>wire\<close>; everything the client makes of
  them is translated.  A call returns its metric label and its result.
\<close>

section \<open>What the network can answer\<close>

text \<open>
  A failed request, as far as \<open>errors.Is\<close> and \<open>errors.As\<close> can tell: the context sentinel in
  its chain, its \<open>net.Error\<close> (with \<open>Timeout()\<close>), \<open>*net.DNSError\<close>, \<open>*net.OpError\<close> and
  \<open>syscall.Errno\<close>.
\<close>

datatype Errno = ECONNREFUSED | ECONNRESET | EPIPE | ETIMEDOUT | OtherErrno int

record net_failure =
  nf_ctx :: "ctx_err option"
  nf_net_timeout :: "bool option"
  nf_dns :: bool
  nf_op :: bool
  nf_errno :: "Errno option"
  nf_text :: string

record response =
  resp_StatusCode :: int
  resp_RetryAfter :: string
  resp_Body :: "string + string"

record sendMessageResponse =
  OK :: bool
  resp_Description :: string
  resp_ErrorCode :: int
  resp_RetryAfterParam :: int
  MigrateToChatID :: int
  ResultMessageID :: int
  ResultChatID :: int

record wire =
  NewRequest :: "string \<Rightarrow> err option"
  Do :: "string \<Rightarrow> string \<Rightarrow> net_failure + response"
  Unmarshal :: "string \<Rightarrow> sendMessageResponse \<times> err option"
  ParseTime :: "string \<Rightarrow> instant option"
  wire_now :: instant

section \<open>The client\<close>

type_synonym stringReplacer = "string \<times> string"

record HTTPClient =
  baseURL :: string
  token :: string
  client_Timeout :: duration
  userAgent :: string
  maxBody :: int
  proxyURLRaw :: string
  customHTTPClient :: bool
  sensitiveReplacers :: "stringReplacer list"

definition defaultMaxResponseBytes :: int where
  "defaultMaxResponseBytes = 1048576"

datatype option_fn =
    WithBaseURL string
  | WithProxyURL string
  | WithHTTPClient duration
  | WithUserAgent string
  | WithMaxResponseBytes int

fun apply_option :: "HTTPClient \<Rightarrow> option_fn \<Rightarrow> HTTPClient" where
  "apply_option c (WithBaseURL rawURL) = (if rawURL \<noteq> [] then c\<lparr>baseURL := TrimSpace rawURL\<rparr> else c)"
| "apply_option c (WithProxyURL rawURL) = c\<lparr>proxyURLRaw := TrimSpace rawURL\<rparr>"
| "apply_option c (WithHTTPClient timeout) = c\<lparr>client_Timeout := timeout, customHTTPClient := True\<rparr>"
| "apply_option c (WithUserAgent ua) = (if ua \<noteq> [] then c\<lparr>userAgent := ua\<rparr> else c)"
| "apply_option c (WithMaxResponseBytes n) = (if 0 < n then c\<lparr>maxBody := n\<rparr> else c)"

definition normalizeBaseURL :: "host \<Rightarrow> string \<Rightarrow> string result" where
  "normalizeBaseURL H raw =
     (let rawURL = TrimSpace raw in
      if rawURL = [] then Inl (ErrText ''telegram base URL must not be empty'')
      else
        (case url_Parse H rawURL of
           Inl e \<Rightarrow> Inl (Wrapped ''parse telegram base URL'' e)
         | Inr parsed \<Rightarrow>
             if Scheme parsed \<noteq> ''http'' \<and> Scheme parsed \<noteq> ''https'' then
               Inl (ErrText (''telegram base URL scheme '' @ Quote (unicode_print H) (Scheme parsed) @ '' is not supported''))
             else if Url_Host parsed = [] then Inl (ErrText ''telegram base URL must include a host'')
             else if Url_User parsed \<noteq> None then
               Inl (ErrText ''telegram base URL must not contain credentials'')
             else if RawQuery parsed \<noteq> [] \<or> Fragment parsed \<noteq> [] then
               Inl (ErrText ''telegram base URL must not contain query parameters or fragments'')
             else Inr (TrimRightByte (url_String H parsed) (CHR ''/''))))"

definition parseProxyURL :: "host \<Rightarrow> string \<Rightarrow> url option result" where
  "parseProxyURL H raw =
     (let rawURL = TrimSpace raw in
      if rawURL = [] then Inr None
      else
        (case url_Parse H rawURL of
           Inl e \<Rightarrow> Inl (Wrapped ''parse telegram proxy URL'' e)
         | Inr parsed \<Rightarrow>
             if Url_Host parsed = [] then Inl (ErrText ''telegram proxy URL must include a host'')
             else if RawQuery parsed \<noteq> [] \<or> Fragment parsed \<noteq> [] then
               Inl (ErrText ''telegram proxy URL must not contain query parameters or fragments'')
             else if Path parsed \<noteq> [] \<and> Path parsed \<noteq> ''/'' then
               Inl (ErrText ''telegram proxy URL must not contain a path'')
             else
               let scheme = ToLower (unicode_lower H) (Scheme parsed) in
               if scheme \<in> {''http'', ''https'', ''socks5''} then Inr (Some parsed)
               else if scheme = ''mtproto'' then
                 Inl (ErrText (''mtproto proxies are not supported for the HTTP Telegram Bot API client; ''
                   @ ''use socks5/http(s), a local Bot API server, or network-level egress instead''))
               else Inl (ErrText (''telegram proxy URL scheme '' @ Quote (unicode_print H) (Scheme parsed) @ '' is not supported''))))"

definition sanitizeURLForLog :: "host \<Rightarrow> url \<Rightarrow> string" where
  "sanitizeURLForLog H u =
     url_String H (u\<lparr>Url_User := None, RawQuery := [], Fragment := [], Path := []\<rparr>)"

definition redacted :: string where
  "redacted = ''[REDACTED]''"

definition buildSensitiveReplacers :: "host \<Rightarrow> string \<Rightarrow> url option \<Rightarrow> stringReplacer list" where
  "buildSensitiveReplacers H tok proxyURL =
     (if tok \<noteq> [] then [(tok, redacted)] else [])
     @ (case proxyURL of
          None \<Rightarrow> []
        | Some u \<Rightarrow>
            (case Url_User u of
               None \<Rightarrow> []
             | Some user \<Rightarrow>
                 let userInfo = userinfo_String H user; sanitized = sanitizeURLForLog H u in
                 (if userInfo \<noteq> [] then [(userInfo @ ''@'', redacted @ ''@'')] else [])
                 @ (if sanitized \<noteq> url_String H u then [(url_String H u, sanitized)] else [])))"

text \<open>
  The transport for a proxy: \<open>http\<close> and \<open>https\<close> always give one, \<open>socks5\<close> as far as
  \<open>proxy.FromURL\<close> of \<open>golang.org/x/net\<close> (the argument \<open>FromURL\<close>) allows.
\<close>

definition newTransport :: "host \<Rightarrow> (url \<Rightarrow> err option) \<Rightarrow> url option \<Rightarrow> unit result" where
  "newTransport H FromURL proxyURL =
     (case proxyURL of
        None \<Rightarrow> Inr ()
      | Some u \<Rightarrow>
          let scheme = ToLower (unicode_lower H) (Scheme u) in
          if scheme \<in> {''http'', ''https''} then Inr ()
          else if scheme = ''socks5'' then
            (case FromURL u of
               Some e \<Rightarrow> Inl (Wrapped ''configure telegram socks5 proxy'' e)
             | None \<Rightarrow> Inr ())
          else Inl (ErrText (''unsupported telegram proxy scheme '' @ Quote (unicode_print H) (Scheme u))))"

definition NewHTTPClient ::
  "host \<Rightarrow> (url \<Rightarrow> err option) \<Rightarrow> string \<Rightarrow> duration \<Rightarrow> option_fn list \<Rightarrow> HTTPClient result" where
  "NewHTTPClient H FromURL tok timeout opts =
     (let c = foldl apply_option
                \<lparr> baseURL = ''https://api.telegram.org'', token = tok, client_Timeout = 0,
                  userAgent = ''webhook-telegram-proxy'', maxBody = defaultMaxResponseBytes,
                  proxyURLRaw = [], customHTTPClient = False, sensitiveReplacers = [] \<rparr> opts
      in case normalizeBaseURL H (baseURL c) of
           Inl e \<Rightarrow> Inl e
         | Inr base \<Rightarrow>
             (case parseProxyURL H (proxyURLRaw c) of
                Inl e \<Rightarrow> Inl e
              | Inr proxyURL \<Rightarrow>
                  if customHTTPClient c \<and> proxyURL \<noteq> None then
                    Inl (ErrText ''telegram proxy URL cannot be combined with a custom HTTP client'')
                  else
                    (case (if customHTTPClient c then Inr () else newTransport H FromURL proxyURL) of
                       Inl e \<Rightarrow> Inl e
                     | Inr _ \<Rightarrow>
                         let t0 = (if customHTTPClient c then client_Timeout c else timeout);
                             t = (if t0 = 0 \<and> 0 < timeout then timeout else t0)
                         in Inr (c\<lparr>baseURL := base, client_Timeout := t,
                                   sensitiveReplacers := buildSensitiveReplacers H (token c) proxyURL\<rparr>))))"

section \<open>Errors\<close>

fun redact_with :: "stringReplacer list \<Rightarrow> string \<Rightarrow> string" where
  "redact_with [] s = s"
| "redact_with ((old, new) # replacers) s =
     redact_with replacers (if old \<noteq> [] \<and> Contains s old then ReplaceAll s old new else s)"

definition redact :: "HTTPClient \<Rightarrow> string \<Rightarrow> string" where
  "redact c s = redact_with (sensitiveReplacers c) s"

definition redactError :: "HTTPClient \<Rightarrow> err \<Rightarrow> err" where
  "redactError c e = Rephrased (redact c (err_text e)) e"

definition classifyNetworkError :: "net_failure \<Rightarrow> bool \<times> string" where
  "classifyNetworkError f =
     (if nf_ctx f = Some Canceled then (False, ''canceled'')
      else if nf_ctx f = Some DeadlineExceeded then (True, ''timeout'')
      else if nf_net_timeout f = Some True then (True, ''timeout'')
      else if nf_dns f then (True, ''dns'')
      else if nf_op f then (True, ''network'')
      else if nf_errno f \<in> {Some ECONNREFUSED, Some ECONNRESET, Some EPIPE, Some ETIMEDOUT} then (True, ''network'')
      else (True, ''unknown''))"

definition parseRetryAfterHeader :: "wire \<Rightarrow> string \<Rightarrow> duration" where
  "parseRetryAfterHeader W h =
     (let by_date =
        (case ParseTime W h of
           None \<Rightarrow> 0
         | Some t \<Rightarrow> let d = time_Sub t (wire_now W) in if 0 < d then d else 0)
      in if h = [] then 0
         else
           (case ParseInt False (TrimSpace h) of
              None \<Rightarrow> by_date
            | Some secs \<Rightarrow> if 0 < secs then wrap64 (secs * Second) else by_date))"

definition resultLabelFor :: "int \<Rightarrow> bool \<Rightarrow> err option \<Rightarrow> string" where
  "resultLabelFor statusCode ok decodeErr =
     (if statusCode = 429 then ''throttled''
      else if statusCode \<ge> 500 then ''server_error''
      else if statusCode \<ge> 400 then ''client_error''
      else if decodeErr \<noteq> None then ''decode_error''
      else if \<not> ok then ''client_error''
      else ''success'')"

text \<open>\<open>http.StatusText\<close>.\<close>

definition status_texts :: "(int \<times> string) list" where
  "status_texts =
     [(100, ''Continue''), (101, ''Switching Protocols''), (102, ''Processing''), (103, ''Early Hints''),
      (200, ''OK''), (201, ''Created''), (202, ''Accepted''), (203, ''Non-Authoritative Information''),
      (204, ''No Content''), (205, ''Reset Content''), (206, ''Partial Content''), (207, ''Multi-Status''),
      (208, ''Already Reported''), (226, ''IM Used''), (300, ''Multiple Choices''),
      (301, ''Moved Permanently''), (302, ''Found''), (303, ''See Other''), (304, ''Not Modified''),
      (305, ''Use Proxy''), (307, ''Temporary Redirect''), (308, ''Permanent Redirect''),
      (400, ''Bad Request''), (401, ''Unauthorized''), (402, ''Payment Required''), (403, ''Forbidden''),
      (404, ''Not Found''), (405, ''Method Not Allowed''), (406, ''Not Acceptable''),
      (407, ''Proxy Authentication Required''), (408, ''Request Timeout''), (409, ''Conflict''),
      (410, ''Gone''), (411, ''Length Required''), (412, ''Precondition Failed''),
      (413, ''Request Entity Too Large''), (414, ''Request URI Too Long''),
      (415, ''Unsupported Media Type''), (416, ''Requested Range Not Satisfiable''),
      (417, ''Expectation Failed''), (418, ''I'' @ [CHR 0x27] @ ''m a teapot''), (421, ''Misdirected Request''),
      (422, ''Unprocessable Entity''), (423, ''Locked''), (424, ''Failed Dependency''), (425, ''Too Early''),
      (426, ''Upgrade Required''), (428, ''Precondition Required''), (429, ''Too Many Requests''),
      (431, ''Request Header Fields Too Large''), (451, ''Unavailable For Legal Reasons''),
      (500, ''Internal Server Error''), (501, ''Not Implemented''), (502, ''Bad Gateway''),
      (503, ''Service Unavailable''), (504, ''Gateway Timeout''), (505, ''HTTP Version Not Supported''),
      (506, ''Variant Also Negotiates''), (507, ''Insufficient Storage''), (508, ''Loop Detected''),
      (510, ''Not Extended''), (511, ''Network Authentication Required'')]"

definition StatusText :: "int \<Rightarrow> string" where
  "StatusText code = map_get status_texts code"

definition buildAPIError ::
  "HTTPClient \<Rightarrow> int \<Rightarrow> sendMessageResponse \<Rightarrow> err option \<Rightarrow> duration \<Rightarrow> APIError" where
  "buildAPIError c statusCode parsed unmarshalErr retryAfter =
     (let d1 = TrimSpace (resp_Description parsed);
          d2 = (if d1 = [] \<and> unmarshalErr \<noteq> None then ''unparseable response body'' else d1);
          d3 = (if d2 = [] then StatusText statusCode else d2);
          description = (if d3 = [] then ''telegram error'' else d3);
          retryable = (statusCode = 429 \<or> statusCode \<ge> 500 \<or> (unmarshalErr \<noteq> None \<and> statusCode < 400))
      in \<lparr> StatusCode = statusCode, ErrorCode = resp_ErrorCode parsed, Description = redact c description,
           Retryable = retryable, RetryAfter = retryAfter \<rparr>)"

section \<open>Sending\<close>

text \<open>\<open>json.Marshal(sendMessageRequest{...})\<close>; an empty parse mode is left out.\<close>

definition marshal_request :: "string \<Rightarrow> string \<Rightarrow> string \<Rightarrow> string" where
  "marshal_request chatID text parseMode =
     ''{'' @ marshal_string ''chat_id'' @ '':'' @ marshal_string chatID
     @ '','' @ marshal_string ''text'' @ '':'' @ marshal_string text
     @ (if parseMode \<noteq> [] then '','' @ marshal_string ''parse_mode'' @ '':'' @ marshal_string parseMode else [])
     @ '','' @ marshal_string ''disable_web_page_preview'' @ '':true}''"

definition transport_error :: "int \<Rightarrow> string \<Rightarrow> bool \<Rightarrow> err" where
  "transport_error statusCode description retryable =
     ApiErr \<lparr> StatusCode = statusCode, ErrorCode = 0, Description = description, Retryable = retryable,
              RetryAfter = 0 \<rparr>"

text \<open>What \<open>SendMessage\<close> does with a response.\<close>

definition read_response :: "HTTPClient \<Rightarrow> wire \<Rightarrow> response \<Rightarrow> string \<times> SentMessage result" where
  "read_response c W resp =
     (let limit = (if maxBody c \<le> 0 then defaultMaxResponseBytes else maxBody c) in
      case resp_Body resp of
        Inl readErr \<Rightarrow> (''network'', Inl (transport_error (resp_StatusCode resp) (redact c readErr) True))
      | Inr whole \<Rightarrow>
          let body = take (nat (wrap64 (limit + 1))) whole in
          if int (length body) > limit then
            (''decode_error'',
             Inl (transport_error (resp_StatusCode resp) ''response body exceeds size limit'' True))
          else
            let (parsed, unmarshalErr) = Unmarshal W body;
                statusCode =
                  (if resp_StatusCode resp < 400 \<and> \<not> OK parsed \<and> resp_ErrorCode parsed \<noteq> 0
                   then resp_ErrorCode parsed else resp_StatusCode resp);
                r0 = wrap64 (resp_RetryAfterParam parsed * Second);
                retryAfter = (if r0 = 0 then parseRetryAfterHeader W (resp_RetryAfter resp) else r0)
            in if resp_StatusCode resp \<ge> 400 \<or> \<not> OK parsed \<or> unmarshalErr \<noteq> None then
                 (resultLabelFor statusCode (OK parsed) unmarshalErr,
                  Inl (ApiErr (buildAPIError c statusCode parsed unmarshalErr retryAfter)))
               else
                 (''success'', Inr \<lparr> MessageID = ResultMessageID parsed, ChatID = ResultChatID parsed \<rparr>))"

definition SendMessage ::
  "HTTPClient \<Rightarrow> wire \<Rightarrow> string \<Rightarrow> string \<Rightarrow> string \<Rightarrow> string \<times> SentMessage result" where
  "SendMessage c W chatID text parseMode =
     (if token c = [] then
        (''client_error'', Inl (transport_error 0 ''telegram bot token is not configured'' False))
      else
        let body = marshal_request chatID text parseMode;
            requestURL = baseURL c @ ''/bot'' @ token c @ ''/sendMessage''
        in case NewRequest W requestURL of
             Some e \<Rightarrow> (''client_error'', Inl (redactError c e))
           | None \<Rightarrow>
               (case Do W requestURL body of
                  Inl f \<Rightarrow>
                    let (retryable, reason) = classifyNetworkError f
                    in (reason, Inl (transport_error 0 (redact c (nf_text f)) retryable))
                | Inr resp \<Rightarrow> read_response c W resp))"

end
