(* ===== verification/TelegramFacts.thy ===== *)
theory TelegramFacts
  imports Telegram
begin

text \<open>
  Facts about the Telegram client: redaction removes the bot token from every error description,
  and the retry decision follows the status code.
\<close>

section \<open>Occurrences\<close>

lemma HasPrefix_iff: "HasPrefix s p \<longleftrightarrow> (\<exists>b. s = p @ b)"
  unfolding HasPrefix_def by (metis append_eq_conv_conj append_take_drop_id)

lemma Contains_iff: "Contains s sub \<longleftrightarrow> (\<exists>a b. s = a @ sub @ b)"
proof (induction s)
  case Nil
  then show ?case by auto
next
  case (Cons c s)
  have "(\<exists>a b. c # s = a @ sub @ b) \<longleftrightarrow> (\<exists>b. c # s = sub @ b) \<or> (\<exists>a b. s = a @ sub @ b)"
    by (metis append_Cons append_Nil list.exhaust list.sel(3))
  with Cons show ?case by (simp add: HasPrefix_iff)
qed

lemma Contains_set: "Contains s sub \<Longrightarrow> set sub \<subseteq> set s"
  by (auto simp: Contains_iff)

lemma Contains_split:
  assumes "Contains (p @ x # q) sub" and "x \<notin> set sub"
  shows "Contains p sub \<or> Contains q sub"
  using assms
proof (induction p)
  case Nil
  then show ?case
    by (cases sub) (auto simp: HasPrefix_def)
next
  case (Cons c p)
  show ?case
  proof (cases "HasPrefix (c # p @ x # q) sub")
    case True
    then obtain b where b: "c # p @ x # q = sub @ b" by (auto simp: HasPrefix_iff)
    then have "length sub \<le> length (c # p)"
    proof -
      have "take (length sub) (c # p @ x # q) = sub" using b by simp
      then show ?thesis using Cons.prems(2)
        by (metis (no_types, lifting) append_Cons in_set_conv_nth length_append length_take
            min.absorb2 min.cobounded1 not_le nth_append_length nth_take take_all_iff nat_le_linear
            length_Cons)
    qed
    then have "HasPrefix (c # p) sub"
      using True by (simp add: HasPrefix_def take_Cons' split: if_splits)
    then show ?thesis by simp
  next
    case False
    with Cons show ?thesis by simp
  qed
qed

section \<open>Redaction\<close>

text \<open>
  A bot token, \<open>id:secret\<close>, has a colon and no bracket, so it cannot overlap with the
  replacement text.
\<close>

definition token_shape :: "string \<Rightarrow> bool" where
  "token_shape tok \<longleftrightarrow> CHR '':'' \<in> set tok \<and> CHR ''['' \<notin> set tok \<and> CHR '']'' \<notin> set tok"

lemma replace_prefix:
  assumes "old \<noteq> []" and "HasPrefix (replace_from old redacted s) p" and "CHR ''['' \<notin> set p"
  shows "HasPrefix s p"
  using assms(2,3)
proof (induction s arbitrary: p)
  case (Cons c s)
  show ?case
  proof (cases p)
    case (Cons x p')
    then show ?thesis
      using Cons.prems Cons.IH [of p'] assms(1) by (auto simp: HasPrefix_def redacted_def split: if_splits)
  qed (simp add: HasPrefix_def)
qed simp

lemma replace_removes:
  assumes "token_shape old"
  shows "\<not> Contains (replace_from old redacted s) old"
proof -
  have ne: "old \<noteq> []" and br: "CHR ''['' \<notin> set old" "CHR '']'' \<notin> set old" and col: "CHR '':'' \<in> set old"
    using assms by (auto simp: token_shape_def)
  have after: "\<not> Contains (redacted @ t) old" if "\<not> Contains t old" for t
    using Contains_split [of "''[REDACTED''" "CHR '']''" t old] Contains_set [of "''[REDACTED''" old]
      that br col by (auto simp: redacted_def)
  show ?thesis
  proof (induction "length s" arbitrary: s rule: less_induct)
    case less
    show ?case
    proof (cases s)
      case Nil
      then show ?thesis using ne by simp
    next
      case (Cons c s')
      show ?thesis
      proof (cases "HasPrefix s old")
        case True
        have "\<not> Contains (replace_from old redacted (drop (length old) s)) old"
          using ne Cons by (intro less) simp
        with True Cons ne after show ?thesis by simp
      next
        case False
        then have "\<not> HasPrefix (c # replace_from old redacted s') old"
          using replace_prefix [OF ne, of s' "tl old"] br Cons
          by (cases old) (auto simp: HasPrefix_def)
        with False Cons less [of s'] ne show ?thesis by simp
      qed
    qed
  qed
qed

lemma redact_token:
  assumes "sensitiveReplacers c = [(token c, redacted)]" and "token_shape (token c)"
  shows "\<not> Contains (redact c s) (token c)"
  using assms replace_removes by (auto simp: redact_def ReplaceAll_def token_shape_def)

lemma replacers_no_credentials:
  assumes "tok \<noteq> []" and "proxyURL = None \<or> Url_User (the proxyURL) = None"
  shows "buildSensitiveReplacers H tok proxyURL = [(tok, redacted)]"
  using assms by (auto simp: buildSensitiveReplacers_def split: option.splits)

end
