(* ===== verification/Messages.thy ===== *)
theory Messages
  imports TemplateFacts Splitting World
begin

text \<open>
  From a payload to Telegram messages (\<open>internal/service/delivery_service.go\<close>:
  \<open>buildMessages\<close>, \<open>buildPassthroughMessages\<close>; \<open>internal/template/renderer.go\<close>: \<open>Render\<close>).
\<close>

section \<open>The service\<close>

text \<open>
  What the delivery service holds besides the store and the client: its configuration, the
  decoding of a payload (\<open>encoding/json\<close>) and, unless it is nil, the renderer: its display
  location and the execution of its template.
\<close>

record service =
  cfg :: Config
  svc_host :: host
  decode_payload :: "string \<Rightarrow> WebhookPayload result"
  renderer :: "(display \<times> (MessageData \<Rightarrow> string result)) option"

definition Render :: "(MessageData \<Rightarrow> string result) \<Rightarrow> MessageData \<Rightarrow> world \<Rightarrow> world \<times> string result" where
  "Render Execute data w =
     (case Execute data of
        Inl e \<Rightarrow> (emit (TemplateRender ''error'') w, Inl e)
      | Inr text \<Rightarrow> (emit (TemplateRender ''success'') w, Inr (TrimSpace text)))"

text \<open>\<open>BuildData\<close> reads the clock once per alert.\<close>

definition build_data :: "env \<Rightarrow> service \<Rightarrow> display \<Rightarrow> WebhookPayload \<Rightarrow> world \<Rightarrow> world \<times> MessageData" where
  "build_data E S loc payload w =
     (w\<lparr>ticks := ticks w + length (Payload_Alerts payload)\<rparr>,
      BuildData (svc_host S) loc (\<lambda>i. clock E (ticks w + i)) payload)"

section \<open>Passthrough\<close>

text \<open>\<open>splitMessage\<close> returns for the limit used here (\<open>splitMessage_spec\<close>).\<close>

definition buildPassthroughMessages :: "WebhookPayload \<Rightarrow> string list result" where
  "buildPassthroughMessages payload =
     (let message = TrimSpace (Payload_Message payload);
          message = (if message = [] then TrimSpace (Payload_Title payload) else message)
      in if message = [] then Inl (ErrText ''alertmanager message is empty'')
         else Inr (the (splitMessage message MaxTelegramMessageChars)))"

section \<open>Template mode\<close>

definition partCountReserve :: int where
  "partCountReserve = 16"

definition chars :: "string \<Rightarrow> int" where
  "chars s = int (telegramChars s)"

text \<open>The size of every alert, rendered alone; an alert over the budget is an error.\<close>

fun size_alerts ::
  "(MessageData \<Rightarrow> string result) \<Rightarrow> MessageData \<Rightarrow> string \<Rightarrow> int \<Rightarrow> AlertData list \<Rightarrow> world
   \<Rightarrow> world \<times> (AlertData \<times> int) list result" where
  "size_alerts Execute data emptyShell alertBudget [] w = (w, Inr [])"
| "size_alerts Execute data emptyShell alertBudget (alert # alerts) w =
     (case Render Execute (CloneWithAlerts data [alert] 1 1) w of
        (w1, Inl e) \<Rightarrow> (w1, Inl (Wrapped ''render alert for sizing'' e))
      | (w1, Inr rendered) \<Rightarrow>
          let d = chars rendered - chars emptyShell;
              measured = (if d < 0 then chars rendered else d)
          in if measured > alertBudget then
               (w1, Inl (ErrText (''single alert exceeds Telegram limit ('' @ show_int measured @ '' > ''
                  @ show_int alertBudget @ '' chars)'')))
             else
               (case size_alerts Execute data emptyShell alertBudget alerts w1 of
                  (w2, Inl e) \<Rightarrow> (w2, Inl e)
                | (w2, Inr sized) \<Rightarrow> (w2, Inr ((alert, measured) # sized))))"

text \<open>The greedy packing loop and its last \<open>append\<close>.\<close>

fun pack :: "int \<Rightarrow> ('a \<times> int) list \<Rightarrow> 'a list \<Rightarrow> int \<Rightarrow> 'a list list" where
  "pack alertBudget [] current currentSize = (if current \<noteq> [] then [current] else [])"
| "pack alertBudget ((alert, sz) # sized) current currentSize =
     (if current \<noteq> [] \<and> currentSize + sz > alertBudget
      then current # pack alertBudget sized [alert] sz
      else pack alertBudget sized (current @ [alert]) (currentSize + sz))"

fun render_chunks ::
  "(MessageData \<Rightarrow> string result) \<Rightarrow> MessageData \<Rightarrow> int \<Rightarrow> int \<Rightarrow> AlertData list list \<Rightarrow> world
   \<Rightarrow> world \<times> string list result" where
  "render_chunks Execute data count idx [] w = (w, Inr [])"
| "render_chunks Execute data count idx (chunk # rest) w =
     (case Render Execute (CloneWithAlerts data chunk (idx + 1) count) w of
        (w1, Inl e) \<Rightarrow> (w1, Inl (Wrapped (''render chunk '' @ show_int (idx + 1)) e))
      | (w1, Inr rendered) \<Rightarrow>
          if telegramChars rendered > MaxTelegramMessageChars then
            (w1, Inl (ErrText (''chunk '' @ show_int (idx + 1) @ '' exceeds Telegram limit after final render (''
               @ show_int (chars rendered) @ '' chars)'')))
          else
            (case render_chunks Execute data count (idx + 1) rest w1 of
               (w2, Inl e) \<Rightarrow> (w2, Inl e)
             | (w2, Inr messages) \<Rightarrow> (w2, Inr (rendered # messages))))"

definition buildMessages :: "env \<Rightarrow> service \<Rightarrow> WebhookPayload \<Rightarrow> world \<Rightarrow> world \<times> string list result" where
  "buildMessages E S payload w =
     (if AlertMessageSource (cfg S) = ''alertmanager'' then (w, buildPassthroughMessages payload)
      else
        (case renderer S of
           None \<Rightarrow> (w, Inl (ErrText ''template renderer is not configured''))
         | Some (loc, Execute) \<Rightarrow>
             let (w0, data) = build_data E S loc payload w in
             (case Render Execute data w0 of
                (w1, Inl e) \<Rightarrow> (w1, Inl (Wrapped ''render full batch'' e))
              | (w1, Inr whole) \<Rightarrow>
                  if telegramChars whole \<le> MaxTelegramMessageChars then (w1, Inr [whole])
                  else
                    (case Render Execute (CloneWithAlerts data [] 1 1) w1 of
                       (w2, Inl e) \<Rightarrow> (w2, Inl (Wrapped ''render empty shell'' e))
                     | (w2, Inr emptyShell) \<Rightarrow>
                         let headerBudget = chars emptyShell + partCountReserve;
                             alertBudget = int MaxTelegramMessageChars - headerBudget
                         in if alertBudget \<le> 0 then
                              (w2, Inl (ErrText ''template header alone exceeds Telegram limit''))
                            else
                              (case size_alerts Execute data emptyShell alertBudget (Md_Alerts data) w2 of
                                 (w3, Inl e) \<Rightarrow> (w3, Inl e)
                               | (w3, Inr sized) \<Rightarrow>
                                   let chunks = pack alertBudget sized [] 0
                                   in render_chunks Execute data (int (length chunks)) 0 chunks w3)))))"

section \<open>Packing\<close>

text \<open>Every alert is in exactly one chunk, in order, and no chunk is empty.\<close>

lemma pack_concat: "concat (pack b sized current n) = current @ map fst sized"
  by (induction b sized current n rule: pack.induct) auto

lemma pack_nonempty: "ch \<in> set (pack b sized current n) \<Longrightarrow> ch \<noteq> []"
  by (induction b sized current n rule: pack.induct) (auto split: if_splits)

text \<open>A chunk's measured size keeps the budget when every single alert does.\<close>

lemma pack_budget:
  assumes "\<forall>(a, sz) \<in> set sized. 0 \<le> sz \<and> sz \<le> b \<and> m a = sz"
    and "sum_list (map m current) = n" and "n \<le> b"
  shows "\<forall>ch \<in> set (pack b sized current n). sum_list (map m ch) \<le> b"
  using assms by (induction b sized current n rule: pack.induct) auto

text \<open>A new chunk is opened only when the next alert does not fit any more.\<close>

fun tight :: "('a \<Rightarrow> int) \<Rightarrow> int \<Rightarrow> 'a list list \<Rightarrow> bool" where
  "tight m b (c1 # c2 # cs) = (sum_list (map m c1) + m (hd c2) > b \<and> tight m b (c2 # cs))"
| "tight m b cs = True"

lemma pack_hd: "current \<noteq> [] \<Longrightarrow> \<exists>xs cs. pack b sized current n = (current @ xs) # cs"
  by (induction b sized current n rule: pack.induct) auto

lemma pack_tight:
  assumes "\<forall>(a, sz) \<in> set sized. m a = sz" and "sum_list (map m current) = n"
  shows "tight m b (pack b sized current n)"
  using assms
proof (induction b sized current n rule: pack.induct)
  case (2 b alert sz sized current n)
  show ?case
  proof (cases "current \<noteq> [] \<and> n + sz > b")
    case True
    with 2 have "tight m b (pack b sized [alert] sz)" by auto
    moreover obtain xs cs where "pack b sized [alert] sz = ([alert] @ xs) # cs"
      using pack_hd [of "[alert]"] by blast
    ultimately show ?thesis using True 2 by auto
  next
    case False
    with 2 show ?thesis by auto
  qed
qed simp

section \<open>Messages fit\<close>

lemma Render_tbl: "Render X data w = (w', r) \<Longrightarrow> tbl w' = tbl w \<and> sends w' = sends w \<and> ticks w' = ticks w"
  by (auto simp: Render_def split: sum.splits)

lemma size_alerts_tbl:
  "size_alerts X data shell b alerts w = (w', r) \<Longrightarrow> tbl w' = tbl w \<and> sends w' = sends w \<and> ticks w' = ticks w"
  by (induction X data shell b alerts w arbitrary: w' r rule: size_alerts.induct)
    (fastforce split: prod.splits sum.splits if_splits simp: Let_def dest: Render_tbl)+

lemma render_chunks_tbl:
  "render_chunks X data n i chs w = (w', r) \<Longrightarrow> tbl w' = tbl w \<and> sends w' = sends w \<and> ticks w' = ticks w"
  by (induction X data n i chs w arbitrary: w' r rule: render_chunks.induct)
    (fastforce split: prod.splits sum.splits if_splits dest: Render_tbl)+

lemma buildMessages_tbl:
  "buildMessages E S payload w = (w', r) \<Longrightarrow> tbl w' = tbl w \<and> sends w' = sends w \<and> ticks w \<le> ticks w'"
  by (auto simp: buildMessages_def build_data_def Let_def
      split: prod.splits sum.splits if_splits option.splits
      dest!: Render_tbl size_alerts_tbl render_chunks_tbl)

lemma render_chunks_fit:
  "render_chunks X data n i chs w = (w', Inr ms) \<Longrightarrow> \<forall>m \<in> set ms. telegramChars m \<le> MaxTelegramMessageChars"
  by (induction X data n i chs w arbitrary: w' ms rule: render_chunks.induct)
    (fastforce split: prod.splits sum.splits if_splits)+

lemma passthrough_fit:
  "buildPassthroughMessages payload = Inr ms \<Longrightarrow>
   (\<forall>m \<in> set ms. m \<noteq> [] \<and> telegramChars m \<le> MaxTelegramMessageChars)
   \<and> concat (map ink ms) = ink (if TrimSpace (Payload_Message payload) = [] then Payload_Title payload
                               else Payload_Message payload)"
  using splitMessage_spec [of MaxTelegramMessageChars]
  by (auto simp: buildPassthroughMessages_def Let_def MaxTelegramMessageChars_def split: if_splits)
     (metis (no_types, lifting) ink_TrimSpace option.sel splitMessage_spec zero_less_numeral)+

lemma buildMessages_fit:
  assumes "buildMessages E S payload w = (w', Inr ms)"
  shows "\<forall>m \<in> set ms. telegramChars m \<le> MaxTelegramMessageChars"
  using assms
  by (auto simp: buildMessages_def Let_def dest: passthrough_fit render_chunks_fit
      split: prod.splits sum.splits if_splits option.splits)

end
