(* ===== verification/Delivery.thy ===== *)
theory Delivery
  imports Messages StoreQueries Retry
begin

text \<open>
  Delivering one event (\<open>internal/service/delivery_service.go\<close>: \<open>ProcessEventByID\<close>,
  \<open>ensureRenderedParts\<close>, \<open>handleSendError\<close>, \<open>RecoverPending\<close>).  A handler takes the state and
  returns the new state and its error; a check of the caller's context and a reading of the
  clock take a tick of their own, so the context may be cancelled between any two statements.
\<close>

section \<open>Context and clock\<close>

definition check_ctx :: "env \<Rightarrow> world \<Rightarrow> world \<times> ctx_err option" where
  "check_ctx E w = (step w, ctx_Err E Caller w)"

definition persistCtx :: "env \<Rightarrow> world \<Rightarrow> world \<times> ctx" where
  "persistCtx E w = (step w, if ctx_Err E Caller w = None then Caller else Detached)"

text \<open>\<open>rng.Int63n(1 << 53)\<close>, the draw behind \<open>rng.Float64()\<close>.\<close>

definition Int63n53 :: "env \<Rightarrow> world \<Rightarrow> nat" where
  "Int63n53 E w = rng E (ticks w) mod 2 ^ 53"

definition next_retry :: "env \<Rightarrow> service \<Rightarrow> int \<Rightarrow> world \<Rightarrow> world \<times> instant" where
  "next_retry E S attempt w =
     (step w,
      now E w + computeBackoff (Int63n53 E w) attempt (RetryBaseDelay (cfg S)) (RetryMaxDelay (cfg S)))"

section \<open>Rendering on first use\<close>

text \<open>A payload or a message that can never be rendered: mark the event failed.\<close>

definition render_failed :: "env \<Rightarrow> Record \<Rightarrow> string \<Rightarrow> err \<Rightarrow> world \<Rightarrow> world \<times> string list result" where
  "render_failed E record what e w =
     (let (w1, c) = persistCtx E w;
          (w2, _) = MarkFailed E c (Rec_EventID record) (Rec_RenderedMessage record) (err_text e) w1
      in (w2, Inl (ErrRenderFatal (what @ '': '' @ err_text e))))"

text \<open>The parts could not be stored: schedule a retry.\<close>

definition save_failed :: "env \<Rightarrow> service \<Rightarrow> Record \<Rightarrow> string list \<Rightarrow> err \<Rightarrow> world \<Rightarrow> world \<times> string list result" where
  "save_failed E S record parts e w =
     (let (w1, nextRetry) = next_retry E S (Rec_AttemptCount record) w;
          (w2, c) = persistCtx E w1;
          (w3, _) = ScheduleRetry E c (Rec_EventID record) (joinRendered parts) (err_text e) nextRetry w2
      in (w3, Inl (Wrapped ''persist rendered messages'' e)))"

definition render_parts :: "env \<Rightarrow> service \<Rightarrow> Record \<Rightarrow> world \<Rightarrow> world \<times> string list result" where
  "render_parts E S record w =
     (case decode_payload S (Rec_OriginalPayload record) of
        Inl e \<Rightarrow> render_failed E record ''decode stored payload'' e w
      | Inr payload \<Rightarrow>
          (case buildMessages E S payload w of
             (w1, Inl e) \<Rightarrow> render_failed E record ''build alert message'' e w1
           | (w1, Inr parts) \<Rightarrow>
               (case SaveRenderedParts E Caller (Rec_EventID record) (joinRendered parts) parts w1 of
                  (w2, Inl e) \<Rightarrow> save_failed E S record parts e w2
                | (w2, Inr _) \<Rightarrow> (w2, Inr parts))))"

definition ensureRenderedParts :: "env \<Rightarrow> service \<Rightarrow> Record \<Rightarrow> world \<Rightarrow> world \<times> string list result" where
  "ensureRenderedParts E S record w =
     (case Rec_RenderedParts record of
        Some (p # ps) \<Rightarrow> (w, Inr (p # ps))
      | _ \<Rightarrow> render_parts E S record w)"

section \<open>When Telegram refuses\<close>

definition dead_letter :: "env \<Rightarrow> string \<Rightarrow> string \<Rightarrow> err \<Rightarrow> world \<Rightarrow> world \<times> err" where
  "dead_letter E eventID rendered e w =
     (case MarkDeadLetter E Caller eventID rendered (err_text e) (emit DeliveryDeadLetter w) of
        (w1, Inl e') \<Rightarrow> (w1, Wrapped ''mark dead letter'' e')
      | (w1, Inr _) \<Rightarrow> (w1, e))"

text \<open>The wait is the backoff, or what Telegram asks for when that is longer.\<close>

definition schedule_retry ::
  "env \<Rightarrow> service \<Rightarrow> Record \<Rightarrow> string \<Rightarrow> string \<Rightarrow> duration \<Rightarrow> err \<Rightarrow> world \<Rightarrow> world \<times> err" where
  "schedule_retry E S record rendered reason retryAfter e w =
     (let backoff_wait = computeBackoff (Int63n53 E w) (Rec_AttemptCount record)
                           (RetryBaseDelay (cfg S)) (RetryMaxDelay (cfg S));
          wait = (if retryAfter > backoff_wait then retryAfter else backoff_wait);
          nextRetry = now E w + wait
      in case ScheduleRetry E Caller (Rec_EventID record) rendered (err_text e) nextRetry
                (emit (DeliveryRetry reason) (step w)) of
           (w1, Inl e') \<Rightarrow> (w1, Wrapped ''schedule retry'' e')
         | (w1, Inr _) \<Rightarrow> (w1, e))"

definition handleSendError :: "env \<Rightarrow> service \<Rightarrow> Record \<Rightarrow> string list \<Rightarrow> err \<Rightarrow> world \<Rightarrow> world \<times> err" where
  "handleSendError E S record parts sendErr w =
     (let eventID = Rec_EventID record; rendered = joinRendered parts; (w0, done) = check_ctx E w in
      if done \<noteq> None then
        let (w1, _) = ScheduleRetry E Detached eventID rendered (err_text sendErr) (now E w0) (step w0)
        in (w1, sendErr)
      else
        (case as_api sendErr of
           Some apiErr \<Rightarrow>
             if \<not> Retryable apiErr then
               (case MarkFailed E Caller eventID rendered (APIError_Error apiErr) w0 of
                  (w1, Inl e) \<Rightarrow> (w1, Wrapped ''mark failed'' e)
                | (w1, Inr _) \<Rightarrow> (w1, ApiErr apiErr))
             else if Rec_AttemptCount record \<ge> MaxDeliveryAttempts (cfg S) then
               dead_letter E eventID rendered (ApiErr apiErr) w0
             else
               schedule_retry E S record rendered (classifyRetryReason (StatusCode apiErr))
                 (RetryAfter apiErr) (ApiErr apiErr) w0
         | None \<Rightarrow>
             if Rec_AttemptCount record \<ge> MaxDeliveryAttempts (cfg S) then
               dead_letter E eventID rendered sendErr w0
             else schedule_retry E S record rendered ''network'' 0 sendErr w0))"

section \<open>Sending the parts\<close>

definition do_send :: "env \<Rightarrow> service \<Rightarrow> string \<Rightarrow> world \<Rightarrow> world \<times> SentMessage result" where
  "do_send E S part w =
     (let chat = TelegramChatID (cfg S); mode = MessageParseMode (cfg S);
          r = telegram E (ticks w) chat part mode
      in (step (w\<lparr>sends := sends w @ [\<lparr> send_chat = chat, send_text = part, send_mode = mode,
                                        send_accepted = (err_of r = None) \<rparr>]\<rparr>), r))"

text \<open>The best-effort reschedule after a store write that followed an accepted send failed.\<close>

definition reschedule :: "env \<Rightarrow> service \<Rightarrow> Record \<Rightarrow> string list \<Rightarrow> err \<Rightarrow> world \<Rightarrow> world" where
  "reschedule E S record parts e w =
     (let (w1, c) = persistCtx E w;
          (w2, nextRetry) = next_retry E S (Rec_AttemptCount record) w1
      in fst (ScheduleRetry E c (Rec_EventID record) (joinRendered parts) (err_text e) nextRetry w2))"

text \<open>
  The loop from \<open>record.SentParts\<close> on; \<open>rest\<close> are the parts from \<open>index\<close> on.  An error comes
  with the label of the attempt.
\<close>

fun send_parts ::
  "env \<Rightarrow> service \<Rightarrow> Record \<Rightarrow> string list \<Rightarrow> nat \<Rightarrow> string list \<Rightarrow> world \<Rightarrow> world \<times> (string \<times> err) option" where
  "send_parts E S record parts index [] w = (w, None)"
| "send_parts E S record parts index (part # rest) w =
     (case do_send E S part w of
        (w1, Inl e) \<Rightarrow>
          let (w2, e') = handleSendError E S record parts e w1 in (w2, Some (''retry'', e'))
      | (w1, Inr sent) \<Rightarrow>
          (case MarkChunkSent E Caller (Rec_EventID record) (int index + 1)
                  (if index = 0 then Some (MessageID sent) else None) w1 of
             (w2, Inl e) \<Rightarrow>
               (reschedule E S record parts e w2, Some (''failed'', Wrapped ''mark chunk sent'' e))
           | (w2, Inr _) \<Rightarrow> send_parts E S record parts (Suc index) rest w2))"

text \<open>The body of \<open>ProcessEventByID\<close> after the claim, with the label of the attempt.\<close>

definition deliver :: "env \<Rightarrow> service \<Rightarrow> Record \<Rightarrow> world \<Rightarrow> world \<times> string \<times> err option" where
  "deliver E S record w =
     (case ensureRenderedParts E S record w of
        (w1, Inl e) \<Rightarrow> (w1, if is_render_fatal e then ''failed'' else ''retry'', Some e)
      | (w1, Inr parts) \<Rightarrow>
          let start = nat (Rec_SentParts record) in
          (case send_parts E S record parts start (drop start parts) w1 of
             (w2, Some (label, e)) \<Rightarrow> (w2, label, Some e)
           | (w2, None) \<Rightarrow>
               (case MarkDelivered E Caller (Rec_EventID record) (joinRendered parts)
                       (TelegramChatID (cfg S)) (int (length parts)) (now E w2) (step w2) of
                  (w3, Inl e) \<Rightarrow>
                    (reschedule E S record parts e w3, ''failed'', Some (Wrapped ''mark delivered'' e))
                | (w3, Inr _) \<Rightarrow> (w3, ''success'', None))))"

definition ProcessEventByID :: "env \<Rightarrow> service \<Rightarrow> string \<Rightarrow> world \<Rightarrow> world \<times> err option" where
  "ProcessEventByID E S eventID w =
     (case ClaimForSend E Caller eventID (now E w) (step w) of
        (w1, Inl e) \<Rightarrow> (w1, Some (Wrapped ''claim delivery'' e))
      | (w1, Inr None) \<Rightarrow> (w1, None)
      | (w1, Inr (Some record)) \<Rightarrow>
          let (w2, label, e) = deliver E S record w1
          in (emit (DeliveryAttempt label) w2, e))"

section \<open>The recovery pass\<close>

text \<open>Errors of single deliveries are only logged; a done context stops the batch.\<close>

fun recover_loop :: "env \<Rightarrow> service \<Rightarrow> string list \<Rightarrow> world \<Rightarrow> world \<times> err option" where
  "recover_loop E S [] w = (w, None)"
| "recover_loop E S (eventID # ids) w =
     (case check_ctx E w of
        (w1, Some e) \<Rightarrow> (w1, Some (CtxErr e))
      | (w1, None) \<Rightarrow> recover_loop E S ids (fst (ProcessEventByID E S eventID w1)))"

definition RecoverPending :: "env \<Rightarrow> service \<Rightarrow> world \<Rightarrow> world \<times> err option" where
  "RecoverPending E S w =
     (case ListDueEventIDs E Caller (now E w) (WorkerBatchSize (cfg S)) (step w) of
        (w1, Inl e) \<Rightarrow> (w1, Some (Wrapped ''list due event ids'' e))
      | (w1, Inr ids) \<Rightarrow> recover_loop E S ids w1)"

definition refreshQueueMetrics :: "env \<Rightarrow> service \<Rightarrow> world \<Rightarrow> world" where
  "refreshQueueMetrics E S w =
     (let (w1, count) = CountQueued E Caller w;
          w1 = (case count of Inr n \<Rightarrow> emit (SetQueueMessages (int n)) w1 | Inl _ \<Rightarrow> w1);
          (w2, age) = OldestQueuedAge E Caller (now E w1) (step w1);
          w2 = (case age of Inr a \<Rightarrow> emit (SetOldestQueuedAge a) w2 | Inl _ \<Rightarrow> w2);
          (w3, sz) = SizeBytes E (StorePath (cfg S)) w2
      in case sz of Inr n \<Rightarrow> emit (SetStoreSize n) w3 | Inl _ \<Rightarrow> w3)"

end
