(* ===== verification/Rotation.thy ===== *)
theory Rotation
  imports Delivery
begin

text \<open>
  Rotation of the store and the capacity check of the ingress path
  (\<open>internal/service/delivery_service.go\<close>: \<open>RotateStore\<close>, \<open>EnsureCapacity\<close>, \<open>Run\<close>).  The
  mutex \<open>rotateMu\<close> makes a rotation one uninterrupted run, which is what the function is.
\<close>

section \<open>Deleting in batches\<close>

lemma sql_exec_Inr: "sql_exec E c f w = (w', Inr u) \<Longrightarrow> tbl w' = f (tbl w) \<and> ticks w' = Suc (ticks w)"
  by (auto simp: sql_exec_def split: option.splits prod.splits db_stage.splits)

lemma sql_exec_Inl: "sql_exec E c f w = (w', Inl e) \<Longrightarrow> tbl w' = tbl w \<and> ticks w' = Suc (ticks w)"
  by (auto simp: sql_exec_def split: option.splits prod.splits db_stage.splits)

text \<open>When every batch succeeds, the batches delete what one statement would have deleted.\<close>

lemma delete_batches_tbl:
  "delete_batches E c ids w = (w', Inr u) \<Longrightarrow> tbl w' = delete_ids ids (tbl w)"
proof (induction E c ids w arbitrary: w' rule: delete_batches.induct)
  case (1 E c ids w)
  show ?case
  proof (cases "ids = []")
    case True
    with 1(2) show ?thesis by (auto simp: delete_batches.simps)
  next
    case False
    with 1(2) obtain w1 v where w1: "sql_exec E c (delete_ids (take deleteBatchSize ids)) w = (w1, Inr v)"
      and rest: "delete_batches E c (drop deleteBatchSize ids) w1 = (w', Inr u)"
      by (subst (asm) delete_batches.simps) (auto split: prod.splits sum.splits)
    have "tbl w' = delete_ids (drop deleteBatchSize ids) (tbl w1)"
      by (rule 1(1) [OF False w1 [symmetric] refl rest])
    also have "\<dots> = delete_ids ids (tbl w)"
      using sql_exec_Inr [OF w1] by (simp flip: delete_ids_append)
    finally show ?thesis .
  qed
qed

lemma DeleteByEventIDs_tbl:
  "DeleteByEventIDs E c ids w = (w', Inr u) \<Longrightarrow> tbl w' = delete_ids ids (tbl w)"
  by (auto simp: DeleteByEventIDs_def dest: delete_batches_tbl split: if_splits)

text \<open>What remains after a failure lies between the two.\<close>

lemma delete_batches_any:
  "\<exists>k. tbl (fst (delete_batches E c ids w)) = delete_ids (take k ids) (tbl w)"
proof (induction E c ids w rule: delete_batches.induct)
  case (1 E c ids w)
  show ?case
  proof (cases "ids = []")
    case True
    then show ?thesis by (auto simp: delete_batches.simps)
  next
    case False
    obtain w1 r where w1: "sql_exec E c (delete_ids (take deleteBatchSize ids)) w = (w1, r)"
      by fastforce
    show ?thesis
    proof (cases r)
      case (Inl e)
      with False w1 sql_exec_Inl [of E c _ w w1 e] show ?thesis
        by (subst delete_batches.simps) (auto intro: exI [of _ 0])
    next
      case (Inr u)
      obtain k where "tbl (fst (delete_batches E c (drop deleteBatchSize ids) w1))
          = delete_ids (take k (drop deleteBatchSize ids)) (tbl w1)"
        using 1 [OF False w1 [symmetric] Inr] by blast
      also have "\<dots> = delete_ids (take (deleteBatchSize + k) ids) (tbl w)"
        using sql_exec_Inr w1 Inr by (simp add: take_add flip: delete_ids_append)
      finally show ?thesis
        using False w1 Inr by (subst delete_batches.simps) auto
    qed
  qed
qed

lemma DeleteByEventIDs_any:
  "\<exists>k. tbl (fst (DeleteByEventIDs E c ids w)) = delete_ids (take k ids) (tbl w)"
  using delete_batches_any by (auto simp: DeleteByEventIDs_def intro: exI [of _ 0])

lemma SelectRotatable_ids:
  "SelectRotatable E c d b n w = (w', Inr records) \<Longrightarrow>
   tbl w' = tbl w \<and> map Rec_EventID records = map c_event_id (rotatable_rows d b n (tbl w))
   \<and> map Rec_Status records = map c_status (rotatable_rows d b n (tbl w))"
  by (auto simp: SelectRotatable_def Let_def dest: scan_all_ids
      split: option.splits prod.splits db_stage.splits sum.splits)

section \<open>RotateStore\<close>

text \<open>The tally of deleted records by status.\<close>

fun tally :: "Record list \<Rightarrow> (string, nat) go_map \<Rightarrow> (string, nat) go_map" where
  "tally [] deleted = deleted"
| "tally (r # rs) deleted =
     tally rs (map_set (Rec_Status r) (Suc (case map_of deleted (Rec_Status r) of None \<Rightarrow> 0 | Some n \<Rightarrow> n)) deleted)"

lemma delete_shorter:
  assumes "SelectRotatable E c d b n w1 = (w2, Inr records)" and "records \<noteq> []"
    and "DeleteByEventIDs E c' (map Rec_EventID records) w2 = (w3, Inr u)"
  shows "length (tbl w3) < length (tbl w1)"
proof -
  have ids: "map Rec_EventID records = map c_event_id (rotatable_rows d b n (tbl w1))"
    and t: "tbl w2 = tbl w1"
    using SelectRotatable_ids [OF assms(1)] by simp_all
  obtain r where r: "r \<in> set (rotatable_rows d b n (tbl w1))"
    using assms(2) ids by (cases "rotatable_rows d b n (tbl w1)") auto
  then have "r \<in> set (tbl w1)" and "c_event_id r \<in> set (map Rec_EventID records)"
    using rotatable_rows_sound ids by auto
  then show ?thesis
    using DeleteByEventIDs_tbl [OF assms(3)] t by (auto simp: delete_ids_def length_filter_less)
qed

text \<open>
  The loop; every one of its error returns counts a run with the result \<open>error\<close>.  It ends
  because every round that goes on has deleted a row.
\<close>

function rotate_loop ::
  "env \<Rightarrow> service \<Rightarrow> instant \<Rightarrow> instant \<Rightarrow> int \<Rightarrow> (string, nat) go_map \<Rightarrow> world
   \<Rightarrow> world \<times> (string, nat) go_map result" where
  "rotate_loop E S deliveredBefore terminalBefore sz deleted w =
     (if \<not> sz > StoreRotationLowWatermark (cfg S) then (w, Inr deleted)
      else
        (case check_ctx E w of
           (w1, Some e) \<Rightarrow> (w1, Inl (CtxErr e))
         | (w1, None) \<Rightarrow>
             (case SelectRotatable E Caller deliveredBefore terminalBefore 100 w1 of
                (w2, Inl e) \<Rightarrow> (w2, Inl (Wrapped ''select rotatable'' e))
              | (w2, Inr candidates) \<Rightarrow>
                  if candidates = [] then (w2, Inr deleted)
                  else
                    (case DeleteByEventIDs E Caller (map Rec_EventID candidates) w2 of
                       (w3, Inl e) \<Rightarrow> (w3, Inl (Wrapped ''delete rotatable'' e))
                     | (w3, Inr _) \<Rightarrow>
                         (case SizeBytes E (StorePath (cfg S)) w3 of
                            (w4, Inl e) \<Rightarrow> (w4, Inl (Wrapped ''measure store size after rotation'' e))
                          | (w4, Inr sz') \<Rightarrow>
                              rotate_loop E S deliveredBefore terminalBefore sz' (tally candidates deleted)
                                (emit (SetStoreSize sz') w4))))))"
  by pat_completeness auto

termination
  apply (relation "measure (\<lambda>(E, S, d, b, sz, deleted, w). length (tbl w))")
   apply simp
  apply (clarsimp simp: check_ctx_def SizeBytes_def)
  apply (metis delete_shorter step_simps(1))
  done

declare rotate_loop.simps [simp del]

definition rotation_result :: "Config \<Rightarrow> int \<Rightarrow> string" where
  "rotation_result c sz =
     (if sz > StoreMaxSizeBytes c \<or> sz \<ge> StoreRotationHighWatermark c then ''pressure_remaining''
      else ''success'')"

definition emit_all :: "metric list \<Rightarrow> world \<Rightarrow> world" where
  "emit_all ms w = w\<lparr>mlog := mlog w @ ms\<rparr>"

definition RotateStore :: "env \<Rightarrow> service \<Rightarrow> world \<Rightarrow> world \<times> err option" where
  "RotateStore E S w =
     (let path = StorePath (cfg S); failed = emit (RotationRun ''error'') in
      case SizeBytes E path w of
        (w1, Inl e) \<Rightarrow> (failed w1, Some (Wrapped ''measure store size'' e))
      | (w1, Inr sz) \<Rightarrow>
          let w1 = emit (SetStoreSize sz) w1 in
          if \<not> StoreRotationEnabled (cfg S) \<or> sz < StoreRotationHighWatermark (cfg S) then
            (emit (RotationRun ''skipped'') w1, None)
          else
            let deliveredBefore = now E w1 - StoreRetentionDelivered (cfg S);
                w2 = step w1;
                terminalBefore = now E w2 - StoreRetentionDeadLetter (cfg S);
                w3 = step w2
            in (case rotate_loop E S deliveredBefore terminalBefore sz [] w3 of
                  (w4, Inl e) \<Rightarrow> (failed w4, Some e)
                | (w4, Inr deleted) \<Rightarrow>
                    let w5 = (if StoreVacuumAfterRotation (cfg S) then fst (Vacuum E Caller w4) else w4);
                        w6 = fst (CheckpointWAL E Caller w5)
                    in (case SizeBytes E path w6 of
                          (w7, Inl e) \<Rightarrow> (failed w7, Some (Wrapped ''measure store size after rotation'' e))
                        | (w7, Inr sz') \<Rightarrow>
                            (emit_all
                               ([SetStoreSize sz'] @ map (\<lambda>(st, n). RotatedRecords st n) deleted
                                @ [SetDiskPressure (if sz' > StoreMaxSizeBytes (cfg S) then 1 else 0),
                                   RotationRun (rotation_result (cfg S) sz')]) w7,
                             None))))"

section \<open>EnsureCapacity\<close>

definition EnsureCapacity :: "env \<Rightarrow> service \<Rightarrow> world \<Rightarrow> world \<times> err option" where
  "EnsureCapacity E S w =
     (let path = StorePath (cfg S) in
      case SizeBytes E path w of
        (w1, Inl e) \<Rightarrow> (w1, Some (Wrapped ''measure store size'' e))
      | (w1, Inr sz) \<Rightarrow>
          let w1 = emit (SetStoreSize sz) w1 in
          if sz < StoreRotationHighWatermark (cfg S) then (emit (SetDiskPressure 0) w1, None)
          else
            (case (if StoreRotationEnabled (cfg S) then RotateStore E S w1 else (w1, None)) of
               (w2, Some e) \<Rightarrow> (w2, Some e)
             | (w2, None) \<Rightarrow>
                 (case SizeBytes E path w2 of
                    (w3, Inl e) \<Rightarrow> (w3, Some (Wrapped ''measure store size after rotation'' e))
                  | (w3, Inr sz') \<Rightarrow>
                      let w3 = emit (SetStoreSize sz') w3 in
                      if sz' > StoreMaxSizeBytes (cfg S) then
                        (emit (StoreRejection ''disk_pressure'') (emit (SetDiskPressure 1) w3),
                         Some (ErrText (''store size '' @ show_int sz' @ '' exceeds max ''
                            @ show_int (StoreMaxSizeBytes (cfg S)))))
                      else (emit (SetDiskPressure 0) w3, None))))"

section \<open>The worker loop\<close>

text \<open>
  \<open>Run\<close> serves its two tickers until its context is done; the model takes the sequence of
  tickers that fired.  Errors are only logged.
\<close>

datatype ticker = RecoveryTick | RotationTick

fun run_tick :: "env \<Rightarrow> service \<Rightarrow> ticker \<Rightarrow> world \<Rightarrow> world" where
  "run_tick E S RecoveryTick w = fst (RecoverPending E S (refreshQueueMetrics E S w))"
| "run_tick E S RotationTick w = fst (RotateStore E S w)"

definition Run :: "env \<Rightarrow> service \<Rightarrow> ticker list \<Rightarrow> world \<Rightarrow> world" where
  "Run E S fired w = foldl (\<lambda>w t. run_tick E S t w) (refreshQueueMetrics E S w) fired"

end
