(* ===== verification/Fingerprint.thy ===== *)
theory Fingerprint
  imports Models GoTime "HOL-Library.Char_ord" "HOL-Library.List_Lexorder" "HOL-Library.Multiset"
begin

text \<open>
  The idempotency key of a webhook (\<open>internal/service/alert_service.go\<close>: \<open>ComputeFingerprint\<close>,
  \<open>stableMapString\<close>), with SHA-256 as FIPS 180-4 defines it and \<open>encoding/hex\<close>.
\<close>

unbundle bit_operations_syntax

section \<open>SHA-256\<close>

text \<open>The first 32 bits of the fractional parts of the cube roots of the first 64 primes.\<close>

definition sha_K :: "32 word list" where
  "sha_K =
    [1116352408, 1899447441, 3049323471, 3921009573, 961987163, 1508970993, 2453635748, 2870763221,
     3624381080, 310598401, 607225278, 1426881987, 1925078388, 2162078206, 2614888103, 3248222580,
     3835390401, 4022224774, 264347078, 604807628, 770255983, 1249150122, 1555081692, 1996064986,
     2554220882, 2821834349, 2952996808, 3210313671, 3336571891, 3584528711, 113926993, 338241895,
     666307205, 773529912, 1294757372, 1396182291, 1695183700, 1986661051, 2177026350, 2456956037,
     2730485921, 2820302411, 3259730800, 3345764771, 3516065817, 3600352804, 4094571909, 275423344,
     430227734, 506948616, 659060556, 883997877, 958139571, 1322822218, 1537002063, 1747873779,
     1955562222, 2024104815, 2227730452, 2361852424, 2428436474, 2756734187, 3204031479, 3329325298]"

definition sha_H0 :: "32 word list" where
  "sha_H0 = [0x6a09e667, 0xbb67ae85, 0x3c6ef372, 0xa54ff53a, 0x510e527f, 0x9b05688c, 0x1f83d9ab, 0x5be0cd19]"

definition rotr :: "nat \<Rightarrow> 32 word \<Rightarrow> 32 word" where
  "rotr n x = drop_bit n x OR push_bit (32 - n) x"

definition be_word :: "string \<Rightarrow> 32 word" where
  "be_word s = foldl (\<lambda>x c. push_bit 8 x OR word_of_nat (byte c)) 0 s"

definition word_be :: "32 word \<Rightarrow> string" where
  "word_be x = map (\<lambda>n. char_of (unat (drop_bit n x) mod 256)) [24, 16, 8, 0]"

fun groups :: "nat \<Rightarrow> nat \<Rightarrow> 'a list \<Rightarrow> 'a list list" where
  "groups 0 len xs = []"
| "groups (Suc k) len xs = take len xs # groups k len (drop len xs)"

fun schedule :: "nat \<Rightarrow> 32 word list \<Rightarrow> 32 word list" where
  "schedule 0 W = W"
| "schedule (Suc k) W =
     (let t = length W; a = W ! (t - 15); b = W ! (t - 2);
          s0 = rotr 7 a XOR rotr 18 a XOR drop_bit 3 a;
          s1 = rotr 17 b XOR rotr 19 b XOR drop_bit 10 b
      in schedule k (W @ [W ! (t - 16) + s0 + W ! (t - 7) + s1]))"

fun rounds :: "(32 word \<times> 32 word) list \<Rightarrow> 32 word list \<Rightarrow> 32 word list" where
  "rounds ((k, w) # kws) [a, b, c, d, e, f, g, h] =
     (let S1 = rotr 6 e XOR rotr 11 e XOR rotr 25 e;
          ch = (e AND f) XOR (NOT e AND g);
          t1 = h + S1 + ch + k + w;
          S0 = rotr 2 a XOR rotr 13 a XOR rotr 22 a;
          maj = (a AND b) XOR (a AND c) XOR (b AND c);
          t2 = S0 + maj
      in rounds kws [t1 + t2, a, b, c, d + t1, e, f, g])"
| "rounds kws H = H"

definition sha_block :: "32 word list \<Rightarrow> string \<Rightarrow> 32 word list" where
  "sha_block H block =
     (let W = schedule 48 (map be_word (groups 16 4 block))
      in map (\<lambda>(x, y). x + y) (zip H (rounds (zip sha_K W) H)))"

definition sha_pad :: "string \<Rightarrow> string" where
  "sha_pad s =
     (let l = length s; z = (119 - l mod 64) mod 64; bits = 8 * l in
      s @ [char_of (0x80::nat)] @ replicate z (char_of (0::nat))
      @ map (\<lambda>n. char_of (bits div 2 ^ n mod 256)) [56, 48, 40, 32, 24, 16, 8, 0])"

definition Sum256 :: "string \<Rightarrow> string" where
  "Sum256 s =
     (let p = sha_pad s
      in concat (map word_be (foldl sha_block sha_H0 (groups (length p div 64) 64 p))))"

definition hex_EncodeToString :: "string \<Rightarrow> string" where
  "hex_EncodeToString s = concat (map (\<lambda>c. [hexdigit (byte c div 16), hexdigit (byte c mod 16)]) s)"

section \<open>The fingerprint\<close>

definition stableMapString :: "(string, string) go_map \<Rightarrow> string" where
  "stableMapString values =
     Join (map (\<lambda>key. key @ ''='' @ map_get values key) (sort (map fst values))) '',''"

definition alert_key :: "Alert \<Rightarrow> string" where
  "alert_key alert =
     Join [Alert_Status alert, Alert_Fingerprint alert, RFC3339Nano_UTC (Alert_StartsAt alert),
           RFC3339Nano_UTC (Alert_EndsAt alert), Alert_GeneratorURL alert,
           stableMapString (Alert_Labels alert), stableMapString (Alert_Annotations alert),
           Alert_ValueString alert] ''|''"

definition fingerprint_text :: "WebhookPayload \<Rightarrow> string" where
  "fingerprint_text payload =
     Payload_Receiver payload @ ''|'' @ Payload_Status payload @ ''|'' @ Payload_GroupKey payload @ ''|''
     @ Payload_ExternalURL payload @ ''|'' @ Payload_Title payload @ ''|'' @ Payload_Message payload @ ''|''
     @ stableMapString (Payload_GroupLabels payload) @ ''|''
     @ stableMapString (Payload_CommonLabels payload) @ ''|''
     @ stableMapString (Payload_CommonAnnotations payload) @ ''|''
     @ Join (sort (map alert_key (Payload_Alerts payload))) ''||''"

definition ComputeFingerprint :: "WebhookPayload \<Rightarrow> string" where
  "ComputeFingerprint payload = hex_EncodeToString (Sum256 (fingerprint_text payload))"

section \<open>Facts\<close>

text \<open>Two lists that hold the same map give the same string.\<close>

lemma stableMapString_perm:
  assumes "go_map_ok m" and "mset m = mset m'"
  shows "stableMapString m = stableMapString m'"
proof -
  have ok': "distinct (map fst m')"
    using assms unfolding go_map_ok_def by (metis mset_map mset_eq_imp_distinct_iff)
  have "map_of m = map_of m'"
    using assms ok' unfolding go_map_ok_def
    by (metis map_of_inject_set set_mset_mset)
  moreover have "sort (map fst m) = sort (map fst m')"
    using assms(2) by (metis mset_map properties_for_sort mset_sort sorted_sort)
  ultimately show ?thesis
    by (simp add: stableMapString_def map_get_def cong: map_cong)
qed

lemma sort_mset: "mset xs = mset ys \<Longrightarrow> sort xs = sort ys"
  by (metis mset_sort properties_for_sort sorted_sort)

lemma hex_length: "length (hex_EncodeToString s) = 2 * length s"
  by (induction s) (simp_all add: hex_EncodeToString_def)

lemma hexdigit_range: "n < 16 \<Longrightarrow> byte (hexdigit n) \<in> {48..57} \<union> {97..102}"
  by (auto simp: hexdigit_def byte_def)

end
