(* ===== verification/Accept.thy ===== *)
theory Accept
  imports Rotation Fingerprint
begin

text \<open>
  Accepting a webhook (\<open>internal/service/alert_service.go\<close>: \<open>AcceptWebhook\<close>,
  \<open>loadAcceptResult\<close>, \<open>randomID\<close>).  An answer is the result, the status code and the error.
\<close>

record AcceptResult =
  ar_EventID :: string
  ar_IdempotencyKey :: string
  ar_Status :: string
  ar_Duplicate :: bool

definition no_result :: AcceptResult where
  "no_result = \<lparr> ar_EventID = [], ar_IdempotencyKey = [], ar_Status = [], ar_Duplicate = False \<rparr>"

type_synonym answer = "AcceptResult \<times> int \<times> err option"

definition randomID :: "env \<Rightarrow> world \<Rightarrow> world \<times> string result" where
  "randomID E w =
     (step w, (case rand_read E (ticks w) 16 of Inl e \<Rightarrow> Inl e | Inr buffer \<Rightarrow> Inr (hex_EncodeToString buffer)))"

definition loadAcceptResult :: "env \<Rightarrow> service \<Rightarrow> string \<Rightarrow> string \<Rightarrow> bool \<Rightarrow> world \<Rightarrow> world \<times> answer" where
  "loadAcceptResult E S eventID idempotencyKey duplicate w =
     (case GetByEventID E Caller eventID w of
        (w1, Inl e) \<Rightarrow> (w1, no_result, 500, Some (Wrapped ''reload delivery'' e))
      | (w1, Inr None) \<Rightarrow>
          (w1, no_result, 500,
           Some (ErrText (''delivery record '' @ eventID @ '' not found after processing'')))
      | (w1, Inr (Some record)) \<Rightarrow>
          let result = \<lparr> ar_EventID = eventID, ar_IdempotencyKey = idempotencyKey,
                         ar_Status = Rec_Status record, ar_Duplicate = duplicate \<rparr>
          in if Rec_Status record \<in> set terminal_statuses then (w1, result, 200, None)
             else if Rec_Status record \<in> set queued_statuses then (w1, result, 202, None)
             else
               (w1, no_result, 500,
                Some (ErrText (''unexpected delivery status ''
                   @ Quote (unicode_print (svc_host S)) (Rec_Status record)))))"

text \<open>The answer to a known key whose delivery is terminal.\<close>

definition terminal_answer :: "Record \<Rightarrow> answer" where
  "terminal_answer existing =
     (\<lparr> ar_EventID = Rec_EventID existing, ar_IdempotencyKey = Rec_IdempotencyKey existing,
        ar_Status = Rec_Status existing, ar_Duplicate = True \<rparr>, 200, None)"

definition answer_duplicate :: "env \<Rightarrow> service \<Rightarrow> Record \<Rightarrow> world \<Rightarrow> world \<times> answer" where
  "answer_duplicate E S existing w =
     (if Rec_Status existing = StatusDelivered then
        (emit (WebhookEvent ''duplicate_delivered'') w, terminal_answer existing)
      else if Rec_Status existing \<in> {StatusFailed, StatusDeadLetter} then
        (emit (WebhookEvent ''duplicate_terminal'') w, terminal_answer existing)
      else
        let (w1, _) = ProcessEventByID E S (Rec_EventID existing) w
        in loadAcceptResult E S (Rec_EventID existing) (Rec_IdempotencyKey existing) True
             (emit (WebhookEvent ''duplicate_pending'') w1))"

text \<open>The first delivery attempt of a new event and the answer that reports it.\<close>

definition answer_new :: "env \<Rightarrow> service \<Rightarrow> string \<Rightarrow> string \<Rightarrow> world \<Rightarrow> world \<times> answer" where
  "answer_new E S eventID idempotencyKey w =
     (case ProcessEventByID E S eventID w of
        (w1, Some e) \<Rightarrow>
          (case loadAcceptResult E S eventID idempotencyKey False w1 of
             (w2, _, _, Some loadErr) \<Rightarrow> (w2, no_result, 500, Some loadErr)
           | (w2, result, statusCode, None) \<Rightarrow>
               if ar_Status result = StatusRetryScheduled then
                 (emit (WebhookEvent ''queued_retry'') w2, result, 502, Some e)
               else if ar_Status result \<in> {StatusFailed, StatusDeadLetter} then
                 (emit (WebhookEvent ''terminal_failure'') w2, result, 200, None)
               else (emit (WebhookEvent ''queued_pending'') w2, result, statusCode, None))
      | (w1, None) \<Rightarrow>
          loadAcceptResult E S eventID idempotencyKey False (emit (WebhookEvent ''success'') w1))"

definition new_record :: "string \<Rightarrow> string \<Rightarrow> string \<Rightarrow> instant \<Rightarrow> Record" where
  "new_record eventID idempotencyKey raw t = \<lparr>
     Rec_EventID = eventID, Rec_IdempotencyKey = idempotencyKey, Rec_Status = StatusReceived,
     Rec_OriginalPayload = raw, Rec_RenderedMessage = [], Rec_RenderedParts = None,
     Rec_SplitCount = 0, Rec_SentParts = 0, Rec_AttemptCount = 0, Rec_NextRetryAt = None,
     Rec_LastError = [], Rec_TelegramChatID = [], Rec_TelegramMessageID = None,
     Rec_CreatedAt = t, Rec_UpdatedAt = t, Rec_DeliveredAt = None, Rec_LastAttemptAt = None \<rparr>"

text \<open>
  The path of a key that is not known yet.  \<open>Inl\<close> is the retry: another request has created the
  delivery in between, and the handler calls itself.
\<close>

definition accept_new :: "env \<Rightarrow> service \<Rightarrow> string \<Rightarrow> string \<Rightarrow> world \<Rightarrow> world + world \<times> answer" where
  "accept_new E S raw idempotencyKey w =
     (let t = now E w in
      case randomID E (step w) of
        (w1, Inl e) \<Rightarrow> Inr (w1, no_result, 500, Some (Wrapped ''generate event id'' e))
      | (w1, Inr eventID) \<Rightarrow>
          (case CreateReceived E Caller (new_record eventID idempotencyKey raw t) w1 of
             (w2, Inl e) \<Rightarrow>
               if e = ErrAlreadyExists then Inl w2
               else
                 Inr (emit (WebhookEvent ''store_error'') w2, no_result, 500,
                      Some (Wrapped ''persist webhook event'' e))
           | (w2, Inr _) \<Rightarrow>
               (case MarkQueued E Caller eventID t w2 of
                  (w3, Inl e) \<Rightarrow> Inr (w3, no_result, 500, Some (Wrapped ''queue delivery'' e))
                | (w3, Inr _) \<Rightarrow> Inr (answer_new E S eventID idempotencyKey w3))))"

definition accept_once :: "env \<Rightarrow> service \<Rightarrow> string \<Rightarrow> world \<Rightarrow> world + world \<times> answer" where
  "accept_once E S raw w =
     (case decode_payload S raw of
        Inl e \<Rightarrow>
          Inr (emit (WebhookEvent ''invalid_json'') w, no_result, 400,
               Some (Wrapped ''decode webhook payload'' e))
      | Inr payload \<Rightarrow>
          (case EnsureCapacity E S w of
             (w1, Some e) \<Rightarrow> Inr (emit (WebhookEvent ''store_rejected'') w1, no_result, 503, Some e)
           | (w1, None) \<Rightarrow>
               let idempotencyKey = ComputeFingerprint payload in
               (case GetByIdempotencyKey E Caller idempotencyKey w1 of
                  (w2, Inl e) \<Rightarrow>
                    Inr (emit (WebhookEvent ''store_error'') w2, no_result, 500,
                         Some (Wrapped ''lookup existing delivery'' e))
                | (w2, Inr (Some existing)) \<Rightarrow> Inr (answer_duplicate E S existing w2)
                | (w2, Inr None) \<Rightarrow> accept_new E S raw idempotencyKey w2)))"

partial_function (option) AcceptWebhook ::
  "env \<Rightarrow> service \<Rightarrow> string \<Rightarrow> world \<Rightarrow> (world \<times> answer) option" where
  "AcceptWebhook E S raw w =
     (case accept_once E S raw w of
        Inl w' \<Rightarrow> AcceptWebhook E S raw w'
      | Inr r \<Rightarrow> Some r)"

end
