(* ===== verification/Steps.thy ===== *)
theory Steps
  imports Accept
begin

text \<open>
  What the services may do to the table.  The locales name the updates a relation between two
  tables has to allow; their lemmas then give that relation between the tables before and after
  a whole operation, in every environment, faults and cancellations included.
\<close>

section \<open>Table effect of the store operations\<close>

text \<open>An \<open>UPDATE\<close> either happens as a whole or not at all.\<close>

lemma sql_exec_tbl: "tbl (fst (sql_exec E c f w)) = tbl w \<or> tbl (fst (sql_exec E c f w)) = f (tbl w)"
  by (auto simp: sql_exec_def split: option.splits prod.splits db_stage.splits)

lemma exec_update_tbl:
  "tbl (fst (exec_update E c op msg f w)) = tbl w \<or> tbl (fst (exec_update E c op msg f w)) = f (tbl w)"
  using sql_exec_tbl [of E c f w] by (auto simp: exec_update_def split: prod.splits)

lemma read_tbl [frame_simps]:
  "tbl (fst (GetByEventID E c i w)) = tbl w"
  "tbl (fst (GetByIdempotencyKey E c i w)) = tbl w"
  "tbl (fst (CountQueued E c w)) = tbl w"
  "tbl (fst (OldestQueuedAge E c t w)) = tbl w"
  "tbl (fst (ListDueEventIDs E c t n w)) = tbl w"
  "tbl (fst (SelectRotatable E c t u n w)) = tbl w"
  "tbl (fst (SizeBytes E p w)) = tbl w"
  "tbl (fst (check_ctx E w)) = tbl w"
  "tbl (fst (persistCtx E w)) = tbl w"
  "tbl (fst (next_retry E S a w)) = tbl w"
  "tbl (fst (do_send E S p w)) = tbl w"
  "tbl (fst (randomID E w)) = tbl w"
  by (auto simp: GetByEventID_def GetByIdempotencyKey_def CountQueued_def OldestQueuedAge_def
      ListDueEventIDs_def SelectRotatable_def SizeBytes_def check_ctx_def persistCtx_def next_retry_def
      do_send_def randomID_def Let_def split: option.splits prod.splits db_stage.splits sum.splits)

lemma idle_tbl [frame_simps]:
  "tbl (fst (Vacuum E c w)) = tbl w" "tbl (fst (CheckpointWAL E c w)) = tbl w"
  using exec_update_tbl [of E c _ _ "\<lambda>t. t" w] sql_exec_tbl [of E c "\<lambda>t. t" w]
  by (auto simp: Vacuum_def CheckpointWAL_def split: prod.splits)

lemma ClaimForSend_tbl:
  "tbl (fst (ClaimForSend E c i t w)) = tbl w
   \<or> tbl (fst (ClaimForSend E c i t w)) = update_where (claimable i) (claim_row t) (tbl w)"
  using sql_exec_tbl [of E c "update_where (claimable i) (claim_row t)" w]
  by (auto simp: ClaimForSend_def Let_def split: prod.splits)

lemma fst_eq: "f x = (a, b) \<Longrightarrow> fst (f x) = a"
  by simp

section \<open>Updates of one event\<close>

text \<open>
  The updates that record a refusal or a failure: none of them touches the parts, the progress or
  a delivery that is done.
\<close>

locale refusal_steps =
  fixes R :: "row list \<Rightarrow> row list \<Rightarrow> bool"
    and eventID :: string
  assumes R_refl: "R t t"
    and R_retry: "R t (update_id eventID (retry_row m e x y) t)"
    and R_terminal: "st \<in> {StatusFailed, StatusDeadLetter} \<Longrightarrow> R t (update_id eventID (terminal_row st m e x) t)"
begin

lemma R_exec: "R (tbl w) (f (tbl w)) \<Longrightarrow> R (tbl w) (tbl (fst (exec_update E c op msg f w)))"
  using exec_update_tbl [of E c op msg f w] R_refl by auto

lemma R_ScheduleRetry: "R (tbl w) (tbl (fst (ScheduleRetry E c eventID m e t w)))"
  unfolding ScheduleRetry_def by (intro R_exec R_retry)

lemma R_MarkFailed: "R (tbl w) (tbl (fst (MarkFailed E c eventID m e w)))"
  unfolding MarkFailed_def markTerminal_def by (intro R_exec R_terminal) simp

lemma R_MarkDeadLetter: "R (tbl w) (tbl (fst (MarkDeadLetter E c eventID m e w)))"
  unfolding MarkDeadLetter_def markTerminal_def by (intro R_exec R_terminal) simp

lemma R_eq: "R (tbl w) (tbl (fst p)) \<Longrightarrow> p = (w', r) \<Longrightarrow> R (tbl w) (tbl w')"
  by simp

lemma R_dead_letter: "R (tbl w) (tbl (fst (dead_letter E eventID m e w)))"
  using R_MarkDeadLetter [of "emit DeliveryDeadLetter w" E Caller m "err_text e"]
  by (auto simp: dead_letter_def split: prod.splits sum.splits)

lemma R_schedule_retry:
  "Rec_EventID record = eventID \<Longrightarrow> R (tbl w) (tbl (fst (schedule_retry E S record m reason ra e w)))"
  using R_ScheduleRetry [of "emit (DeliveryRetry reason) (step w)" E Caller m "err_text e"]
  by (auto simp: schedule_retry_def Let_def split: prod.splits sum.splits)
     (metis fst_conv)+

lemma R_handleSendError:
  assumes "Rec_EventID record = eventID"
  shows "R (tbl w) (tbl (fst (handleSendError E S record parts e w)))"
proof -
  have w0: "tbl w0 = tbl w" if "check_ctx E w = (w0, d)" for w0 d
    using that by (auto simp: check_ctx_def)
  show ?thesis
    unfolding handleSendError_def Let_def
    using assms R_ScheduleRetry  R_MarkFailed R_dead_letter R_schedule_retry [OF assms]
    by (auto split: prod.splits sum.splits option.splits dest!: w0)
       (metis fst_conv step_simps(1))+
qed

lemma R_reschedule:
  "Rec_EventID record = eventID \<Longrightarrow> R (tbl w) (tbl (reschedule E S record parts e w))"
  unfolding reschedule_def Let_def
  using R_ScheduleRetry [of "step (step w)"]
  by (simp add: persistCtx_def next_retry_def)

lemma R_render_failed:
  "Rec_EventID record = eventID \<Longrightarrow> R (tbl w) (tbl (fst (render_failed E record what e w)))"
  using R_MarkFailed [of "step w"] by (simp add: render_failed_def persistCtx_def case_prod_beta)

lemma R_save_failed:
  "Rec_EventID record = eventID \<Longrightarrow> R (tbl w) (tbl (fst (save_failed E S record parts e w)))"
  using R_ScheduleRetry [of "step (step w)"]
  by (simp add: save_failed_def persistCtx_def next_retry_def case_prod_beta)

end

text \<open>All the updates of a delivery.\<close>

locale event_steps = refusal_steps R eventID
  for R :: "row list \<Rightarrow> row list \<Rightarrow> bool" and eventID :: string +
  assumes R_trans: "R t u \<Longrightarrow> R u v \<Longrightarrow> R t v"
    and R_claim: "R t (update_where (claimable eventID) (claim_row x) t)"
    and R_parts: "R t (update_id eventID (parts_row m ps x) t)"
    and R_chunk: "0 \<le> n \<Longrightarrow> R t (update_id eventID (chunk_row n i x) t)"
    and R_delivered: "0 \<le> n \<Longrightarrow> R t (update_id eventID (delivered_row m c n x) t)"
begin

lemma R_ClaimForSend: "R (tbl w) (tbl (fst (ClaimForSend E c eventID t w)))"
  using ClaimForSend_tbl [of E c eventID t w] R_refl R_claim by auto

lemma R_SaveRenderedParts: "R (tbl w) (tbl (fst (SaveRenderedParts E c eventID m ps w)))"
  unfolding SaveRenderedParts_def by (intro R_exec R_parts)

lemma R_MarkChunkSent: "0 \<le> n \<Longrightarrow> R (tbl w) (tbl (fst (MarkChunkSent E c eventID n i w)))"
  unfolding MarkChunkSent_def by (intro R_exec R_chunk)

lemma R_MarkDelivered: "0 \<le> n \<Longrightarrow> R (tbl w) (tbl (fst (MarkDelivered E c eventID m chat n t w)))"
  unfolding MarkDelivered_def by (intro R_exec R_delivered)

text \<open>From an equation \<open>op w = (w', r)\<close>, in the form the case analyses leave it.\<close>

lemmas R_ops = R_SaveRenderedParts R_MarkDelivered R_ScheduleRetry R_MarkFailed R_MarkDeadLetter R_MarkChunkSent

lemma R_render_parts:
  assumes "Rec_EventID record = eventID"
  shows "R (tbl w) (tbl (fst (render_parts E S record w)))"
proof (cases "decode_payload S (Rec_OriginalPayload record)")
  case (Inl e)
  then show ?thesis using R_render_failed [OF assms] by (simp add: render_parts_def)
next
  case (Inr payload)
  obtain w1 r where build: "buildMessages E S payload w = (w1, r)" by fastforce
  then have t1: "tbl w1 = tbl w" by (simp add: buildMessages_tbl)
  show ?thesis
  proof (cases r)
    case (Inl e)
    then show ?thesis
      using Inr build t1 R_render_failed [OF assms, of w1] by (simp add: render_parts_def)
  next
    case (Inr parts)
    obtain w2 r2 where save: "SaveRenderedParts E Caller eventID (joinRendered parts) parts w1 = (w2, r2)" by fastforce
    then have "R (tbl w) (tbl w2)"
      using R_SaveRenderedParts [of w1 E Caller] t1 by (metis fst_conv)
    then show ?thesis
      using \<open>decode_payload S _ = _\<close> build Inr save assms R_trans R_save_failed [OF assms]
      by (cases r2) (auto simp: render_parts_def)
  qed
qed

lemma R_ensureRenderedParts:
  "Rec_EventID record = eventID \<Longrightarrow> R (tbl w) (tbl (fst (ensureRenderedParts E S record w)))"
  using R_render_parts R_refl by (auto simp: ensureRenderedParts_def split: option.splits list.splits)

lemma R_send_parts:
  assumes "Rec_EventID record = eventID"
  shows "R (tbl w) (tbl (fst (send_parts E S record parts index rest w)))"
proof (induction rest arbitrary: index w)
  case (Cons part rest)
  obtain w1 r where send: "do_send E S part w = (w1, r)" by fastforce
  then have t1: "tbl w1 = tbl w" by (auto simp: do_send_def Let_def)
  show ?case
  proof (cases r)
    case (Inl e)
    then show ?thesis
      using send t1 R_handleSendError [OF assms, of w1 E S parts e] by (simp add: case_prod_beta Let_def)
  next
    case (Inr sent)
    obtain w2 r2 where mark: "MarkChunkSent E Caller eventID (int index + 1)
        (if index = 0 then Some (MessageID sent) else None) w1 = (w2, r2)" by fastforce
    have "R (tbl w) (tbl w2)"
      using R_MarkChunkSent [of "int index + 1" w1 E Caller] mark t1 by (metis fst_conv add_nonneg_nonneg of_nat_0_le_iff zero_le_one)
    then show ?thesis
      using send Inr mark assms Cons [of w2 "Suc index"] R_trans R_reschedule [OF assms]
      by (cases r2) auto
  qed
qed (simp add: R_refl)

lemma R_deliver:
  assumes "Rec_EventID record = eventID"
  shows "R (tbl w) (tbl (fst (deliver E S record w)))"
proof -
  obtain w1 r where ensure: "ensureRenderedParts E S record w = (w1, r)" by fastforce
  then have R1: "R (tbl w) (tbl w1)"
    using R_ensureRenderedParts [OF assms, of w E S] by simp
  show ?thesis
  proof (cases r)
    case (Inl e)
    then show ?thesis using ensure R1 by (simp add: deliver_def)
  next
    case (Inr parts)
    let ?start = "nat (Rec_SentParts record)"
    obtain w2 r2 where send: "send_parts E S record parts ?start (drop ?start parts) w1 = (w2, r2)" by fastforce
    have R2: "R (tbl w) (tbl w2)"
      using R_trans [OF R1] R_send_parts [OF assms, of w1] send by (metis fst_conv)
    obtain w3 r3 where mark: "MarkDelivered E Caller eventID (joinRendered parts) (TelegramChatID (cfg S))
        (int (length parts)) (now E w2) (step w2) = (w3, r3)" by fastforce
    have "R (tbl w2) (tbl w3)"
      using R_MarkDelivered [of "int (length parts)" "step w2"] mark by (metis fst_conv of_nat_0_le_iff step_simps(1))
    then have R3: "R (tbl w) (tbl w3)" using R2 R_trans by blast
    have R4: "R (tbl w) (tbl (reschedule E S record parts e w3))" for e
      using R_trans [OF R3 R_reschedule [OF assms]] .
    show ?thesis
      using ensure Inr send mark R2 R3 R4
      by (cases r2; cases r3) (simp_all add: deliver_def Let_def assms case_prod_beta)
  qed
qed

end

lemma ClaimForSend_record:
  assumes "ClaimForSend E c eventID t w = (w', Inr (Some record))"
  obtains r where "find (claimable eventID) (tbl w) = Some r" and "fault E c w = None"
    and "scanRecordValues (claim_row t r) = Inr record"
    and "tbl w' = update_where (claimable eventID) (claim_row t) (tbl w)"
    and "sends w' = sends w" and "ticks w' = Suc (ticks w)"
proof -
  have f: "fault E c w = None" and s: "scanRecord E c w (map_option (claim_row t) (find (claimable eventID) (tbl w))) = Inr (Some record)"
    using assms by (auto simp: ClaimForSend_def Let_def scanRecord_def split: prod.splits option.splits)
  then obtain r where "find (claimable eventID) (tbl w) = Some r" "scanRecordValues (claim_row t r) = Inr record"
    by (auto simp: scanRecord_def split: option.splits sum.splits)
  with f assms that show ?thesis
    by (auto simp: ClaimForSend_def Let_def sql_exec_def split: prod.splits)
qed

lemma scanRecordValues_id: "scanRecordValues r = Inr record \<Longrightarrow> Rec_EventID record = c_event_id r"
  by (auto simp: scanRecordValues_def Let_def split: if_splits option.splits)

lemma claim_id:
  assumes "ClaimForSend E c eventID t w = (w', Inr (Some record))"
  shows "Rec_EventID record = eventID"
proof -
  obtain r where "find (claimable eventID) (tbl w) = Some r" "scanRecordValues (claim_row t r) = Inr record"
    using assms by (rule ClaimForSend_record)
  then show ?thesis
    by (auto dest!: scanRecordValues_id find_Some_iff [THEN iffD1] simp: claimable_def claim_row_def)
qed

context event_steps
begin

theorem R_ProcessEventByID: "R (tbl w) (tbl (fst (ProcessEventByID E S eventID w)))"
proof -
  obtain w1 r where claim: "ClaimForSend E Caller eventID (now E w) (step w) = (w1, r)" by fastforce
  then have R1: "R (tbl w) (tbl w1)"
    using R_ClaimForSend [of "step w" E Caller "now E w"] by simp
  show ?thesis
  proof (cases r)
    case (Inl e)
    then show ?thesis using claim R1 by (simp add: ProcessEventByID_def)
  next
    case (Inr found)
    show ?thesis
    proof (cases found)
      case None
      then show ?thesis using Inr claim R1 by (simp add: ProcessEventByID_def)
    next
      case (Some rc)
      then have "Rec_EventID rc = eventID" using claim Inr claim_id by blast
      then have "R (tbl w1) (tbl (fst (deliver E S rc w1)))" by (rule R_deliver)
      then show ?thesis
        using Some Inr claim R_trans [OF R1] by (auto simp: ProcessEventByID_def split: prod.splits)
    qed
  qed
qed

end

end
