(* ===== verification/Deletions.thy ===== *)
theory Deletions
  imports Steps
begin

text \<open>
  What rotation may remove from the table.  \<open>deletion_steps R d b\<close> says that \<open>R\<close> allows the
  deletion of rows that were rotatable with the cut-offs \<open>d\<close> and \<open>b\<close>; its lemma gives \<open>R\<close> between
  the tables before and after the whole loop, in every environment.
\<close>

definition keys_ok :: "row list \<Rightarrow> bool" where
  "keys_ok t \<longleftrightarrow> distinct (map c_event_id t) \<and> distinct (map c_idempotency_key t)"

locale deletion_steps =
  fixes R :: "row list \<Rightarrow> row list \<Rightarrow> bool"
    and d :: instant
    and b :: instant
  assumes same: "R t t"
    and seq: "R t u \<Longrightarrow> R u v \<Longrightarrow> R t v"
    and R_delete: "(keys_ok t \<Longrightarrow> \<forall>r \<in> set t. c_event_id r \<in> set ids \<longrightarrow> rotatable d b r)
                   \<Longrightarrow> R t (delete_ids ids t)"
begin

lemma delete_selected:
  assumes "SelectRotatable E c d b n w = (w1, Inr candidates)"
    and "DeleteByEventIDs E c' (map Rec_EventID candidates) w1 = (w2, r)"
  shows "R (tbl w) (tbl w2)"
proof -
  have ids: "map Rec_EventID candidates = map c_event_id (rotatable_rows d b n (tbl w))" and t: "tbl w1 = tbl w"
    using SelectRotatable_ids [OF assms(1)] by simp_all
  obtain k where k: "tbl w2 = delete_ids (take k (map Rec_EventID candidates)) (tbl w)"
    using DeleteByEventIDs_any [of E c' "map Rec_EventID candidates" w1] assms(2) t by auto
  show ?thesis
    unfolding k
  proof (intro R_delete ballI impI)
    fix r
    assume ok: "keys_ok (tbl w)" and r: "r \<in> set (tbl w)"
      and "c_event_id r \<in> set (take k (map Rec_EventID candidates))"
    then obtain x where x: "x \<in> set (rotatable_rows d b n (tbl w))" "c_event_id x = c_event_id r"
      unfolding ids by (auto dest!: in_set_takeD)
    then have "x \<in> set (tbl w)" "rotatable d b x" using rotatable_rows_sound by blast+
    moreover have "x = r"
      using ok r x(2) \<open>x \<in> set (tbl w)\<close> unfolding keys_ok_def by (metis distinct_map inj_on_eq_iff)
    ultimately show "rotatable d b r" by blast
  qed
qed

lemma rotate_loop_at:
  "d' = d \<Longrightarrow> b' = b \<Longrightarrow> R (tbl w) (tbl (fst (rotate_loop E S d' b' sz deleted w)))"
proof (induction E S d' b' sz deleted w rule: rotate_loop.induct)
  case (1 E S d' b' sz deleted w)
  note IH = 1(1) and [simp] = 1(2,3)
  obtain w1 c where ck: "check_ctx E w = (w1, c)" and t1: "tbl w1 = tbl w" by (simp add: check_ctx_def)
  obtain w2 r2 where sel: "SelectRotatable E Caller d b 100 w1 = (w2, r2)" by fastforce
  have t2: "tbl w2 = tbl w" using sel t1 by (metis fst_conv read_tbl(6))
  show ?case
  proof (cases "StoreRotationLowWatermark (cfg S) < sz \<and> c = None \<and> (\<exists>cs. r2 = Inr cs \<and> cs \<noteq> [])")
    case False
    then show ?thesis
      using ck sel t1 t2 same by (subst rotate_loop.simps) (auto split: option.splits sum.splits)
  next
    case True
    then obtain cs where go: "StoreRotationLowWatermark (cfg S) < sz" "c = None" "r2 = Inr cs" "cs \<noteq> []" by blast
    obtain w3 r3 where del: "DeleteByEventIDs E Caller (map Rec_EventID cs) w2 = (w3, r3)" by fastforce
    have R3: "R (tbl w) (tbl w3)"
      using delete_selected [OF sel [unfolded go(3)] del] t1 by simp
    obtain w4 r4 where sz4: "SizeBytes E (StorePath (cfg S)) w3 = (w4, r4)" by fastforce
    have t4: "tbl w4 = tbl w3" using sz4 by (metis fst_conv read_tbl(7))
    show ?thesis
    proof (cases "\<exists>u sz'. r3 = Inr u \<and> r4 = Inr sz'")
      case False
      then show ?thesis
        using ck sel go del sz4 t4 R3 by (subst rotate_loop.simps) (auto split: sum.splits)
    next
      case True
      then obtain u sz' where rs: "r3 = Inr u" "r4 = Inr sz'" by blast
      have "R (tbl (emit (SetStoreSize sz') w4)) (tbl (fst (rotate_loop E S d' b' sz' (tally cs deleted) (emit (SetStoreSize sz') w4))))"
        using ck sel go del sz4 rs by (intro IH) auto
      then show ?thesis
        using ck sel go del sz4 rs t4 seq [OF R3] by (subst rotate_loop.simps) auto
    qed
  qed
qed

lemmas rotate_loop = rotate_loop_at [OF refl refl]

end

text \<open>The cut-offs are those \<open>RotateStore\<close> computes when it runs at \<open>w\<close>.\<close>

lemma rotate_deletes:
  assumes R: "StoreRotationEnabled (cfg S) \<Longrightarrow>
      deletion_steps R (clock E (ticks w + 1) - StoreRetentionDelivered (cfg S))
                       (clock E (ticks w + 2) - StoreRetentionDeadLetter (cfg S))"
    and same: "R (tbl w) (tbl w)"
  shows "R (tbl w) (tbl (fst (RotateStore E S w)))"
proof -
  let ?p = "StorePath (cfg S)"
  obtain w1 r1 where s1: "SizeBytes E ?p w = (w1, r1)" and t1: "tbl w1 = tbl w"
    and k1: "ticks w1 = Suc (ticks w)" by (simp add: SizeBytes_def)
  show ?thesis
  proof (cases r1)
    case (Inl e)
    then show ?thesis using s1 t1 same by (simp add: RotateStore_def)
  next
    case (Inr sz)
    let ?w = "emit (SetStoreSize sz) w1"
    obtain w4 r4 where loop: "rotate_loop E S (now E ?w - StoreRetentionDelivered (cfg S))
        (now E (step ?w) - StoreRetentionDeadLetter (cfg S)) sz [] (step (step ?w)) = (w4, r4)" by fastforce
    have R4: "R (tbl w) (tbl w4)" if "StoreRotationEnabled (cfg S)"
      using deletion_steps.rotate_loop [OF R [OF that], of "step (step ?w)" E S sz "[]"] loop t1 k1
      by (simp add: now_def)
    obtain w6 where w6: "w6 = fst (CheckpointWAL E Caller (if StoreVacuumAfterRotation (cfg S)
        then fst (Vacuum E Caller w4) else w4))" by blast
    then have t6: "tbl w6 = tbl w4" by (simp add: frame_simps)
    obtain w7 r7 where s7: "SizeBytes E ?p w6 = (w7, r7)" and t7: "tbl w7 = tbl w4"
      using t6 by (simp add: SizeBytes_def)
    show ?thesis
      using s1 Inr t1 same R4 loop s7 t7
      by (cases r4; cases r7) (auto simp: RotateStore_def Let_def emit_all_def simp flip: w6)
  qed
qed

lemma capacity_deletes:
  assumes R: "\<And>k. StoreRotationEnabled (cfg S) \<Longrightarrow>
      deletion_steps R (clock E (k + 1) - StoreRetentionDelivered (cfg S))
                       (clock E (k + 2) - StoreRetentionDeadLetter (cfg S))"
    and same: "\<And>t. R t t"
  shows "R (tbl w) (tbl (fst (EnsureCapacity E S w)))"
proof -
  obtain w1 r1 where s1: "SizeBytes E (StorePath (cfg S)) w = (w1, r1)" and t1: "tbl w1 = tbl w"
    by (simp add: SizeBytes_def)
  show ?thesis
  proof (cases r1)
    case (Inl e)
    then show ?thesis using s1 t1 same by (simp add: EnsureCapacity_def)
  next
    case (Inr sz)
    let ?w1 = "emit (SetStoreSize sz) w1"
    obtain w2 e2 where rot: "(if StoreRotationEnabled (cfg S) then RotateStore E S ?w1 else (?w1, None)) = (w2, e2)"
      by fastforce
    then have R2: "R (tbl w) (tbl w2)"
      using rotate_deletes [of S R E ?w1, OF R same] t1 same by (auto split: if_splits)
    obtain w3 r3 where s3: "SizeBytes E (StorePath (cfg S)) w2 = (w3, r3)" and t3: "tbl w3 = tbl w2"
      by (simp add: SizeBytes_def)
    show ?thesis
      using s1 Inr t1 same rot R2 s3 t3
      by (cases e2; cases r3) (auto simp: EnsureCapacity_def Let_def)
  qed
qed

end
