(* ===== verification/Invariants.thy ===== *)
theory Invariants
  imports Deletions
begin

text \<open>
  Invariants of the table: the two unique keys of the schema, and well-formed rows.  They are
  interpretations of the step locales on the model's operations.
\<close>

section \<open>What drives the program\<close>

text \<open>
  The events of a running server (\<open>cmd/server/main.go\<close>): a webhook that passed authentication, a
  ticker of the worker loop, and a restart, whose first action on the store is
  \<open>RequeueSending\<close>.  \<open>serve\<close> runs them one after the other; \<open>None\<close> is a handler that does not
  return.
\<close>

datatype event = Webhook string | Tick ticker | Restart

fun serve :: "env \<Rightarrow> service \<Rightarrow> event \<Rightarrow> world \<Rightarrow> world option" where
  "serve E S (Webhook raw) w = map_option fst (AcceptWebhook E S raw w)"
| "serve E S (Tick t) w = Some (run_tick E S t w)"
| "serve E S Restart w = Some (fst (RequeueSending E Caller (now E w) (step w)))"

fun serve_all :: "env \<Rightarrow> service \<Rightarrow> event list \<Rightarrow> world \<Rightarrow> world option" where
  "serve_all E S [] w = Some w"
| "serve_all E S (e # es) w = (case serve E S e w of None \<Rightarrow> None | Some w' \<Rightarrow> serve_all E S es w')"

section \<open>Updates of the whole table\<close>

text \<open>
  A relation on tables that every step of the services respects.  Insertion is allowed only for a
  key and an id not in the table, the id drawn from \<open>E\<close>; queueing only for an event that was
  just received; deletion only with the cut-offs of a rotation.
\<close>

definition drawn :: "env \<Rightarrow> string \<Rightarrow> bool" where
  "drawn E i \<longleftrightarrow> (\<exists>k buffer. rand_read E k 16 = Inr buffer \<and> i = hex_EncodeToString buffer)"

locale service_steps =
  fixes R :: "row list \<Rightarrow> row list \<Rightarrow> bool"
    and E :: env
  assumes same: "R t t"
    and seq: "R t u \<Longrightarrow> R u v \<Longrightarrow> R t v"
    and R_process: "R (tbl w) (tbl (fst (ProcessEventByID E S eventID w)))"
    and R_insert: "unique_violation t new = None \<Longrightarrow> drawn E i \<Longrightarrow>
        new = insert_row (new_record i k raw x) (marshal_strings None) \<Longrightarrow> R t (t @ [new])"
    and R_queue: "\<exists>r \<in> set t. c_event_id r = i \<and> c_status r = StatusReceived \<Longrightarrow>
        R t (update_id i (queue_row StatusQueued x e y) t)"
    and R_restart: "R t (update_where (\<lambda>r. c_status r = StatusSending) (requeue_sending_row x y) t)"
    and R_deletions: "deletion_steps R d b"
begin

lemma recover_loop: "R (tbl w) (tbl (fst (recover_loop E S ids w)))"
proof (induction ids arbitrary: w)
  case (Cons i ids)
  obtain w1 d where "check_ctx E w = (w1, d)" and t1: "tbl w1 = tbl w"
    by (simp add: check_ctx_def)
  then show ?case
    using Cons [of "fst (ProcessEventByID E S i w1)"] R_process [of w1 S i] seq same
    by (cases d) (auto simp flip: t1)
qed (simp add: same)

lemma recover: "R (tbl w) (tbl (fst (RecoverPending E S w)))"
proof -
  obtain w1 r where list: "ListDueEventIDs E Caller (now E w) (WorkerBatchSize (cfg S)) (step w) = (w1, r)"
    by fastforce
  then have "tbl w1 = tbl w" by (metis fst_conv read_tbl(5) step_simps(1))
  then show ?thesis
    using list recover_loop [of w1 S] same by (cases r) (auto simp: RecoverPending_def)
qed

lemma refresh_tbl: "tbl (refreshQueueMetrics E S w) = tbl w"
  by (simp add: refreshQueueMetrics_def Let_def case_prod_beta frame_simps split: sum.splits)

lemma rotate: "R (tbl w) (tbl (fst (RotateStore E S w)))"
  by (rule rotate_deletes [OF R_deletions same])

lemma capacity: "R (tbl w) (tbl (fst (EnsureCapacity E S w)))"
  by (rule capacity_deletes [OF R_deletions same])

lemma new_record_parts: "Rec_RenderedParts (new_record i k raw t) = None"
  by (simp add: new_record_def)

lemma create:
  assumes "CreateReceived E c (new_record i k raw t) w = (w', r)" and "drawn E i"
  shows "R (tbl w) (tbl w')"
  using assms(1) R_insert [OF _ assms(2) HOL.refl] same
  by (auto simp: new_record_parts CreateReceived_def Let_def split: option.splits prod.splits db_stage.splits if_splits)

lemma created:
  assumes "CreateReceived E c (new_record i k raw t) w = (w', Inr u)"
  shows "\<exists>r \<in> set (tbl w'). c_event_id r = i \<and> c_status r = StatusReceived"
  using assms
  by (auto simp: CreateReceived_def Let_def insert_row_def new_record_def
      split: option.splits prod.splits db_stage.splits if_splits)

lemma queue:
  assumes "MarkQueued E c i t w = (w', r)"
    and "\<exists>r \<in> set (tbl w). c_event_id r = i \<and> c_status r = StatusReceived"
  shows "R (tbl w) (tbl w')"
  using assms(1) exec_update_tbl [of E c "''mark_queued''" "''mark_queued''" _ w] R_queue [OF assms(2)] same
  unfolding MarkQueued_def updateStatus_def by (metis fst_conv)

lemma load_tbl: "loadAcceptResult E S i k d w = (w', a) \<Longrightarrow> tbl w' = tbl w"
  using read_tbl(1) [of E Caller i w]
  by (auto simp: loadAcceptResult_def Let_def split: prod.splits sum.splits option.splits if_splits)

lemma duplicate: "R (tbl w) (tbl (fst (answer_duplicate E S rc w)))"
  using R_process [of w S "Rec_EventID rc"] same
  by (auto simp: answer_duplicate_def Let_def split: prod.splits dest!: load_tbl intro!: fst_eq)
     (metis fst_conv load_tbl emit_simps(1) prod.collapse)+

lemma answer: "R (tbl w) (tbl (fst (answer_new E S i k w)))"
proof -
  obtain w1 e where pr: "ProcessEventByID E S i w = (w1, e)" by fastforce
  then have R1: "R (tbl w) (tbl w1)" using R_process [of w S i] by simp
  obtain w2 res sc le where ld: "loadAcceptResult E S i k False w1 = (w2, res, sc, le)" by (metis prod.collapse)
  have t2: "tbl w2 = tbl w1" by (rule load_tbl [OF ld])
  obtain w3 a where ld': "loadAcceptResult E S i k False (emit (WebhookEvent ''success'') w1) = (w3, a)"
    by (metis surj_pair)
  have t3: "tbl w3 = tbl w1" using load_tbl [OF ld'] by simp
  show ?thesis
    using pr R1 ld t2 ld' t3 by (cases e; cases le) (auto simp: answer_new_def)
qed

lemma accept_new: 
  "case accept_new E S raw k w of Inl w' \<Rightarrow> R (tbl w) (tbl w') | Inr (w', a) \<Rightarrow> R (tbl w) (tbl w')"
proof -
  obtain w1 r1 where id: "randomID E (step w) = (w1, r1)" and t1: "tbl w1 = tbl w" by (simp add: randomID_def)
  show ?thesis
  proof (cases r1)
    case (Inl e)
    then show ?thesis using id t1 same by (simp add: accept_new_def Let_def)
  next
    case (Inr i)
    obtain w2 r2 where cr: "CreateReceived E Caller (new_record i k raw (now E w)) w1 = (w2, r2)" by fastforce
    have "drawn E i" using id Inr by (auto simp: randomID_def drawn_def split: sum.splits)
    then have R2: "R (tbl w) (tbl w2)" using create [OF cr] t1 by simp
    obtain w3 r3 where mq: "MarkQueued E Caller i (now E w) w2 = (w3, r3)" by fastforce
    show ?thesis
    proof (cases r2)
      case (Inl e)
      then show ?thesis using id \<open>r1 = Inr i\<close> cr R2 by (simp add: accept_new_def Let_def)
    next
      case (Inr u)
      then have R3: "R (tbl w) (tbl w3)" using seq [OF R2 queue [OF mq]] created cr by blast
      show ?thesis
        using id \<open>r1 = Inr i\<close> cr mq R3 Inr seq [OF R3 answer [of w3 S i k]]
        by (cases r3) (auto simp: accept_new_def Let_def split: prod.splits)
    qed
  qed
qed

lemma accept_once:
  "case accept_once E S raw w of Inl w' \<Rightarrow> R (tbl w) (tbl w') | Inr (w', a) \<Rightarrow> R (tbl w) (tbl w')"
proof (cases "decode_payload S raw")
  case (Inl e)
  then show ?thesis using same by (simp add: accept_once_def)
next
  case (Inr payload)
  obtain w1 e1 where cap: "EnsureCapacity E S w = (w1, e1)" by fastforce
  then have R1: "R (tbl w) (tbl w1)" using capacity [of w S] by simp
  let ?k = "ComputeFingerprint payload"
  obtain w2 r2 where get: "GetByIdempotencyKey E Caller ?k w1 = (w2, r2)" by fastforce
  have t2: "tbl w2 = tbl w1" using get by (metis fst_conv read_tbl(2))
  have new: "case accept_new E S raw ?k w2 of Inl w' \<Rightarrow> R (tbl w) (tbl w') | Inr (w', a) \<Rightarrow> R (tbl w) (tbl w')"
    using accept_new [of w2 S raw ?k] seq [OF R1] t2 by (auto split: sum.splits prod.splits)
  have dup: "R (tbl w) (tbl w')" if "answer_duplicate E S rc w2 = (w', a)" for rc w' a
    using seq [OF R1] duplicate [of w2 S rc] t2 that by simp
  show ?thesis
    using Inr cap R1 get t2 new dup
    by (auto simp: accept_once_def Let_def split: option.splits sum.splits prod.splits)
qed

lemma accept_at:
  assumes "AcceptWebhook E' S raw w = Some p"
  shows "E' = E \<longrightarrow> R (tbl w) (tbl (fst p))"
proof (rule AcceptWebhook.raw_induct [where P = "\<lambda>E' S raw w p. E' = E \<longrightarrow> R (tbl w) (tbl (fst p))", OF _ assms], rule impI)
  fix f E' S raw w p
  assume IH: "\<And>E' S raw w p. f E' S raw w = Some p \<Longrightarrow> E' = E \<longrightarrow> R (tbl w) (tbl (fst p))"
    and body: "(case accept_once E' S raw w of Inl w' \<Rightarrow> f E' S raw w' | Inr r \<Rightarrow> Some r) = Some p"
    and E': "E' = E"
  show "R (tbl w) (tbl (fst p))"
    using body accept_once [of w S raw] seq IH E' by (cases "accept_once E S raw w") (auto split: prod.splits)
qed

lemmas accept = accept_at [THEN mp, OF _ refl]

lemma tick: "R (tbl w) (tbl (run_tick E S t w))"
  using recover [of "refreshQueueMetrics E S w" S] rotate [of w S] by (cases t) (simp_all add: refresh_tbl)

lemma restart: "R (tbl w) (tbl (fst (RequeueSending E c t w)))"
  using sql_exec_tbl [of E c "update_where (\<lambda>r. c_status r = StatusSending) (requeue_sending_row t (now E w))" w]
    R_restart same
  by (auto simp: RequeueSending_def Let_def split: prod.splits sum.splits)

lemma serve: "serve E S e w = Some w' \<Longrightarrow> R (tbl w) (tbl w')"
  using accept [of S _ w] tick restart [of "step w"] by (cases e) fastforce+

lemma serve_all: "serve_all E S es w = Some w' \<Longrightarrow> R (tbl w) (tbl w')"
proof (induction es arbitrary: w)
  case (Cons e es)
  then show ?case using serve [of S e w] seq by (auto split: option.splits)
qed (simp add: same)

lemma run: "R (tbl w) (tbl (Run E S fired w))"
proof -
  have "R (tbl v) (tbl (foldl (\<lambda>w t. run_tick E S t w) v fired))" for v
    by (induction fired arbitrary: v) (simp_all add: same, metis seq tick)
  then show ?thesis unfolding Run_def by (metis refresh_tbl)
qed

end

text \<open>
  When the relation allows every single update of a row wherever it happens, it is respected by a
  delivery and hence by the services, in every environment.
\<close>

locale table_steps =
  fixes R :: "row list \<Rightarrow> row list \<Rightarrow> bool"
  assumes R_event: "event_steps R eventID"
    and R_add: "unique_violation t new = None \<Longrightarrow> new = insert_row (new_record i k raw x) (marshal_strings None) \<Longrightarrow> R t (t @ [new])"
    and R_requeue: "R t (update_id i (queue_row StatusQueued x e y) t)"
    and R_reset: "R t (update_where (\<lambda>r. c_status r = StatusSending) (requeue_sending_row x y) t)"
    and R_remove: "R t (delete_ids ids t)"

sublocale table_steps \<subseteq> service_steps R E for E
proof (rule service_steps.intro)
  fix t u v :: "row list"
  show refl: "R t t" for t by (rule refusal_steps.R_refl [OF event_steps.axioms(1) [OF R_event]])
  show trans: "R t u \<Longrightarrow> R u v \<Longrightarrow> R t v" for t u v by (rule event_steps.R_trans [OF R_event])
  show "deletion_steps R d b" for d b
    by (rule deletion_steps.intro) (rule refl, erule (1) trans, rule R_remove)
qed (simp_all add: R_add R_requeue R_reset event_steps.R_ProcessEventByID [OF R_event])

section \<open>The unique keys\<close>

lemma keys_update:
  assumes "\<And>r. c_event_id (f r) = c_event_id r" "\<And>r. c_idempotency_key (f r) = c_idempotency_key r"
  shows "keys_ok (update_where P f t) \<longleftrightarrow> keys_ok t"
proof -
  have "map c_event_id (update_where P f t) = map c_event_id t"
    "map c_idempotency_key (update_where P f t) = map c_idempotency_key t"
    using assms by (auto simp: update_where_def)
  then show ?thesis by (simp only: keys_ok_def)
qed

lemmas row_defs = claim_row_def parts_row_def chunk_row_def delivered_row_def retry_row_def
  terminal_row_def queue_row_def requeue_row_def requeue_sending_row_def

lemma keys_delete: "keys_ok t \<Longrightarrow> keys_ok (delete_ids ids t)"
  by (simp add: keys_ok_def delete_ids_def distinct_map_filter)

lemma keys_insert: "keys_ok t \<Longrightarrow> unique_violation t r = None \<Longrightarrow> keys_ok (t @ [r])"
  by (auto simp: keys_ok_def unique_violation_def split: if_splits)

interpretation keys: table_steps "\<lambda>t u. keys_ok t \<longrightarrow> keys_ok u"
proof
  fix t new i k raw x
  assume "unique_violation t new = None"
  then show "keys_ok t \<longrightarrow> keys_ok (t @ [new])" using keys_insert by blast
next
  fix t ids
  show "keys_ok t \<longrightarrow> keys_ok (delete_ids ids t)" using keys_delete by blast
qed (auto simp: keys_update row_defs split: option.splits)

section \<open>Well-formed rows\<close>

definition statuses :: "string list" where
  "statuses = [StatusReceived, StatusQueued, StatusSending, StatusDelivered, StatusRetryScheduled,
               StatusFailed, StatusDeadLetter]"

definition row_ok :: "row \<Rightarrow> bool" where
  "row_ok r \<longleftrightarrow> c_status r \<in> set statuses \<and> 0 \<le> c_attempt_count r \<and> 0 \<le> c_sent_parts r
     \<and> 0 \<le> c_split_count r \<and> unmarshal_strings (c_rendered_parts r) \<noteq> None"

definition rows_ok :: "row list \<Rightarrow> bool" where
  "rows_ok t \<longleftrightarrow> (\<forall>r \<in> set t. row_ok r)"

lemma rows_update: "(\<And>r. P r \<Longrightarrow> row_ok r \<Longrightarrow> row_ok (f r)) \<Longrightarrow> rows_ok t \<longrightarrow> rows_ok (update_where P f t)"
  by (auto simp: rows_ok_def update_where_def)

lemma row_ok_new: "row_ok (insert_row (new_record i k raw x) (marshal_strings None))"
  by (simp add: row_ok_def insert_row_def new_record_def statuses_def unmarshal_marshal)

lemma row_ok_steps:
  "row_ok r \<Longrightarrow> row_ok (claim_row x r)"
  "row_ok r \<Longrightarrow> row_ok (parts_row m ps x r)"
  "0 \<le> n \<Longrightarrow> row_ok r \<Longrightarrow> row_ok (chunk_row n i x r)"
  "0 \<le> n \<Longrightarrow> row_ok r \<Longrightarrow> row_ok (delivered_row m c n x r)"
  "row_ok r \<Longrightarrow> row_ok (retry_row m e x y r)"
  "st = StatusFailed \<or> st = StatusDeadLetter \<Longrightarrow> row_ok r \<Longrightarrow> row_ok (terminal_row st m e x r)"
  "row_ok r \<Longrightarrow> row_ok (queue_row StatusQueued x e y r)"
  "row_ok r \<Longrightarrow> row_ok (requeue_sending_row x y r)"
  by (auto simp: row_ok_def row_defs statuses_def unmarshal_marshal split: option.splits)

interpretation rows: table_steps "\<lambda>t u. rows_ok t \<longrightarrow> rows_ok u"
proof
  fix t new i k raw x
  assume "new = insert_row (new_record i k raw x) (marshal_strings None)"
  then show "rows_ok t \<longrightarrow> rows_ok (t @ [new])" using row_ok_new by (simp add: rows_ok_def)
next
  fix t ids
  show "rows_ok t \<longrightarrow> rows_ok (delete_ids ids t)" by (auto simp: rows_ok_def delete_ids_def)
next
  fix t st m e x eventID
  assume "st \<in> {StatusFailed, StatusDeadLetter}"
  then show "rows_ok t \<longrightarrow> rows_ok (update_id eventID (terminal_row st m e x) t)"
    by (intro rows_update row_ok_steps) simp_all
qed (blast | rule rows_update, erule row_ok_steps | rule rows_update, erule (1) row_ok_steps)+

section \<open>Other events\<close>

text \<open>
  What a delivery may not touch: other events at all, and of its own event the identity, the
  payload and the time of creation.
\<close>

definition same_delivery :: "row \<Rightarrow> row \<Rightarrow> bool" where
  "same_delivery r s \<longleftrightarrow> c_event_id s = c_event_id r \<and> c_idempotency_key s = c_idempotency_key r
     \<and> c_original_payload s = c_original_payload r \<and> c_created_at s = c_created_at r"

definition framed :: "string \<Rightarrow> row list \<Rightarrow> row list \<Rightarrow> bool" where
  "framed eventID t u \<longleftrightarrow>
     list_all2 (\<lambda>r s. same_delivery r s \<and> (c_event_id r \<noteq> eventID \<longrightarrow> s = r)) t u"

lemma framed_update:
  assumes "\<And>r. P r \<Longrightarrow> c_event_id r = eventID \<and> same_delivery r (f r)"
  shows "framed eventID t (update_where P f t)"
  unfolding framed_def update_where_def list_all2_map2
  using assms by (intro list_all2_refl) (auto simp: same_delivery_def)

lemma framed_trans: "framed eventID t u \<Longrightarrow> framed eventID u v \<Longrightarrow> framed eventID t v"
  unfolding framed_def
  by (rule list_all2_trans [where ?P2.0 = "\<lambda>r s. same_delivery r s \<and> (c_event_id r \<noteq> eventID \<longrightarrow> s = r)"])
    (auto simp: same_delivery_def)

interpretation frame: event_steps "framed eventID" eventID for eventID
proof
  fix t u v :: "row list"
  show "framed eventID t t" by (simp add: framed_def list_all2_refl same_delivery_def)
  show "framed eventID t u \<Longrightarrow> framed eventID u v \<Longrightarrow> framed eventID t v" by (rule framed_trans)
qed (rule framed_update; auto simp: same_delivery_def row_defs claimable_def split: option.splits)+

end
