(* ===== verification/Outbox.thy ===== *)
theory Outbox
  imports Invariants
begin

text \<open>
  The contract of a delivery attempt as an abstract outbox, and the refinement: in an environment
  without store faults and cancellations one call of \<open>ProcessEventByID\<close> is one \<open>attempt\<close>.
\<close>

section \<open>The abstract outbox\<close>

text \<open>The phases of an event, ordered so that the final ones come last.\<close>

datatype phase = Waiting | InFlight | Delivered | Failed | DeadLettered

fun phase_rank :: "phase \<Rightarrow> nat" where
  "phase_rank Waiting = 0"
| "phase_rank InFlight = 1"
| "phase_rank Delivered = 2"
| "phase_rank Failed = 3"
| "phase_rank DeadLettered = 4"

lemma phase_rank_inject: "phase_rank p = phase_rank q \<longleftrightarrow> p = q"
  by (cases p; cases q) simp_all

instantiation phase :: linorder
begin

definition less_eq_phase :: "phase \<Rightarrow> phase \<Rightarrow> bool" where
  "less_eq_phase p q \<longleftrightarrow> phase_rank p \<le> phase_rank q"

definition less_phase :: "phase \<Rightarrow> phase \<Rightarrow> bool" where
  "less_phase p q \<longleftrightarrow> phase_rank p < phase_rank q"

instance
  by standard (auto simp: less_eq_phase_def less_phase_def phase_rank_inject)

end

definition final :: "phase \<Rightarrow> bool" where
  "final p \<longleftrightarrow> Delivered \<le> p"

record outbox =
  ob_phase :: phase
  ob_attempts :: int
  ob_todo :: "string list"

text \<open>
  Asking Telegram for one message after the other: how many are accepted, and the refusal that
  stopped the attempt.  \<open>ask k p\<close> is the answer at tick \<open>k\<close>; recording the chunk takes a tick.
\<close>

fun ask_all :: "(nat \<Rightarrow> string \<Rightarrow> SentMessage result) \<Rightarrow> nat \<Rightarrow> string list \<Rightarrow> nat \<times> err option" where
  "ask_all ask k [] = (0, None)"
| "ask_all ask k (p # ps) =
     (case ask k p of
        Inl e \<Rightarrow> (0, Some e)
      | Inr _ \<Rightarrow> let (n, refusal) = ask_all ask (k + 2) ps in (Suc n, refusal))"

text \<open>What a refusal means for an event that has used up \<open>n\<close> attempts.\<close>

definition permanent :: "err \<Rightarrow> bool" where
  "permanent e \<longleftrightarrow> (case as_api e of None \<Rightarrow> False | Some a \<Rightarrow> \<not> Retryable a)"

definition verdict :: "int \<Rightarrow> int \<Rightarrow> err option \<Rightarrow> phase" where
  "verdict limit n refusal =
     (case refusal of
        None \<Rightarrow> Delivered
      | Some e \<Rightarrow> if permanent e then Failed else if limit \<le> n then DeadLettered else Waiting)"

definition attempt :: "int \<Rightarrow> (nat \<Rightarrow> string \<Rightarrow> SentMessage result) \<Rightarrow> nat \<Rightarrow> outbox \<Rightarrow> outbox" where
  "attempt limit ask k ob =
     (let (n, refusal) = ask_all ask k (ob_todo ob)
      in \<lparr> ob_phase = verdict limit (ob_attempts ob + 1) refusal,
           ob_attempts = ob_attempts ob + 1,
           ob_todo = drop n (ob_todo ob) \<rparr>)"

section \<open>The abstraction\<close>

definition phase_of :: "string \<Rightarrow> phase" where
  "phase_of st =
     (if st = StatusSending then InFlight
      else if st = StatusDelivered then Delivered
      else if st = StatusFailed then Failed
      else if st = StatusDeadLetter then DeadLettered
      else Waiting)"

definition abs_row :: "string list \<Rightarrow> row \<Rightarrow> outbox" where
  "abs_row parts r =
     \<lparr> ob_phase = phase_of (c_status r), ob_attempts = c_attempt_count r,
       ob_todo = drop (nat (c_sent_parts r)) parts \<rparr>"

definition lookup :: "string \<Rightarrow> row list \<Rightarrow> row option" where
  "lookup eventID t = find (\<lambda>r. c_event_id r = eventID) t"

definition asked :: "env \<Rightarrow> service \<Rightarrow> nat \<Rightarrow> string \<Rightarrow> SentMessage result" where
  "asked E S k p = telegram E k (TelegramChatID (cfg S)) p (MessageParseMode (cfg S))"

definition accepted_texts :: "world \<Rightarrow> string list" where
  "accepted_texts w = map send_text (filter send_accepted (sends w))"

lemma lookup_update:
  assumes "\<And>r. c_event_id (f r) = c_event_id r"
  shows "lookup i (update_where P f t) = map_option (\<lambda>r. if P r then f r else r) (lookup i t)"
  using assms by (induction t) (auto simp: lookup_def update_where_def)

lemma lookup_id: "lookup i t = Some r \<Longrightarrow> c_event_id r = i"
  by (auto simp: lookup_def find_Some_iff)

lemma lookup_in: "lookup i t = Some r \<Longrightarrow> r \<in> set t"
  by (auto simp: lookup_def find_Some_iff)

lemma find_claimable:
  assumes "keys_ok t" and "lookup i t = Some r"
  shows "find (claimable i) t = (if c_status r \<in> set pending_statuses then Some r else None)"
  using assms
proof (induction t)
  case (Cons x t)
  show ?case
  proof (cases "c_event_id x = i")
    case True
    then have "find (claimable i) t = None"
      using Cons.prems by (auto simp: keys_ok_def find_None_iff claimable_def) (metis imageI)
    then show ?thesis using True Cons.prems by (auto simp: lookup_def claimable_def [abs_def])
  next
    case False
    then show ?thesis using Cons by (auto simp: lookup_def claimable_def keys_ok_def)
  qed
qed (simp add: lookup_def)

section \<open>The store in a calm environment\<close>

lemma calm_exec:
  "calm_from E k \<Longrightarrow> k \<le> ticks w \<Longrightarrow>
   exec_update E c op msg f w = (observe op None (step (w\<lparr>tbl := f (tbl w)\<rparr>)), Inr ())"
  by (simp add: exec_update_def sql_exec_def calm_fault)

lemmas update_ops = SaveRenderedParts_def MarkChunkSent_def MarkDelivered_def ScheduleRetry_def
  MarkFailed_def MarkDeadLetter_def markTerminal_def

lemma row_ids [simp]:
  "c_event_id (claim_row x r) = c_event_id r" "c_event_id (parts_row m ps x r) = c_event_id r"
  "c_event_id (chunk_row n i x r) = c_event_id r" "c_event_id (delivered_row m c s x r) = c_event_id r"
  "c_event_id (retry_row m e x y r) = c_event_id r" "c_event_id (terminal_row st m e x r) = c_event_id r"
  by (simp_all add: row_defs split: option.splits)

text \<open>The columns that sending a chunk and giving a verdict leave alone.\<close>

definition kept :: "row \<Rightarrow> row \<Rightarrow> bool" where
  "kept r s \<longleftrightarrow> same_delivery r s \<and> c_attempt_count s = c_attempt_count r
     \<and> c_rendered_parts s = c_rendered_parts r"

lemma kept_refl [simp]: "kept r r" and kept_trans: "kept r s \<Longrightarrow> kept s u \<Longrightarrow> kept r u"
  by (simp_all add: kept_def same_delivery_def)

lemma kept_rows [simp]:
  "kept r (chunk_row n i x r)" "kept r (delivered_row m c s x r)" "kept r (retry_row m e x y r)"
  "kept r (terminal_row st m e x r)"
  by (simp_all add: kept_def same_delivery_def row_defs split: option.splits)

lemma row_fields [simp]:
  "c_sent_parts (chunk_row n i x r) = n" "c_status (chunk_row n i x r) = c_status r"
  "c_sent_parts (retry_row m e x y r) = c_sent_parts r" "c_status (retry_row m e x y r) = StatusRetryScheduled"
  "c_sent_parts (terminal_row st m e x r) = c_sent_parts r" "c_status (terminal_row st m e x r) = st"
  "c_sent_parts (delivered_row m c s x r) = s" "c_status (delivered_row m c s x r) = StatusDelivered"
  by (simp_all add: row_defs split: option.splits)

lemma phase_of_simps [simp]:
  "phase_of StatusReceived = Waiting" "phase_of StatusQueued = Waiting" "phase_of StatusRetryScheduled = Waiting"
  "phase_of StatusSending = InFlight" "phase_of StatusDelivered = Delivered" "phase_of StatusFailed = Failed"
  "phase_of StatusDeadLetter = DeadLettered"
  by (simp_all add: phase_of_def)

section \<open>A refusal\<close>

lemma handleSendError_calm:
  assumes "calm_from E k" and "k \<le> ticks w" and "lookup (Rec_EventID record) (tbl w) = Some r"
  obtains w' e' r' where "handleSendError E S record parts e w = (w', e')"
    and "lookup (Rec_EventID record) (tbl w') = Some r'" and "kept r r'" and "c_sent_parts r' = c_sent_parts r"
    and "phase_of (c_status r') = verdict (MaxDeliveryAttempts (cfg S)) (Rec_AttemptCount record) (Some e)"
    and "sends w' = sends w" and "ticks w \<le> ticks w'"
proof -
  have "\<exists>w' e' r'. handleSendError E S record parts e w = (w', e')
    \<and> lookup (Rec_EventID record) (tbl w') = Some r' \<and> kept r r' \<and> c_sent_parts r' = c_sent_parts r
    \<and> phase_of (c_status r') = verdict (MaxDeliveryAttempts (cfg S)) (Rec_AttemptCount record) (Some e)
    \<and> sends w' = sends w \<and> ticks w \<le> ticks w'"
    using assms lookup_id [OF assms(3)]
    by (cases "as_api e")
      (simp_all add: handleSendError_def check_ctx_def calm_ctx [OF assms(1)] update_ops dead_letter_def
        schedule_retry_def calm_exec [OF assms(1)] lookup_update verdict_def permanent_def Let_def)
  with that show ?thesis by blast
qed

section \<open>The send loop\<close>

lemma send_parts_calm:
  assumes "calm_from E k" and "k \<le> ticks w" and "lookup (Rec_EventID record) (tbl w) = Some r"
    and "c_sent_parts r = int index" and "ask_all (asked E S) (ticks w) rest = (n, refusal)"
  shows "\<exists>w' out r'. send_parts E S record parts index rest w = (w', out)
    \<and> lookup (Rec_EventID record) (tbl w') = Some r' \<and> kept r r' \<and> c_sent_parts r' = int (index + n)
    \<and> accepted_texts w' = accepted_texts w @ take n rest \<and> ticks w \<le> ticks w'
    \<and> (case refusal of
         None \<Rightarrow> out = None \<and> c_status r' = c_status r \<and> n = length rest
       | Some e \<Rightarrow> out \<noteq> None \<and> fst (the out) = ''retry''
           \<and> phase_of (c_status r') = verdict (MaxDeliveryAttempts (cfg S)) (Rec_AttemptCount record) (Some e))"
  using assms(2-)
proof (induction rest arbitrary: index w r n)
  case Nil
  then show ?case by simp
next
  case (Cons part rest)
  let ?id = "Rec_EventID record"
  obtain w1 a where send: "do_send E S part w = (w1, a)" by fastforce
  have w1: "tbl w1 = tbl w" "ticks w1 = Suc (ticks w)" "a = asked E S (ticks w) part"
    "accepted_texts w1 = accepted_texts w @ (if err_of a = None then [part] else [])"
    using send by (auto simp: do_send_def Let_def asked_def accepted_texts_def)
  show ?case
  proof (cases a)
    case (Inl e)
    then have n: "n = 0" "refusal = Some e" using Cons.prems(4) w1(3) by (auto split: sum.splits)
    obtain w2 e' r' where h: "handleSendError E S record parts e w1 = (w2, e')"
      "lookup ?id (tbl w2) = Some r'" "kept r r'" "c_sent_parts r' = c_sent_parts r"
      "phase_of (c_status r') = verdict (MaxDeliveryAttempts (cfg S)) (Rec_AttemptCount record) (Some e)"
      "sends w2 = sends w1" "ticks w1 \<le> ticks w2"
      using handleSendError_calm [OF assms(1), of w1 "record" r S parts e] Cons.prems(1,2) w1 by auto
    then show ?thesis
      using send Inl n w1 Cons.prems(3) by (simp add: accepted_texts_def)
  next
    case (Inr sent)
    let ?mid = "if index = 0 then Some (MessageID sent) else None"
    let ?w2 = "observe ''mark_chunk_sent'' None
      (step (w1\<lparr>tbl := update_id ?id (chunk_row (int index + 1) ?mid (now E w1)) (tbl w1)\<rparr>))"
    let ?r2 = "chunk_row (int index + 1) ?mid (now E w1) r"
    have mark: "MarkChunkSent E Caller ?id (int index + 1) ?mid w1 = (?w2, Inr ())"
      using Cons.prems(1) w1 by (simp add: MarkChunkSent_def calm_exec [OF assms(1)])
    obtain m where m: "ask_all (asked E S) (ticks ?w2) rest = (m, refusal)" "n = Suc m"
      using Cons.prems(4) w1(2) Inr w1(3) [symmetric] by (auto split: prod.splits)
    have r2: "lookup ?id (tbl ?w2) = Some ?r2"
      using Cons.prems(2) lookup_id [OF Cons.prems(2)] w1 by (simp add: lookup_update)
    have "\<exists>w' out r'. send_parts E S record parts (Suc index) rest ?w2 = (w', out)
      \<and> lookup ?id (tbl w') = Some r' \<and> kept ?r2 r' \<and> c_sent_parts r' = int (Suc index + m)
      \<and> accepted_texts w' = accepted_texts ?w2 @ take m rest \<and> ticks ?w2 \<le> ticks w'
      \<and> (case refusal of
           None \<Rightarrow> out = None \<and> c_status r' = c_status ?r2 \<and> m = length rest
         | Some e \<Rightarrow> out \<noteq> None \<and> fst (the out) = ''retry''
             \<and> phase_of (c_status r') = verdict (MaxDeliveryAttempts (cfg S)) (Rec_AttemptCount record) (Some e))"
      by (rule Cons.IH [OF _ r2 _ m(1)]) (use Cons.prems(1) w1 in simp_all)
    then obtain w' out r' where rest: "send_parts E S record parts (Suc index) rest ?w2 = (w', out)"
      "lookup ?id (tbl w') = Some r'" "kept ?r2 r'" "c_sent_parts r' = int (Suc index + m)"
      "accepted_texts w' = accepted_texts ?w2 @ take m rest" "ticks ?w2 \<le> ticks w'"
      and out: "case refusal of
           None \<Rightarrow> out = None \<and> c_status r' = c_status ?r2 \<and> m = length rest
         | Some e \<Rightarrow> out \<noteq> None \<and> fst (the out) = ''retry''
             \<and> phase_of (c_status r') = verdict (MaxDeliveryAttempts (cfg S)) (Rec_AttemptCount record) (Some e)"
      by blast
    have "accepted_texts ?w2 = accepted_texts w @ [part]"
      using w1(4) Inr by (simp add: accepted_texts_def)
    then have acc: "accepted_texts w' = accepted_texts w @ take n (part # rest)"
      using rest(5) m(2) by simp
    have run: "send_parts E S record parts index (part # rest) w = (w', out)"
      using send Inr mark rest(1) by simp
    have k: "kept r r'" using kept_trans [OF kept_rows(1) rest(3)] .
    have out': "case refusal of
           None \<Rightarrow> out = None \<and> c_status r' = c_status r \<and> n = length (part # rest)
         | Some e \<Rightarrow> out \<noteq> None \<and> fst (the out) = ''retry''
             \<and> phase_of (c_status r') = verdict (MaxDeliveryAttempts (cfg S)) (Rec_AttemptCount record) (Some e)"
      using out m(2) by (simp split: option.splits)
    show ?thesis
      using run rest(2,4,6) k acc out' m(2) w1(2)
      by (intro exI [of _ w'] exI [of _ out] exI [of _ r'] conjI) simp_all
  qed
qed

section \<open>One attempt\<close>

text \<open>Sending the parts and settling the verdict, from the row as it is after rendering.\<close>

lemma deliver_calm:
  assumes calm: "calm_from E k" and k: "k \<le> ticks w1" and ens: "ensureRenderedParts E S record w = (w1, Inr parts)"
    and row: "lookup (Rec_EventID record) (tbl w1) = Some r" and sent: "0 \<le> c_sent_parts r"
    and rec: "Rec_SentParts record = c_sent_parts r" "Rec_AttemptCount record = c_attempt_count r"
    and asks: "ask_all (asked E S) (ticks w1) (drop (nat (c_sent_parts r)) parts) = (n, refusal)"
  shows "\<exists>w' label e r'. deliver E S record w = (w', label, e)
    \<and> lookup (Rec_EventID record) (tbl w') = Some r' \<and> kept r r'
    \<and> accepted_texts w' = accepted_texts w1 @ take n (drop (nat (c_sent_parts r)) parts)
    \<and> phase_of (c_status r') = verdict (MaxDeliveryAttempts (cfg S)) (c_attempt_count r) refusal
    \<and> drop (nat (c_sent_parts r')) parts = drop n (drop (nat (c_sent_parts r)) parts)
    \<and> 0 \<le> c_sent_parts r' \<and> ticks w1 \<le> ticks w'
    \<and> (if refusal = None then label = ''success'' \<and> e = None else label = ''retry'' \<and> e \<noteq> None)"
proof -
  let ?id = "Rec_EventID record" and ?start = "nat (c_sent_parts r)"
  obtain w2 out r2 where loop: "send_parts E S record parts ?start (drop ?start parts) w1 = (w2, out)"
    and r2: "lookup ?id (tbl w2) = Some r2" "kept r r2" "c_sent_parts r2 = int (?start + n)"
    and acc: "accepted_texts w2 = accepted_texts w1 @ take n (drop ?start parts)" and t2: "ticks w1 \<le> ticks w2"
    and out: "case refusal of
         None \<Rightarrow> out = None \<and> c_status r2 = c_status r \<and> n = length (drop ?start parts)
       | Some e \<Rightarrow> out \<noteq> None \<and> fst (the out) = ''retry''
           \<and> phase_of (c_status r2) = verdict (MaxDeliveryAttempts (cfg S)) (Rec_AttemptCount record) (Some e)"
    using send_parts_calm [OF calm k row _ asks, of ?start parts] sent by (auto simp del: length_drop)
  have todo: "drop (nat (c_sent_parts r2)) parts = drop n (drop ?start parts)"
    unfolding r2(3) nat_int by (simp add: add.commute)
  show ?thesis
  proof (cases refusal)
    case (Some e)
    then obtain label e' where o: "out = Some (label, e')" "label = ''retry''"
      using out by auto
    show ?thesis
      using ens loop o r2 acc t2 todo out Some rec
      by (intro exI [of _ w2] exI [of _ label] exI [of _ "Some e'"] exI [of _ r2]) (simp add: deliver_def Let_def)
  next
    case None
    let ?f = "delivered_row (joinRendered parts) (TelegramChatID (cfg S)) (int (length parts)) (now E w2)"
    let ?w3 = "observe ''mark_delivered'' None (step (step w2\<lparr>tbl := update_id ?id ?f (tbl w2)\<rparr>))"
    have mark: "MarkDelivered E Caller ?id (joinRendered parts) (TelegramChatID (cfg S)) (int (length parts))
        (now E w2) (step w2) = (?w3, Inr ())"
      using k t2 by (simp add: MarkDelivered_def calm_exec [OF calm])
    have run: "deliver E S record w = (?w3, ''success'', None)"
      using ens loop mark out None rec by (simp add: deliver_def Let_def)
    have r3: "lookup ?id (tbl ?w3) = Some (?f r2)"
      using r2(1) lookup_id [OF r2(1)] by (simp add: lookup_update)
    have k3: "kept r (?f r2)" using kept_trans [OF r2(2) kept_rows(2)] .
    have acc3: "accepted_texts ?w3 = accepted_texts w2" by (simp add: accepted_texts_def)
    show ?thesis
      using run r3 k3 acc acc3 None t2 out
      by (intro exI [of _ ?w3] exI [of _ "''success''"] exI [of _ None] exI [of _ "?f r2"] conjI)
        (simp_all add: verdict_def)
  qed
qed

text \<open>The record that a claim hands out, and the row it leaves.\<close>

lemma claim_calm:
  assumes calm: "calm_from E k" and k: "k \<le> ticks w" and ok: "keys_ok (tbl w)"
    and row: "lookup eventID (tbl w) = Some r" and pend: "c_status r \<in> set pending_statuses"
    and parts: "unmarshal_strings (c_rendered_parts r) = Some ps" "c_rendered_parts r \<noteq> []"
  obtains w1 rc where "ClaimForSend E Caller eventID t w = (w1, Inr (Some rc))"
    and "lookup eventID (tbl w1) = Some (claim_row t r)" and "Rec_EventID rc = eventID"
    and "Rec_RenderedParts rc = ps" and "Rec_SentParts rc = c_sent_parts r"
    and "Rec_AttemptCount rc = c_attempt_count r + 1" and "Rec_OriginalPayload rc = c_original_payload r"
    and "ticks w1 = Suc (ticks w)" and "sends w1 = sends w"
    and "tbl w1 = update_where (claimable eventID) (claim_row t) (tbl w)"
proof -
  obtain rc where scan: "scanRecordValues (claim_row t r) = Inr rc"
    and fields: "Rec_EventID rc = eventID" "Rec_RenderedParts rc = ps" "Rec_SentParts rc = c_sent_parts r"
      "Rec_AttemptCount rc = c_attempt_count r + 1" "Rec_OriginalPayload rc = c_original_payload r"
    using parts lookup_id [OF row] by (simp add: scanRecordValues_def claim_row_def)
  have "find (claimable eventID) (tbl w) = Some r"
    using find_claimable [OF ok row] pend by simp
  moreover have "lookup eventID (update_where (claimable eventID) (claim_row t) (tbl w)) = Some (claim_row t r)"
    using row lookup_id [OF row] pend by (simp add: lookup_update claimable_def)
  ultimately show thesis
    using scan fields that calm_fault [OF calm k]
    by (simp add: ClaimForSend_def sql_exec_def scanRecord_def)
qed

text \<open>An event that was rendered by an earlier attempt.\<close>

lemma process_calm:
  assumes calm: "calm_from E k" and k: "k \<le> ticks w" and ok: "keys_ok (tbl w)"
    and row: "lookup eventID (tbl w) = Some r" and pend: "c_status r \<in> set pending_statuses"
    and parts: "unmarshal_strings (c_rendered_parts r) = Some (Some parts)" "c_rendered_parts r \<noteq> []" "parts \<noteq> []"
    and sent: "0 \<le> c_sent_parts r"
    and asks: "ask_all (asked E S) (ticks w + 2) (drop (nat (c_sent_parts r)) parts) = (n, refusal)"
  shows "\<exists>w' e r'. ProcessEventByID E S eventID w = (w', e) \<and> lookup eventID (tbl w') = Some r'
    \<and> abs_row parts r' = attempt (MaxDeliveryAttempts (cfg S)) (asked E S) (ticks w + 2) (abs_row parts r)
    \<and> same_delivery r r' \<and> c_rendered_parts r' = c_rendered_parts r \<and> 0 \<le> c_sent_parts r'
    \<and> accepted_texts w' = accepted_texts w @ take n (drop (nat (c_sent_parts r)) parts)
    \<and> (e = None \<longleftrightarrow> refusal = None) \<and> ticks w + 2 \<le> ticks w'"
proof -
  let ?t = "now E w"
  obtain w1 rc where claim: "ClaimForSend E Caller eventID ?t (step w) = (w1, Inr (Some rc))"
    and r1: "lookup eventID (tbl w1) = Some (claim_row ?t r)" and rc: "Rec_EventID rc = eventID"
      "Rec_RenderedParts rc = Some parts" "Rec_SentParts rc = c_sent_parts r"
      "Rec_AttemptCount rc = c_attempt_count r + 1"
    and w1: "ticks w1 = Suc (ticks (step w))" "sends w1 = sends (step w)"
    by (rule claim_calm [OF calm _ _ _ pend parts(1,2), of "step w" eventID ?t]) (use k ok row in auto)
  have ens: "ensureRenderedParts E S rc w1 = (w1, Inr parts)"
    using rc(2) parts(3) by (cases parts) (simp_all add: ensureRenderedParts_def)
  have fields: "c_sent_parts (claim_row ?t r) = c_sent_parts r" "c_attempt_count (claim_row ?t r) = c_attempt_count r + 1"
    "c_rendered_parts (claim_row ?t r) = c_rendered_parts r" "same_delivery r (claim_row ?t r)"
    by (simp_all add: claim_row_def same_delivery_def)
  have "\<exists>w' label e r'. deliver E S rc w1 = (w', label, e)
    \<and> lookup (Rec_EventID rc) (tbl w') = Some r' \<and> kept (claim_row ?t r) r'
    \<and> accepted_texts w' = accepted_texts w1 @ take n (drop (nat (c_sent_parts (claim_row ?t r))) parts)
    \<and> phase_of (c_status r') = verdict (MaxDeliveryAttempts (cfg S)) (c_attempt_count (claim_row ?t r)) refusal
    \<and> drop (nat (c_sent_parts r')) parts = drop n (drop (nat (c_sent_parts (claim_row ?t r))) parts)
    \<and> 0 \<le> c_sent_parts r' \<and> ticks w1 \<le> ticks w'
    \<and> (if refusal = None then label = ''success'' \<and> e = None else label = ''retry'' \<and> e \<noteq> None)"
    by (rule deliver_calm [OF calm _ ens]) (use k w1 r1 rc sent asks fields in simp_all)
  then obtain w2 label e r' where d: "deliver E S rc w1 = (w2, label, e)"
    and r': "lookup eventID (tbl w2) = Some r'" "kept (claim_row ?t r) r'"
    and acc: "accepted_texts w2 = accepted_texts w1 @ take n (drop (nat (c_sent_parts r)) parts)"
    and ph: "phase_of (c_status r') = verdict (MaxDeliveryAttempts (cfg S)) (c_attempt_count r + 1) refusal"
    and todo: "drop (nat (c_sent_parts r')) parts = drop n (drop (nat (c_sent_parts r)) parts)"
    and rest: "0 \<le> c_sent_parts r'" "ticks w1 \<le> ticks w2" "e = None \<longleftrightarrow> refusal = None"
    unfolding rc(1) fields by (auto split: if_splits)
  have "ProcessEventByID E S eventID w = (emit (DeliveryAttempt label) w2, e)"
    using claim d by (simp add: ProcessEventByID_def)
  moreover have "abs_row parts r' = attempt (MaxDeliveryAttempts (cfg S)) (asked E S) (ticks w + 2) (abs_row parts r)"
    using asks ph todo r'(2) fields by (simp add: abs_row_def attempt_def kept_def)
  moreover have "same_delivery r r'" "c_rendered_parts r' = c_rendered_parts r"
    using r'(2) fields by (auto simp: kept_def same_delivery_def)
  ultimately show ?thesis
    using r'(1) acc rest w1 by (auto simp: accepted_texts_def)
qed

text \<open>An event that has not been rendered yet: the parts are rendered and stored first.\<close>

lemma buildMessages_ticks:
  "buildMessages E S payload w = (w', r) \<Longrightarrow> ticks w \<le> ticks w' \<and> tbl w' = tbl w \<and> sends w' = sends w"
  by (simp add: buildMessages_tbl)

lemma render_calm:
  assumes calm: "calm_from E k" and k: "k \<le> ticks w" and fresh: "Rec_RenderedParts rc = None"
    and decode: "decode_payload S (Rec_OriginalPayload rc) = Inr payload"
    and build: "buildMessages E S payload w = (wb, Inr parts)"
    and row: "lookup (Rec_EventID rc) (tbl w) = Some r"
  obtains w1 where "ensureRenderedParts E S rc w = (w1, Inr parts)" and "ticks w1 = Suc (ticks wb)"
    and "lookup (Rec_EventID rc) (tbl w1) = Some (parts_row (joinRendered parts) parts (now E wb) r)"
    and "sends w1 = sends w"
proof -
  let ?id = "Rec_EventID rc"
  let ?f = "parts_row (joinRendered parts) parts (now E wb)"
  let ?w1 = "observe ''save_rendered_parts'' None (step (wb\<lparr>tbl := update_id ?id ?f (tbl wb)\<rparr>))"
  have b: "ticks w \<le> ticks wb" "tbl wb = tbl w" "sends wb = sends w"
    using buildMessages_ticks [OF build] by auto
  have "SaveRenderedParts E Caller ?id (joinRendered parts) parts wb = (?w1, Inr ())"
    using k b by (simp add: SaveRenderedParts_def calm_exec [OF calm])
  moreover have "lookup ?id (tbl ?w1) = Some (?f r)"
    using row lookup_id [OF row] b by (simp add: lookup_update)
  ultimately show thesis
    using fresh decode build b that [of ?w1] by (simp add: ensureRenderedParts_def render_parts_def)
qed

lemma process_fresh_calm:
  assumes calm: "calm_from E k" and k: "k \<le> ticks w" and ok: "keys_ok (tbl w)"
    and row: "lookup eventID (tbl w) = Some r" and pend: "c_status r \<in> set pending_statuses"
    and fresh: "unmarshal_strings (c_rendered_parts r) = Some None" "c_rendered_parts r \<noteq> []"
    and decode: "decode_payload S (c_original_payload r) = Inr payload"
    and build: "buildMessages E S payload (fst (ClaimForSend E Caller eventID (now E w) (step w))) = (wb, Inr parts)"
    and sent: "0 \<le> c_sent_parts r"
    and asks: "ask_all (asked E S) (ticks wb + 1) (drop (nat (c_sent_parts r)) parts) = (n, refusal)"
  shows "\<exists>w' e r'. ProcessEventByID E S eventID w = (w', e) \<and> lookup eventID (tbl w') = Some r'
    \<and> abs_row parts r' = attempt (MaxDeliveryAttempts (cfg S)) (asked E S) (ticks wb + 1) (abs_row parts r)
    \<and> same_delivery r r' \<and> c_rendered_parts r' = marshal_strings (Some parts) \<and> 0 \<le> c_sent_parts r'
    \<and> accepted_texts w' = accepted_texts w @ take n (drop (nat (c_sent_parts r)) parts)
    \<and> (e = None \<longleftrightarrow> refusal = None) \<and> ticks wb < ticks w'"
proof -
  let ?t = "now E w"
  obtain w1 rc where claim: "ClaimForSend E Caller eventID ?t (step w) = (w1, Inr (Some rc))"
    and r1: "lookup eventID (tbl w1) = Some (claim_row ?t r)" and rc: "Rec_EventID rc = eventID"
      "Rec_RenderedParts rc = None" "Rec_SentParts rc = c_sent_parts r"
      "Rec_AttemptCount rc = c_attempt_count r + 1" "Rec_OriginalPayload rc = c_original_payload r"
    and w1: "ticks w1 = Suc (ticks (step w))" "sends w1 = sends (step w)"
    by (rule claim_calm [OF calm _ _ _ pend fresh, of "step w" eventID ?t]) (use k ok row in auto)
  have build': "buildMessages E S payload w1 = (wb, Inr parts)" using build claim by simp
  obtain w2 where ens: "ensureRenderedParts E S rc w1 = (w2, Inr parts)" and t2: "ticks w2 = Suc (ticks wb)"
    and r2: "lookup eventID (tbl w2) = Some (parts_row (joinRendered parts) parts (now E wb) (claim_row ?t r))"
    and s2: "sends w2 = sends w1"
    using render_calm [OF calm _ rc(2) _ build', of "claim_row ?t r"] decode r1 rc k w1 by auto
  let ?r2 = "parts_row (joinRendered parts) parts (now E wb) (claim_row ?t r)"
  have fields: "c_sent_parts ?r2 = c_sent_parts r" "c_attempt_count ?r2 = c_attempt_count r + 1"
    "c_rendered_parts ?r2 = marshal_strings (Some parts)" "same_delivery r ?r2"
    by (simp_all add: claim_row_def parts_row_def same_delivery_def)
  have kb: "k \<le> ticks w2" using k w1 t2 buildMessages_ticks [OF build'] by simp
  have "\<exists>w' label e r'. deliver E S rc w1 = (w', label, e)
    \<and> lookup (Rec_EventID rc) (tbl w') = Some r' \<and> kept ?r2 r'
    \<and> accepted_texts w' = accepted_texts w2 @ take n (drop (nat (c_sent_parts ?r2)) parts)
    \<and> phase_of (c_status r') = verdict (MaxDeliveryAttempts (cfg S)) (c_attempt_count ?r2) refusal
    \<and> drop (nat (c_sent_parts r')) parts = drop n (drop (nat (c_sent_parts ?r2)) parts)
    \<and> 0 \<le> c_sent_parts r' \<and> ticks w2 \<le> ticks w'
    \<and> (if refusal = None then label = ''success'' \<and> e = None else label = ''retry'' \<and> e \<noteq> None)"
    by (rule deliver_calm [OF calm kb ens]) (use r2 rc sent asks fields t2 in simp_all)
  then obtain w3 label e r' where d: "deliver E S rc w1 = (w3, label, e)"
    and r': "lookup eventID (tbl w3) = Some r'" "kept ?r2 r'"
    and acc: "accepted_texts w3 = accepted_texts w2 @ take n (drop (nat (c_sent_parts r)) parts)"
    and ph: "phase_of (c_status r') = verdict (MaxDeliveryAttempts (cfg S)) (c_attempt_count r + 1) refusal"
    and todo: "drop (nat (c_sent_parts r')) parts = drop n (drop (nat (c_sent_parts r)) parts)"
    and rest: "0 \<le> c_sent_parts r'" "ticks w2 \<le> ticks w3" "e = None \<longleftrightarrow> refusal = None"
    unfolding rc(1) fields by (auto split: if_splits)
  have "ProcessEventByID E S eventID w = (emit (DeliveryAttempt label) w3, e)"
    using claim d by (simp add: ProcessEventByID_def)
  moreover have "abs_row parts r' = attempt (MaxDeliveryAttempts (cfg S)) (asked E S) (ticks wb + 1) (abs_row parts r)"
    using asks ph todo r'(2) fields by (simp add: abs_row_def attempt_def kept_def)
  moreover have "same_delivery r r'" "c_rendered_parts r' = marshal_strings (Some parts)"
    using r'(2) fields by (auto simp: kept_def same_delivery_def)
  ultimately show ?thesis
    using r'(1) acc rest w1 s2 t2 by (auto simp: accepted_texts_def)
qed

section \<open>Gate and repetition\<close>

lemma process_gate:
  assumes "\<forall>r \<in> set (tbl w). c_event_id r = eventID \<longrightarrow> c_status r \<notin> set pending_statuses"
    and "ProcessEventByID E S eventID w = (w', e)"
  shows "tbl w' = tbl w \<and> sends w' = sends w \<and> ticks w' = ticks w + 2
    \<and> (e = None \<or> (\<exists>x. e = Some (Wrapped ''claim delivery'' x)))"
proof -
  have none: "find (claimable eventID) (tbl w) = None"
    using assms(1) by (auto simp: find_None_iff claimable_def)
  have same: "update_where (claimable eventID) f (tbl w) = tbl w" for f
    using assms(1) by (auto simp: update_where_def claimable_def intro!: map_idI)
  show ?thesis
    using assms(2) none same
    by (auto simp: ProcessEventByID_def ClaimForSend_def scanRecord_def sql_exec_def Let_def
        split: option.splits prod.splits sum.splits db_stage.splits if_splits)
qed

fun process_n :: "env \<Rightarrow> service \<Rightarrow> string \<Rightarrow> nat \<Rightarrow> world \<Rightarrow> world" where
  "process_n E S eventID 0 w = w"
| "process_n E S eventID (Suc n) w = fst (ProcessEventByID E S eventID (process_n E S eventID n w))"

lemma process_n_ok:
  "keys_ok (tbl w) \<Longrightarrow> rows_ok (tbl w) \<Longrightarrow>
   keys_ok (tbl (process_n E S eventID n w)) \<and> rows_ok (tbl (process_n E S eventID n w))"
  using keys.R_process rows.R_process by (induction n) auto

lemma waiting_pending: "row_ok r \<Longrightarrow> phase_of (c_status r) = Waiting \<longleftrightarrow> c_status r \<in> set pending_statuses"
  by (auto simp: row_ok_def statuses_def pending_statuses_def phase_of_def)

lemma lookup_unique: "keys_ok t \<Longrightarrow> lookup i t = Some r \<Longrightarrow> x \<in> set t \<Longrightarrow> c_event_id x = i \<Longrightarrow> x = r"
  unfolding keys_ok_def by (metis distinct_map inj_on_eq_iff lookup_id lookup_in)

text \<open>
  One call on an event with stored parts: an attempt when it waits, and nothing otherwise.
\<close>

lemma process_step:
  assumes calm: "calm_from E k" and k: "k \<le> ticks w" and ok: "keys_ok (tbl w)" "rows_ok (tbl w)"
    and row: "lookup eventID (tbl w) = Some r" and parts: "unmarshal_strings (c_rendered_parts r) = Some (Some parts)"
      "c_rendered_parts r \<noteq> []" "parts \<noteq> []"
  shows "\<exists>w' r'. fst (ProcessEventByID E S eventID w) = w' \<and> lookup eventID (tbl w') = Some r'
    \<and> c_rendered_parts r' = c_rendered_parts r \<and> ticks w \<le> ticks w'
    \<and> abs_row parts r' =
        (if ob_phase (abs_row parts r) = Waiting
         then attempt (MaxDeliveryAttempts (cfg S)) (asked E S) (ticks w + 2) (abs_row parts r)
         else abs_row parts r)
    \<and> accepted_texts w' @ ob_todo (abs_row parts r') = accepted_texts w @ ob_todo (abs_row parts r)"
proof -
  have rok: "row_ok r" using ok(2) lookup_in [OF row] by (simp add: rows_ok_def)
  obtain w' e where run: "ProcessEventByID E S eventID w = (w', e)" by fastforce
  show ?thesis
  proof (cases "phase_of (c_status r) = Waiting")
    case True
    then have pend: "c_status r \<in> set pending_statuses" using waiting_pending [OF rok] by simp
    have sent: "0 \<le> c_sent_parts r" using rok by (simp add: row_ok_def)
    obtain n refusal where asks: "ask_all (asked E S) (ticks w + 2) (drop (nat (c_sent_parts r)) parts) = (n, refusal)"
      by fastforce
    obtain w1 e1 r' where w1: "ProcessEventByID E S eventID w = (w1, e1)" "lookup eventID (tbl w1) = Some r'"
      "c_rendered_parts r' = c_rendered_parts r" "ticks w + 2 \<le> ticks w1"
      and ab: "abs_row parts r' = attempt (MaxDeliveryAttempts (cfg S)) (asked E S) (ticks w + 2) (abs_row parts r)"
      and acc: "accepted_texts w1 = accepted_texts w @ take n (drop (nat (c_sent_parts r)) parts)"
      using process_calm [OF calm k ok(1) row pend parts sent asks] by blast
    have todo: "ob_todo (attempt (MaxDeliveryAttempts (cfg S)) (asked E S) (ticks w + 2) (abs_row parts r))
        = drop n (drop (nat (c_sent_parts r)) parts)"
      using asks by (simp add: attempt_def abs_row_def)
    have "accepted_texts w1 @ ob_todo (abs_row parts r') = accepted_texts w @ ob_todo (abs_row parts r)"
      unfolding acc ab todo append_assoc append_take_drop_id by (simp add: abs_row_def)
    moreover have "ob_phase (abs_row parts r) = Waiting" using True by (simp add: abs_row_def)
    ultimately show ?thesis
      using w1 by (intro exI [of _ w1] exI [of _ r']) (simp add: ab)
  next
    case False
    then have "\<forall>x \<in> set (tbl w). c_event_id x = eventID \<longrightarrow> c_status x \<notin> set pending_statuses"
      using lookup_unique [OF ok(1) row] waiting_pending [OF rok] by auto
    from process_gate [OF this run] have w': "tbl w' = tbl w" "sends w' = sends w" "ticks w \<le> ticks w'"
      by simp_all
    moreover have "ob_phase (abs_row parts r) \<noteq> Waiting" using False by (simp add: abs_row_def)
    ultimately show ?thesis
      using run row by (intro exI [of _ w'] exI [of _ r]) (simp add: accepted_texts_def)
  qed
qed

lemma process_n_parts:
  assumes calm: "calm_from E (ticks w)" and ok: "keys_ok (tbl w)" "rows_ok (tbl w)"
    and row: "lookup eventID (tbl w) = Some r" and parts: "unmarshal_strings (c_rendered_parts r) = Some (Some parts)"
      "c_rendered_parts r \<noteq> []" "parts \<noteq> []"
  shows "\<exists>r'. lookup eventID (tbl (process_n E S eventID n w)) = Some r'
    \<and> c_rendered_parts r' = c_rendered_parts r \<and> ticks w \<le> ticks (process_n E S eventID n w)
    \<and> accepted_texts (process_n E S eventID n w) @ ob_todo (abs_row parts r') = accepted_texts w @ ob_todo (abs_row parts r)"
proof (induction n)
  case 0
  then show ?case using row by simp
next
  case (Suc n)
  let ?w = "process_n E S eventID n w"
  obtain r1 where r1: "lookup eventID (tbl ?w) = Some r1" "c_rendered_parts r1 = c_rendered_parts r"
    "ticks w \<le> ticks ?w" "accepted_texts ?w @ ob_todo (abs_row parts r1) = accepted_texts w @ ob_todo (abs_row parts r)"
    using Suc by blast
  have "keys_ok (tbl ?w)" "rows_ok (tbl ?w)" using process_n_ok [OF ok] by auto
  from process_step [OF calm r1(3) this r1(1), of parts S] parts r1 show ?case by fastforce
qed

text \<open>Telegram refusing every message, though never for good; and Telegram accepting everything.\<close>

definition stubborn :: "env \<Rightarrow> service \<Rightarrow> bool" where
  "stubborn E S \<longleftrightarrow> (\<forall>k p. \<exists>e. asked E S k p = Inl e \<and> \<not> permanent e)"

definition willing_from :: "env \<Rightarrow> service \<Rightarrow> nat \<Rightarrow> bool" where
  "willing_from E S k \<longleftrightarrow> (\<forall>j \<ge> k. \<forall>p. \<exists>m. asked E S j p = Inr m)"

lemma attempt_stubborn:
  assumes "stubborn E S" and "ob_todo ob \<noteq> []"
  shows "attempt limit (asked E S) k ob =
    ob\<lparr>ob_phase := (if limit \<le> ob_attempts ob + 1 then DeadLettered else Waiting), ob_attempts := ob_attempts ob + 1\<rparr>"
proof -
  obtain p ps where "ob_todo ob = p # ps" using assms(2) by (cases "ob_todo ob") auto
  moreover obtain e where "asked E S k p = Inl e" "\<not> permanent e"
    using assms(1) unfolding stubborn_def by blast
  ultimately show ?thesis by (simp add: attempt_def verdict_def)
qed

lemma ask_all_willing:
  assumes "willing_from E S j" and "j \<le> k"
  shows "ask_all (asked E S) k ps = (length ps, None)"
  using assms(2)
proof (induction ps arbitrary: k)
  case (Cons p ps)
  moreover obtain m where "asked E S k p = Inr m"
    using assms(1) Cons.prems unfolding willing_from_def by blast
  ultimately show ?case by simp
qed simp

lemma process_n_stubborn:
  assumes calm: "calm_from E (ticks w)" and ok: "keys_ok (tbl w)" "rows_ok (tbl w)"
    and row: "lookup eventID (tbl w) = Some r" and parts: "unmarshal_strings (c_rendered_parts r) = Some (Some parts)"
      "c_rendered_parts r \<noteq> []" "parts \<noteq> []"
    and start: "abs_row parts r = \<lparr> ob_phase = Waiting, ob_attempts = 0, ob_todo = parts \<rparr>"
    and stub: "stubborn E S" and limit: "1 \<le> MaxDeliveryAttempts (cfg S)"
  shows "\<exists>r'. lookup eventID (tbl (process_n E S eventID n w)) = Some r'
    \<and> c_rendered_parts r' = c_rendered_parts r \<and> ticks w \<le> ticks (process_n E S eventID n w)
    \<and> abs_row parts r' =
        \<lparr> ob_phase = (if int n < MaxDeliveryAttempts (cfg S) then Waiting else DeadLettered),
          ob_attempts = min (int n) (MaxDeliveryAttempts (cfg S)), ob_todo = parts \<rparr>"
proof (induction n)
  case 0
  then show ?case using row start limit by simp
next
  case (Suc n)
  let ?w = "process_n E S eventID n w"
  obtain r1 where r1: "lookup eventID (tbl ?w) = Some r1" "c_rendered_parts r1 = c_rendered_parts r"
    "ticks w \<le> ticks ?w" and abs1: "abs_row parts r1 =
        \<lparr> ob_phase = (if int n < MaxDeliveryAttempts (cfg S) then Waiting else DeadLettered),
          ob_attempts = min (int n) (MaxDeliveryAttempts (cfg S)), ob_todo = parts \<rparr>"
    using Suc by blast
  have ok1: "keys_ok (tbl ?w)" "rows_ok (tbl ?w)" using process_n_ok [OF ok] by auto
  obtain r2 where r2: "lookup eventID (tbl (process_n E S eventID (Suc n) w)) = Some r2"
    "c_rendered_parts r2 = c_rendered_parts r" "ticks w \<le> ticks (process_n E S eventID (Suc n) w)"
    and abs2: "abs_row parts r2 = (if ob_phase (abs_row parts r1) = Waiting
         then attempt (MaxDeliveryAttempts (cfg S)) (asked E S) (ticks ?w + 2) (abs_row parts r1) else abs_row parts r1)"
    using process_step [OF calm r1(3) ok1 r1(1), of parts S] parts r1 by fastforce
  have "abs_row parts r2 =
        \<lparr> ob_phase = (if int (Suc n) < MaxDeliveryAttempts (cfg S) then Waiting else DeadLettered),
          ob_attempts = min (int (Suc n)) (MaxDeliveryAttempts (cfg S)), ob_todo = parts \<rparr>"
    unfolding abs2 abs1 using parts(3) by (auto simp: attempt_stubborn [OF stub])
  then show ?case using r2 by blast
qed

end
