(* ===== verification/Sends.thy ===== *)
theory Sends
  imports Outbox
begin

text \<open>
  Which messages a delivery hands to Telegram, in any environment: the next stored parts in
  order, all accepted but possibly the last.
\<close>

section \<open>What is sent, in any environment\<close>

lemma exec_update_sends: "sends (fst (exec_update E c op msg f w)) = sends w"
  by (auto simp: exec_update_def sql_exec_def Let_def split: option.splits prod.splits db_stage.splits)

lemma update_sends [frame_simps]:
  "sends (fst (SaveRenderedParts E c i m ps w)) = sends w"
  "sends (fst (MarkChunkSent E c i n mid w)) = sends w"
  "sends (fst (MarkDelivered E c i m chat n t w)) = sends w"
  "sends (fst (ScheduleRetry E c i m e t w)) = sends w"
  "sends (fst (MarkFailed E c i m e w)) = sends w"
  "sends (fst (MarkDeadLetter E c i m e w)) = sends w"
  by (simp_all add: update_ops exec_update_sends)

lemma sends_eq: "sends (fst p) = sends w \<Longrightarrow> p = (w', x) \<Longrightarrow> sends w' = sends w"
  by simp

lemma dead_letter_sends: "sends (fst (dead_letter E i m e w)) = sends w"
  using update_sends(6) [of E Caller i m "err_text e" "emit DeliveryDeadLetter w"]
  by (auto simp: dead_letter_def split: prod.splits sum.splits)

lemma schedule_retry_sends: "sends (fst (schedule_retry E S rc m reason ra e w)) = sends w"
  using update_sends(4) [of E Caller "Rec_EventID rc" m "err_text e" _ "emit (DeliveryRetry reason) (step w)"]
  by (auto simp: schedule_retry_def Let_def split: prod.splits sum.splits) (metis fst_conv)+

lemma handleSendError_sends: "sends (fst (handleSendError E S rc parts e w)) = sends w"
proof -
  have mf: "sends (fst (MarkFailed E Caller i m x (step w))) = sends w" for i m x
    using update_sends(5) [of E Caller i m x "step w"] by simp
  show ?thesis
    using dead_letter_sends schedule_retry_sends mf update_sends(4)
    by (auto simp: handleSendError_def check_ctx_def Let_def case_prod_beta split: option.splits sum.splits prod.splits)
qed

lemma reschedule_sends: "sends (reschedule E S rc parts e w) = sends w"
  by (simp add: reschedule_def persistCtx_def next_retry_def Let_def update_sends)

lemma ensureRenderedParts_sends: "sends (fst (ensureRenderedParts E S rc w)) = sends w"
proof -
  have rf: "sends (fst (render_failed E rc what e v)) = sends v" for what e v
    by (simp add: render_failed_def persistCtx_def case_prod_beta update_sends)
  have sf: "sends (fst (save_failed E S rc ps e v)) = sends v" for ps e v
    by (simp add: save_failed_def persistCtx_def next_retry_def case_prod_beta update_sends)
  have rp: "sends (fst (render_parts E S rc w)) = sends w"
  proof (cases "decode_payload S (Rec_OriginalPayload rc)")
    case (Inl e)
    then show ?thesis using rf by (simp add: render_parts_def)
  next
    case (Inr payload)
    obtain w1 r where b: "buildMessages E S payload w = (w1, r)" by fastforce
    have s1: "sends w1 = sends w" using buildMessages_tbl [OF b] by simp
    show ?thesis
    proof (cases r)
      case (Inl e)
      then show ?thesis using Inr b s1 rf by (simp add: render_parts_def)
    next
      case r: (Inr parts)
      obtain w2 r2 where s: "SaveRenderedParts E Caller (Rec_EventID rc) (joinRendered parts) parts w1 = (w2, r2)"
        by fastforce
      have "sends w2 = sends w" using update_sends(1) [of E Caller _ _ _ w1] s s1 by (metis fst_conv)
      then show ?thesis using Inr b r s sf by (cases r2) (simp_all add: render_parts_def)
    qed
  qed
  then show ?thesis by (auto simp: ensureRenderedParts_def split: option.splits list.splits)
qed

definition message :: "service \<Rightarrow> bool \<Rightarrow> string \<Rightarrow> send" where
  "message S ok p = \<lparr> send_chat = TelegramChatID (cfg S), send_text = p, send_mode = MessageParseMode (cfg S),
                      send_accepted = ok \<rparr>"

text \<open>The next parts in order, all accepted but possibly the last one.\<close>

definition sends_next :: "service \<Rightarrow> string list \<Rightarrow> send list \<Rightarrow> bool" where
  "sends_next S todo new \<longleftrightarrow>
     map send_text new = take (length new) todo \<and> length new \<le> length todo
     \<and> (\<forall>s \<in> set new. send_chat s = TelegramChatID (cfg S) \<and> send_mode s = MessageParseMode (cfg S))
     \<and> (\<forall>s \<in> set (butlast new). send_accepted s)"

lemma sends_next_Nil [simp]: "sends_next S todo []"
  by (simp add: sends_next_def)

lemma sends_next_refused: "sends_next S (p # todo) [message S False p]"
  by (simp add: sends_next_def message_def)

lemma sends_next_Cons: "sends_next S todo new \<Longrightarrow> sends_next S (p # todo) (message S True p # new)"
  by (auto simp: sends_next_def message_def)

lemma send_parts_next:
  "\<exists>new. sends (fst (send_parts E S rc parts index rest w)) = sends w @ new \<and> sends_next S rest new"
proof (induction rest arbitrary: index w)
  case (Cons part rest)
  obtain w1 a where send: "do_send E S part w = (w1, a)" by fastforce
  then have s1: "sends w1 = sends w @ [message S (err_of a = None) part]"
    by (auto simp: do_send_def Let_def message_def)
  show ?case
  proof (cases a)
    case (Inl e)
    then show ?thesis
      using send s1 handleSendError_sends [of E S rc parts e w1]
      by (auto simp: case_prod_beta Let_def sends_next_refused)
  next
    case (Inr sent)
    obtain w2 r2 where mark: "MarkChunkSent E Caller (Rec_EventID rc) (int index + 1)
        (if index = 0 then Some (MessageID sent) else None) w1 = (w2, r2)" by fastforce
    have s2: "sends w2 = sends w @ [message S True part]"
      using update_sends(2) [of E Caller "Rec_EventID rc" "int index + 1" _ w1] mark s1 Inr by (metis err_of.simps(2) fst_conv)
    obtain new where new: "sends (fst (send_parts E S rc parts (Suc index) rest w2)) = sends w2 @ new" "sends_next S rest new"
      using Cons by blast
    show ?thesis
    proof (cases r2)
      case (Inl e)
      then show ?thesis
        using send Inr mark s2 reschedule_sends [of E S rc parts e w2] sends_next_Cons [of S rest "[]" part]
        by auto
    next
      case r2: (Inr u)
      then show ?thesis
        using send Inr mark s2 new sends_next_Cons [OF new(2), of part] by auto
    qed
  qed
qed simp

lemma deliver_next:
  assumes "Rec_RenderedParts rc = Some parts" and "parts \<noteq> []"
  shows "\<exists>new. sends (fst (deliver E S rc w)) = sends w @ new \<and> sends_next S (drop (nat (Rec_SentParts rc)) parts) new"
proof -
  let ?start = "nat (Rec_SentParts rc)"
  have ens: "ensureRenderedParts E S rc w = (w, Inr parts)"
    using assms by (cases parts) (simp_all add: ensureRenderedParts_def)
  obtain w2 r2 where loop: "send_parts E S rc parts ?start (drop ?start parts) w = (w2, r2)" by fastforce
  obtain new where new: "sends w2 = sends w @ new" "sends_next S (drop ?start parts) new"
    using send_parts_next [of E S rc parts ?start "drop ?start parts" w] loop by auto
  obtain w3 r3 where mark: "MarkDelivered E Caller (Rec_EventID rc) (joinRendered parts) (TelegramChatID (cfg S))
      (int (length parts)) (now E w2) (step w2) = (w3, r3)" by fastforce
  have "sends w3 = sends w2" using update_sends(3) mark by (metis fst_conv step_simps(3))
  then have "sends (fst (deliver E S rc w)) = sends w2"
    using ens loop mark reschedule_sends
    by (cases r2; cases r3) (auto simp: deliver_def Let_def split: prod.splits)
  then show ?thesis using new by auto
qed

lemma process_next:
  assumes ok: "keys_ok (tbl w)" and row: "lookup eventID (tbl w) = Some r"
    and parts: "unmarshal_strings (c_rendered_parts r) = Some (Some parts)" "c_rendered_parts r \<noteq> []" "parts \<noteq> []"
  shows "\<exists>new. sends (fst (ProcessEventByID E S eventID w)) = sends w @ new
    \<and> sends_next S (drop (nat (c_sent_parts r)) parts) new"
proof -
  obtain w1 res where claim: "ClaimForSend E Caller eventID (now E w) (step w) = (w1, res)" by fastforce
  have s1: "sends w1 = sends w"
    using claim by (auto simp: ClaimForSend_def sql_exec_def Let_def split: option.splits prod.splits db_stage.splits)
  show ?thesis
  proof (cases "\<exists>rc. res = Inr (Some rc)")
    case False
    then show ?thesis
      using claim s1 by (auto simp: ProcessEventByID_def split: sum.splits option.splits)
  next
    case True
    then obtain rc where rc: "res = Inr (Some rc)" by blast
    obtain x where x: "find (claimable eventID) (tbl w) = Some x" "scanRecordValues (claim_row (now E w) x) = Inr rc"
      using claim rc by (auto elim!: ClaimForSend_record)
    then have "x = r" using find_claimable [OF ok row] by (auto split: if_splits)
    then have "Rec_RenderedParts rc = Some parts" "Rec_SentParts rc = c_sent_parts r"
      using x(2) parts by (auto simp: scanRecordValues_def claim_row_def)
    then show ?thesis
      using deliver_next [of rc parts E S w1] parts(3) claim rc s1
      by (auto simp: ProcessEventByID_def split: prod.splits)
  qed
qed

end
