(* ===== verification/Http.thy ===== *)
theory Http
  imports Accept
begin

text \<open>
  The HTTP surface (\<open>internal/http/handlers.go\<close>, \<open>middleware.go\<close>, \<open>router.go\<close>).  A request is
  what the handlers read of it; \<open>r.BasicAuth()\<close>, \<open>mime.ParseMediaType\<close>, the Unicode classes, the
  Prometheus handler and the answers of \<open>http.ServeMux\<close> to an unknown route are data of the
  request and of the \<open>server\<close>.  A handler is what it answers in which world; how the answer is
  written through the middleware, logging and panics are in \<open>Middleware\<close>.
\<close>

section \<open>Requests and responses\<close>

record request =
  req_Method :: string
  req_Path :: string
  req_Secret :: string
  req_Basic :: "(string \<times> string) option"
  req_ContentType :: string
  req_RequestID :: string
  req_Body :: string
  req_BodyErr :: "string option"

record response_http =
  rs_Status :: int
  rs_Header :: "(string \<times> string) list"
  rs_Body :: string

record server =
  sv_service :: service
  sv_ParseMediaType :: "string \<Rightarrow> string option"
  sv_letter_or_digit :: "nat \<Rightarrow> bool"
  sv_metrics :: "world \<Rightarrow> response_http"
  sv_unrouted :: "string \<Rightarrow> string \<Rightarrow> response_http"

abbreviation sv_cfg :: "server \<Rightarrow> Config" where
  "sv_cfg V \<equiv> cfg (sv_service V)"

text \<open>The headers \<open>hs\<close> are set before those of \<open>rs\<close>, which win where both set one.\<close>

definition with_headers :: "(string \<times> string) list \<Rightarrow> response_http \<Rightarrow> response_http" where
  "with_headers hs rs = rs\<lparr>rs_Header := foldl (\<lambda>m (k, v). map_set k v m) hs (rs_Header rs)\<rparr>"

section \<open>JSON bodies\<close>

definition json_bool :: "bool \<Rightarrow> string" where
  "json_bool b = (if b then ''true'' else ''false'')"

definition json_member :: "string \<Rightarrow> string \<Rightarrow> string" where
  "json_member k v = marshal_string k @ '':'' @ v"

definition json_object :: "string list \<Rightarrow> string" where
  "json_object ms = ''{'' @ Join ms '','' @ ''}''"

text \<open>\<open>writeJSON\<close>; the encoder ends its output with a newline.\<close>

definition writeJSON :: "int \<Rightarrow> string \<Rightarrow> response_http" where
  "writeJSON statusCode payload =
     \<lparr> rs_Status = statusCode,
       rs_Header = [(''Content-Type'', ''application/json; charset=utf-8'')],
       rs_Body = payload @ [nl] \<rparr>"

definition writePublicError :: "string \<Rightarrow> int \<Rightarrow> string \<Rightarrow> response_http" where
  "writePublicError requestID statusCode message =
     writeJSON statusCode
       (json_object
          ([json_member ''error'' (marshal_string message)]
           @ (if requestID \<noteq> [] then [json_member ''request_id'' (marshal_string requestID)] else [])))"

definition json_result :: "AcceptResult \<Rightarrow> string" where
  "json_result result =
     json_object
       [json_member ''event_id'' (marshal_string (ar_EventID result)),
        json_member ''idempotency_key'' (marshal_string (ar_IdempotencyKey result)),
        json_member ''status'' (marshal_string (ar_Status result)),
        json_member ''duplicate'' (json_bool (ar_Duplicate result))]"

definition json_health :: "string \<Rightarrow> int \<Rightarrow> bool \<Rightarrow> string" where
  "json_health status sz auth =
     json_object
       ([json_member ''status'' (marshal_string status)]
        @ (if sz \<noteq> 0 then [json_member ''store_size_bytes'' (show_int sz)] else [])
        @ [json_member ''auth_enabled'' (json_bool auth)])"

definition publicErrorMessage :: "int \<Rightarrow> string" where
  "publicErrorMessage statusCode =
     (if statusCode = 400 then ''invalid webhook payload''
      else if statusCode = 401 then ''unauthorized''
      else if statusCode = 413 then ''payload exceeds max request size''
      else if statusCode = 415 then ''content type must be application/json''
      else if statusCode = 503 then ''service temporarily unavailable''
      else if statusCode = 502 then ''delivery temporarily unavailable''
      else ''internal server error'')"

section \<open>Authentication\<close>

text \<open>Both hashes are compared in constant time; the result is their equality.\<close>

definition secureCompare :: "string \<Rightarrow> string \<Rightarrow> bool" where
  "secureCompare actual expected \<longleftrightarrow> Sum256 actual = Sum256 expected"

definition basic_ok :: "Config \<Rightarrow> request \<Rightarrow> bool" where
  "basic_ok c r =
     (case req_Basic r of
        None \<Rightarrow> False
      | Some (username, password) \<Rightarrow>
          secureCompare username (BasicAuthUsername c) \<and> secureCompare password (BasicAuthPassword c))"

definition authorizeWebhook :: "Config \<Rightarrow> request \<Rightarrow> bool" where
  "authorizeWebhook c r =
     (if WebhookSecret c \<noteq> [] \<and> secureCompare (req_Secret r) (WebhookSecret c) then True
      else if BasicAuthEnabled c \<and> basic_ok c r then True
      else WebhookSecret c = [] \<and> \<not> BasicAuthEnabled c)"

definition requireJSONContentType :: "server \<Rightarrow> request \<Rightarrow> bool" where
  "requireJSONContentType V r \<longleftrightarrow>
     req_ContentType r \<noteq> [] \<and> sv_ParseMediaType V (req_ContentType r) = Some ''application/json''"

section \<open>Handlers\<close>

type_synonym handler = "string \<Rightarrow> request \<Rightarrow> world \<Rightarrow> (world \<times> response_http) option"

definition webhookReceiver :: "env \<Rightarrow> server \<Rightarrow> handler" where
  "webhookReceiver E V requestID r w =
     (let reject = (\<lambda>label code msg. Some (emit (WebhookEvent label) w, writePublicError requestID code msg)) in
      if \<not> authorizeWebhook (sv_cfg V) r then reject ''unauthorized'' 401 ''unauthorized''
      else if \<not> requireJSONContentType V r then
        reject ''unsupported_media_type'' 415 ''content type must be application/json''
      else if int (length (req_Body r)) > MaxRequestBodyBytes (sv_cfg V) then
        reject ''payload_too_large'' 413 ''payload exceeds max request size''
      else if req_BodyErr r \<noteq> None then
        Some (w, writePublicError requestID 400 ''invalid request body'')
      else
        (case AcceptWebhook E (sv_service V) (req_Body r) (emit (PayloadSize (length (req_Body r))) w) of
           None \<Rightarrow> None
         | Some (w1, result, statusCode, None) \<Rightarrow> Some (w1, writeJSON statusCode (json_result result))
         | Some (w1, result, statusCode, Some e) \<Rightarrow>
             Some (w1, writePublicError requestID statusCode (publicErrorMessage statusCode))))"

definition health :: "env \<Rightarrow> server \<Rightarrow> handler" where
  "health E V requestID r w =
     (let auth = BasicAuthEnabled (sv_cfg V); unhealthy = writeJSON 503 (json_health ''unhealthy'' 0 auth) in
      case Ping E Caller w of
        (w1, Inl e) \<Rightarrow> Some (w1, unhealthy)
      | (w1, Inr _) \<Rightarrow>
          (case SizeBytes E (StorePath (sv_cfg V)) w1 of
             (w2, Inl e) \<Rightarrow> Some (w2, unhealthy)
           | (w2, Inr sz) \<Rightarrow>
               if sz > StoreMaxSizeBytes (sv_cfg V) then
                 Some (w2, writeJSON 503 (json_health ''store_pressure'' sz auth))
               else Some (w2, writeJSON 200 (json_health ''ok'' sz auth))))"

definition livenessHandler :: handler where
  "livenessHandler requestID r w =
     Some (w, writeJSON 200 (json_object [json_member ''status'' (marshal_string ''ok'')]))"

section \<open>Middleware\<close>

definition basicAuthMiddleware :: "server \<Rightarrow> handler \<Rightarrow> handler" where
  "basicAuthMiddleware V inner requestID r w =
     (if \<not> BasicAuthEnabled (sv_cfg V) then inner requestID r w
      else if basic_ok (sv_cfg V) r then inner requestID r w
      else
        Some (w, with_headers [(''WWW-Authenticate'',
                   ''Basic realm='' @ Quote (unicode_print (svc_host (sv_service V))) (BasicAuthRealm (sv_cfg V))
                    @ '', charset='' @ [quote] @ ''UTF-8'' @ [quote])]
                   (writePublicError requestID 401 ''authentication required'')))"

text \<open>\<open>withRoute\<close> and \<open>ObserveHTTPRequest\<close>: the class is the first digit of the status.\<close>

definition status_class :: "int \<Rightarrow> string" where
  "status_class statusCode = show_int (sgn statusCode * (\<bar>statusCode\<bar> div 100)) @ ''xx''"

definition withRoute :: "string \<Rightarrow> handler \<Rightarrow> handler" where
  "withRoute route inner requestID r w =
     map_option (\<lambda>(w1, rs). (emit (HTTPRequest route (req_Method r) (status_class (rs_Status rs))) w1, rs))
       (inner requestID r w)"

definition securityHeaders :: "(string \<times> string) list" where
  "securityHeaders =
     [(''Cache-Control'', ''no-store''), (''Pragma'', ''no-cache''), (''X-Content-Type-Options'', ''nosniff''),
      (''X-Frame-Options'', ''DENY''), (''Referrer-Policy'', ''no-referrer''),
      (''Content-Security-Policy'',
        ''default-src '' @ [CHR 0x27] @ ''none'' @ [CHR 0x27] @ ''; frame-ancestors '' @ [CHR 0x27] @ ''none''
        @ [CHR 0x27] @ ''; base-uri '' @ [CHR 0x27] @ ''none'' @ [CHR 0x27] @ ''; form-action '' @ [CHR 0x27]
        @ ''none'' @ [CHR 0x27])]"

definition id_char :: "server \<Rightarrow> nat \<Rightarrow> bool" where
  "id_char V c \<longleftrightarrow>
     (if c < 0x80 then (48 \<le> c \<and> c \<le> 57) \<or> (65 \<le> c \<and> c \<le> 90) \<or> (97 \<le> c \<and> c \<le> 122)
      else sv_letter_or_digit V c)
     \<or> c = byte (CHR ''-'') \<or> c = byte (CHR ''_'') \<or> c = byte (CHR ''.'')"

definition sanitizeRequestID :: "server \<Rightarrow> string \<Rightarrow> string option" where
  "sanitizeRequestID V value0 =
     (let value = TrimSpace value0 in
      if value = [] \<or> length value > 64 then None
      else if list_all (id_char V) (runes value) then Some value
      else None)"

definition randomRequestID :: "env \<Rightarrow> world \<Rightarrow> world \<times> string" where
  "randomRequestID E w =
     (step w, (case rand_read E (ticks w) 8 of Inl e \<Rightarrow> ''rand-error'' | Inr buf \<Rightarrow> hex_EncodeToString buf))"

section \<open>The router\<close>

text \<open>A \<open>GET\<close> pattern of \<open>http.ServeMux\<close> also serves \<open>HEAD\<close>.\<close>

definition is_get :: "request \<Rightarrow> bool" where
  "is_get r \<longleftrightarrow> req_Method r = ''GET'' \<or> req_Method r = ''HEAD''"

definition serve_mux :: "env \<Rightarrow> server \<Rightarrow> handler" where
  "serve_mux E V requestID r w =
     (if req_Method r = ''POST'' \<and> req_Path r = ''/webhook/grafana'' then
        withRoute ''webhook_grafana'' (webhookReceiver E V) requestID r w
      else if req_Method r = ''POST'' \<and> req_Path r = ''/webhook/alertmanager'' then
        withRoute ''webhook_alertmanager'' (webhookReceiver E V) requestID r w
      else if is_get r \<and> req_Path r = ''/health'' then
        withRoute ''health'' (basicAuthMiddleware V (health E V)) requestID r w
      else if is_get r \<and> req_Path r = ''/readyz'' then
        withRoute ''readyz'' (basicAuthMiddleware V (health E V)) requestID r w
      else if is_get r \<and> req_Path r = ''/livez'' then
        withRoute ''livez'' livenessHandler requestID r w
      else if is_get r \<and> req_Path r = ''/metrics'' then
        withRoute ''metrics'' (basicAuthMiddleware V (\<lambda>_ _ w. Some (w, sv_metrics V w))) requestID r w
      else Some (w, sv_unrouted V (req_Method r) (req_Path r)))"

definition handle :: "env \<Rightarrow> server \<Rightarrow> request \<Rightarrow> world \<Rightarrow> (world \<times> response_http) option" where
  "handle E V r w =
     (let (w1, requestID) =
        (case sanitizeRequestID V (req_RequestID r) of
           Some i \<Rightarrow> (w, i)
         | None \<Rightarrow> randomRequestID E w)
      in map_option
           (\<lambda>(w2, rs). (w2, with_headers ((''X-Request-Id'', requestID) # securityHeaders) rs))
           (serve_mux E V requestID r w1))"

section \<open>Facts\<close>

lemma authorize_iff:
  "authorizeWebhook c r \<longleftrightarrow>
     (WebhookSecret c \<noteq> [] \<and> secureCompare (req_Secret r) (WebhookSecret c))
     \<or> (BasicAuthEnabled c \<and> basic_ok c r)
     \<or> (WebhookSecret c = [] \<and> \<not> BasicAuthEnabled c)"
  by (auto simp: authorizeWebhook_def)

lemma with_headers_status [simp]: "rs_Status (with_headers hs rs) = rs_Status rs"
  by (simp add: with_headers_def)

lemma map_set_foldl: "map_of (foldl (\<lambda>m (k, v). map_set k v m) hs xs) = map_of hs ++ map_of (rev xs)"
  by (induction xs arbitrary: hs) (auto simp: map_of_map_set map_add_def fun_eq_iff split: option.splits)

end
