(* ===== verification/Demo.thy ===== *)
theory Demo
  imports Sends Http
begin

text \<open>
  Concrete data for the examples that accompany the properties: a validated configuration in
  passthrough mode, a payload with one alert, and environments in which Telegram accepts
  everything or refuses everything.
\<close>

definition demo_cfg :: Config where
  "demo_cfg = \<lparr> AppHost = ''0.0.0.0'', AppPort = 8080, LogLevel = ''INFO'', Environment = ''production'',
     TelegramBotToken = ''123:abc'', TelegramChatID = ''42'', TelegramBaseURL = [], TelegramProxyURL = [],
     WebhookSecret = ''s3cret'', BasicAuthUsername = [], BasicAuthPassword = [], BasicAuthRealm = ''r'',
     AlertMessageSource = ''alertmanager'', AlertLocalTimezone = [], AlertTemplatePath = ''t'',
     MessageParseMode = ''HTML'', HTTPReadTimeout = 5 * Second, HTTPWriteTimeout = 10 * Second,
     HTTPShutdownTimeout = 10 * Second, HTTPIdleTimeout = 60 * Second, MaxRequestBodyBytes = 1048576,
     MaxHeaderBytes = 1048576, MaxDeliveryAttempts = 2, RetryBaseDelay = 2 * Second,
     RetryMaxDelay = 120 * Second, RecoveryInterval = 15 * Second, WorkerBatchSize = 32,
     StorePath = ''s.db'', StoreMaxSizeBytes = 100, StoreRotationEnabled = True,
     StoreRotationHighWatermark = 80, StoreRotationLowWatermark = 60,
     StoreRetentionDelivered = 168 * Hour, StoreRetentionDeadLetter = 720 * Hour,
     StoreRotationInterval = Minute, StoreVacuumAfterRotation = False \<rparr>"

definition demo_host :: host where
  "demo_host = \<lparr> url_Parse = (\<lambda>s. Inl (ErrText s)), url_String = Url_Host,
     userinfo_String = (\<lambda>(u, p). u), LoadLocation_ok = (\<lambda>_. True), ParseDuration = (\<lambda>_. None),
     LookupEnv = (\<lambda>_. None), unicode_upper = (\<lambda>r. r), unicode_lower = (\<lambda>r. r), unicode_fold = (\<lambda>r. r),
     unicode_print = (\<lambda>_. True), fmt_v = (\<lambda>_. []) \<rparr>"

definition demo_alert :: Alert where
  "demo_alert = \<lparr> Alert_Status = ''firing'', Alert_Labels = [(''alertname'', ''disk'')],
     Alert_Annotations = [], Alert_StartsAt = 0, Alert_EndsAt = zero_time, Alert_GeneratorURL = [],
     Alert_Fingerprint = ''f1'', Alert_SilenceURL = [], Alert_DashboardURL = [], Alert_PanelURL = [],
     Alert_Values = [], Alert_ValueString = [] \<rparr>"

definition demo_payload :: WebhookPayload where
  "demo_payload = \<lparr> Payload_Receiver = ''tg'', Payload_Status = ''firing'', Payload_OrgID = 1,
     Payload_Alerts = [demo_alert], Payload_GroupLabels = [], Payload_CommonLabels = [],
     Payload_CommonAnnotations = [], Payload_ExternalURL = [], Payload_Version = ''1'', Payload_GroupKey = [],
     Payload_TruncatedAlerts = 0, Payload_Title = ''t'', Payload_State = [], Payload_Message = ''disk full'' \<rparr>"

definition demo_service :: service where
  "demo_service = \<lparr> cfg = demo_cfg, svc_host = demo_host,
     decode_payload = (\<lambda>raw. if raw = ''{}'' then Inr demo_payload else Inl (ErrText ''invalid JSON'')),
     renderer = None \<rparr>"

definition demo_env :: env where
  "demo_env = \<lparr> clock = int, db_fault = (\<lambda>_. None), ctx_done = (\<lambda>_. None), stat = (\<lambda>_ _. StatSize 10),
     rng = (\<lambda>_. 0), rand_read = (\<lambda>_ n. Inr (replicate n (CHR ''a''))), uni_lower = (\<lambda>r. r),
     telegram = (\<lambda>_ _ _ _. Inr \<lparr> MessageID = 7, ChatID = 42 \<rparr>) \<rparr>"

definition throttled :: err where
  "throttled = ApiErr \<lparr> StatusCode = 429, ErrorCode = 429, Description = ''slow down'', Retryable = True,
     RetryAfter = 5 * Second \<rparr>"

definition refusing_env :: env where
  "refusing_env = demo_env\<lparr>telegram := (\<lambda>_ _ _ _. Inl throttled)\<rparr>"

definition demo_row :: "string \<Rightarrow> row" where
  "demo_row st = \<lparr> c_event_id = ''e1'', c_idempotency_key = ''k1'', c_status = st,
     c_original_payload = ''{}'', c_rendered_message = ''a'',
     c_rendered_parts = marshal_strings (Some [''a'', ''b'']), c_split_count = 2, c_sent_parts = 0,
     c_attempt_count = 0, c_next_retry_at = None, c_last_error = [], c_telegram_chat_id = [],
     c_telegram_message_id = None, c_created_at = 0, c_updated_at = 0, c_delivered_at = None,
     c_last_attempt_at = None \<rparr>"

definition demo_world :: "row list \<Rightarrow> world" where
  "demo_world t = \<lparr> tbl = t, ticks = 0, mlog = [], sends = [] \<rparr>"

lemma demo_calm [simp]: "calm_from demo_env k" "calm_from refusing_env k"
  by (simp_all add: calm_from_def demo_env_def refusing_env_def)

lemma demo_keys [simp]: "keys_ok [demo_row st]"
  by (simp add: keys_ok_def)

lemma demo_parts [simp]:
  "unmarshal_strings (c_rendered_parts (demo_row st)) = Some (Some [''a'', ''b''])"
  "c_rendered_parts (demo_row st) \<noteq> []"
proof -
  have "map scrub [''a'', ''b''] = [''a'', ''b'']"
    by (rule map_scrub_valid) (auto intro!: ascii_valid_utf8 simp: ascii_def byte_def)
  then show "unmarshal_strings (c_rendered_parts (demo_row st)) = Some (Some [''a'', ''b''])"
    unfolding demo_row_def row.simps unmarshal_marshal by simp
qed (simp add: demo_row_def marshal_strings_def)

lemma demo_rows [simp]: "st \<in> set statuses \<Longrightarrow> rows_ok [demo_row st]"
  using demo_parts [of st] by (simp add: rows_ok_def row_ok_def) (simp add: demo_row_def)

lemma demo_fields [simp]:
  "c_event_id (demo_row st) = ''e1''" "c_status (demo_row st) = st" "c_sent_parts (demo_row st) = 0"
  "c_attempt_count (demo_row st) = 0" "c_idempotency_key (demo_row st) = ''k1''"
  "c_original_payload (demo_row st) = ''{}''"
  by (simp_all add: demo_row_def)

lemma demo_world_fields [simp]: "tbl (demo_world t) = t" "ticks (demo_world t) = 0" "sends (demo_world t) = []"
  by (simp_all add: demo_world_def)

lemma demo_lookup [simp]: "lookup ''e1'' [demo_row st] = Some (demo_row st)"
  by (simp add: lookup_def)

lemma demo_stubborn [simp]: "stubborn refusing_env demo_service"
  by (simp add: stubborn_def asked_def refusing_env_def throttled_def permanent_def)

lemma demo_willing [simp]: "willing_from demo_env demo_service k"
  by (simp add: willing_from_def asked_def demo_env_def)

lemma demo_limits [simp]: "MaxDeliveryAttempts (cfg demo_service) = 2"
  by (simp add: demo_service_def demo_cfg_def)

end
