(* ===== verification/PropsDelivery.thy ===== *)
theory PropsDelivery
  imports Demo
begin

text \<open>
  The properties of a delivery: refinement of the abstract outbox, what reaches Telegram and in
  which order, how an event ends, and what a delivery leaves alone.
\<close>

text \<open>
  C4: one call of \<open>ProcessEventByID\<close> on a waiting event whose parts are stored refines one
  \<open>attempt\<close> of the abstract outbox: the phase, the number of attempts and the parts still to be
  sent are those of the specification, for every sequence of answers Telegram may give, as long
  as the store works and the caller's context is not cancelled.
\<close>

theorem process_refines_attempt:
  assumes "calm_from E (ticks w)" and "keys_ok (tbl w)" and "rows_ok (tbl w)"
    and "lookup eventID (tbl w) = Some r" and "ob_phase (abs_row parts r) = Waiting"
    and "unmarshal_strings (c_rendered_parts r) = Some (Some parts)" and "c_rendered_parts r \<noteq> []" and "parts \<noteq> []"
  shows "\<exists>r'. lookup eventID (tbl (fst (ProcessEventByID E S eventID w))) = Some r'
    \<and> abs_row parts r' = attempt (MaxDeliveryAttempts (cfg S)) (asked E S) (ticks w + 2) (abs_row parts r)"
  using process_step [OF assms(1) order.refl assms(2-4,6-8), of S] assms(5) by auto

theorem process_refines_attempt_witness:
  "\<exists>r'. lookup ''e1'' (tbl (fst (ProcessEventByID refusing_env demo_service ''e1''
          (demo_world [demo_row StatusQueued])))) = Some r'
    \<and> abs_row [''a'', ''b''] r' =
        attempt 2 (asked refusing_env demo_service) (ticks (demo_world [demo_row StatusQueued]) + 2)
          \<lparr> ob_phase = Waiting, ob_attempts = 0, ob_todo = [''a'', ''b''] \<rparr>"
  using process_refines_attempt [of refusing_env "demo_world [demo_row StatusQueued]" "''e1''" "demo_row StatusQueued"
      "[''a'', ''b'']" demo_service]
  by (simp add: abs_row_def statuses_def)

text \<open>
  C2: no part is lost and none is accepted twice: after any number of attempts, whatever Telegram
  answered, the accepted messages followed by the parts still to be sent are the accepted
  messages before followed by the parts to be sent then (store working, context alive).
\<close>

theorem accepted_exactly_once:
  assumes "calm_from E (ticks w)" and "keys_ok (tbl w)" and "rows_ok (tbl w)"
    and "lookup eventID (tbl w) = Some r"
    and "unmarshal_strings (c_rendered_parts r) = Some (Some parts)" and "c_rendered_parts r \<noteq> []" and "parts \<noteq> []"
  shows "\<exists>r'. lookup eventID (tbl (process_n E S eventID n w)) = Some r'
    \<and> accepted_texts (process_n E S eventID n w) @ drop (nat (c_sent_parts r')) parts
      = accepted_texts w @ drop (nat (c_sent_parts r)) parts"
  using process_n_parts [OF assms, of S n] by (auto simp: abs_row_def)

theorem accepted_exactly_once_witness:
  "\<exists>r'. lookup ''e1'' (tbl (process_n demo_env demo_service ''e1'' 3 (demo_world [demo_row StatusQueued]))) = Some r'
    \<and> accepted_texts (process_n demo_env demo_service ''e1'' 3 (demo_world [demo_row StatusQueued]))
        @ drop (nat (c_sent_parts r')) [''a'', ''b''] = [''a'', ''b'']"
  using accepted_exactly_once [of demo_env "demo_world [demo_row StatusQueued]" "''e1''" "demo_row StatusQueued"
      "[''a'', ''b'']" demo_service 3]
  by (simp add: accepted_texts_def statuses_def)

text \<open>
  C5: when Telegram refuses every message with a retryable error, the event is retried while it has
  used fewer than \<open>MaxDeliveryAttempts\<close> attempts and is dead-lettered by exactly that attempt;
  later calls change nothing.
\<close>

theorem dead_letter_after_max_attempts:
  assumes "calm_from E (ticks w)" and "keys_ok (tbl w)" and "rows_ok (tbl w)"
    and "lookup eventID (tbl w) = Some r"
    and "unmarshal_strings (c_rendered_parts r) = Some (Some parts)" and "c_rendered_parts r \<noteq> []" and "parts \<noteq> []"
    and "abs_row parts r = \<lparr> ob_phase = Waiting, ob_attempts = 0, ob_todo = parts \<rparr>"
    and "stubborn E S" and "1 \<le> MaxDeliveryAttempts (cfg S)"
  shows "\<exists>r'. lookup eventID (tbl (process_n E S eventID n w)) = Some r'
    \<and> phase_of (c_status r') = (if int n < MaxDeliveryAttempts (cfg S) then Waiting else DeadLettered)
    \<and> c_attempt_count r' = min (int n) (MaxDeliveryAttempts (cfg S))"
  using process_n_stubborn [OF assms, of n] by (auto simp: abs_row_def)

theorem dead_letter_after_max_attempts_witness:
  "\<exists>r'. lookup ''e1'' (tbl (process_n refusing_env demo_service ''e1'' 3 (demo_world [demo_row StatusQueued]))) = Some r'
    \<and> phase_of (c_status r') = DeadLettered \<and> c_attempt_count r' = 2"
  using dead_letter_after_max_attempts [of refusing_env "demo_world [demo_row StatusQueued]" "''e1''"
      "demo_row StatusQueued" "[''a'', ''b'']" demo_service 3]
  by (simp add: abs_row_def statuses_def)

text \<open>
  Once the store works and Telegram accepts, a single call delivers a waiting event: every part
  that was still to be sent is accepted, in order, and the event is \<open>delivered\<close>.
\<close>

theorem delivered_when_accepted:
  assumes "calm_from E (ticks w)" and "keys_ok (tbl w)" and "rows_ok (tbl w)"
    and "lookup eventID (tbl w) = Some r" and "c_status r \<in> set pending_statuses"
    and "unmarshal_strings (c_rendered_parts r) = Some (Some parts)" and "c_rendered_parts r \<noteq> []" and "parts \<noteq> []"
    and "willing_from E S (ticks w)"
  shows "\<exists>w' r'. ProcessEventByID E S eventID w = (w', None) \<and> lookup eventID (tbl w') = Some r'
    \<and> phase_of (c_status r') = Delivered
    \<and> accepted_texts w' = accepted_texts w @ drop (nat (c_sent_parts r)) parts"
proof -
  have sent: "0 \<le> c_sent_parts r"
    using assms(3) lookup_in [OF assms(4)] by (simp add: rows_ok_def row_ok_def)
  have asks: "ask_all (asked E S) (ticks w + 2) (drop (nat (c_sent_parts r)) parts)
      = (length (drop (nat (c_sent_parts r)) parts), None)"
    by (rule ask_all_willing [OF assms(9)]) simp
  have "ob_phase (attempt (MaxDeliveryAttempts (cfg S)) (asked E S) (ticks w + 2) (abs_row parts r)) = Delivered"
    using asks by (simp add: attempt_def abs_row_def verdict_def)
  moreover have "ob_phase (abs_row parts x) = phase_of (c_status x)" for x
    by (simp add: abs_row_def)
  ultimately show ?thesis
    using process_calm [OF assms(1) order.refl assms(2,4-8) sent asks] by (metis take_all order.refl)
qed

theorem delivered_when_accepted_witness:
  "\<exists>w' r'. ProcessEventByID demo_env demo_service ''e1'' (demo_world [demo_row StatusRetryScheduled]) = (w', None)
    \<and> lookup ''e1'' (tbl w') = Some r' \<and> phase_of (c_status r') = Delivered \<and> accepted_texts w' = [''a'', ''b'']"
  using delivered_when_accepted [of demo_env "demo_world [demo_row StatusRetryScheduled]" "''e1''"
      "demo_row StatusRetryScheduled" "[''a'', ''b'']" demo_service]
  by (simp add: accepted_texts_def statuses_def pending_statuses_def)

text \<open>
  Only a pending event (\<open>received\<close>, \<open>queued\<close>, \<open>retry_scheduled\<close>) is ever worked on: for any
  other status, and for an unknown event, \<open>ProcessEventByID\<close> sends nothing and leaves the table as
  it is, in every environment; its only possible error is that the claim itself failed.
\<close>

theorem claim_gates_delivery:
  assumes "\<forall>r \<in> set (tbl w). c_event_id r = eventID \<longrightarrow> c_status r \<notin> set pending_statuses"
  shows "tbl (fst (ProcessEventByID E S eventID w)) = tbl w
    \<and> sends (fst (ProcessEventByID E S eventID w)) = sends w
    \<and> (snd (ProcessEventByID E S eventID w) = None
       \<or> (\<exists>x. snd (ProcessEventByID E S eventID w) = Some (Wrapped ''claim delivery'' x)))"
  using process_gate [OF assms, of E S "fst (ProcessEventByID E S eventID w)" "snd (ProcessEventByID E S eventID w)"]
  by simp

theorem claim_gates_delivery_witness:
  "tbl (fst (ProcessEventByID demo_env demo_service ''e1'' (demo_world [demo_row StatusDelivered]))) = [demo_row StatusDelivered]
   \<and> sends (fst (ProcessEventByID demo_env demo_service ''e1'' (demo_world [demo_row StatusDelivered]))) = []"
  using claim_gates_delivery [of "demo_world [demo_row StatusDelivered]" "''e1''" demo_env demo_service]
  by (simp add: pending_statuses_def)

text \<open>
  C21: in every environment, faults and cancellations included, one call sends to the configured
  chat the stored parts from \<open>sent_parts\<close> on, in order and without gaps, and every one of them but
  possibly the last was accepted.
\<close>

theorem sends_stored_parts_in_order:
  assumes "keys_ok (tbl w)" and "lookup eventID (tbl w) = Some r"
    and "unmarshal_strings (c_rendered_parts r) = Some (Some parts)" and "c_rendered_parts r \<noteq> []" and "parts \<noteq> []"
  shows "\<exists>new. sends (fst (ProcessEventByID E S eventID w)) = sends w @ new
    \<and> map send_text new = take (length new) (drop (nat (c_sent_parts r)) parts)
    \<and> (\<forall>s \<in> set new. send_chat s = TelegramChatID (cfg S) \<and> send_mode s = MessageParseMode (cfg S))
    \<and> (\<forall>s \<in> set (butlast new). send_accepted s)"
  using process_next [OF assms, of E S] by (auto simp: sends_next_def)

theorem sends_stored_parts_in_order_witness:
  "\<exists>new. sends (fst (ProcessEventByID refusing_env demo_service ''e1'' (demo_world [demo_row StatusQueued]))) = new
    \<and> map send_text new = take (length new) [''a'', ''b'']"
  using sends_stored_parts_in_order [of "demo_world [demo_row StatusQueued]" "''e1''" "demo_row StatusQueued"
      "[''a'', ''b'']" refusing_env demo_service]
  by auto

text \<open>
  In every environment a delivery leaves all other events as they were and, of its own event,
  the identity, the idempotency key, the payload and the time of creation; no row is added or
  removed.
\<close>

theorem delivery_is_framed:
  "framed eventID (tbl w) (tbl (fst (ProcessEventByID E S eventID w)))"
  by (rule frame.R_ProcessEventByID)

end
