(* ===== verification/PropsStore.thy ===== *)
theory PropsStore
  imports PropsDelivery
begin

text \<open>
  The properties of the table: its invariants under everything the server does, what is final,
  and what rotation removes, keeps, counts and guarantees.
\<close>

section \<open>Terminal deliveries\<close>

text \<open>Every row with the identity of \<open>r\<close> is \<open>r\<close> itself.\<close>

definition only_row :: "row \<Rightarrow> row list \<Rightarrow> bool" where
  "only_row r t \<longleftrightarrow> (\<forall>x \<in> set t. c_event_id x = c_event_id r \<longrightarrow> x = r)"

lemma only_row_update:
  "(\<And>x. c_event_id (f x) = c_event_id x) \<Longrightarrow> \<not> P r \<Longrightarrow> only_row r t \<Longrightarrow> only_row r (update_where P f t)"
  by (auto simp: only_row_def update_where_def)

lemma only_row_framed:
  assumes "framed i t u" and "i \<noteq> c_event_id r" and "only_row r t"
  shows "only_row r u"
  unfolding only_row_def
proof (intro ballI impI)
  fix x assume "x \<in> set u" and x: "c_event_id x = c_event_id r"
  then obtain n where n: "n < length u" "x = u ! n" by (metis in_set_conv_nth)
  then have "n < length t" and old: "same_delivery (t ! n) x" "c_event_id (t ! n) \<noteq> i \<longrightarrow> x = t ! n"
    using assms(1) by (simp_all add: framed_def list_all2_conv_all_nth)
  moreover from old have "c_event_id (t ! n) = c_event_id r" using x by (simp add: same_delivery_def)
  ultimately show "x = r" using assms(2,3) by (simp add: only_row_def)
qed

lemma only_row_process:
  assumes "c_status r \<in> set terminal_statuses" and "only_row r (tbl w)"
  shows "only_row r (tbl (fst (ProcessEventByID E S i w)))"
proof (cases "i = c_event_id r")
  case True
  have "c_status r \<notin> set pending_statuses"
    using assms(1) by (auto simp: terminal_statuses_def pending_statuses_def)
  then have "\<forall>x \<in> set (tbl w). c_event_id x = i \<longrightarrow> c_status x \<notin> set pending_statuses"
    using assms(2) True by (auto simp: only_row_def)
  from process_gate [OF this, of E S] assms(2) show ?thesis by (metis prod.collapse)
next
  case False
  then show ?thesis using only_row_framed [OF frame.R_ProcessEventByID] assms(2) by blast
qed

interpretation last: service_steps
  "\<lambda>t u. c_status r \<in> set terminal_statuses \<and> \<not> drawn E (c_event_id r) \<and> only_row r t \<longrightarrow> only_row r u" E
  for E r
proof (rule service_steps.intro)
  fix t :: "row list" and i x e y
  assume ex: "\<exists>r \<in> set t. c_event_id r = i \<and> c_status r = StatusReceived"
  show "c_status r \<in> set terminal_statuses \<and> \<not> drawn E (c_event_id r) \<and> only_row r t \<longrightarrow>
    only_row r (update_id i (queue_row StatusQueued x e y) t)"
  proof (intro impI, elim conjE)
    assume r: "c_status r \<in> set terminal_statuses" "only_row r t"
    then have "c_event_id r \<noteq> i" using ex by (auto simp: only_row_def terminal_statuses_def)
    then show "only_row r (update_id i (queue_row StatusQueued x e y) t)"
      using r by (intro only_row_update) (auto simp: queue_row_def)
  qed
next
  show "deletion_steps (\<lambda>t u. c_status r \<in> set terminal_statuses \<and> \<not> drawn E (c_event_id r) \<and> only_row r t
    \<longrightarrow> only_row r u) d b" for d b
    by unfold_locales (auto simp: only_row_def delete_ids_def)
next
  fix t :: "row list" and new i k raw x
  assume "drawn E i" and "new = insert_row (new_record i k raw x) (marshal_strings None)"
  then show "c_status r \<in> set terminal_statuses \<and> \<not> drawn E (c_event_id r) \<and> only_row r t \<longrightarrow>
    only_row r (t @ [new])"
    by (auto simp: only_row_def insert_row_def new_record_def)
next
  fix t :: "row list" and x y
  show "c_status r \<in> set terminal_statuses \<and> \<not> drawn E (c_event_id r) \<and> only_row r t \<longrightarrow>
    only_row r (update_where (\<lambda>r. c_status r = StatusSending) (requeue_sending_row x y) t)"
    by (intro impI, elim conjE, rule only_row_update) (auto simp: requeue_sending_row_def terminal_statuses_def)
qed (auto intro: only_row_process)



section \<open>Invariants\<close>

text \<open>
  The two unique keys of the schema and the well-formedness of the rows (a known status, counts
  that are not negative, rendered parts that parse) hold after any sequence of webhooks, ticks and
  restarts, faults and cancellations included.
\<close>

theorem table_invariant:
  assumes "keys_ok (tbl w)" and "rows_ok (tbl w)" and "serve_all E S es w = Some w'"
  shows "keys_ok (tbl w') \<and> rows_ok (tbl w')"
  using assms keys.serve_all [OF assms(3)] rows.serve_all [OF assms(3)] by blast

theorem table_invariant_witness:
  "\<exists>w'. serve_all refusing_env demo_service [Tick RecoveryTick, Restart, Tick RotationTick]
       (demo_world [demo_row StatusQueued]) = Some w' \<and> keys_ok (tbl w') \<and> rows_ok (tbl w')"
  using table_invariant [of "demo_world [demo_row StatusQueued]" refusing_env demo_service
      "[Tick RecoveryTick, Restart, Tick RotationTick]"]
  by (simp add: statuses_def)


section \<open>Rotation\<close>

text \<open>Rows may go, but only those that were rotatable with the given cut-offs.\<close>

definition thinned :: "instant \<Rightarrow> instant \<Rightarrow> row list \<Rightarrow> row list \<Rightarrow> bool" where
  "thinned d b t u \<longleftrightarrow>
     (\<exists>P. u = filter P t \<and> (keys_ok t \<longrightarrow> (\<forall>r \<in> set t. \<not> P r \<longrightarrow> rotatable d b r)))"

interpretation thin: deletion_steps "thinned d b" d b for d b
proof
  fix t u v :: "row list" and ids
  show "thinned d b t t" unfolding thinned_def by (intro exI [of _ "\<lambda>_. True"]) simp
  show "thinned d b t v" if tu: "thinned d b t u" and uv: "thinned d b u v"
  proof -
    obtain P where P: "u = filter P t" "keys_ok t \<longrightarrow> (\<forall>r \<in> set t. \<not> P r \<longrightarrow> rotatable d b r)"
      using tu unfolding thinned_def by blast
    obtain Q where Q: "v = filter Q u" "keys_ok u \<longrightarrow> (\<forall>r \<in> set u. \<not> Q r \<longrightarrow> rotatable d b r)"
      using uv unfolding thinned_def by blast
    have "v = filter (\<lambda>r. P r \<and> Q r) t" unfolding Q(1) P(1) by (simp add: conj_commute)
    moreover have "keys_ok t \<Longrightarrow> keys_ok u" unfolding P(1) keys_ok_def by (simp add: distinct_map_filter)
    ultimately show ?thesis
      using P Q(2) unfolding thinned_def by (intro exI [of _ "\<lambda>r. P r \<and> Q r"]) auto
  qed
  assume old: "keys_ok t \<Longrightarrow> \<forall>r \<in> set t. c_event_id r \<in> set ids \<longrightarrow> rotatable d b r"
  then show "thinned d b t (delete_ids ids t)"
    unfolding thinned_def delete_ids_def by (intro exI [of _ "\<lambda>r. c_event_id r \<notin> set ids"]) auto
qed

text \<open>
  C8: rotation only removes rows, and only terminal ones past their retention: a row that is gone
  was delivered and not updated since the delivered cut-off, or failed or dead-lettered and not
  updated since the dead-letter cut-off, with the cut-offs computed from the clock when rotation
  started; whatever fails on the way.
\<close>

theorem rotation_removes_expired_only:
  assumes "keys_ok (tbl w)"
  shows "\<exists>P. tbl (fst (RotateStore E S w)) = filter P (tbl w)
    \<and> (\<forall>r \<in> set (tbl w). \<not> P r \<longrightarrow>
         (c_status r = StatusDelivered
            \<and> c_updated_at r \<le> clock E (ticks w + 1) - StoreRetentionDelivered (cfg S))
         \<or> (c_status r \<in> {StatusFailed, StatusDeadLetter}
            \<and> c_updated_at r \<le> clock E (ticks w + 2) - StoreRetentionDeadLetter (cfg S)))"
proof -
  have "thinned (clock E (ticks w + 1) - StoreRetentionDelivered (cfg S))
      (clock E (ticks w + 2) - StoreRetentionDeadLetter (cfg S)) (tbl w) (tbl (fst (RotateStore E S w)))"
    by (rule rotate_deletes) (rule thin.deletion_steps_axioms, rule thin.same)
  then obtain P where "tbl (fst (RotateStore E S w)) = filter P (tbl w)"
    and "\<forall>r \<in> set (tbl w). \<not> P r \<longrightarrow> rotatable (clock E (ticks w + 1) - StoreRetentionDelivered (cfg S))
      (clock E (ticks w + 2) - StoreRetentionDeadLetter (cfg S)) r"
    using assms unfolding thinned_def by blast
  then show ?thesis unfolding rotatable_def by (intro exI [of _ P]) simp
qed

theorem rotation_removes_expired_only_witness:
  "tbl (fst (RotateStore demo_env demo_service (demo_world [demo_row StatusDelivered]))) = [demo_row StatusDelivered]"
proof -
  have "\<exists>P. tbl (fst (RotateStore demo_env demo_service (demo_world [demo_row StatusDelivered])))
      = filter P [demo_row StatusDelivered]
      \<and> (\<not> P (demo_row StatusDelivered) \<longrightarrow> c_updated_at (demo_row StatusDelivered)
        \<le> clock demo_env 1 - StoreRetentionDelivered (cfg demo_service))"
    using rotation_removes_expired_only [of "demo_world [demo_row StatusDelivered]" demo_env demo_service]
    by (simp del: filter.simps)
  then obtain P where P: "tbl (fst (RotateStore demo_env demo_service (demo_world [demo_row StatusDelivered])))
      = filter P [demo_row StatusDelivered]"
    and old: "\<not> P (demo_row StatusDelivered) \<Longrightarrow> c_updated_at (demo_row StatusDelivered)
        \<le> clock demo_env 1 - StoreRetentionDelivered (cfg demo_service)" by blast
  have "P (demo_row StatusDelivered)"
    by (rule ccontr, drule old) (simp add: demo_row_def demo_env_def demo_service_def demo_cfg_def duration_units)
  then show ?thesis using P by simp
qed

text \<open>
  C28: deleting in batches of 500 parameters is equivalent to the one statement it stands for: when
  it succeeds exactly the named rows are gone, and when a batch fails those of a prefix of the
  ids; the number of batches needs no bound.
\<close>

theorem delete_batches_equivalent:
  "case DeleteByEventIDs E c ids w of
     (w', Inr _) \<Rightarrow> tbl w' = filter (\<lambda>r. c_event_id r \<notin> set ids) (tbl w)
   | (w', Inl _) \<Rightarrow> \<exists>k. tbl w' = filter (\<lambda>r. c_event_id r \<notin> set (take k ids)) (tbl w)"
proof -
  obtain w' r where run: "DeleteByEventIDs E c ids w = (w', r)" by fastforce
  show ?thesis
    using DeleteByEventIDs_tbl [of E c ids w w'] DeleteByEventIDs_any [of E c ids w]
    unfolding run delete_ids_def by (cases r) simp_all
qed

definition count_status_rows :: "string \<Rightarrow> row list \<Rightarrow> nat" where
  "count_status_rows st t = length (filter (\<lambda>r. c_status r = st) t)"

definition counted :: "(string, nat) go_map \<Rightarrow> string \<Rightarrow> nat" where
  "counted m st = (case map_of m st of None \<Rightarrow> 0 | Some n \<Rightarrow> n)"

lemma counted_tally:
  "counted (tally rs m) st = counted m st + length (filter (\<lambda>r. Rec_Status r = st) rs)"
  by (induction rs m rule: tally.induct) (auto simp: counted_def map_of_map_set split: option.splits)

lemma filter_by_id:
  assumes "distinct (map c_event_id t)" and "distinct ids" and "set ids \<subseteq> c_event_id ` set t"
  shows "length (filter (\<lambda>r. c_event_id r \<in> set ids) t) = length ids"
proof -
  have "set (map c_event_id (filter (\<lambda>r. c_event_id r \<in> set ids) t)) = set ids"
    using assms(3) by auto
  moreover have "distinct (map c_event_id (filter (\<lambda>r. c_event_id r \<in> set ids) t))"
    using assms(1) by (simp add: distinct_map_filter)
  ultimately show ?thesis using assms(2) by (metis distinct_card length_map)
qed

lemma distinct_limit_rows: "distinct xs \<Longrightarrow> distinct (limit_rows n xs)"
  by (simp add: limit_rows_def)

lemma rotatable_rows_by_id:
  assumes "keys_ok t"
  shows "set (filter (\<lambda>r. c_event_id r \<in> c_event_id ` set (rotatable_rows d b n t)) t) = set (rotatable_rows d b n t)"
    and "distinct (rotatable_rows d b n t)"
proof -
  have inj: "inj_on c_event_id (set t)" and dt: "distinct t"
    using assms by (simp_all add: keys_ok_def distinct_map)
  have sub: "set (rotatable_rows d b n t) \<subseteq> set t" using rotatable_rows_sound by blast
  show "set (filter (\<lambda>r. c_event_id r \<in> c_event_id ` set (rotatable_rows d b n t)) t) = set (rotatable_rows d b n t)"
    using inj sub by (auto dest: inj_onD)
  show "distinct (rotatable_rows d b n t)"
    unfolding rotatable_rows_def using dt by (intro distinct_limit_rows) simp
qed

lemma count_after_delete:
  assumes "keys_ok t"
  shows "count_status_rows st (delete_ids (map c_event_id (rotatable_rows d b n t)) t)
     + length (filter (\<lambda>r. c_status r = st) (rotatable_rows d b n t)) = count_status_rows st t"
proof -
  let ?rs = "rotatable_rows d b n t" and ?in = "\<lambda>r. c_event_id r \<in> c_event_id ` set (rotatable_rows d b n t)"
  note by_id = rotatable_rows_by_id [OF assms, of d b n]
  have "length (filter (\<lambda>r. c_status r = st) ?rs) = card {r \<in> set ?rs. c_status r = st}"
    using by_id(2) by (simp add: distinct_length_filter Int_def conj_commute)
  also have "\<dots> = card {r \<in> set (filter ?in t). c_status r = st}"
    unfolding by_id(1) ..
  also have "\<dots> = length (filter (\<lambda>r. c_status r = st) (filter ?in t))"
    using assms by (simp add: keys_ok_def distinct_map distinct_length_filter Int_def conj_commute conj_left_commute)
  finally have in_count: "length (filter (\<lambda>r. c_status r = st) ?rs) = length (filter ?in (filter (\<lambda>r. c_status r = st) t))"
    by (simp add: conj_commute)
  have "count_status_rows st (delete_ids (map c_event_id ?rs) t)
      = length (filter (\<lambda>r. \<not> ?in r) (filter (\<lambda>r. c_status r = st) t))"
    by (simp add: count_status_rows_def delete_ids_def conj_commute)
  then show ?thesis
    using sum_length_filter_compl [where P = ?in and xs = "filter (\<lambda>r. c_status r = st) t"] in_count
    by (simp add: count_status_rows_def)
qed

definition measured :: "env \<Rightarrow> service \<Rightarrow> nat \<Rightarrow> int result" where
  "measured E S k = snd (SizeBytes E (StorePath (cfg S)) \<lparr> tbl = [], ticks = k, mlog = [], sends = [] \<rparr>)"

lemma SizeBytes_measured: "SizeBytes E (StorePath (cfg S)) w = (w', r) \<Longrightarrow> r = measured E S (ticks w) \<and> ticks w' = Suc (ticks w) \<and> tbl w' = tbl w"
  by (auto simp: SizeBytes_def measured_def)

lemma same_filter: "map f xs = map g ys \<Longrightarrow> length (filter (\<lambda>x. f x = a) xs) = length (filter (\<lambda>y. g y = a) ys)"
proof (induction xs arbitrary: ys)
  case (Cons x xs)
  then show ?case by (cases ys) auto
qed simp

lemma rotate_loop_result:
  assumes "rotate_loop E S d b sz deleted w = (w', Inr deleted')" and "keys_ok (tbl w)"
  shows "(\<forall>st. count_status_rows st (tbl w') + counted deleted' st = count_status_rows st (tbl w) + counted deleted st)
    \<and> ((w' = w \<and> sz \<le> StoreRotationLowWatermark (cfg S))
       \<or> (\<exists>n \<le> StoreRotationLowWatermark (cfg S). measured E S (ticks w' - 1) = Inr n)
       \<or> (\<forall>r \<in> set (tbl w'). \<not> rotatable d b r))"
  using assms
proof (induction E S d b sz deleted w arbitrary: w' deleted' rule: rotate_loop.induct)
  case (1 E S d b sz deleted w)
  show ?case
  proof (cases "sz > StoreRotationLowWatermark (cfg S)")
    case False
    then show ?thesis using 1(2) by (subst (asm) rotate_loop.simps) auto
  next
    case big: True
    obtain w1 c where ck: "check_ctx E w = (w1, c)" and t1: "tbl w1 = tbl w" by (simp add: check_ctx_def)
    obtain w2 r2 where sel: "SelectRotatable E Caller d b 100 w1 = (w2, r2)" by fastforce
    obtain cs where go: "c = None" "r2 = Inr cs"
      using 1(2) big ck sel by (subst (asm) rotate_loop.simps) (auto split: option.splits sum.splits)
    note ids = SelectRotatable_ids [OF sel [unfolded go(2)]]
    show ?thesis
    proof (cases "cs = []")
      case True
      then have w': "w' = w2" "deleted' = deleted"
        using 1(2) big ck sel go by (subst (asm) rotate_loop.simps, simp)+
      have "rotatable_rows d b 100 (tbl w) = []" using ids True t1 by simp
      then have "filter (rotatable d b) (tbl w) = []"
        by (simp add: rotatable_rows_def limit_rows_def split: if_splits) (metis length_0_conv length_sort)
      then show ?thesis using w' ids t1 by (simp add: filter_empty_conv)
    next
      case False
      obtain w3 r3 where del: "DeleteByEventIDs E Caller (map Rec_EventID cs) w2 = (w3, r3)" by fastforce
      obtain w4 r4 where sz4: "SizeBytes E (StorePath (cfg S)) w3 = (w4, r4)" by fastforce
      obtain u sz' where rs: "r3 = Inr u" "r4 = Inr sz'"
        using 1(2) big ck sel go False del sz4 by (subst (asm) rotate_loop.simps) (auto split: sum.splits)
      let ?w = "emit (SetStoreSize sz') w4"
      have run: "rotate_loop E S d b sz' (tally cs deleted) ?w = (w', Inr deleted')"
        using 1(2) big ck sel go False del sz4 rs by (subst (asm) rotate_loop.simps) simp
      have t4: "tbl ?w = delete_ids (map c_event_id (rotatable_rows d b 100 (tbl w))) (tbl w)"
        using DeleteByEventIDs_tbl [OF del [unfolded rs]] SizeBytes_measured [OF sz4] ids t1 by simp
      have ok4: "keys_ok (tbl ?w)" unfolding t4 using 1(3) by (rule keys_delete)
      have "map (\<lambda>r. Rec_Status r) cs = map c_status (rotatable_rows d b 100 (tbl w))" using ids t1 by simp
      then have statuses: "length (filter (\<lambda>r. Rec_Status r = st) cs)
          = length (filter (\<lambda>r. c_status r = st) (rotatable_rows d b 100 (tbl w)))" for st
        by (rule same_filter)
      have IH: "(\<forall>st. count_status_rows st (tbl w') + counted deleted' st
            = count_status_rows st (tbl ?w) + counted (tally cs deleted) st)
        \<and> ((w' = ?w \<and> sz' \<le> StoreRotationLowWatermark (cfg S))
           \<or> (\<exists>n \<le> StoreRotationLowWatermark (cfg S). measured E S (ticks w' - 1) = Inr n)
           \<or> (\<forall>r \<in> set (tbl w'). \<not> rotatable d b r))"
        by (rule 1(1) [OF _ ck [symmetric] go(1) sel [symmetric] _ False del [symmetric] _ sz4 [symmetric] _ run ok4])
          (use big go rs in simp_all)
      have c: "count_status_rows st (tbl ?w) + counted (tally cs deleted) st
          = count_status_rows st (tbl w) + counted deleted st" for st
        using count_after_delete [OF 1(3), of st d b 100] statuses [of st]
        unfolding t4 counted_tally by simp
      have m: "measured E S (ticks ?w - 1) = Inr sz'"
        using SizeBytes_measured [OF sz4] rs by simp
      show ?thesis
      proof (rule conjI)
        show "\<forall>st. count_status_rows st (tbl w') + counted deleted' st = count_status_rows st (tbl w) + counted deleted st"
          using conjunct1 [OF IH] unfolding c .
        show "(w' = w \<and> sz \<le> StoreRotationLowWatermark (cfg S))
            \<or> (\<exists>n \<le> StoreRotationLowWatermark (cfg S). measured E S (ticks w' - 1) = Inr n)
            \<or> (\<forall>r \<in> set (tbl w'). \<not> rotatable d b r)"
          using conjunct2 [OF IH] m by blast
      qed
    qed
  qed
qed



section \<open>Capacity\<close>

text \<open>
  C26: a webhook is admitted only right after a measurement of the store that is at most the
  configured maximum, and the disk-pressure gauge is then 0.
\<close>

theorem capacity_admits_below_max:
  assumes "watermarks_ok (cfg S)" and "EnsureCapacity E S w = (w', None)"
  shows "\<exists>n \<le> StoreMaxSizeBytes (cfg S). measured E S (ticks w' - 1) = Inr n \<and> last (mlog w') = SetDiskPressure 0"
proof -
  let ?p = "StorePath (cfg S)"
  have high: "StoreRotationHighWatermark (cfg S) \<le> StoreMaxSizeBytes (cfg S)"
    using assms(1) by (simp add: watermarks_ok_def)
  obtain w1 r1 where s1: "SizeBytes E ?p w = (w1, r1)" by fastforce
  obtain sz where sz: "r1 = Inr sz" using assms(2) s1 by (cases r1) (auto simp: EnsureCapacity_def)
  let ?w1 = "emit (SetStoreSize sz) w1"
  show ?thesis
  proof (cases "sz < StoreRotationHighWatermark (cfg S)")
    case True
    then have "w' = emit (SetDiskPressure 0) ?w1" using assms(2) s1 sz by (simp add: EnsureCapacity_def)
    then show ?thesis using SizeBytes_measured [OF s1] sz high True by (intro exI [of _ sz]) simp
  next
    case False
    obtain w2 e2 where rot: "(if StoreRotationEnabled (cfg S) then RotateStore E S ?w1 else (?w1, None)) = (w2, e2)"
      by fastforce
    obtain w3 r3 where s3: "SizeBytes E ?p w2 = (w3, r3)" by fastforce
    have e2: "e2 = None" using assms(2) s1 sz False rot by (cases e2) (auto simp: EnsureCapacity_def)
    obtain sz' where sz': "r3 = Inr sz'"
      using assms(2) s1 sz False rot e2 s3 by (cases r3) (auto simp: EnsureCapacity_def)
    have "\<not> StoreMaxSizeBytes (cfg S) < sz'" "w' = emit (SetDiskPressure 0) (emit (SetStoreSize sz') w3)"
      using assms(2) s1 sz False rot e2 s3 sz' by (simp_all add: EnsureCapacity_def Let_def split: if_splits)
    then show ?thesis using SizeBytes_measured [OF s3] sz' by (intro exI [of _ sz']) simp
  qed
qed

theorem capacity_admits_below_max_witness:
  "\<exists>w'. EnsureCapacity demo_env demo_service (demo_world []) = (w', None) \<and> last (mlog w') = SetDiskPressure 0"
proof -
  have "SizeBytes demo_env p w = (step w, Inr 30)" for p w
    by (simp add: SizeBytes_def demo_env_def int64_def)
  then have run: "\<exists>w'. EnsureCapacity demo_env demo_service (demo_world []) = (w', None)"
    by (simp add: EnsureCapacity_def demo_service_def demo_cfg_def)
  have "watermarks_ok (cfg demo_service)" by (simp add: watermarks_ok_def demo_service_def demo_cfg_def)
  then show ?thesis using run capacity_admits_below_max [of demo_service demo_env "demo_world []"] by blast
qed

section \<open>The recovery batch\<close>



end
