(* ===== verification/AcceptFacts.thy ===== *)
theory AcceptFacts
  imports PropsStore
begin

text \<open>
  Accepting a webhook while the store works and has room: what each step of \<open>AcceptWebhook\<close>
  returns and leaves in the table.
\<close>

section \<open>Hypotheses on the environment\<close>

text \<open>The store stays below the high watermark; random ids are new; a payload can be rendered.\<close>

definition roomy_from :: "env \<Rightarrow> service \<Rightarrow> nat \<Rightarrow> bool" where
  "roomy_from E S k \<longleftrightarrow> (\<forall>j \<ge> k. \<exists>n < StoreRotationHighWatermark (cfg S). measured E S j = Inr n)"

definition fresh_ids_from :: "env \<Rightarrow> nat \<Rightarrow> row list \<Rightarrow> bool" where
  "fresh_ids_from E k t \<longleftrightarrow> (\<forall>j \<ge> k. \<exists>buffer. rand_read E j 16 = Inr buffer
     \<and> hex_EncodeToString buffer \<notin> c_event_id ` set t)"

definition renders :: "env \<Rightarrow> service \<Rightarrow> WebhookPayload \<Rightarrow> bool" where
  "renders E S payload \<longleftrightarrow> (\<forall>w. \<exists>parts. snd (buildMessages E S payload w) = Inr parts)"

section \<open>Steps\<close>

lemma capacity_calm:
  assumes "roomy_from E S k" and "k \<le> ticks w"
  obtains w1 where "EnsureCapacity E S w = (w1, None)" and "tbl w1 = tbl w" and "sends w1 = sends w"
    and "ticks w1 = Suc (ticks w)"
proof -
  obtain w1 r where s: "SizeBytes E (StorePath (cfg S)) w = (w1, r)" by fastforce
  obtain n where "n < StoreRotationHighWatermark (cfg S)" "measured E S (ticks w) = Inr n"
    using assms unfolding roomy_from_def by blast
  then show ?thesis
    using SizeBytes_measured [OF s] s that [of "emit (SetDiskPressure 0) (emit (SetStoreSize n) w1)"]
    by (simp add: EnsureCapacity_def SizeBytes_def) (metis step_simps(3) world.select_convs(4))
qed

lemma get_key_calm:
  assumes "calm_from E k" and "k \<le> ticks w" and "\<forall>r \<in> set (tbl w). c_idempotency_key r \<noteq> key"
  obtains w1 where "GetByIdempotencyKey E Caller key w = (w1, Inr None)" and "tbl w1 = tbl w"
    and "sends w1 = sends w" and "ticks w1 = Suc (ticks w)"
proof -
  have "find (\<lambda>r. c_idempotency_key r = key) (tbl w) = None" using assms(3) by (simp add: find_None_iff)
  then show ?thesis
    using that calm_fault [OF assms(1,2)] by (simp add: GetByIdempotencyKey_def scanRecord_def)
qed

definition fresh_row :: "string \<Rightarrow> string \<Rightarrow> string \<Rightarrow> instant \<Rightarrow> row" where
  "fresh_row i k raw t = insert_row (new_record i k raw t) (marshal_strings None)"

lemma fresh_row_fields [simp]:
  "c_event_id (fresh_row i k raw t) = i" "c_idempotency_key (fresh_row i k raw t) = k"
  "c_original_payload (fresh_row i k raw t) = raw" "c_sent_parts (fresh_row i k raw t) = 0"
  "c_attempt_count (fresh_row i k raw t) = 0" "c_status (fresh_row i k raw t) = StatusReceived"
  "c_rendered_parts (fresh_row i k raw t) = marshal_strings None"
  by (simp_all add: fresh_row_def insert_row_def new_record_def)

lemma lookup_append:
  "lookup i t = None \<Longrightarrow> lookup i (t @ [r]) = (if c_event_id r = i then Some r else None)"
  by (induction t) (auto simp: lookup_def)

lemma lookup_None: "i \<notin> c_event_id ` set t \<Longrightarrow> lookup i t = None"
  by (auto simp: lookup_def find_None_iff)

lemma create_calm:
  assumes "calm_from E k" and "k \<le> ticks w" and "i \<notin> c_event_id ` set (tbl w)"
    and "\<forall>r \<in> set (tbl w). c_idempotency_key r \<noteq> key"
  obtains w1 where "CreateReceived E Caller (new_record i key raw t) w = (w1, Inr ())"
    and "tbl w1 = tbl w @ [fresh_row i key raw t]" and "sends w1 = sends w" and "ticks w1 = Suc (ticks w)"
proof -
  have "unique_violation (tbl w) (fresh_row i key raw t) = None"
    using assms(3,4) by (auto simp: unique_violation_def)
  moreover have "Rec_RenderedParts (new_record i key raw t) = None" by (simp add: new_record_def)
  ultimately show ?thesis
    using that calm_fault [OF assms(1,2)] by (simp add: CreateReceived_def fresh_row_def)
qed

lemma queue_calm:
  assumes "calm_from E k" and "k \<le> ticks w"
  obtains w1 where "MarkQueued E Caller i t w = (w1, Inr ())"
    and "tbl w1 = update_id i (queue_row StatusQueued t [] (now E w)) (tbl w)"
    and "sends w1 = sends w" and "ticks w1 = Suc (ticks w)"
  using that assms by (simp add: MarkQueued_def updateStatus_def calm_exec [OF assms(1)])

text \<open>Reloading a terminal delivery answers 200.\<close>

lemma scan_row:
  assumes "unmarshal_strings (c_rendered_parts r) \<noteq> None"
  obtains rc where "scanRecordValues r = Inr rc" and "Rec_Status rc = c_status r"
    and "Rec_EventID rc = c_event_id r" and "Rec_IdempotencyKey rc = c_idempotency_key r"
proof (cases "c_rendered_parts r = []")
  case True
  then show ?thesis using that by (simp add: scanRecordValues_def Let_def)
next
  case False
  then show ?thesis using that assms by (auto simp: scanRecordValues_def Let_def)
qed

lemma load_calm:
  assumes "calm_from E k" and "k \<le> ticks w" and "lookup i (tbl w) = Some r"
    and "unmarshal_strings (c_rendered_parts r) \<noteq> None" and "c_status r \<in> set terminal_statuses"
  obtains w1 where "loadAcceptResult E S i key dup w =
      (w1, \<lparr> ar_EventID = i, ar_IdempotencyKey = key, ar_Status = c_status r, ar_Duplicate = dup \<rparr>, 200, None)"
    and "tbl w1 = tbl w" and "sends w1 = sends w" and "ticks w1 = Suc (ticks w)"
proof -
  obtain rc where rc: "scanRecordValues r = Inr rc" "Rec_Status rc = c_status r"
    using scan_row [OF assms(4)] by metis
  then have "GetByEventID E Caller i w = (observe ''get_by_event_id'' None (step w), Inr (Some rc))"
    using calm_fault [OF assms(1,2)] assms(3) by (simp add: GetByEventID_def scanRecord_def lookup_def)
  then show ?thesis
    using that rc(2) assms(5) by (simp add: loadAcceptResult_def Let_def)
qed

lemma framed_append:
  assumes "framed i (t @ [r]) u" and "i \<notin> c_event_id ` set t"
  obtains s where "u = t @ [s]" and "same_delivery r s"
proof -
  obtain t' s where u: "u = t' @ [s]" and rest: "framed i t t'" and s: "same_delivery r s"
    using assms(1) unfolding framed_def list_all2_append1 list_all2_Cons1 by auto
  have "t' = t"
  proof (rule nth_equalityI)
    show len: "length t' = length t" using rest by (simp add: framed_def list_all2_lengthD)
    fix n assume "n < length t'"
    then have n: "n < length t" "c_event_id (t ! n) \<noteq> i" using len assms(2) by (auto simp: image_def)
    then show "t' ! n = t ! n" using rest unfolding framed_def list_all2_conv_all_nth by simp
  qed
  then show ?thesis using that u s by simp
qed

section \<open>A new webhook\<close>

lemma phase_Delivered: "phase_of st = Delivered \<longleftrightarrow> st = StatusDelivered"
  by (auto simp: phase_of_def)

lemma ClaimForSend_ticks: "ticks (fst (ClaimForSend E c i t w)) = Suc (ticks w)"
  by (cases "fault E c w") (auto simp: ClaimForSend_def Let_def sql_exec_def split: prod.splits db_stage.splits)

text \<open>
  The first delivery attempt of the event that was just queued: everything is accepted, the row
  becomes delivered and the rest of the table stays.
\<close>

lemma first_attempt_calm:
  assumes calm: "calm_from E k" and k: "k \<le> ticks w" and ok: "keys_ok (tbl w)"
    and willing: "willing_from E S k" and decode: "decode_payload S raw = Inr payload" and rend: "renders E S payload"
    and new: "i \<notin> c_event_id ` set t" and tbl: "tbl w = t @ [queue_row StatusQueued x [] y (fresh_row i key raw z)]"
  obtains w' r v v' parts where "ProcessEventByID E S i w = (w', None)" and "tbl w' = t @ [r]"
    and "c_event_id r = i" and "c_status r = StatusDelivered" and "c_original_payload r = raw" and "c_idempotency_key r = key"
    and "buildMessages E S payload v = (v', Inr parts)" and "c_rendered_parts r = marshal_strings (Some parts)"
    and "accepted_texts w' = accepted_texts w @ parts" and "k \<le> ticks w'"
proof -
  let ?r = "queue_row StatusQueued x [] y (fresh_row i key raw z)"
  have fields: "c_event_id ?r = i" "c_status ?r = StatusQueued" "c_rendered_parts ?r = marshal_strings None"
    "c_original_payload ?r = raw" "c_sent_parts ?r = 0" "c_idempotency_key ?r = key"
    by (simp_all add: queue_row_def)
  have row: "lookup i (tbl w) = Some ?r"
    using lookup_append [OF lookup_None [OF new], of ?r] fields tbl by simp
  let ?w1 = "fst (ClaimForSend E Caller i (now E w) (step w))"
  obtain wb parts where build: "buildMessages E S payload ?w1 = (wb, Inr parts)"
    using rend unfolding renders_def by (metis prod.collapse)
  have kb: "k \<le> ticks wb + 1"
    using buildMessages_ticks [OF build] k by (simp add: ClaimForSend_ticks)
  have asks: "ask_all (asked E S) (ticks wb + 1) (drop (nat (c_sent_parts ?r)) parts) = (length parts, None)"
    using ask_all_willing [OF willing kb] fields by simp
  have pend: "c_status ?r \<in> set pending_statuses" using fields by (simp add: pending_statuses_def)
  have fresh: "unmarshal_strings (c_rendered_parts ?r) = Some None" "c_rendered_parts ?r \<noteq> []"
    unfolding fields unmarshal_marshal by (simp_all add: marshal_strings_def)
  obtain w' e r' where run: "ProcessEventByID E S i w = (w', e)" "lookup i (tbl w') = Some r'"
    and ab: "abs_row parts r' = attempt (MaxDeliveryAttempts (cfg S)) (asked E S) (ticks wb + 1) (abs_row parts ?r)"
    and r': "same_delivery ?r r'" "c_rendered_parts r' = marshal_strings (Some parts)"
    and acc: "accepted_texts w' = accepted_texts w @ take (length parts) (drop (nat (c_sent_parts ?r)) parts)"
    and e: "e = None" and t: "ticks wb < ticks w'"
    using process_fresh_calm [OF calm k ok row pend fresh _ build _ asks] decode fields by auto
  have "ob_phase (abs_row parts r') = Delivered"
    unfolding ab using asks by (simp add: attempt_def abs_row_def verdict_def)
  then have st: "c_status r' = StatusDelivered" by (simp add: abs_row_def phase_Delivered)
  have "framed i (t @ [?r]) (tbl w')"
    using frame.R_ProcessEventByID [of i w E S] run(1) tbl by simp
  then obtain s where s: "tbl w' = t @ [s]" "same_delivery ?r s" using framed_append new by blast
  have "c_event_id s = i" using s(2) fields by (simp add: same_delivery_def)
  then have "s = r'" using run(2) s(1) lookup_append [OF lookup_None [OF new], of s] by simp
  then show ?thesis
    using that [of w' r' ?w1 wb parts] run(1) e s(1) \<open>c_event_id s = i\<close> st r' fields build acc t kb
    by (simp add: same_delivery_def)
qed

lemma accept_new_calm:
  assumes calm: "calm_from E k" and k: "k \<le> ticks w" and ok: "keys_ok (tbl w)"
    and willing: "willing_from E S k" and decode: "decode_payload S raw = Inr payload" and rend: "renders E S payload"
    and ids: "fresh_ids_from E k (tbl w)" and key: "\<forall>r \<in> set (tbl w). c_idempotency_key r \<noteq> key"
  obtains w' r v v' parts where "accept_new E S raw key w = Inr (w', \<lparr> ar_EventID = c_event_id r, ar_IdempotencyKey = key,
        ar_Status = StatusDelivered, ar_Duplicate = False \<rparr>, 200, None)"
    and "tbl w' = tbl w @ [r]" and "c_status r = StatusDelivered" and "c_original_payload r = raw" and "c_idempotency_key r = key"
    and "buildMessages E S payload v = (v', Inr parts)" and "c_rendered_parts r = marshal_strings (Some parts)"
    and "accepted_texts w' = accepted_texts w @ parts" and "k \<le> ticks w'"
proof -
  obtain buffer where b: "rand_read E (Suc (ticks w)) 16 = Inr buffer" "hex_EncodeToString buffer \<notin> c_event_id ` set (tbl w)"
    using ids k unfolding fresh_ids_from_def by (metis le_SucI)
  let ?i = "hex_EncodeToString buffer" and ?w1 = "step (step w)" and ?t = "now E w"
  have rid: "randomID E (step w) = (?w1, Inr ?i)" using b(1) by (simp add: randomID_def)
  obtain w2 where w2: "CreateReceived E Caller (new_record ?i key raw ?t) ?w1 = (w2, Inr ())"
    "tbl w2 = tbl w @ [fresh_row ?i key raw ?t]" "sends w2 = sends w" "ticks w2 = Suc (ticks ?w1)"
    using create_calm [OF calm, of ?w1 ?i key raw ?t] k b(2) key by auto
  obtain w3 where w3: "MarkQueued E Caller ?i ?t w2 = (w3, Inr ())"
    "tbl w3 = update_id ?i (queue_row StatusQueued ?t [] (now E w2)) (tbl w2)" "sends w3 = sends w2" "ticks w3 = Suc (ticks w2)"
    using queue_calm [OF calm, of w2 ?i ?t] k w2(4) by auto
  have old: "update_id ?i f (tbl w) = tbl w" for f
    unfolding update_where_def by (rule map_idI) (use b(2) in \<open>metis (no_types, lifting) image_eqI\<close>)
  have t3: "tbl w3 = tbl w @ [queue_row StatusQueued ?t [] (now E w2) (fresh_row ?i key raw ?t)]"
    unfolding w3(2) w2(2) using old by (simp add: update_where_def)
  have k3: "k \<le> ticks w3" using k w2(4) w3(4) by simp
  have ok3: "keys_ok (tbl w3)"
    using ok b(2) key by (auto simp: t3 keys_ok_def queue_row_def)
  obtain w4 r v v' parts where run: "ProcessEventByID E S ?i w3 = (w4, None)" "tbl w4 = tbl w @ [r]"
    and r: "c_event_id r = ?i" "c_status r = StatusDelivered" "c_original_payload r = raw" "c_idempotency_key r = key"
    and build: "buildMessages E S payload v = (v', Inr parts)" "c_rendered_parts r = marshal_strings (Some parts)"
    and acc: "accepted_texts w4 = accepted_texts w3 @ parts" and k4: "k \<le> ticks w4"
    by (rule first_attempt_calm [OF calm k3 ok3 willing decode rend b(2) t3])
  have row4: "lookup ?i (tbl (emit (WebhookEvent ''success'') w4)) = Some r"
    using lookup_append [OF lookup_None [OF b(2)], of r] r(1) run(2) by simp
  obtain w5 where load: "loadAcceptResult E S ?i key False (emit (WebhookEvent ''success'') w4) =
      (w5, \<lparr> ar_EventID = ?i, ar_IdempotencyKey = key, ar_Status = c_status r, ar_Duplicate = False \<rparr>, 200, None)"
    and w5: "tbl w5 = tbl w4" "sends w5 = sends w4" "ticks w5 = Suc (ticks w4)"
    using load_calm [OF calm _ row4, of S key False] k4 build(2) r(2)
    by (auto simp: unmarshal_marshal terminal_statuses_def)
  have "accept_new E S raw key w = Inr (w5, \<lparr> ar_EventID = ?i, ar_IdempotencyKey = key, ar_Status = c_status r,
      ar_Duplicate = False \<rparr>, 200, None)"
    using rid w2(1) w3(1) run(1) load by (simp add: accept_new_def answer_new_def)
  then show ?thesis
    using that [of w5 r v v' parts] run(2) r build acc k4 w5 w2(3) w3(3) by (simp add: accepted_texts_def)
qed

text \<open>The whole handler, for a key that is not in the table and for one whose delivery is terminal.\<close>

lemma accept_calm:
  assumes "calm_from E (ticks w)" and "roomy_from E S (ticks w)" and "willing_from E S (ticks w)"
    and "fresh_ids_from E (ticks w) (tbl w)" and "keys_ok (tbl w)"
    and "decode_payload S raw = Inr payload" and "renders E S payload"
    and "\<forall>r \<in> set (tbl w). c_idempotency_key r \<noteq> ComputeFingerprint payload"
  shows "\<exists>w' r v v' parts. AcceptWebhook E S raw w = Some (w', \<lparr> ar_EventID = c_event_id r,
        ar_IdempotencyKey = ComputeFingerprint payload, ar_Status = StatusDelivered, ar_Duplicate = False \<rparr>, 200, None)
    \<and> tbl w' = tbl w @ [r] \<and> c_status r = StatusDelivered \<and> c_original_payload r = raw
    \<and> c_idempotency_key r = ComputeFingerprint payload
    \<and> buildMessages E S payload v = (v', Inr parts) \<and> c_rendered_parts r = marshal_strings (Some parts)
    \<and> accepted_texts w' = accepted_texts w @ parts \<and> ticks w \<le> ticks w'"
proof -
  let ?key = "ComputeFingerprint payload"
  obtain w1 where cap: "EnsureCapacity E S w = (w1, None)" "tbl w1 = tbl w" "sends w1 = sends w" "ticks w1 = Suc (ticks w)"
    by (rule capacity_calm [OF assms(2) order.refl])
  obtain w2 where get: "GetByIdempotencyKey E Caller ?key w1 = (w2, Inr None)" "tbl w2 = tbl w1" "sends w2 = sends w1"
    "ticks w2 = Suc (ticks w1)"
    using get_key_calm [OF assms(1), of w1 ?key] assms(8) cap by auto
  have k: "ticks w \<le> ticks w2" and t: "tbl w2 = tbl w" using cap get by simp_all
  obtain w' r v v' parts where run: "accept_new E S raw ?key w2 = Inr (w', \<lparr> ar_EventID = c_event_id r,
      ar_IdempotencyKey = ?key, ar_Status = StatusDelivered, ar_Duplicate = False \<rparr>, 200, None)"
    and rest: "tbl w' = tbl w @ [r]" "c_status r = StatusDelivered" "c_original_payload r = raw" "c_idempotency_key r = ?key"
      "buildMessages E S payload v = (v', Inr parts)" "c_rendered_parts r = marshal_strings (Some parts)"
      "accepted_texts w' = accepted_texts w2 @ parts" "ticks w \<le> ticks w'"
    by (rule accept_new_calm [OF assms(1) k, unfolded t, OF assms(5,3,6,7,4,8)])
  have "accept_once E S raw w = accept_new E S raw ?key w2"
    using assms(6) cap(1) get(1) by (simp add: accept_once_def)
  then have "AcceptWebhook E S raw w = Some (w', \<lparr> ar_EventID = c_event_id r, ar_IdempotencyKey = ?key,
      ar_Status = StatusDelivered, ar_Duplicate = False \<rparr>, 200, None)"
    using run by (subst AcceptWebhook.simps) simp
  then show ?thesis
    using rest cap(3) get(3) by (intro exI conjI) (assumption | simp add: accepted_texts_def)+
qed

text \<open>A key that is in the table finds its row.\<close>

lemma find_by_key:
  assumes "keys_ok t" and "r \<in> set t" and "c_idempotency_key r = key"
  shows "find (\<lambda>x. c_idempotency_key x = key) t = Some r"
proof -
  have inj: "inj_on c_idempotency_key (set t)" using assms(1) by (simp add: keys_ok_def distinct_map)
  obtain x where x: "find (\<lambda>x. c_idempotency_key x = key) t = Some x"
    using assms(2,3) by (cases "find (\<lambda>x. c_idempotency_key x = key) t") (auto simp: find_None_iff)
  then have "x \<in> set t" "c_idempotency_key x = key" by (auto simp: find_Some_iff)
  then show ?thesis using x inj assms(2,3) by (metis inj_onD)
qed

lemma duplicate_calm:
  assumes "calm_from E (ticks w)" and "roomy_from E S (ticks w)" and "keys_ok (tbl w)"
    and "decode_payload S raw = Inr payload" and "r \<in> set (tbl w)"
    and "c_idempotency_key r = ComputeFingerprint payload" and "c_status r \<in> set terminal_statuses"
    and "unmarshal_strings (c_rendered_parts r) \<noteq> None"
  shows "\<exists>w'. AcceptWebhook E S raw w = Some (w', \<lparr> ar_EventID = c_event_id r,
        ar_IdempotencyKey = ComputeFingerprint payload, ar_Status = c_status r, ar_Duplicate = True \<rparr>, 200, None)
    \<and> tbl w' = tbl w \<and> sends w' = sends w"
proof -
  let ?key = "ComputeFingerprint payload"
  obtain w1 where cap: "EnsureCapacity E S w = (w1, None)" "tbl w1 = tbl w" "sends w1 = sends w" "ticks w1 = Suc (ticks w)"
    by (rule capacity_calm [OF assms(2) order.refl])
  have "find (\<lambda>x. c_idempotency_key x = ?key) (tbl w) = Some r"
    using assms(3,5,6) find_by_key by metis
  moreover obtain rc where rc: "scanRecordValues r = Inr rc" "Rec_Status rc = c_status r"
      "Rec_EventID rc = c_event_id r" "Rec_IdempotencyKey rc = c_idempotency_key r"
    by (rule scan_row [OF assms(8)])
  ultimately have get: "GetByIdempotencyKey E Caller ?key w1
      = (observe ''get_by_idempotency_key'' None (step w1), Inr (Some rc))"
    using calm_fault [OF assms(1), of w1 Caller] cap by (simp add: GetByIdempotencyKey_def scanRecord_def)
  have "accept_once E S raw w = Inr (answer_duplicate E S rc (observe ''get_by_idempotency_key'' None (step w1)))"
    using assms(4) cap(1) get by (simp add: accept_once_def)
  then show ?thesis
    using rc assms(6,7) cap
    by (subst AcceptWebhook.simps) (auto simp: answer_duplicate_def terminal_answer_def terminal_statuses_def)
qed

end
