(* ===== verification/PropsAccept.thy ===== *)
theory PropsAccept
  imports AcceptFacts
begin

text \<open>
  The properties of accepting a webhook: what reaches Telegram, what is stored when the answer is
  a success, which answers there are, and that the handler returns.
\<close>

section \<open>What an answer says\<close>

text \<open>
  A success has the code 200 or 202 and reports the status of a row of the table; an error has one
  of the codes 400, 500, 502 and 503.
\<close>

definition answer_ok :: "world \<times> answer \<Rightarrow> bool" where
  "answer_ok a \<longleftrightarrow>
     (case a of (w, res, code, e) \<Rightarrow>
        (if e = None
         then code \<in> {200, 202}
           \<and> (\<exists>r \<in> set (tbl w). c_event_id r = ar_EventID res \<and> c_status r = ar_Status res)
         else code \<in> {400, 500, 502, 503}))"

lemma scan_status: "scanRecordValues r = Inr rc \<Longrightarrow>
    Rec_Status rc = c_status r \<and> Rec_EventID rc = c_event_id r \<and> Rec_IdempotencyKey rc = c_idempotency_key r"
  by (auto simp: scanRecordValues_def Let_def split: if_splits option.splits)

lemma found_row:
  "GetByEventID E c i w = (w', Inr (Some rc)) \<Longrightarrow>
     tbl w' = tbl w \<and> (\<exists>r \<in> set (tbl w). c_event_id r = i \<and> c_status r = Rec_Status rc)"
  "GetByIdempotencyKey E c key w = (w', Inr (Some rc)) \<Longrightarrow>
     tbl w' = tbl w \<and> (\<exists>r \<in> set (tbl w). c_event_id r = Rec_EventID rc \<and> c_status r = Rec_Status rc)"
  by (auto simp: GetByEventID_def GetByIdempotencyKey_def scanRecord_def Let_def find_Some_iff
      split: option.splits prod.splits sum.splits dest!: scan_status)

lemma load_ok:
  assumes "loadAcceptResult E S i key dup w = (w', res, code, e)"
  shows "answer_ok (w', res, code, e) \<and> (e \<noteq> None \<longrightarrow> code = 500)"
  using assms found_row(1) [of E Caller i w]
  by (auto simp: loadAcceptResult_def Let_def answer_ok_def split: prod.splits sum.splits option.splits if_splits)

lemma load_answer_ok: "answer_ok (loadAcceptResult E S i key dup w)"
  using load_ok [of E S i key dup w] by (cases "loadAcceptResult E S i key dup w") simp

lemma answer_ok_emit: "answer_ok (emit m w, a) = answer_ok (w, a)"
  by (cases a) (simp add: answer_ok_def)

lemma terminal_ok:
  assumes "GetByIdempotencyKey E c key w = (w', Inr (Some rc))"
  shows "answer_ok (w', terminal_answer rc)"
  using found_row(2) [OF assms] by (simp add: answer_ok_def terminal_answer_def)

lemma duplicate_ok:
  assumes "GetByIdempotencyKey E c key w = (w', Inr (Some rc))"
  shows "answer_ok (answer_duplicate E S rc w')"
proof (cases "Rec_Status rc \<in> {StatusDelivered, StatusFailed, StatusDeadLetter}")
  case True
  then show ?thesis
    using terminal_ok [OF assms] by (auto simp: answer_duplicate_def answer_ok_emit)
next
  case False
  then show ?thesis
    by (auto simp: answer_duplicate_def Let_def load_answer_ok split: prod.splits)
qed

lemma new_ok: "answer_ok (answer_new E S i key w)"
proof -
  obtain w1 e where run: "ProcessEventByID E S i w = (w1, e)" by fastforce
  obtain w2 res code le where l: "loadAcceptResult E S i key False w1 = (w2, res, code, le)" by (metis prod_cases4)
  have "answer_ok (w2, res, code, le)" using load_ok [OF l] by blast
  then show ?thesis
    using run l
    by (cases e; cases le) (auto simp: answer_new_def answer_ok_emit load_answer_ok, auto simp: answer_ok_def)
qed

lemma accept_new_ok: "accept_new E S raw key w = Inr a \<Longrightarrow> answer_ok a"
proof -
  obtain w1 r1 where r: "randomID E (step w) = (w1, r1)" by fastforce
  assume run: "accept_new E S raw key w = Inr a"
  show ?thesis
  proof (cases r1)
    case (Inl e)
    then show ?thesis using run r by (auto simp: accept_new_def answer_ok_def)
  next
    case (Inr i)
    obtain w2 r2 where c: "CreateReceived E Caller (new_record i key raw (now E w)) w1 = (w2, r2)" by fastforce
    obtain w3 r3 where q: "MarkQueued E Caller i (now E w) w2 = (w3, r3)" by fastforce
    show ?thesis
      using run r Inr c q new_ok [of E S i key w3]
      by (cases r2; cases r3) (auto simp: accept_new_def answer_ok_def [of "(_, no_result, _)"] split: if_splits)
  qed
qed

lemma accept_once_ok: "accept_once E S raw w = Inr a \<Longrightarrow> answer_ok a"
proof -
  assume run: "accept_once E S raw w = Inr a"
  show ?thesis
  proof (cases "decode_payload S raw")
    case (Inl e)
    then show ?thesis using run by (auto simp: accept_once_def answer_ok_def)
  next
    case (Inr payload)
    obtain w1 e1 where cap: "EnsureCapacity E S w = (w1, e1)" by fastforce
    obtain w2 r2 where get: "GetByIdempotencyKey E Caller (ComputeFingerprint payload) w1 = (w2, r2)" by fastforce
    have "answer_ok (w, no_result, code, Some e)" if "code \<in> {500, 503}" for w e and code :: int
      using that by (auto simp: answer_ok_def)
    then show ?thesis
      using run Inr cap get duplicate_ok [of E Caller "ComputeFingerprint payload" w1 w2] accept_new_ok [of E S raw _ w2 a]
      by (auto simp: accept_once_def Let_def split: option.splits sum.splits)
  qed
qed

text \<open>
  A webhook is acknowledged only when it is stored: in every environment, whatever fails, an
  answer without an error has the code 200 or 202 and names an event that is in the table with the
  status the answer reports; an answer with an error has one of the codes 400, 500, 502 and 503.
\<close>

theorem acknowledged_is_stored:
  assumes "AcceptWebhook E S raw w = Some (w', res, code, e)"
  shows "if e = None
    then code \<in> {200, 202} \<and> (\<exists>r \<in> set (tbl w'). c_event_id r = ar_EventID res \<and> c_status r = ar_Status res)
    else code \<in> {400, 500, 502, 503}"
proof -
  have "answer_ok (w', res, code, e)"
  proof (rule AcceptWebhook.raw_induct [where P = "\<lambda>E S raw w a. answer_ok a", OF _ assms])
    fix f E S raw w a
    assume "\<And>E S raw w a. f E S raw w = Some a \<Longrightarrow> answer_ok a"
      and "(case accept_once E S raw w of Inl w' \<Rightarrow> f E S raw w' | Inr r \<Rightarrow> Some r) = Some a"
    then show "answer_ok a" using accept_once_ok by (auto split: sum.splits)
  qed
  then show ?thesis by (simp add: answer_ok_def)
qed

theorem acknowledged_is_stored_witness:
  "\<exists>w' res. AcceptWebhook demo_env demo_service ''nonsense'' (demo_world []) =
      Some (w', res, 400, Some (Wrapped ''decode webhook payload'' (ErrText ''invalid JSON'')))
    \<and> (400 :: int) \<in> {400, 500, 502, 503}"
proof -
  have "\<exists>w' res. AcceptWebhook demo_env demo_service ''nonsense'' (demo_world []) =
      Some (w', res, 400, Some (Wrapped ''decode webhook payload'' (ErrText ''invalid JSON'')))"
    by (subst AcceptWebhook.simps) (simp add: accept_once_def demo_service_def)
  then obtain w' res where run: "AcceptWebhook demo_env demo_service ''nonsense'' (demo_world []) =
      Some (w', res, 400, Some (Wrapped ''decode webhook payload'' (ErrText ''invalid JSON'')))" by blast
  then show ?thesis using acknowledged_is_stored [OF run] by auto
qed

text \<open>
  A payload that does not decode is answered with 400; no row changes and nothing is sent.
\<close>

theorem invalid_payload_rejected:
  assumes "decode_payload S raw = Inl e"
  shows "\<exists>w'. AcceptWebhook E S raw w = Some (w', no_result, 400, Some (Wrapped ''decode webhook payload'' e))
    \<and> tbl w' = tbl w \<and> sends w' = sends w \<and> mlog w' = mlog w @ [WebhookEvent ''invalid_json'']"
  by (subst AcceptWebhook.simps) (simp add: accept_once_def assms)

theorem invalid_payload_rejected_witness:
  "\<exists>w'. AcceptWebhook refusing_env demo_service ''[1, 2'' (demo_world [demo_row StatusQueued]) =
      Some (w', no_result, 400, Some (Wrapped ''decode webhook payload'' (ErrText ''invalid JSON'')))
    \<and> tbl w' = [demo_row StatusQueued]"
  using invalid_payload_rejected [of demo_service "''[1, 2''" "ErrText ''invalid JSON''" refusing_env
      "demo_world [demo_row StatusQueued]"]
  by (auto simp: demo_service_def)

section \<open>The handler returns\<close>

text \<open>Only a driver error that looks like a unique violation, or a real one, makes the handler try again.\<close>

definition no_false_duplicates :: "env \<Rightarrow> bool" where
  "no_false_duplicates E \<longleftrightarrow> (\<forall>j s e. db_fault E j = Some (s, e) \<longrightarrow> \<not> isUniqueConstraint E e)"

definition ids_new :: "env \<Rightarrow> row list \<Rightarrow> bool" where
  "ids_new E t \<longleftrightarrow> (\<forall>r \<in> set t. \<not> drawn E (c_event_id r))"

lemma unknown_key:
  assumes "GetByIdempotencyKey E c key w = (w', Inr None)"
  shows "tbl w' = tbl w \<and> (\<forall>r \<in> set (tbl w). c_idempotency_key r \<noteq> key)"
  using assms
  by (auto simp: GetByIdempotencyKey_def scanRecord_def Let_def find_None_iff
      split: option.splits prod.splits sum.splits)

lemma accept_new_returns:
  assumes "no_false_duplicates E" and "ids_new E (tbl w)" and "\<forall>r \<in> set (tbl w). c_idempotency_key r \<noteq> key"
  shows "\<exists>a. accept_new E S raw key w = Inr a"
proof -
  obtain w1 r1 where r: "randomID E (step w) = (w1, r1)" and t1: "tbl w1 = tbl w" by (simp add: randomID_def)
  show ?thesis
  proof (cases r1)
    case (Inl e)
    then show ?thesis using r by (simp add: accept_new_def)
  next
    case (Inr i)
    then have "drawn E i" using r by (auto simp: randomID_def drawn_def split: sum.splits)
    then have "\<forall>x \<in> set (tbl w1). c_event_id x \<noteq> i" using assms(2) t1 by (auto simp: ids_new_def)
    then have uv: "unique_violation (tbl w1) (insert_row (new_record i key raw (now E w)) p) = None" for p
      using assms(3) t1 by (auto simp: unique_violation_def insert_row_def new_record_def)
    obtain w2 r2 where c: "CreateReceived E Caller (new_record i key raw (now E w)) w1 = (w2, r2)" by fastforce
    have nf: "\<not> isUniqueConstraint E e" if "fault E Caller w1 = Some (s, e)" for s e
    proof (cases "ctx_Err E Caller w1")
      case None
      then show ?thesis using that assms(1) by (simp add: fault_def no_false_duplicates_def)
    next
      case (Some x)
      then show ?thesis using that by (auto simp: fault_def isUniqueConstraint_def)
    qed
    have "r2 \<noteq> Inl ErrAlreadyExists"
      using c uv nf by (auto simp: CreateReceived_def Let_def split: option.splits prod.splits db_stage.splits if_splits)
    then show ?thesis using r Inr c by (cases r2) (auto simp: accept_new_def Let_def split: prod.splits sum.splits simp del: split_paired_Ex)
  qed
qed

lemma capacity_thins: "set (tbl (fst (EnsureCapacity E S w))) \<subseteq> set (tbl w)"
proof -
  have "deletion_steps (\<lambda>t u. set u \<subseteq> set t) d b" for d b
    by unfold_locales (auto simp: delete_ids_def)
  then show ?thesis by (rule capacity_deletes) simp
qed



section \<open>From the webhook to Telegram\<close>

text \<open>
  C1: end to end, a new webhook is delivered by the handler itself: when the store works and has
  room, the payload renders and Telegram accepts, \<open>AcceptWebhook\<close> answers 200 with the status
  \<open>delivered\<close>; the table has exactly one row more, which holds the payload, its fingerprint as
  key and the rendered parts; and exactly these parts, in order, were accepted by Telegram.
\<close>

theorem new_webhook_delivered:
  assumes "calm_from E (ticks w)" and "roomy_from E S (ticks w)" and "willing_from E S (ticks w)"
    and "fresh_ids_from E (ticks w) (tbl w)" and "keys_ok (tbl w)"
    and "decode_payload S raw = Inr payload" and "renders E S payload"
    and "\<forall>r \<in> set (tbl w). c_idempotency_key r \<noteq> ComputeFingerprint payload"
  shows "\<exists>w' r v v' parts. AcceptWebhook E S raw w = Some (w', \<lparr> ar_EventID = c_event_id r,
        ar_IdempotencyKey = ComputeFingerprint payload, ar_Status = StatusDelivered, ar_Duplicate = False \<rparr>, 200, None)
    \<and> tbl w' = tbl w @ [r] \<and> c_status r = StatusDelivered \<and> c_original_payload r = raw
    \<and> c_idempotency_key r = ComputeFingerprint payload
    \<and> buildMessages E S payload v = (v', Inr parts) \<and> c_rendered_parts r = marshal_strings (Some parts)
    \<and> accepted_texts w' = accepted_texts w @ parts"
  using accept_calm [OF assms] by blast

lemma demo_roomy: "roomy_from demo_env demo_service k"
  by (simp add: roomy_from_def measured_def SizeBytes_def demo_env_def demo_service_def demo_cfg_def int64_def)

lemma demo_renders: "renders demo_env demo_service demo_payload"
proof -
  have "TrimSpace ''t'' \<noteq> []"
    by (simp add: TrimSpace_Nil_iff chunks_ascii ascii_def byte_def space_chunk_def IsSpace_def decode_ascii)
  then show ?thesis
    by (simp add: renders_def buildMessages_def buildPassthroughMessages_def demo_service_def demo_cfg_def
        demo_payload_def Let_def)
qed

theorem new_webhook_delivered_witness:
  "\<exists>w' res. AcceptWebhook demo_env demo_service ''{}'' (demo_world []) = Some (w', res, 200, None)
    \<and> length (tbl w') = 1 \<and> ar_Status res = StatusDelivered"
proof -
  have ids: "fresh_ids_from demo_env (ticks (demo_world [])) (tbl (demo_world []))"
    by (simp add: fresh_ids_from_def demo_env_def)
  have keys: "keys_ok (tbl (demo_world []))" by (simp add: keys_ok_def)
  have dec: "decode_payload demo_service ''{}'' = Inr demo_payload" by (simp add: demo_service_def)
  have "\<exists>w' r. AcceptWebhook demo_env demo_service ''{}'' (demo_world []) = Some (w', \<lparr> ar_EventID = c_event_id r,
        ar_IdempotencyKey = ComputeFingerprint demo_payload, ar_Status = StatusDelivered, ar_Duplicate = False \<rparr>, 200, None)
      \<and> tbl w' = tbl (demo_world []) @ [r]"
    using new_webhook_delivered [OF demo_calm(1) demo_roomy demo_willing ids keys dec demo_renders] by force
  then show ?thesis by force
qed

text \<open>
  A webhook whose fingerprint is that of a delivered, failed or dead-lettered event is answered
  with 200, the id and the status of that event and the mark of a duplicate: no row changes,
  nothing is sent, however often it is posted (store working, with room).
\<close>

theorem duplicate_changes_nothing:
  assumes "calm_from E (ticks w)" and "roomy_from E S (ticks w)" and "keys_ok (tbl w)"
    and "decode_payload S raw = Inr payload" and "r \<in> set (tbl w)"
    and "c_idempotency_key r = ComputeFingerprint payload" and "c_status r \<in> set terminal_statuses"
    and "unmarshal_strings (c_rendered_parts r) \<noteq> None"
  shows "\<exists>w'. AcceptWebhook E S raw w = Some (w', \<lparr> ar_EventID = c_event_id r,
        ar_IdempotencyKey = ComputeFingerprint payload, ar_Status = c_status r, ar_Duplicate = True \<rparr>, 200, None)
    \<and> tbl w' = tbl w \<and> sends w' = sends w"
  by (rule duplicate_calm [OF assms])

theorem duplicate_changes_nothing_witness:
  "\<exists>w'. AcceptWebhook demo_env demo_service ''{}''
        (demo_world [(demo_row StatusDeadLetter)\<lparr>c_idempotency_key := ComputeFingerprint demo_payload\<rparr>])
      = Some (w', \<lparr> ar_EventID = ''e1'', ar_IdempotencyKey = ComputeFingerprint demo_payload,
                    ar_Status = StatusDeadLetter, ar_Duplicate = True \<rparr>, 200, None) \<and> sends w' = []"
proof -
  let ?r = "(demo_row StatusDeadLetter)\<lparr>c_idempotency_key := ComputeFingerprint demo_payload\<rparr>"
  have "keys_ok (tbl (demo_world [?r]))" by (simp add: keys_ok_def)
  moreover have "decode_payload demo_service ''{}'' = Inr demo_payload" by (simp add: demo_service_def)
  ultimately show ?thesis
    using duplicate_changes_nothing [OF demo_calm(1) demo_roomy, of "demo_world [?r]" "''{}''" demo_payload ?r]
    by (simp add: terminal_statuses_def) blast
qed



section \<open>The time of a retry\<close>

text \<open>
  C23: a retry is not early: after a retryable refusal of an event with attempts left, the event is
  scheduled so that it is not due before Telegram's own retry delay and the backoff of this
  attempt have both passed.
\<close>

theorem retry_not_early:
  assumes "calm_from E (ticks w)" and "lookup (Rec_EventID rc) (tbl w) = Some r"
    and "Retryable a" and "Rec_AttemptCount rc < MaxDeliveryAttempts (cfg S)"
  shows "\<exists>w' e r'. handleSendError E S rc parts (ApiErr a) w = (w', e)
    \<and> lookup (Rec_EventID rc) (tbl w') = Some r' \<and> c_status r' = StatusRetryScheduled
    \<and> (\<forall>t. due t r' \<longrightarrow> clock E (ticks w + 1) + RetryAfter a \<le> t
         \<and> clock E (ticks w + 1) + computeBackoff (rng E (ticks w + 1) mod 2 ^ 53) (Rec_AttemptCount rc)
             (RetryBaseDelay (cfg S)) (RetryMaxDelay (cfg S)) \<le> t)"
proof -
  let ?wait = "computeBackoff (rng E (ticks w + 1) mod 2 ^ 53) (Rec_AttemptCount rc)
    (RetryBaseDelay (cfg S)) (RetryMaxDelay (cfg S))"
  let ?next = "clock E (ticks w + 1) + (if RetryAfter a > ?wait then RetryAfter a else ?wait)"
  let ?f = "retry_row (joinRendered parts) (err_text (ApiErr a)) ?next (clock E (ticks w + 2))"
  have api: "as_api (ApiErr a) = Some a" by simp
  obtain w' e where run: "handleSendError E S rc parts (ApiErr a) w = (w', e)"
    and t: "tbl w' = update_id (Rec_EventID rc) ?f (tbl w)"
    using assms(3,4)
    by (simp add: handleSendError_def check_ctx_def calm_ctx [OF assms(1)] schedule_retry_def Let_def api
        ScheduleRetry_def calm_exec [OF assms(1)] Int63n53_def now_def del: as_api.simps)
  have "lookup (Rec_EventID rc) (tbl w') = Some (?f r)"
    using assms(2) lookup_id [OF assms(2)] t by (simp add: lookup_update)
  moreover have "due x (?f r) \<longleftrightarrow> ?next \<le> x" for x
    by (simp add: due_def retry_row_def pending_statuses_def)
  ultimately show ?thesis using run by (intro exI [of _ w'] exI [of _ e] exI [of _ "?f r"]) auto
qed

theorem retry_not_early_witness:
  "\<exists>w' e r'. handleSendError refusing_env demo_service (new_record ''e1'' ''k1'' ''{}'' 0) [''a'']
        (ApiErr \<lparr> StatusCode = 429, ErrorCode = 429, Description = [], Retryable = True, RetryAfter = 5 * Second \<rparr>)
        (demo_world [demo_row StatusSending]) = (w', e)
    \<and> lookup ''e1'' (tbl w') = Some r' \<and> \<not> due 5000000000 r'"
proof -
  let ?a = "\<lparr> StatusCode = 429, ErrorCode = 429, Description = [], Retryable = True, RetryAfter = 5 * Second \<rparr>"
    and ?rc = "new_record ''e1'' ''k1'' ''{}'' 0" and ?w = "demo_world [demo_row StatusSending]"
  have hyps: "calm_from refusing_env (ticks ?w)" "lookup (Rec_EventID ?rc) (tbl ?w) = Some (demo_row StatusSending)"
    "Retryable ?a" "Rec_AttemptCount ?rc < MaxDeliveryAttempts (cfg demo_service)"
    by (simp_all add: new_record_def)
  have id: "Rec_EventID ?rc = ''e1''" by (simp add: new_record_def)
  have delay: "clock refusing_env (ticks ?w + 1) + RetryAfter ?a = 5000000001"
    by (simp add: refusing_env_def demo_env_def Second_def)
  obtain w' e r' where run: "handleSendError refusing_env demo_service ?rc [''a''] (ApiErr ?a) ?w = (w', e)"
    "lookup ''e1'' (tbl w') = Some r'"
    and early: "\<And>t. due t r' \<Longrightarrow> 5000000001 \<le> t"
    using retry_not_early [OF hyps, of "[''a'']"] unfolding id delay by blast
  have "\<not> due 5000000000 r'" using early [of 5000000000] by auto
  then show ?thesis using run by blast
qed

end
