(* ===== verification/PropsRender.thy ===== *)
theory PropsRender
  imports PropsAccept
begin

text \<open>
  The properties of what is sent: splitting, packing and the size limit of Telegram, the text that
  reaches a template, the storing of the parts, and the fingerprint that makes a webhook a
  duplicate.
\<close>

section \<open>Splitting and packing\<close>

text \<open>
  C20: splitting a message returns for every positive limit; every part keeps the limit, counted in
  runes as Telegram counts, no part is empty, and all text but white space is in the parts,
  in order, once.
\<close>

theorem splitMessage_complete:
  assumes "0 < limit" and "msg \<noteq> []"
  shows "\<exists>parts. splitMessage msg limit = Some parts
    \<and> (\<forall>p \<in> set parts. p \<noteq> [] \<and> telegramChars p \<le> limit) \<and> concat (map ink parts) = ink msg"
  using splitMessage_spec [OF assms(1), of msg] assms(2) by metis

theorem splitMessage_complete_witness:
  "\<exists>parts. splitMessage ''disk is full'' 6 = Some parts \<and> list_all (\<lambda>p. p \<noteq> [] \<and> telegramChars p \<le> 6) parts"
  using splitMessage_complete [of 6 "''disk is full''"] by (auto simp: list_all_iff)

text \<open>
  C29: packing alerts into messages is a partition: the chunks in order are the alerts in order, no
  chunk is empty, the measured size of a chunk keeps the budget, and a chunk is closed only when
  the next alert does not fit any more.
\<close>

theorem packing_partitions_alerts:
  assumes "\<forall>(a, sz) \<in> set sized. 0 \<le> sz \<and> sz \<le> budget \<and> m a = sz" and "0 \<le> budget"
  shows "concat (pack budget sized [] 0) = map fst sized
    \<and> (\<forall>chunk \<in> set (pack budget sized [] 0). chunk \<noteq> [] \<and> sum_list (map m chunk) \<le> budget)
    \<and> tight m budget (pack budget sized [] 0)"
proof -
  have "\<forall>(a, sz) \<in> set sized. m a = sz" using assms(1) by auto
  then show ?thesis
    using pack_concat [of budget sized "[]" 0] pack_nonempty [of _ budget sized "[]" 0]
      pack_budget [of sized budget m "[]" 0] pack_tight [of sized m "[]" 0 budget] assms by simp
qed

theorem packing_partitions_alerts_witness:
  "concat (pack 10 [(4, 4), (5, 5), (3, 3)] [] 0) = [4, 5, 3 :: int]
   \<and> tight (\<lambda>x. x) 10 (pack 10 [(4, 4), (5, 5), (3, 3)] [] 0)"
  using packing_partitions_alerts [of "[(4, 4), (5, 5), (3, 3)]" 10 "\<lambda>x :: int. x"] by simp

text \<open>
  C19: whatever the payload, the template and the clock, a message that is built for Telegram has at
  most 4096 runes, in both modes.
\<close>

theorem messages_fit_telegram:
  assumes "buildMessages E S payload w = (w', Inr messages)"
  shows "\<forall>m \<in> set messages. telegramChars m \<le> 4096"
  using buildMessages_fit [OF assms] by (simp add: MaxTelegramMessageChars_def)

theorem messages_fit_telegram_witness:
  "\<exists>w' messages. buildMessages demo_env demo_service demo_payload (demo_world []) = (w', Inr messages)
    \<and> list_all (\<lambda>m. telegramChars m \<le> 4096) messages"
proof -
  obtain messages where "snd (buildMessages demo_env demo_service demo_payload (demo_world [])) = Inr messages"
    using demo_renders unfolding renders_def by blast
  then obtain w' where run: "buildMessages demo_env demo_service demo_payload (demo_world []) = (w', Inr messages)"
    by (metis prod.collapse)
  then show ?thesis using messages_fit_telegram [OF run] by (auto simp: list_all_iff)
qed

section \<open>Text\<close>

text \<open>
  C31: text that was sanitised for a template is inert in Telegram's HTML mode: it has no angle
  bracket and no quote, and at most the given number of runes, whatever the bytes it came from.
\<close>

theorem sanitized_text_is_inert:
  "set (sanitize s limit) \<inter> {CHR ''<'', CHR ''>'', CHR 0x22, CHR 0x27} = {}
   \<and> RuneCountInString (sanitize s limit) \<le> limit"
  using sanitize_markup [of _ s limit] sanitize_length [of s limit] by (auto simp: markup_def)



section \<open>The fingerprint\<close>

text \<open>The same alert, its maps visited in another order.\<close>

definition same_map :: "(string, string) go_map \<Rightarrow> (string, string) go_map \<Rightarrow> bool" where
  "same_map m n \<longleftrightarrow> go_map_ok m \<and> mset m = mset n"

definition same_alert :: "Alert \<Rightarrow> Alert \<Rightarrow> bool" where
  "same_alert a b \<longleftrightarrow> same_map (Alert_Labels a) (Alert_Labels b) \<and> same_map (Alert_Annotations a) (Alert_Annotations b)
     \<and> Alert_Status a = Alert_Status b \<and> Alert_Fingerprint a = Alert_Fingerprint b \<and> Alert_StartsAt a = Alert_StartsAt b
     \<and> Alert_EndsAt a = Alert_EndsAt b \<and> Alert_GeneratorURL a = Alert_GeneratorURL b
     \<and> Alert_ValueString a = Alert_ValueString b"

definition same_webhook :: "WebhookPayload \<Rightarrow> WebhookPayload \<Rightarrow> bool" where
  "same_webhook p q \<longleftrightarrow> same_map (Payload_GroupLabels p) (Payload_GroupLabels q)
     \<and> same_map (Payload_CommonLabels p) (Payload_CommonLabels q)
     \<and> same_map (Payload_CommonAnnotations p) (Payload_CommonAnnotations q)
     \<and> Payload_Receiver p = Payload_Receiver q \<and> Payload_Status p = Payload_Status q
     \<and> Payload_GroupKey p = Payload_GroupKey q \<and> Payload_ExternalURL p = Payload_ExternalURL q
     \<and> Payload_Title p = Payload_Title q \<and> Payload_Message p = Payload_Message q
     \<and> (\<exists>alerts. mset alerts = mset (Payload_Alerts p) \<and> list_all2 same_alert alerts (Payload_Alerts q))"

lemma stable_same: "same_map m n \<Longrightarrow> stableMapString m = stableMapString n"
  by (simp add: same_map_def stableMapString_perm)

lemma same_alert_key: "same_alert a b \<Longrightarrow> alert_key a = alert_key b"
  by (auto simp: same_alert_def alert_key_def dest!: stable_same)

text \<open>
  C35: the fingerprint does not depend on the order of the alerts nor on the iteration order of any
  map: two payloads that differ only in these have the same idempotency key.
\<close>

theorem fingerprint_order_invariant:
  assumes "same_webhook p q"
  shows "ComputeFingerprint p = ComputeFingerprint q"
proof -
  obtain alerts where al: "mset alerts = mset (Payload_Alerts p)" "list_all2 same_alert alerts (Payload_Alerts q)"
    using assms by (auto simp: same_webhook_def)
  have "map alert_key alerts = map alert_key (Payload_Alerts q)"
    using al(2) by (induction rule: list_all2_induct) (simp_all add: same_alert_key)
  then have "mset (map alert_key (Payload_Alerts p)) = mset (map alert_key (Payload_Alerts q))"
    using al(1) by (metis mset_map)
  then have "sort (map alert_key (Payload_Alerts p)) = sort (map alert_key (Payload_Alerts q))"
    by (rule sort_mset)
  then have "fingerprint_text p = fingerprint_text q"
    using assms unfolding same_webhook_def by (auto simp: fingerprint_text_def dest!: stable_same)
  then show ?thesis by (simp add: ComputeFingerprint_def)
qed

theorem fingerprint_order_invariant_witness:
  "ComputeFingerprint (demo_payload\<lparr>Payload_Alerts := [demo_alert, demo_alert\<lparr>Alert_Fingerprint := ''f2''\<rparr>]\<rparr>)
   = ComputeFingerprint (demo_payload\<lparr>Payload_Alerts := [demo_alert\<lparr>Alert_Fingerprint := ''f2''\<rparr>, demo_alert]\<rparr>)"
proof (rule fingerprint_order_invariant)
  have al: "same_alert a a" if "a \<in> {demo_alert, demo_alert\<lparr>Alert_Fingerprint := ''f2''\<rparr>}" for a
    using that by (auto simp: same_alert_def same_map_def demo_alert_def go_map_ok_def)
  show "same_webhook (demo_payload\<lparr>Payload_Alerts := [demo_alert, demo_alert\<lparr>Alert_Fingerprint := ''f2''\<rparr>]\<rparr>)
      (demo_payload\<lparr>Payload_Alerts := [demo_alert\<lparr>Alert_Fingerprint := ''f2''\<rparr>, demo_alert]\<rparr>)"
    unfolding same_webhook_def
    by (intro conjI exI [of _ "[demo_alert\<lparr>Alert_Fingerprint := ''f2''\<rparr>, demo_alert]"])
      (simp_all add: al same_map_def demo_payload_def go_map_ok_def)
qed

text \<open>
  Separators in label values are not escaped, so different alerts can have the same
  fingerprint: the label \<open>a\<close> with the value \<open>1,b=2\<close> and the two labels \<open>a\<close>, \<open>b\<close> with the values
  \<open>1\<close>, \<open>2\<close> give the same key, and the second webhook is taken for a duplicate of the first.
\<close>

theorem fingerprint_collides:
  "\<exists>p q. Payload_CommonLabels p \<noteq> Payload_CommonLabels q
    \<and> go_map_ok (Payload_CommonLabels p) \<and> go_map_ok (Payload_CommonLabels q)
    \<and> ComputeFingerprint p = ComputeFingerprint q"
proof -
  let ?p = "demo_payload\<lparr>Payload_CommonLabels := [(''a'', ''1,b=2'')]\<rparr>"
  let ?q = "demo_payload\<lparr>Payload_CommonLabels := [(''a'', ''1''), (''b'', ''2'')]\<rparr>"
  have "''a'' \<le> ''b''" by (simp add: list_le_def)
  then have "stableMapString [(''a'', ''1,b=2'')] = stableMapString [(''a'', ''1''), (''b'', ''2'')]"
    by (simp add: stableMapString_def map_get_def)
  then have "ComputeFingerprint ?p = ComputeFingerprint ?q"
    by (simp add: ComputeFingerprint_def fingerprint_text_def)
  then show ?thesis by (intro exI [of _ ?p] exI [of _ ?q]) (simp add: go_map_ok_def)
qed

end
