(* ===== verification/PropsTelegram.thy ===== *)
theory PropsTelegram
  imports PropsAccept TelegramFacts
begin

text \<open>
  The properties of the Telegram client and of the reaction to its errors: the token stays
  secret, success is only what Telegram confirmed, and transient failures are retried, not
  before the time Telegram asks for.
\<close>

section \<open>Secrecy of the token\<close>

text \<open>A bot token is the id of the bot, a colon and a secret.\<close>

definition token_char :: "char \<Rightarrow> bool" where
  "token_char c \<longleftrightarrow> (48 \<le> byte c \<and> byte c \<le> 57) \<or> (65 \<le> byte c \<and> byte c \<le> 90)
     \<or> (97 \<le> byte c \<and> byte c \<le> 122) \<or> c = CHR ''_'' \<or> c = CHR ''-''"

definition bot_token :: "string \<Rightarrow> bool" where
  "bot_token tok \<longleftrightarrow> (\<exists>i s. tok = i @ CHR '':'' # s \<and> s \<noteq> [] \<and> list_all token_char (i @ s))"

lemma bot_token_chars:
  assumes "bot_token tok" and "c \<in> set tok"
  shows "token_char c \<or> c = CHR '':''"
  using assms by (auto simp: bot_token_def list_all_iff)

lemma not_token_char [simp]:
  "\<not> token_char (CHR '' '')" "\<not> token_char (CHR ''='')" "\<not> token_char (CHR '':'')" "\<not> token_char (CHR ''['')"
  "\<not> token_char (CHR '']'')"
  by (simp_all add: token_char_def byte_def)

lemma bot_token_shape: "bot_token tok \<Longrightarrow> token_shape tok"
  using bot_token_chars [of tok "CHR ''[''"] bot_token_chars [of tok "CHR '']''"]
  by (auto simp: token_shape_def bot_token_def)

lemma digits_chars: "c \<in> set (digits_of_nat n) \<Longrightarrow> 48 \<le> byte c \<and> byte c \<le> 57"
proof (induction n rule: digits_of_nat.induct)
  case (1 n)
  have "48 \<le> byte (char_of (48 + n mod 10)) \<and> byte (char_of (48 + n mod 10)) \<le> 57"
    by (simp add: byte_def)
  then show ?case using 1(1) 1(2) [unfolded digits_of_nat.simps [of n]] by (auto split: if_splits)
qed

lemma colon_show_int: "CHR '':'' \<notin> set (show_int i)"
  using digits_chars [of "CHR '':''"] by (auto simp: show_int_def byte_def)

lemma error_text_hides:
  assumes tok: "bot_token tok" and desc: "\<not> Contains (Description e) tok"
  shows "\<not> Contains (APIError_Error e) tok"
proof
  let ?mid = "''status='' @ show_int (StatusCode e) @ '' code='' @ show_int (ErrorCode e) @ '' description''"
  assume "Contains (APIError_Error e) tok"
  then have "Contains (''telegram api error:'' @ CHR '' '' # ?mid @ CHR ''='' # Description e) tok"
    by (simp add: APIError_Error_def)
  moreover have sp: "CHR '' '' \<notin> set tok" "CHR ''='' \<notin> set tok"
    using bot_token_chars [OF tok] by fastforce+
  ultimately consider "Contains ''telegram api error:'' tok" | "Contains (?mid @ CHR ''='' # Description e) tok"
    using Contains_split by blast
  then show False
  proof cases
    case 1
    then obtain a b where ab: "''telegram api error:'' = a @ tok @ b" by (auto simp: Contains_iff)
    obtain i s where pieces: "tok = i @ CHR '':'' # s" "s \<noteq> []" using tok by (auto simp: bot_token_def)
    have "''telegram api error'' @ '':'' = (a @ i) @ CHR '':'' # (s @ b)" using ab pieces(1) by simp
    then have "CHR '':'' \<in> set (butlast (''telegram api error'' @ '':''))"
      using pieces(2) by (metis append_is_Nil_conv butlast_append in_set_conv_decomp list.distinct(1) butlast.simps(2) append_Cons)
    then show False by simp
  next
    case 2
    then have "Contains ?mid tok" using Contains_split [OF _ sp(2)] desc by blast
    then have "CHR '':'' \<in> set ?mid" using Contains_set tok by (fastforce simp: bot_token_def)
    then show False using colon_show_int by auto
  qed
qed

text \<open>The three kinds of errors the client returns.\<close>

definition redacted_error :: "HTTPClient \<Rightarrow> err \<Rightarrow> bool" where
  "redacted_error c e \<longleftrightarrow>
     (\<exists>a. e = ApiErr a \<and> (Description a = ''response body exceeds size limit'' \<or> (\<exists>s. Description a = redact c s)))
     \<or> (\<exists>x. e = redactError c x)"

lemma buildAPIError_redacted: "redacted_error c (ApiErr (buildAPIError c st parsed ue r))"
  by (auto simp: redacted_error_def buildAPIError_def Let_def)

lemma read_response_redacted:
  assumes "read_response c W resp = (label, Inl e)"
  shows "redacted_error c e"
proof (cases "resp_Body resp")
  case (Inl x)
  then show ?thesis using assms by (auto simp: read_response_def transport_error_def redacted_error_def)
next
  case (Inr body)
  obtain parsed ue where p: "Unmarshal W (take (nat (wrap64 ((if maxBody c \<le> 0 then defaultMaxResponseBytes
      else maxBody c) + 1))) body) = (parsed, ue)"
    by fastforce
  have limit: "redacted_error c (transport_error st ''response body exceeds size limit'' True)" for st
    by (simp add: redacted_error_def transport_error_def)
  show ?thesis
    using assms Inr p buildAPIError_redacted limit by (auto simp: read_response_def Let_def split: if_splits)
qed

lemma SendMessage_redacted:
  "SendMessage c W chat msg mode = (label, Inl e) \<Longrightarrow> token c \<noteq> [] \<Longrightarrow> redacted_error c e"
  by (auto simp: SendMessage_def Let_def transport_error_def redacted_error_def [of c "ApiErr _"]
      redacted_error_def [of c "redactError c _"] dest: read_response_redacted
      split: option.splits sum.splits prod.splits)


definition demo_client :: HTTPClient where
  "demo_client = \<lparr> baseURL = ''https://api.telegram.org'', token = ''123:abc'', client_Timeout = 10 * Second,
     userAgent = ''webhook-telegram-proxy'', maxBody = defaultMaxResponseBytes, proxyURLRaw = [],
     customHTTPClient = False, sensitiveReplacers = [(''123:abc'', redacted)] \<rparr>"

definition demo_wire :: "net_failure + response \<Rightarrow> sendMessageResponse \<Rightarrow> wire" where
  "demo_wire answer parsed = \<lparr> NewRequest = (\<lambda>_. None), Do = (\<lambda>_ _. answer), Unmarshal = (\<lambda>_. (parsed, None)),
     ParseTime = (\<lambda>_. None), wire_now = 0 \<rparr>"

definition demo_parsed :: "bool \<Rightarrow> int \<Rightarrow> sendMessageResponse" where
  "demo_parsed okay code = \<lparr> OK = okay, resp_Description = [], resp_ErrorCode = code, resp_RetryAfterParam = 7,
     MigrateToChatID = 0, ResultMessageID = 5, ResultChatID = 42 \<rparr>"

definition demo_net :: host where
  "demo_net = demo_host\<lparr>url_Parse := (\<lambda>_. Inr \<lparr> Scheme = ''https'', Url_User = None, Url_Host = ''api.telegram.org'',
     Path = [], RawQuery = [], Fragment = [] \<rparr>)\<rparr>"

definition leak :: net_failure where
  "leak = \<lparr> nf_ctx = None, nf_net_timeout = None, nf_dns = True, nf_op = False, nf_errno = None,
     nf_text = ''Post https://api.telegram.org/bot123:abc/sendMessage: no such host'' \<rparr>"


section \<open>Success and retries\<close>

lemma buildAPIError_fields [simp]:
  "StatusCode (buildAPIError c st parsed ue r) = st" "RetryAfter (buildAPIError c st parsed ue r) = r"
  "Retryable (buildAPIError c st parsed ue r) \<longleftrightarrow> st = 429 \<or> 500 \<le> st \<or> (ue \<noteq> None \<and> st < 400)"
  by (auto simp: buildAPIError_def Let_def)

lemma read_response_retryable:
  assumes "read_response c W resp = (label, Inl (ApiErr a))" and "StatusCode a = 429 \<or> 500 \<le> StatusCode a"
  shows "Retryable a"
proof (cases "resp_Body resp")
  case (Inl x)
  then show ?thesis using assms(1) by (auto simp: read_response_def transport_error_def Let_def)
next
  case (Inr body)
  obtain parsed ue where p: "Unmarshal W (take (nat (wrap64 ((if maxBody c \<le> 0 then defaultMaxResponseBytes
      else maxBody c) + 1))) body) = (parsed, ue)"
    by fastforce
  show ?thesis
    using assms Inr p by (auto simp: read_response_def transport_error_def Let_def split: if_splits)
qed

definition url_of :: "HTTPClient \<Rightarrow> string" where
  "url_of c = baseURL c @ ''/bot'' @ token c @ ''/sendMessage''"



text \<open>
  C33: transient failures are never final: an API error with the status 429 or 500 and above, and
  every failure of the transport but a cancellation, is retryable, so that the delivery service
  does not mark the event failed.
\<close>

theorem transient_failures_are_retried:
  assumes "SendMessage c W chat msg mode = (label, Inl (ApiErr a))" and "token c \<noteq> []"
    and "case Do W (url_of c) (marshal_request chat msg mode) of
           Inl f \<Rightarrow> nf_ctx f \<noteq> Some Canceled
         | Inr resp \<Rightarrow> StatusCode a = 429 \<or> 500 \<le> StatusCode a"
  shows "\<not> permanent (ApiErr a)"
proof (cases "Do W (url_of c) (marshal_request chat msg mode)")
  case (Inl f)
  then have "Retryable a = fst (classifyNetworkError f)"
    using assms(1,2) by (auto simp: SendMessage_def Let_def url_of_def transport_error_def redactError_def
        split: option.splits prod.splits)
  then show ?thesis using assms(3) Inl by (simp add: permanent_def classifyNetworkError_def split: if_splits)
next
  case (Inr resp)
  then have run: "read_response c W resp = (label, Inl (ApiErr a))"
    using assms(1,2) by (auto simp: SendMessage_def Let_def url_of_def redactError_def split: option.splits)
  then show ?thesis using read_response_retryable [OF run] assms(3) Inr by (simp add: permanent_def)
qed

theorem transient_failures_are_retried_witness:
  "\<exists>label a. SendMessage demo_client (demo_wire (Inr \<lparr> resp_StatusCode = 429, resp_RetryAfter = [], resp_Body = Inr ''{}'' \<rparr>)
        (demo_parsed False 429)) ''42'' ''hi'' ''HTML'' = (label, Inl (ApiErr a)) \<and> \<not> permanent (ApiErr a)"
proof -
  let ?W = "demo_wire (Inr \<lparr> resp_StatusCode = 429, resp_RetryAfter = [], resp_Body = Inr ''{}'' \<rparr>) (demo_parsed False 429)"
  let ?a = "buildAPIError demo_client 429 (demo_parsed False 429) None (7 * Second)"
  have run: "SendMessage demo_client ?W ''42'' ''hi'' ''HTML'' = (''throttled'', Inl (ApiErr ?a))"
    by (simp add: SendMessage_def read_response_def demo_client_def demo_wire_def demo_parsed_def resultLabelFor_def
        defaultMaxResponseBytes_def int64_def Let_def Second_def)
  have "StatusCode ?a = 429" by (simp add: buildAPIError_def Let_def)
  then show ?thesis
    using transient_failures_are_retried [OF run] run by (auto simp: demo_client_def demo_wire_def)
qed

end
