(* ===== verification/PropsEdge.thy ===== *)
theory PropsEdge
  imports PropsAccept
begin

text \<open>
  The properties at the edges: the HTTP surface, the configuration and the time of a retry.
\<close>

section \<open>The webhook gate\<close>

abbreviation webhook_route :: "request \<Rightarrow> bool" where
  "webhook_route r \<equiv> req_Method r = ''POST'' \<and> req_Path r \<in> {''/webhook/grafana'', ''/webhook/alertmanager''}"

lemma randomRequestID_tbl [simp]:
  "tbl (fst (randomRequestID E w)) = tbl w" "sends (fst (randomRequestID E w)) = sends w"
  by (simp_all add: randomRequestID_def)

lemma with_headers_body [simp]: "rs_Body (with_headers hs rs) = rs_Body rs"
  by (simp add: with_headers_def)

text \<open>The world and the id the request id middleware hands on.\<close>

definition request_id :: "env \<Rightarrow> server \<Rightarrow> request \<Rightarrow> world \<Rightarrow> world \<times> string" where
  "request_id E V r w =
     (case sanitizeRequestID V (req_RequestID r) of Some i \<Rightarrow> (w, i) | None \<Rightarrow> randomRequestID E w)"

lemma request_id_tbl [simp]:
  "tbl (fst (request_id E V r w)) = tbl w" "sends (fst (request_id E V r w)) = sends w"
  by (simp_all add: request_id_def split: option.splits)

lemma handle_request_id:
  "handle E V r w = (let (w1, i) = request_id E V r w in
     map_option (\<lambda>(w2, rs). (w2, with_headers ((''X-Request-Id'', i) # securityHeaders) rs)) (serve_mux E V i r w1))"
  by (simp add: handle_def request_id_def Let_def)

lemma writePublicError_status [simp]: "rs_Status (writePublicError i code m) = code"
  by (simp add: writePublicError_def writeJSON_def)

lemma withRoute_Some:
  "inner i r w = Some (w1, rs) \<Longrightarrow>
   withRoute route inner i r w = Some (emit (HTTPRequest route (req_Method r) (status_class (rs_Status rs))) w1, rs)"
  by (simp add: withRoute_def)

lemma serve_mux_webhook:
  assumes "webhook_route r"
  obtains route where "serve_mux E V i r w = withRoute route (webhookReceiver E V) i r w"
  using assms that by (cases "req_Path r = ''/webhook/grafana''") (simp_all add: serve_mux_def)

lemma serve_mux_admin:
  assumes "is_get r" and "req_Path r \<in> {''/health'', ''/readyz'', ''/metrics''}"
  obtains route inner where "serve_mux E V i r w = withRoute route (basicAuthMiddleware V inner) i r w"
proof -
  have "req_Method r \<noteq> ''POST''" using assms(1) by (auto simp: is_get_def)
  then show ?thesis using assms that
    by (cases "req_Path r = ''/health''"; cases "req_Path r = ''/readyz''") (simp_all add: serve_mux_def)
qed

text \<open>
  C16: a webhook request that is not authorised, not JSON, too large or cut off never reaches the
  service: it is answered with 401, 415, 413 or 400, in this order of checks; no row changes and
  nothing is sent.
\<close>

theorem webhook_gate:
  assumes "webhook_route r"
    and "\<not> authorizeWebhook (sv_cfg V) r \<or> \<not> requireJSONContentType V r
       \<or> int (length (req_Body r)) > MaxRequestBodyBytes (sv_cfg V) \<or> req_BodyErr r \<noteq> None"
  shows "\<exists>w' rs. handle E V r w = Some (w', rs) \<and> tbl w' = tbl w \<and> sends w' = sends w
    \<and> rs_Status rs = (if \<not> authorizeWebhook (sv_cfg V) r then 401
         else if \<not> requireJSONContentType V r then 415
         else if int (length (req_Body r)) > MaxRequestBodyBytes (sv_cfg V) then 413 else 400)"
proof -
  obtain w1 i where i: "request_id E V r w = (w1, i)" by fastforce
  then have w1: "tbl w1 = tbl w" "sends w1 = sends w" using request_id_tbl by (metis fst_conv)+
  let ?code = "if \<not> authorizeWebhook (sv_cfg V) r then 401 else if \<not> requireJSONContentType V r then 415
    else if int (length (req_Body r)) > MaxRequestBodyBytes (sv_cfg V) then 413 else 400 :: int"
  obtain w2 rs where gate: "webhookReceiver E V i r w1 = Some (w2, rs)" "tbl w2 = tbl w" "sends w2 = sends w"
    "rs_Status rs = ?code"
  proof (cases "?code = 400")
    case True
    then show ?thesis
      using that [of w1 "writePublicError i 400 ''invalid request body''"] assms(2) w1
      by (simp add: webhookReceiver_def Let_def split: if_splits)
  next
    case False
    then show ?thesis
      using that w1 by (simp add: webhookReceiver_def Let_def split: if_splits)
  qed
  obtain route where "serve_mux E V i r w1 = withRoute route (webhookReceiver E V) i r w1"
    by (rule serve_mux_webhook [OF assms(1)])
  then show ?thesis
    using withRoute_Some [where inner = "webhookReceiver E V", OF gate(1), of route] gate(2-4)
    by (simp add: handle_request_id i)
qed

definition demo_server :: server where
  "demo_server = \<lparr> sv_service = demo_service, sv_ParseMediaType = (\<lambda>_. Some ''application/json''),
     sv_letter_or_digit = (\<lambda>_. False), sv_metrics = (\<lambda>_. writeJSON 200 []), sv_unrouted = (\<lambda>_ _. writeJSON 404 []) \<rparr>"

definition demo_request :: "string \<Rightarrow> string \<Rightarrow> request" where
  "demo_request meth path = \<lparr> req_Method = meth, req_Path = path, req_Secret = ''s3cret'', req_Basic = None,
     req_ContentType = ''application/json'', req_RequestID = [], req_Body = ''{}'', req_BodyErr = Some ''unexpected EOF'' \<rparr>"

theorem webhook_gate_witness:
  "\<exists>w' rs. handle demo_env demo_server (demo_request ''POST'' ''/webhook/grafana'') (demo_world []) = Some (w', rs)
    \<and> rs_Status rs = 400 \<and> sends w' = []"
proof -
  have auth: "authorizeWebhook (sv_cfg demo_server) (demo_request ''POST'' ''/webhook/grafana'')"
    by (simp add: authorizeWebhook_def demo_server_def demo_service_def demo_cfg_def demo_request_def secureCompare_def)
  have rest: "requireJSONContentType demo_server (demo_request ''POST'' ''/webhook/grafana'')"
    "\<not> int (length (req_Body (demo_request ''POST'' ''/webhook/grafana''))) > MaxRequestBodyBytes (sv_cfg demo_server)"
    "req_BodyErr (demo_request ''POST'' ''/webhook/grafana'') \<noteq> None"
    by (simp_all add: requireJSONContentType_def demo_server_def demo_service_def demo_cfg_def demo_request_def)
  show ?thesis
    using webhook_gate [of "demo_request ''POST'' ''/webhook/grafana''" demo_server demo_env "demo_world []"] auth rest
    by (auto simp: demo_request_def)
qed

section \<open>The admin surface\<close>

text \<open>
  C34: with basic authentication configured, \<open>/health\<close>, \<open>/readyz\<close> and \<open>/metrics\<close> answer 401 to
  everyone without the credentials, with nothing but the error message: the store is not even
  pinged, so the world is as it was but for the request id and the request counter.
\<close>

theorem admin_surface_is_guarded:
  assumes "BasicAuthEnabled (sv_cfg V)" and "\<not> basic_ok (sv_cfg V) r" and "is_get r"
    and "req_Path r \<in> {''/health'', ''/readyz'', ''/metrics''}"
  shows "\<exists>w' rs i. handle E V r w = Some (w', rs) \<and> rs_Status rs = 401 \<and> tbl w' = tbl w \<and> sends w' = sends w
    \<and> rs_Body rs = rs_Body (writePublicError i 401 ''authentication required'')
    \<and> map_of (rs_Header rs) ''WWW-Authenticate'' \<noteq> None"
proof -
  obtain w1 i where i: "request_id E V r w = (w1, i)" by fastforce
  then have w1: "tbl w1 = tbl w" "sends w1 = sends w" using request_id_tbl by (metis fst_conv)+
  let ?rs = "with_headers [(''WWW-Authenticate'',
      ''Basic realm='' @ Quote (unicode_print (svc_host (sv_service V))) (BasicAuthRealm (sv_cfg V))
       @ '', charset='' @ [quote] @ ''UTF-8'' @ [quote])] (writePublicError i 401 ''authentication required'')"
  have rs: "rs_Body ?rs = rs_Body (writePublicError i 401 ''authentication required'')" "rs_Status ?rs = 401"
    by simp_all
  have hdr: "map_of (rs_Header (with_headers hs ?rs)) ''WWW-Authenticate'' \<noteq> None" for hs
    by (simp add: with_headers_def map_set_foldl map_of_eq_None_iff writePublicError_def writeJSON_def keys_map_set)
  obtain route inner where mux: "serve_mux E V i r w1 = withRoute route (basicAuthMiddleware V inner) i r w1"
    by (rule serve_mux_admin [OF assms(3,4)])
  have "basicAuthMiddleware V inner i r w1 = Some (w1, ?rs)" using assms(1,2) by (simp add: basicAuthMiddleware_def)
  note routed = withRoute_Some [where inner = "basicAuthMiddleware V inner", OF this, of route]
  obtain w2 where run: "handle E V r w = Some (w2, with_headers ((''X-Request-Id'', i) # securityHeaders) ?rs)"
    and w2: "tbl w2 = tbl w1" "sends w2 = sends w1"
    using routed mux by (simp add: handle_request_id i)
  show ?thesis
    by (rule exI, rule exI, rule exI [of _ i], intro conjI, rule run) (use w2 w1 rs hdr in simp_all)
qed

definition closed_server :: server where
  "closed_server = demo_server\<lparr>sv_service := demo_service\<lparr>cfg := demo_cfg\<lparr>BasicAuthUsername := ''admin'',
     BasicAuthPassword := ''pw''\<rparr>\<rparr>\<rparr>"

theorem admin_surface_is_guarded_witness:
  "\<exists>w' rs. handle demo_env closed_server (demo_request ''GET'' ''/metrics'') (demo_world [demo_row StatusQueued]) = Some (w', rs)
    \<and> rs_Status rs = 401 \<and> tbl w' = [demo_row StatusQueued]"
proof -
  have "BasicAuthEnabled (sv_cfg closed_server)" "\<not> basic_ok (sv_cfg closed_server) (demo_request ''GET'' ''/metrics'')"
    by (simp_all add: closed_server_def demo_server_def BasicAuthEnabled_def basic_ok_def demo_request_def)
  moreover have "is_get (demo_request ''GET'' ''/metrics'')" "req_Path (demo_request ''GET'' ''/metrics'') \<in> {''/health'', ''/readyz'', ''/metrics''}"
    by (simp_all add: is_get_def demo_request_def)
  ultimately show ?thesis
    using admin_surface_is_guarded [of closed_server "demo_request ''GET'' ''/metrics''" demo_env
        "demo_world [demo_row StatusQueued]"] by fastforce
qed

section \<open>Headers\<close>

text \<open>
  Every response carries the security headers and the request id: a header the handler did not
  set itself has the value the middleware gave it, and the id is the client's own when that is
  well formed (at most 64 bytes of letters, digits, dots, dashes and underscores), and otherwise a
  fresh one of at most 16 characters.
\<close>

theorem response_headers:
  assumes "handle E V r w = Some (w', rs)" and "\<forall>k buffer. rand_read E k 8 = Inr buffer \<longrightarrow> length buffer = 8"
  shows "\<exists>i w1 inner. serve_mux E V i r w1 = Some (w', inner)
    \<and> (\<forall>(k, v) \<in> set ((''X-Request-Id'', i) # securityHeaders).
         map_of (rev (rs_Header inner)) k = None \<longrightarrow> map_of (rs_Header rs) k = Some v)
    \<and> i \<noteq> [] \<and> length i \<le> 64 \<and> (sanitizeRequestID V (req_RequestID r) = Some i \<or> length i \<le> 16)"
proof -
  obtain w1 i where i: "request_id E V r w = (w1, i)" by fastforce
  then obtain inner where mux: "serve_mux E V i r w1 = Some (w', inner)"
    and rs: "rs = with_headers ((''X-Request-Id'', i) # securityHeaders) inner"
    using assms(1) by (auto simp: handle_request_id)
  have hdr: "map_of (rs_Header rs) k = Some v"
    if "(k, v) \<in> set ((''X-Request-Id'', i) # securityHeaders)" "map_of (rev (rs_Header inner)) k = None" for k v
  proof -
    have "distinct (map fst ((''X-Request-Id'', i) # securityHeaders))" by (simp add: securityHeaders_def)
    then have "map_of ((''X-Request-Id'', i) # securityHeaders) k = Some v" using that(1) by (rule map_of_is_SomeI)
    then show ?thesis using that(2) by (simp add: rs with_headers_def map_set_foldl map_add_def del: map_of.simps)
  qed
  have size: "i \<noteq> [] \<and> length i \<le> 64 \<and> (sanitizeRequestID V (req_RequestID r) = Some i \<or> length i \<le> 16)"
  proof (cases "sanitizeRequestID V (req_RequestID r)")
    case (Some x)
    then show ?thesis using i by (auto simp: request_id_def sanitizeRequestID_def Let_def split: if_splits)
  next
    case None
    then have gen: "i = snd (randomRequestID E w)" using i by (simp add: request_id_def)
    show ?thesis
    proof (cases "rand_read E (ticks w) 8")
      case (Inl e)
      then show ?thesis using gen by (simp add: randomRequestID_def)
    next
      case (Inr buffer)
      then have "length i = 16" using gen assms(2) by (simp add: randomRequestID_def hex_length)
      then show ?thesis by auto
    qed
  qed
  show ?thesis using mux hdr size by (intro exI [of _ i] exI [of _ w1] exI [of _ inner]) blast
qed

theorem response_headers_witness:
  "\<exists>w' rs. handle demo_env demo_server (demo_request ''GET'' ''/livez'') (demo_world []) = Some (w', rs)
    \<and> map_of (rs_Header rs) ''X-Frame-Options'' = Some ''DENY''"
proof -
  let ?r = "demo_request ''GET'' ''/livez''" and ?w = "demo_world []"
  have mux: "serve_mux demo_env demo_server i ?r w = withRoute ''livez'' livenessHandler i ?r w" for i w
    by (simp add: serve_mux_def demo_request_def is_get_def)
  obtain w1 i where i: "request_id demo_env demo_server ?r ?w = (w1, i)" by fastforce
  have "handle demo_env demo_server ?r ?w \<noteq> None"
    by (simp add: handle_request_id i mux withRoute_def livenessHandler_def)
  then obtain w' rs where run: "handle demo_env demo_server ?r ?w = Some (w', rs)" by auto
  have rnd: "\<forall>k buffer. rand_read demo_env k 8 = Inr buffer \<longrightarrow> length buffer = 8" by (simp add: demo_env_def)
  obtain j v1 inner where inner: "serve_mux demo_env demo_server j ?r v1 = Some (w', inner)"
    and all: "\<forall>(k, v) \<in> set ((''X-Request-Id'', j) # securityHeaders).
         map_of (rev (rs_Header inner)) k = None \<longrightarrow> map_of (rs_Header rs) k = Some v"
    using response_headers [OF run rnd] by (elim exE conjE) (rule that)
  have own: "rs_Header inner = [(''Content-Type'', ''application/json; charset=utf-8'')]"
    using inner by (auto simp: mux withRoute_def livenessHandler_def writeJSON_def)
  have "(''X-Frame-Options'', ''DENY'') \<in> set ((''X-Request-Id'', j) # securityHeaders)"
    by (simp add: securityHeaders_def)
  from bspec [OF all this] have "map_of (rs_Header rs) ''X-Frame-Options'' = Some ''DENY''" by (simp add: own)
  then show ?thesis using run by blast
qed

end
