(* ===== verification/Metrics.thy ===== *)
theory Metrics
  imports World Complex_Main
begin

text \<open>
  The metrics registry (\<open>internal/metrics/metrics.go\<close>): the collectors \<open>New\<close> declares and
  registers, and the updates the Observe methods and the services make of them.  The Prometheus
  client library is a parameter; \<open>documented_client\<close> states what it promises.
\<close>

section \<open>Collectors\<close>

datatype kind = Counter | Gauge | Histogram "rat list"

record collector =
  Namespace :: string
  Name :: string
  Help :: string
  kind_of :: kind
  label_names :: "string list"

definition namespace_name :: string where
  "namespace_name = ''grafana_telegram_proxy''"

definition coll :: "string \<Rightarrow> string \<Rightarrow> kind \<Rightarrow> string list \<Rightarrow> collector" where
  "coll name help k labels =
     \<lparr> Namespace = namespace_name, Name = name, Help = help, kind_of = k, label_names = labels \<rparr>"

text \<open>The collectors of \<open>New\<close> in the order in which it registers them.\<close>

definition declared :: "collector list" where
  "declared =
   [coll ''build_info'' ''Static build information.'' Gauge [''version'', ''revision''],
    coll ''http_requests_total'' ''Total number of HTTP requests.'' Counter
      [''route'', ''method'', ''status_class''],
    coll ''http_request_duration_seconds'' ''Duration of HTTP requests.''
      (Histogram [0.005, 0.01, 0.025, 0.05, 0.1, 0.25, 0.5, 1, 2, 5]) [''route'', ''method''],
    coll ''webhook_events_received_total'' ''Number of received webhook events.'' Counter [''result''],
    coll ''webhook_payload_size_bytes'' ''Size of incoming webhook payloads in bytes.''
      (Histogram [256, 512, 1024, 4096, 8192, 16384, 65536, 262144, 1048576]) [],
    coll ''delivery_attempts_total'' ''Number of delivery attempts to Telegram.'' Counter [''result''],
    coll ''delivery_attempt_duration_seconds'' ''Duration of delivery attempts.''
      (Histogram [0.05, 0.1, 0.25, 0.5, 1, 2, 5, 10]) [''result''],
    coll ''delivery_queue_messages'' ''Current number of queued or retryable delivery messages.'' Gauge [],
    coll ''delivery_oldest_queued_message_age_seconds''
      ''Age of the oldest queued or retryable message in seconds.'' Gauge [],
    coll ''delivery_retries_total'' ''Number of scheduled delivery retries.'' Counter [''reason_class''],
    coll ''delivery_dead_letter_total'' ''Number of messages moved to dead-letter.'' Counter [],
    coll ''template_renders_total'' ''Total number of alert template renders.'' Counter [''result''],
    coll ''template_render_duration_seconds'' ''Duration of alert template rendering.''
      (Histogram [0.001, 0.005, 0.01, 0.025, 0.05, 0.1]) [],
    coll ''store_operations_total'' ''Total number of persistent store operations.'' Counter
      [''operation'', ''result''],
    coll ''store_operation_duration_seconds'' ''Duration of persistent store operations.''
      (Histogram [0.001, 0.005, 0.01, 0.025, 0.05, 0.1, 0.25, 0.5]) [''operation'', ''result''],
    coll ''telegram_api_requests_total'' ''Total number of Telegram API requests.'' Counter
      [''operation'', ''result''],
    coll ''telegram_api_request_duration_seconds'' ''Duration of Telegram API requests.''
      (Histogram [0.05, 0.1, 0.25, 0.5, 1, 2, 5, 10]) [''operation'', ''result''],
    coll ''store_size_bytes'' ''Current persistent store size in bytes.'' Gauge [],
    coll ''store_rotation_runs_total'' ''Number of store rotation runs.'' Counter [''result''],
    coll ''store_rotated_records_total'' ''Number of rotated records by terminal state.'' Counter [''state''],
    coll ''store_disk_pressure'' ''Whether the store is under disk pressure.'' Gauge [],
    coll ''store_rejections_total''
      ''Number of webhook requests rejected because of store pressure.'' Counter [''reason'']]"

section \<open>The client library\<close>

text \<open>
  Prometheus' Go client: registering a collector after those already known, the update of one
  sample of a collector (\<open>None\<close> is the panic of \<open>WithLabelValues\<close>), and the value that a scrape
  reads.  The library's own collectors, for the Go runtime and the process, are part of its registry.  \<open>'r\<close> is the state of all samples.
\<close>

datatype update = Inc | Add int | Set int | Observe

record 'r client =
  Register :: "collector list \<Rightarrow> collector \<Rightarrow> err option"
  Fresh :: 'r
  Update :: "collector \<Rightarrow> string list \<Rightarrow> update \<Rightarrow> 'r \<Rightarrow> 'r option"
  Read :: "string \<Rightarrow> string list \<Rightarrow> 'r \<Rightarrow> int"

fun update_value :: "update \<Rightarrow> int \<Rightarrow> int" where
  "update_value Inc v = v + 1"
| "update_value (Add n) v = v + n"
| "update_value (Set n) v = n"
| "update_value Observe v = v + 1"

text \<open>
  What its documentation says: a collector with a new name can be registered, and \<open>WithLabelValues\<close>
  with one value per label gives the sample with those values, which starts at zero.
\<close>

definition documented :: "'r client \<Rightarrow> bool" where
  "documented L \<longleftrightarrow>
     (\<forall>known c. Name c \<notin> Name ` set known \<longrightarrow> Register L known c = None)
     \<and> (\<forall>n vs. Read L n vs (Fresh L) = 0)
     \<and> (\<forall>c vs up r. length vs = length (label_names c) \<longrightarrow>
          (\<exists>r'. Update L c vs up r = Some r'
             \<and> (\<forall>n us. Read L n us r' = (if n = Name c \<and> us = vs then update_value up (Read L n us r) else Read L n us r))))"

text \<open>One update of a declared collector; an undeclared one would be a nil pointer.\<close>

definition apply_update :: "'r client \<Rightarrow> string \<times> string list \<times> update \<Rightarrow> 'r \<Rightarrow> 'r option" where
  "apply_update L u r =
     (case u of (name, values, up) \<Rightarrow>
        (case find (\<lambda>c. Name c = name) declared of
           None \<Rightarrow> None
         | Some c \<Rightarrow> Update L c values up r))"

fun update_all :: "'r client \<Rightarrow> (string \<times> string list \<times> update) list \<Rightarrow> 'r \<Rightarrow> 'r option" where
  "update_all L [] r = Some r"
| "update_all L (u # us) r = (case apply_update L u r of None \<Rightarrow> None | Some r' \<Rightarrow> update_all L us r')"

text \<open>The \<open>Observe\<close> methods, and the updates that the services write out themselves.\<close>

fun updates :: "metric \<Rightarrow> (string \<times> string list \<times> update) list" where
  "updates (HTTPRequest route method statusClass) =
     [(''http_requests_total'', [route, method, statusClass], Inc),
      (''http_request_duration_seconds'', [route, method], Observe)]"
| "updates (WebhookEvent result) = [(''webhook_events_received_total'', [result], Inc)]"
| "updates (PayloadSize n) = [(''webhook_payload_size_bytes'', [], Observe)]"
| "updates (DeliveryAttempt result) =
     [(''delivery_attempts_total'', [result], Inc), (''delivery_attempt_duration_seconds'', [result], Observe)]"
| "updates (SetQueueMessages n) = [(''delivery_queue_messages'', [], Set n)]"
| "updates (SetOldestQueuedAge n) = [(''delivery_oldest_queued_message_age_seconds'', [], Set n)]"
| "updates (DeliveryRetry reason) = [(''delivery_retries_total'', [reason], Inc)]"
| "updates DeliveryDeadLetter = [(''delivery_dead_letter_total'', [], Inc)]"
| "updates (TemplateRender result) =
     [(''template_renders_total'', [result], Inc), (''template_render_duration_seconds'', [], Observe)]"
| "updates (StoreOperation operation result) =
     [(''store_operations_total'', [operation, result], Inc),
      (''store_operation_duration_seconds'', [operation, result], Observe)]"
| "updates (TelegramRequest operation result) =
     [(''telegram_api_requests_total'', [operation, result], Inc),
      (''telegram_api_request_duration_seconds'', [operation, result], Observe)]"
| "updates (SetStoreSize n) = [(''store_size_bytes'', [], Set n)]"
| "updates (RotationRun result) = [(''store_rotation_runs_total'', [result], Inc)]"
| "updates (RotatedRecords state n) = [(''store_rotated_records_total'', [state], Add (int n))]"
| "updates (SetDiskPressure n) = [(''store_disk_pressure'', [], Set (int n))]"
| "updates (StoreRejection reason) = [(''store_rejections_total'', [reason], Inc)]"

definition record_metrics :: "'r client \<Rightarrow> metric list \<Rightarrow> 'r \<Rightarrow> 'r option" where
  "record_metrics L ms r = update_all L (concat (map updates ms)) r"

section \<open>New\<close>

fun register_all :: "'r client \<Rightarrow> collector list \<Rightarrow> collector list \<Rightarrow> err option" where
  "register_all L known [] = None"
| "register_all L known (c # cs) =
     (case Register L known c of Some e \<Rightarrow> Some e | None \<Rightarrow> register_all L (known @ [c]) cs)"

text \<open>The metrics that \<open>New\<close> returns, or \<open>None\<close> for a panic.\<close>

definition NewMetrics :: "'r client \<Rightarrow> string \<Rightarrow> string \<Rightarrow> 'r option result" where
  "NewMetrics L version revision =
     (case register_all L [] declared of
        Some e \<Rightarrow> Inl e
      | None \<Rightarrow> Inr (apply_update L (''build_info'', [version, revision], Set 1) (Fresh L)))"

end
