(* ===== verification/Logging.thy ===== *)
theory Logging
  imports Config
begin

text \<open>The log level (\<open>internal/logging/logger.go\<close>), with the order \<open>log/slog\<close> gives its levels.\<close>

datatype Level = LevelDebug | LevelInfo | LevelWarn | LevelError

fun level_value :: "Level \<Rightarrow> int" where
  "level_value LevelDebug = -4"
| "level_value LevelInfo = 0"
| "level_value LevelWarn = 4"
| "level_value LevelError = 8"

lemma level_value_inject: "level_value a = level_value b \<longleftrightarrow> a = b"
  by (cases a; cases b) simp_all

instantiation Level :: linorder
begin

definition less_eq_Level :: "Level \<Rightarrow> Level \<Rightarrow> bool" where
  "less_eq_Level a b \<longleftrightarrow> level_value a \<le> level_value b"

definition less_Level :: "Level \<Rightarrow> Level \<Rightarrow> bool" where
  "less_Level a b \<longleftrightarrow> level_value a < level_value b"

instance
  by standard (auto simp: less_eq_Level_def less_Level_def level_value_inject)

end

definition parseLevel :: "host \<Rightarrow> string \<Rightarrow> Level" where
  "parseLevel H level =
     (let s = ToUpper (unicode_upper H) (TrimSpace level) in
      if s = ''DEBUG'' then LevelDebug
      else if s = ''WARN'' \<or> s = ''WARNING'' then LevelWarn
      else if s = ''ERROR'' then LevelError
      else LevelInfo)"

end
