(* ===== verification/Startup.thy ===== *)
theory Startup
  imports Metrics Invariants ConfigParse Telegram Logging
begin

text \<open>
  The start of the program (\<open>cmd/server/main.go\<close>), with the opening of the store
  (\<open>New\<close> and \<open>buildDSN\<close> of \<open>internal/store/sqlite.go\<close>) and the loading of the template (\<open>Load\<close>
  of \<open>internal/template/renderer.go\<close>).  What the operating system, the SQL driver, the template
  engine, Prometheus and the HTTP server answer are the fields of \<open>platform\<close>.
\<close>

section \<open>The data source name\<close>

definition alnum :: "nat \<Rightarrow> bool" where
  "alnum b \<longleftrightarrow> (97 \<le> b \<and> b \<le> 122) \<or> (65 \<le> b \<and> b \<le> 90) \<or> (48 \<le> b \<and> b \<le> 57)"

definition upperhex :: "nat \<Rightarrow> char" where
  "upperhex n = (if n < 10 then char_of (48 + n) else char_of (55 + n))"

definition percent :: "char \<Rightarrow> string" where
  "percent c = [CHR ''%'', upperhex (byte c div 16), upperhex (byte c mod 16)]"

text \<open>\<open>url.shouldEscape\<close> for a path and for a part of a query.\<close>

definition path_char :: "char \<Rightarrow> bool" where
  "path_char c \<longleftrightarrow> alnum (byte c) \<or> c \<in> set ''-_.~$&+,/:;=@''"

definition query_char :: "char \<Rightarrow> bool" where
  "query_char c \<longleftrightarrow> alnum (byte c) \<or> c \<in> set ''-_.~''"

definition PathEscape :: "string \<Rightarrow> string" where
  "PathEscape s = concat (map (\<lambda>c. if path_char c then [c] else percent c) s)"

definition QueryEscape :: "string \<Rightarrow> string" where
  "QueryEscape s = concat (map (\<lambda>c. if c = CHR '' '' then ''+'' else if query_char c then [c] else percent c) s)"

text \<open>\<open>Values.Encode\<close> of the values of one key.\<close>

definition Encode :: "string \<Rightarrow> string list \<Rightarrow> string" where
  "Encode key values = Join (map (\<lambda>v. QueryEscape key @ ''='' @ QueryEscape v) values) ''&''"

definition pragmas :: "string list" where
  "pragmas = [''busy_timeout(5000)'', ''journal_mode(WAL)'', ''synchronous(NORMAL)'', ''foreign_keys(ON)'',
     ''temp_store(MEMORY)'']"

text \<open>\<open>URL.String\<close> of the scheme \<open>file\<close>, a path and a query; the path \<open>*\<close> is never escaped.\<close>

definition buildDSN :: "string \<Rightarrow> string" where
  "buildDSN path = ''file:'' @ (if path \<noteq> [] then ''//'' else [])
     @ (if path = ''*'' then ''*'' else PathEscape path) @ ''?'' @ Encode ''_pragma'' pragmas"

section \<open>The platform\<close>

record 'r platform =
  MkdirAll_Dir :: "string \<Rightarrow> err option"
  sql_Open :: "string \<Rightarrow> err option"
  ReadFile :: "string \<Rightarrow> string result"
  parse_template :: "string \<Rightarrow> (MessageData \<Rightarrow> string result) result"
  zone_of :: "location \<Rightarrow> instant \<Rightarrow> zone"
  json_Unmarshal :: "string \<Rightarrow> WebhookPayload result"
  prometheus :: "'r client"
  transport_FromURL :: "url \<Rightarrow> err option"
  Shutdown :: "err option"

text \<open>
  \<open>New\<close> of the store: directory, database, ping, schema.  The schema is \<open>IF NOT EXISTS\<close>
  throughout: it keeps the rows of an earlier run.
\<close>

definition OpenStore :: "'r platform \<Rightarrow> env \<Rightarrow> string \<Rightarrow> world \<Rightarrow> world \<times> unit result" where
  "OpenStore P E path w =
     (case MkdirAll_Dir P path of
        Some e \<Rightarrow> (w, Inl (Wrapped ''create store directory'' e))
      | None \<Rightarrow>
          (case sql_Open P (buildDSN path) of
             Some e \<Rightarrow> (w, Inl (Wrapped ''open sqlite'' e))
           | None \<Rightarrow>
               (case Ping E Caller w of
                  (w1, Inl e) \<Rightarrow> (w1, Inl (Wrapped ''ping sqlite'' e))
                | (w1, Inr _) \<Rightarrow>
                    (case sql_exec E Caller (\<lambda>t. t) w1 of
                       (w2, Inl e) \<Rightarrow> (w2, Inl (Wrapped ''apply sqlite schema'' e))
                     | (w2, Inr _) \<Rightarrow> (w2, Inr ())))))"

definition LoadTemplate :: "'r platform \<Rightarrow> string \<Rightarrow> (MessageData \<Rightarrow> string result) result" where
  "LoadTemplate P path =
     (case ReadFile P path of
        Inl e \<Rightarrow> Inl (Wrapped ''read alert template'' e)
      | Inr raw \<Rightarrow>
          (case parse_template P raw of
             Inl e \<Rightarrow> Inl (Wrapped ''parse alert template'' e)
           | Inr Execute \<Rightarrow> Inr Execute))"

text \<open>The renderer of \<open>main\<close>: nil in \<open>alertmanager\<close> mode.\<close>

definition load_renderer ::
  "'r platform \<Rightarrow> host \<Rightarrow> Config \<Rightarrow> (display \<times> (MessageData \<Rightarrow> string result)) option result" where
  "load_renderer P H c =
     (if UsesTemplateRenderer c then
        (case LoadTemplate P (AlertTemplatePath c) of
           Inl e \<Rightarrow> Inl e
         | Inr Execute \<Rightarrow> Inr (Some (Some (zone_of P (AlertDisplayLocation H c)), Execute)))
      else Inr None)"

definition telegramOptions :: "Config \<Rightarrow> option_fn list" where
  "telegramOptions c =
     (if TelegramBaseURL c \<noteq> [] then [WithBaseURL (TelegramBaseURL c)] else [])
     @ (if TelegramProxyURL c \<noteq> [] then [WithProxyURL (TelegramProxyURL c)] else [])"

section \<open>The start\<close>

record http_server =
  Addr :: string
  ReadHeaderTimeout :: duration
  ReadTimeout :: duration
  WriteTimeout :: duration
  IdleTimeout :: duration
  http_MaxHeaderBytes :: int

definition http_server_of :: "Config \<Rightarrow> http_server" where
  "http_server_of c =
     \<lparr> Addr = Address c, ReadHeaderTimeout = HTTPReadTimeout c, ReadTimeout = HTTPReadTimeout c,
       WriteTimeout = HTTPWriteTimeout c, IdleTimeout = HTTPIdleTimeout c,
       http_MaxHeaderBytes = MaxHeaderBytes c \<rparr>"

definition NewDeliveryService ::
  "Config \<Rightarrow> host \<Rightarrow> (string \<Rightarrow> WebhookPayload result) \<Rightarrow> (display \<times> (MessageData \<Rightarrow> string result)) option \<Rightarrow> service" where
  [simp]: "NewDeliveryService c H decode r = \<lparr>cfg = c, svc_host = H, decode_payload = decode, renderer = r\<rparr>"

record 'r app =
  app_level :: Level
  app_metrics :: 'r
  app_service :: service
  app_client :: HTTPClient
  app_server :: http_server

text \<open>
  From the arguments to a program that is ready to serve; \<open>None\<close> is a panic, an error is the exit
  with status 1.
\<close>

definition startup ::
  "'r platform \<Rightarrow> host \<Rightarrow> env \<Rightarrow> string \<Rightarrow> string \<Rightarrow> string list \<Rightarrow> world \<Rightarrow> (world \<times> 'r app result) option" where
  "startup P H E version revision args w =
     (case Parse H args of
        Inl e \<Rightarrow> Some (w, Inl (Wrapped ''parse configuration'' e))
      | Inr c \<Rightarrow>
      (case NewMetrics (prometheus P) version revision of
        Inl e \<Rightarrow> Some (w, Inl (Wrapped ''initialize metrics'' e))
      | Inr None \<Rightarrow> None
      | Inr (Some m) \<Rightarrow>
      (case OpenStore P E (StorePath c) w of
        (w1, Inl e) \<Rightarrow> Some (w1, Inl (Wrapped ''initialize store'' e))
      | (w1, Inr _) \<Rightarrow>
      (case RequeueSending E Caller (now E w1) (step w1) of
        (w2, Inl e) \<Rightarrow> Some (w2, Inl (Wrapped ''requeue sending deliveries after restart'' e))
      | (w2, Inr n) \<Rightarrow>
      (case load_renderer P H c of
        Inl e \<Rightarrow> Some (w2, Inl (Wrapped ''load alert template'' e))
      | Inr r \<Rightarrow>
      (case NewHTTPClient H (transport_FromURL P) (TelegramBotToken c) (HTTPWriteTimeout c) (telegramOptions c) of
        Inl e \<Rightarrow> Some (w2, Inl (Wrapped ''initialize telegram client'' e))
      | Inr client \<Rightarrow>
          Some (w2, Inr
            \<lparr> app_level = parseLevel H (LogLevel c), app_metrics = m,
              app_service = NewDeliveryService c H (json_Unmarshal P) r,
              app_client = client, app_server = http_server_of c \<rparr>)))))))"

end
