(* ===== verification/PropsMetrics.thy ===== *)
theory PropsMetrics
  imports Metrics
begin

text \<open>
  The properties of the registry: registering succeeds, no update panics, and the counters count.
\<close>

section \<open>Registering\<close>

lemma register_fresh:
  assumes "documented L" and "distinct (map Name (known @ cs))"
  shows "register_all L known cs = None"
  using assms(2)
proof (induction cs arbitrary: known)
  case (Cons c cs)
  then have "Register L known c = None" using assms(1) by (auto simp: documented_def)
  moreover have "register_all L (known @ [c]) cs = None" using Cons by (intro Cons.IH) simp
  ultimately show ?case by simp
qed simp

definition arities :: "(string \<times> nat) list" where
  "arities = map (\<lambda>c. (Name c, length (label_names c))) declared"

lemma arities_eq:
  "arities = [(''build_info'', 2), (''http_requests_total'', 3), (''http_request_duration_seconds'', 2),
     (''webhook_events_received_total'', 1), (''webhook_payload_size_bytes'', 0), (''delivery_attempts_total'', 1),
     (''delivery_attempt_duration_seconds'', 1), (''delivery_queue_messages'', 0),
     (''delivery_oldest_queued_message_age_seconds'', 0), (''delivery_retries_total'', 1),
     (''delivery_dead_letter_total'', 0), (''template_renders_total'', 1), (''template_render_duration_seconds'', 0),
     (''store_operations_total'', 2), (''store_operation_duration_seconds'', 2), (''telegram_api_requests_total'', 2),
     (''telegram_api_request_duration_seconds'', 2), (''store_size_bytes'', 0), (''store_rotation_runs_total'', 1),
     (''store_rotated_records_total'', 1), (''store_disk_pressure'', 0), (''store_rejections_total'', 1)]"
  by (simp add: arities_def declared_def coll_def)

lemma names_distinct: "distinct (map Name declared)"
proof -
  have "map Name declared = map fst arities" by (simp add: arities_def)
  then show ?thesis by (simp only: arities_eq) simp
qed

lemma find_arity:
  "map_option (\<lambda>c. length (label_names c)) (find (\<lambda>c. Name c = n) declared) = map_of arities n"
proof -
  have "map_option (\<lambda>c. length (label_names c)) (find (\<lambda>c. Name c = n) cs)
      = map_of (map (\<lambda>c. (Name c, length (label_names c))) cs) n" for cs
    by (induction cs) auto
  then show ?thesis by (simp add: arities_def)
qed

text \<open>An update that names a declared collector and has one value per label.\<close>

definition fits :: "string \<times> string list \<times> update \<Rightarrow> bool" where
  "fits u \<longleftrightarrow> map_of arities (fst u) = Some (length (fst (snd u)))"

text \<open>What the samples read as, after a list of updates.\<close>

type_synonym samples = "string \<Rightarrow> string list \<Rightarrow> int"

definition bump :: "samples \<Rightarrow> string \<times> string list \<times> update \<Rightarrow> samples" where
  "bump s u = (case u of (name, values, up) \<Rightarrow> s(name := (s name)(values := update_value up (s name values))))"

abbreviation reads :: "'r client \<Rightarrow> 'r \<Rightarrow> samples" where
  "reads L r \<equiv> \<lambda>n vs. Read L n vs r"

lemma apply_fits:
  assumes "documented L" and "fits u"
  shows "\<exists>r'. apply_update L u r = Some r' \<and> reads L r' = bump (reads L r) u"
proof -
  obtain name vs up where u: "u = (name, vs, up)" by (cases u)
  obtain c where c: "find (\<lambda>c. Name c = name) declared = Some c" "length (label_names c) = length vs"
    using assms(2) find_arity [of name] by (auto simp: fits_def u)
  have "Name c = name" using c(1) by (auto simp: find_Some_iff)
  moreover obtain r' where "Update L c vs up r = Some r'"
    "\<forall>n us. Read L n us r' = (if n = Name c \<and> us = vs then update_value up (Read L n us r) else Read L n us r)"
    using assms(1) c(2) unfolding documented_def by metis
  ultimately show ?thesis using c(1) by (auto simp: apply_update_def u bump_def fun_eq_iff)
qed

lemma update_all_fits:
  assumes "documented L" and "\<forall>u \<in> set us. fits u"
  shows "\<exists>r'. update_all L us r = Some r' \<and> reads L r' = foldl bump (reads L r) us"
  using assms(2)
proof (induction us arbitrary: r)
  case (Cons u us)
  obtain r1 where r1: "apply_update L u r = Some r1" "reads L r1 = bump (reads L r) u"
    using apply_fits [OF assms(1), of u r] Cons.prems by (metis list.set_intros(1))
  then show ?case using Cons.IH [of r1] Cons.prems by auto
qed simp

lemma events_fit: "\<forall>u \<in> set (concat (map updates ms)). fits u"
proof -
  have "\<forall>u \<in> set (updates x). fits u" for x by (cases x) (simp_all add: fits_def arities_eq)
  then show ?thesis by auto
qed

lemma foldl_bump:
  assumes "\<forall>u \<in> set us. fst u = name \<longrightarrow> snd (snd u) = Inc"
  shows "foldl bump s us name vs = s name vs + int (length (filter (\<lambda>u. u = (name, vs, Inc)) us))"
  using assms by (induction us arbitrary: s) (auto simp: bump_def split: if_splits)

definition counters :: "string list" where
  "counters = [''http_requests_total'', ''webhook_events_received_total'', ''delivery_attempts_total'',
     ''delivery_retries_total'', ''delivery_dead_letter_total'', ''store_operations_total'',
     ''telegram_api_requests_total'']"

lemma counters_inc:
  assumes "name \<in> set counters"
  shows "\<forall>u \<in> set (concat (map updates ms)). fst u = name \<longrightarrow> snd (snd u) = Inc"
proof -
  have "\<forall>u \<in> set (updates x). fst u = name \<longrightarrow> snd (snd u) = Inc" for x
    using assms by (cases x) (auto simp: counters_def)
  then show ?thesis by auto
qed

lemma count_event:
  assumes "\<And>x. length (filter (\<lambda>u. u = (name, vs, Inc)) (updates x)) = (if x = e then 1 else 0)"
  shows "length (filter (\<lambda>u. u = (name, vs, Inc)) (concat (map updates ms))) = count_list ms e"
  using assms by (induction ms) auto

lemma counter_value:
  assumes "name \<in> set counters"
    and "\<And>x. length (filter (\<lambda>u. u = (name, vs, Inc)) (updates x)) = (if x = e then 1 else 0)"
  shows "foldl bump s (concat (map updates ms)) name vs = s name vs + int (count_list ms e)"
  using foldl_bump [OF counters_inc [OF assms(1)]] count_event [of name vs e ms, OF assms(2)] by simp

lemma event_counts:
  "length (filter (\<lambda>u. u = (''webhook_events_received_total'', [a], Inc)) (updates x)) = (if x = WebhookEvent a then 1 else 0)"
  "length (filter (\<lambda>u. u = (''delivery_dead_letter_total'', [], Inc)) (updates x)) = (if x = DeliveryDeadLetter then 1 else 0)"
  "length (filter (\<lambda>u. u = (''delivery_retries_total'', [a], Inc)) (updates x)) = (if x = DeliveryRetry a then 1 else 0)"
  "length (filter (\<lambda>u. u = (''store_operations_total'', [a, b], Inc)) (updates x)) = (if x = StoreOperation a b then 1 else 0)"
  by (cases x; simp)+

lemma counter_values:
  "foldl bump s (concat (map updates ms)) ''webhook_events_received_total'' [a] = s ''webhook_events_received_total'' [a] + int (count_list ms (WebhookEvent a))"
  "foldl bump s (concat (map updates ms)) ''delivery_dead_letter_total'' [] = s ''delivery_dead_letter_total'' [] + int (count_list ms (DeliveryDeadLetter))"
  "foldl bump s (concat (map updates ms)) ''delivery_retries_total'' [a] = s ''delivery_retries_total'' [a] + int (count_list ms (DeliveryRetry a))"
  "foldl bump s (concat (map updates ms)) ''store_operations_total'' [a, b] = s ''store_operations_total'' [a, b] + int (count_list ms (StoreOperation a b))"
  by (rule counter_value, simp add: counters_def, rule event_counts)+

lemma NewMetrics_ok:
  assumes "documented L"
  shows "\<exists>r. NewMetrics L version revision = Inr (Some r)
    \<and> reads L r = bump (\<lambda>_ _. 0) (''build_info'', [version, revision], Set 1)"
proof -
  have "register_all L [] declared = None"
    using register_fresh [OF assms, of "[]" declared] names_distinct by simp
  moreover have "reads L (Fresh L) = (\<lambda>_ _. 0)" using assms by (simp add: documented_def)
  ultimately show ?thesis
    using apply_fits [OF assms, of "(''build_info'', [version, revision], Set 1)" "Fresh L"]
    by (auto simp: NewMetrics_def fits_def arities_eq)
qed

lemma build_info_stays: "foldl bump s (concat (map updates ms)) ''build_info'' vs = s ''build_info'' vs"
proof -
  have "\<forall>u \<in> set (updates x). fst u \<noteq> ''build_info''" for x by (cases x) auto
  then have "\<forall>u \<in> set (concat (map updates ms)). fst u = ''build_info'' \<longrightarrow> snd (snd u) = Inc"
    "filter (\<lambda>u. u = (''build_info'', vs, Inc)) (concat (map updates ms)) = []" by (fastforce simp: filter_empty_conv)+
  then show ?thesis by (simp only: foldl_bump) simp
qed


text \<open>A client library that does nothing else: the samples are a function.\<close>

definition demo_client :: "(string \<Rightarrow> string list \<Rightarrow> int) client" where
  "demo_client = \<lparr>
     Register = (\<lambda>known c. if Name c \<in> Name ` set known then Some (ErrText ''duplicate'') else None),
     Fresh = (\<lambda>_ _. 0),
     Update = (\<lambda>c vs up s. if length vs = length (label_names c)
        then Some (s(Name c := (s (Name c))(vs := update_value up (s (Name c) vs)))) else None),
     Read = (\<lambda>n vs s. s n vs) \<rparr>"

lemma demo_documented: "documented demo_client"
  by (simp add: documented_def demo_client_def)


end
