(* ===== verification/PropsConfig.thy ===== *)
theory PropsConfig
  imports Demo ConfigParse
begin

text \<open>
  The properties of \<open>Parse\<close>: what a configuration that starts the program guarantees, and a
  retention window that it lets overflow.
\<close>

section \<open>Configuration\<close>


definition boot_host :: host where
  "boot_host = demo_host\<lparr>
     url_Parse := (\<lambda>_. Inr \<lparr> Scheme = ''https'', Url_User = None, Url_Host = ''api.telegram.org'',
       Path = [], RawQuery = [], Fragment = [] \<rparr>),
     LookupEnv := (\<lambda>k. if k = ''TELEGRAM_BOT_TOKEN'' then Some ''123:abc''
     else if k = ''TELEGRAM_CHAT_ID'' then Some ''42'' else None)\<rparr>"

lemma boot_env: "LookupEnv boot_host k = (if k = ''TELEGRAM_BOT_TOKEN'' then Some ''123:abc''
     else if k = ''TELEGRAM_CHAT_ID'' then Some ''42'' else None)"
  by (simp add: boot_host_def)

lemma trim_ascii:
  "TrimSpace [] = []" "TrimSpace ''123:abc'' \<noteq> []" "TrimSpace ''42'' \<noteq> []" "TrimSpace ''HTML'' \<noteq> []"
  by (simp_all add: TrimSpace_Nil_iff chunks_ascii ascii_def byte_def space_chunk_def IsSpace_def decode_ascii)

lemma upper_HTML: "ToUpper u ''HTML'' = ''HTML''"
  by (simp add: ToUpper_def runes_def chunks_ascii ascii_def byte_def decode_ascii string_of_runes_def ascii_upper_def
      EncodeRune_ascii char_of_def bit_iff_odd)

lemma boot_parse: "\<exists>c. Parse boot_host [] = Inr c \<and> TelegramBaseURL c = [] \<and> TelegramProxyURL c = []"
proof -
  let ?c = "(f_cfg (default_flags boot_host))\<lparr>StoreRetentionDelivered := retention 168,
      StoreRetentionDeadLetter := retention 720\<rparr>"
  have "problems boot_host ?c = []"
    by (simp add: problems_def default_flags_def envString_def envInt_def envInt64_def envBool_def envDuration_def
        env_value_def boot_env upper_HTML trim_ascii validateTelegramBaseURL_def validateTelegramProxyURL_def
        retention_def wrap64_def duration_units BasicAuthEnabled_def)
  hence valid: "Validate boot_host ?c = None" by (simp only: Validate_None_iff)
  have hours: "f_deliveredHours (default_flags boot_host) = 168" "f_deadLetterHours (default_flags boot_host) = 720"
    by (simp_all add: default_flags_def envInt_def env_value_def boot_env)
  have "Parse boot_host [] = Inr ?c" using valid by (simp add: Parse_def Let_def hours)
  moreover have "TelegramBaseURL ?c = []" "TelegramProxyURL ?c = []"
    by (simp_all add: default_flags_def envString_def boot_env)
  ultimately show ?thesis by blast
qed


definition long_host :: host where
  "long_host = boot_host\<lparr>LookupEnv := (LookupEnv boot_host)(''STORE_RETENTION_DELIVERED_HOURS'' \<mapsto> ''5124096'')\<rparr>"

lemma long_env: "LookupEnv long_host k = (if k = ''STORE_RETENTION_DELIVERED_HOURS'' then Some ''5124096''
     else LookupEnv boot_host k)"
  by (simp add: long_host_def)

lemma long_hours: "envInt long_host ''STORE_RETENTION_DELIVERED_HOURS'' 168 = 5124096"
proof -
  have chunks: "chunks ''5124096'' = [''5'', ''1'', ''2'', ''4'', ''0'', ''9'', ''6'']"
    by (simp add: chunks_ascii ascii_def byte_def)
  have "TrimSpace ''5124096'' = ''5124096''"
    by (simp add: TrimSpace_def trim_chunks_def chunks space_chunk_def IsSpace_def decode_ascii byte_def)
  moreover have "parse_digits False ''5124096'' = Some 5124096"
    by (simp add: parse_digits_def digit_of_def byte_def)
  ultimately show ?thesis by (simp add: envInt_def env_value_def long_env ParseInt_def int64_def)
qed

lemma long_parse: "\<exists>c. Parse long_host [] = Inr c \<and> StoreRetentionDelivered c = retention 5124096"
proof -
  let ?c = "(f_cfg (default_flags long_host))\<lparr>StoreRetentionDelivered := retention 5124096,
      StoreRetentionDeadLetter := retention 720\<rparr>"
  have "problems long_host ?c = []"
    by (simp add: problems_def default_flags_def envString_def envInt_def envInt64_def envBool_def envDuration_def
        env_value_def boot_env long_env upper_HTML trim_ascii validateTelegramBaseURL_def validateTelegramProxyURL_def
        retention_def wrap64_def duration_units BasicAuthEnabled_def)
  hence valid: "Validate long_host ?c = None" by (simp only: Validate_None_iff)
  have hours: "f_deliveredHours (default_flags long_host) = 5124096" "f_deadLetterHours (default_flags long_host) = 720"
    using long_hours by (simp_all add: default_flags_def) (simp add: envInt_def env_value_def boot_env long_env)
  have "Parse long_host [] = Inr ?c" using valid by (simp add: Parse_def Let_def hours)
  thus ?thesis by simp
qed

text \<open>
  A long retention can turn into a short one: the hours are multiplied into 64-bit nanoseconds
  without a check, so that a delivered-event retention of 5124096 hours (585 years) is a window of
  less than an hour, and a start with it is accepted.
\<close>

theorem retention_wraps_around:
  "\<exists>c. Parse long_host [] = Inr c \<and> LookupEnv long_host ''STORE_RETENTION_DELIVERED_HOURS'' = Some ''5124096''
     \<and> 0 < StoreRetentionDelivered c \<and> StoreRetentionDelivered c < Hour"
  using long_parse by (auto simp: long_env retention_def wrap64_def duration_units)

end
