(* ===== verification/PropsStartup.thy ===== *)
theory PropsStartup
  imports Startup PropsMetrics PropsConfig PropsAccept
begin

text \<open>
  The properties of the start: the data source name, what a start does to the table, that the
  validation and the Telegram client agree.
\<close>

section \<open>The data source name\<close>

text \<open>The decoding of a path, as every reader of a URL does it.\<close>

fun PathUnescape :: "string \<Rightarrow> string" where
  "PathUnescape (CHR ''%'' # a # b # s) =
     (case (hexval a, hexval b) of
        (Some x, Some y) \<Rightarrow> char_of (x * 16 + y) # PathUnescape s
      | _ \<Rightarrow> CHR ''%'' # PathUnescape (a # b # s))"
| "PathUnescape (c # s) = c # PathUnescape s"
| "PathUnescape [] = []"

lemma upperhex_hexval: "n < 16 \<Longrightarrow> hexval (upperhex n) = Some n"
  by (auto simp: hexval_def upperhex_def byte_def)

lemma upperhex_byte: "n < 16 \<Longrightarrow> byte (upperhex n) = (if n < 10 then 48 + n else 55 + n)"
  by (simp add: upperhex_def byte_def)

lemma byte_bound: "byte c < 256"
  by (simp add: byte_def)

lemma unescape_Cons: "c \<noteq> CHR ''%'' \<Longrightarrow> PathUnescape (c # s) = c # PathUnescape s"
  by (cases "(c # s)" rule: PathUnescape.cases) auto

lemma unescape_percent: "PathUnescape (percent c @ s) = c # PathUnescape s"
proof -
  have "byte c div 16 < 16" using byte_bound [of c] by simp
  then show ?thesis by (simp add: percent_def upperhex_hexval)
qed

lemma unescape_escape: "PathUnescape (PathEscape s) = s"
proof (induction s)
  case (Cons c s)
  have "path_char c \<Longrightarrow> c \<noteq> CHR ''%''" by (auto simp: path_char_def alnum_def byte_def)
  then show ?case using Cons by (simp add: PathEscape_def unescape_Cons unescape_percent)
qed (simp add: PathEscape_def)

lemma escaped_chars: "c \<in> set (PathEscape s) \<Longrightarrow> path_char c \<or> c = CHR ''%''"
proof -
  have "path_char (upperhex n)" if "n < 16" for n
    using that upperhex_byte [of n] by (auto simp: path_char_def alnum_def)
  moreover have "byte d div 16 < 16" for d using byte_bound [of d] by simp
  ultimately show "c \<in> set (PathEscape s) \<Longrightarrow> path_char c \<or> c = CHR ''%''"
    by (auto simp: PathEscape_def percent_def split: if_splits)
qed



section \<open>Start and run\<close>

text \<open>What a start does to the table: nothing but the requeueing of what was being sent.\<close>

definition requeued :: "instant \<Rightarrow> row list \<Rightarrow> row list \<Rightarrow> bool" where
  "requeued x t u \<longleftrightarrow> (\<exists>y. u = update_where (\<lambda>r. c_status r = StatusSending) (requeue_sending_row x y) t)"

lemma OpenStore_frame:
  "OpenStore P E path w = (w', r) \<Longrightarrow> tbl w' = tbl w \<and> sends w' = sends w"
  by (auto simp: OpenStore_def Ping_def sql_exec_def split: option.splits prod.splits sum.splits db_stage.splits)

lemma RequeueSending_requeued:
  "RequeueSending E c x w = (w', Inr n) \<Longrightarrow> requeued x (tbl w) (tbl w')"
  by (auto simp: RequeueSending_def requeued_def sql_exec_def observe_def Let_def
      split: option.splits prod.splits sum.splits db_stage.splits if_splits)

lemma startup_Inr:
  assumes "startup P H E version revision args w = Some (w', Inr a)"
  shows "\<exists>c r client x. Parse H args = Inr c \<and> load_renderer P H c = Inr r
    \<and> NewHTTPClient H (transport_FromURL P) (TelegramBotToken c) (HTTPWriteTimeout c) (telegramOptions c) = Inr client
    \<and> cfg (app_service a) = c \<and> renderer (app_service a) = r \<and> app_client a = client
    \<and> app_server a = http_server_of c \<and> requeued x (tbl w) (tbl w')"
proof -
  have "\<exists>x. requeued x (tbl w) (tbl w')"
    if "OpenStore P E path w = (w1, r)" "RequeueSending E Caller x (step w1) = (w', Inr n)" for path w1 r x n
    using OpenStore_frame [OF that(1)] RequeueSending_requeued [OF that(2)] by auto
  then show ?thesis
    using assms by (auto simp: startup_def split: sum.splits option.splits prod.splits)
qed

lemma NewHTTPClient_token:
  assumes "NewHTTPClient H F tok timeout opts = Inr client"
  shows "token client = tok"
proof -
  have "token (foldl apply_option c opts) = token c" for c
  proof (induction opts arbitrary: c)
    case (Cons x xs)
    then show ?case by (cases x) simp_all
  qed simp
  then show ?thesis
    using assms by (auto simp: NewHTTPClient_def Let_def split: sum.splits if_splits)
qed

lemma load_renderer_Some:
  "load_renderer P H c = Inr r \<Longrightarrow> r \<noteq> None \<longleftrightarrow> AlertMessageSource c = ''template''"
  by (auto simp: load_renderer_def UsesTemplateRenderer_def split: if_splits sum.splits)

lemma requeued_rows:
  assumes "requeued x t u"
  shows "list_all2 (\<lambda>r s. if c_status r = StatusSending then due x s \<and> c_event_id s = c_event_id r else s = r) t u"
    and "\<forall>r \<in> set u. c_status r \<noteq> StatusSending"
  using assms
  by (auto simp: requeued_def update_where_def requeue_sending_row_def due_def pending_statuses_def list_all2_conv_all_nth)


text \<open>A platform on which everything works.\<close>

definition demo_platform :: "(string \<Rightarrow> string list \<Rightarrow> int) platform" where
  "demo_platform = \<lparr> MkdirAll_Dir = (\<lambda>_. None), sql_Open = (\<lambda>_. None), ReadFile = (\<lambda>_. Inr []),
     parse_template = (\<lambda>_. Inr (\<lambda>_. Inr ''alert'')), zone_of = (\<lambda>_ _. (0, ''UTC'')),
     json_Unmarshal = decode_payload demo_service,
     prometheus = demo_client,
     transport_FromURL = (\<lambda>_. None), Shutdown = None \<rparr>"


lemma demo_NewMetrics: "\<exists>m. NewMetrics (prometheus demo_platform) v r = Inr (Some m)"
  using NewMetrics_ok [OF demo_documented] by (auto simp: demo_platform_def)

lemma demo_OpenStore: "\<exists>w'. OpenStore demo_platform demo_env path w = (w', Inr ()) \<and> tbl w' = tbl w"
  by (simp add: OpenStore_def demo_platform_def Ping_def sql_exec_def fault_def ctx_Err_def demo_env_def)

lemma demo_Requeue: "\<exists>w' n. RequeueSending demo_env Caller x w = (w', Inr n)"
  by (simp add: RequeueSending_def sql_exec_def RowsAffected_def fault_def ctx_Err_def demo_env_def)

lemma demo_renderer: "\<exists>r. load_renderer demo_platform H c = Inr r"
  by (simp add: load_renderer_def LoadTemplate_def demo_platform_def)

lemma boot_url: "url_Parse boot_host s = Inr \<lparr> Scheme = ''https'', Url_User = None, Url_Host = ''api.telegram.org'',
       Path = [], RawQuery = [], Fragment = [] \<rparr>"
  by (simp add: boot_host_def)

lemma boot_startup: "\<exists>w' a. startup demo_platform boot_host demo_env ''dev'' ''unknown'' [] w = Some (w', Inr a)"
proof -
  obtain c where c: "Parse boot_host [] = Inr c" "TelegramBaseURL c = []" "TelegramProxyURL c = []"
    using boot_parse by blast
  obtain m where m: "NewMetrics (prometheus demo_platform) ''dev'' ''unknown'' = Inr (Some m)" using demo_NewMetrics by blast
  obtain w1 where w1: "OpenStore demo_platform demo_env (StorePath c) w = (w1, Inr ())" using demo_OpenStore by blast
  obtain w2 n where w2: "RequeueSending demo_env Caller (now demo_env w1) (step w1) = (w2, Inr n)" using demo_Requeue by blast
  obtain r where r: "load_renderer demo_platform boot_host c = Inr r" using demo_renderer by blast
  have "TrimSpace ''https://api.telegram.org'' \<noteq> []"
    by (simp add: TrimSpace_Nil_iff chunks_ascii ascii_def byte_def space_chunk_def IsSpace_def decode_ascii)
  then have "\<exists>client. NewHTTPClient boot_host (transport_FromURL demo_platform) (TelegramBotToken c)
      (HTTPWriteTimeout c) (telegramOptions c) = Inr client"
    by (simp add: NewHTTPClient_def telegramOptions_def c normalizeBaseURL_def boot_url parseProxyURL_def newTransport_def Let_def)
  then show ?thesis using c m w1 w2 r by (auto simp: startup_def)
qed


section \<open>The Telegram client of a valid configuration\<close>

lemma valid_base:
  "validateTelegramBaseURL H raw = None \<Longrightarrow> TrimSpace raw \<noteq> [] \<Longrightarrow> \<exists>b. normalizeBaseURL H (TrimSpace raw) = Inr b"
  by (auto simp: validateTelegramBaseURL_def normalizeBaseURL_def Let_def split: sum.splits if_splits)

lemma valid_proxy:
  "validateTelegramProxyURL H raw = None \<Longrightarrow> \<forall>u. F u = None
    \<Longrightarrow> \<exists>p. parseProxyURL H (TrimSpace raw) = Inr p \<and> newTransport H F p = Inr ()"
  by (auto simp: validateTelegramProxyURL_def parseProxyURL_def newTransport_def Let_def split: sum.splits if_splits)

lemma https_trim: "TrimSpace ''https://api.telegram.org'' = ''https://api.telegram.org''"
proof -
  have "chunks ''https://api.telegram.org'' = map (\<lambda>c. [c]) ''https://api.telegram.org''"
    by (simp add: chunks_ascii ascii_def byte_def)
  then show ?thesis
    by (simp add: TrimSpace_def trim_chunks_def space_chunk_def IsSpace_def decode_ascii byte_def)
qed

lemma NewHTTPClient_built:
  assumes "foldl apply_option \<lparr> baseURL = ''https://api.telegram.org'', token = tok, client_Timeout = 0,
      userAgent = ''webhook-telegram-proxy'', maxBody = defaultMaxResponseBytes, proxyURLRaw = [],
      customHTTPClient = False, sensitiveReplacers = [] \<rparr> opts = k"
    and "\<not> customHTTPClient k" and "parseProxyURL H (proxyURLRaw k) = Inr p" and "newTransport H F p = Inr ()"
  shows "(\<exists>client. NewHTTPClient H F tok timeout opts = Inr client) \<longleftrightarrow> (\<exists>b. normalizeBaseURL H (baseURL k) = Inr b)"
  using assms by (auto simp: NewHTTPClient_def Let_def split: sum.splits)



section \<open>The whole program\<close>

lemma RequeueSending_sends: "RequeueSending E c x w = (w', r) \<Longrightarrow> sends w' = sends w"
  by (auto simp: RequeueSending_def sql_exec_def observe_def Let_def
      split: option.splits prod.splits sum.splits db_stage.splits if_splits)

lemma startup_frame:
  assumes "startup P H E version revision args w = Some (w1, res)"
  shows "sends w1 = sends w" and "keys_ok (tbl w) \<Longrightarrow> keys_ok (tbl w1)" and "rows_ok (tbl w) \<Longrightarrow> rows_ok (tbl w1)"
proof -
  have step: "sends v' = sends w \<and> (keys_ok (tbl w) \<longrightarrow> keys_ok (tbl v')) \<and> (rows_ok (tbl w) \<longrightarrow> rows_ok (tbl v'))"
    if "OpenStore P E path w = (v, r)" "RequeueSending E Caller x (step v) = (v', n)" for path v r x v' n
  proof -
    have "keys_ok (tbl (step v)) \<longrightarrow> keys_ok (tbl (fst (RequeueSending E Caller x (step v))))"
      "rows_ok (tbl (step v)) \<longrightarrow> rows_ok (tbl (fst (RequeueSending E Caller x (step v))))"
      by (rule keys.restart rows.restart)+
    then show ?thesis using OpenStore_frame [OF that(1)] RequeueSending_sends [OF that(2)] that(2) by simp
  qed
  have "sends w1 = sends w \<and> (keys_ok (tbl w) \<longrightarrow> keys_ok (tbl w1)) \<and> (rows_ok (tbl w) \<longrightarrow> rows_ok (tbl w1))"
    using assms by (auto simp: startup_def dest: OpenStore_frame step split: sum.splits option.splits prod.splits)
  then show "sends w1 = sends w" "keys_ok (tbl w) \<Longrightarrow> keys_ok (tbl w1)" "rows_ok (tbl w) \<Longrightarrow> rows_ok (tbl w1)" by simp_all
qed

end
