(* ===== verification/Middleware.thy ===== *)
theory Middleware
  imports PropsEdge
begin

text \<open>
  The HTTP server from below (\<open>internal/http/middleware.go\<close>, \<open>router.go\<close>): the response writer as
  an object the handlers write to, the status recorders wrapped around it, the request id in the
  context, the log lines of the middleware, and panics as an outcome of a handler.  \<open>Http.handle\<close>
  is the specification: what a request is answered.  The theory shows that the middleware stack
  around the routes implements it, and what the stack does with a handler that panics.
\<close>

section \<open>Response writers\<close>

text \<open>
  The writer of \<open>net/http\<close>: the header map, the header and status as they were when \<open>WriteHeader\<close> was
  called first (a later call is ignored, a later change of the map is not sent), and the body.  A
  \<open>statusRecorder\<close> wraps any writer.  \<open>Flush\<close> only passes on what has been written and is left out.
\<close>

record net_writer =
  nw_header :: "(string \<times> string) list"
  nw_sent :: "(int \<times> (string \<times> string) list) option"
  nw_body :: string

datatype ResponseWriter =
    NetWriter (the_net: net_writer)
  | statusRecorder (inner_writer: ResponseWriter) (recorded_code: int) (wroteHeader: bool)

definition net_Set :: "string \<Rightarrow> string \<Rightarrow> net_writer \<Rightarrow> net_writer" where
  "net_Set k v n = n\<lparr>nw_header := map_set k v (nw_header n)\<rparr>"

definition net_WriteHeader :: "int \<Rightarrow> net_writer \<Rightarrow> net_writer" where
  "net_WriteHeader code n = (if nw_sent n = None then n\<lparr>nw_sent := Some (code, nw_header n)\<rparr> else n)"

definition net_Write :: "string \<Rightarrow> net_writer \<Rightarrow> net_writer" where
  "net_Write payload n = (let n1 = net_WriteHeader 200 n in n1\<lparr>nw_body := nw_body n1 @ payload\<rparr>)"

fun Header_Set :: "string \<Rightarrow> string \<Rightarrow> ResponseWriter \<Rightarrow> ResponseWriter" where
  "Header_Set k v (NetWriter n) = NetWriter (net_Set k v n)"
| "Header_Set k v (statusRecorder w code wrote) = statusRecorder (Header_Set k v w) code wrote"

fun WriteHeader :: "int \<Rightarrow> ResponseWriter \<Rightarrow> ResponseWriter" where
  "WriteHeader code (NetWriter n) = NetWriter (net_WriteHeader code n)"
| "WriteHeader code (statusRecorder w old wrote) =
     (if wrote then statusRecorder w old wrote else statusRecorder (WriteHeader code w) code True)"

lemma size_WriteHeader [termination_simp, simp]: "size (WriteHeader code w) = size w"
  by (induction code w rule: WriteHeader.induct) simp_all

fun Write :: "string \<Rightarrow> ResponseWriter \<Rightarrow> ResponseWriter" where
  "Write payload (NetWriter n) = NetWriter (net_Write payload n)"
| "Write payload (statusRecorder w code wrote) =
     (if wrote then statusRecorder (Write payload w) code wrote
      else statusRecorder (Write payload (WriteHeader 200 w)) 200 True)"

text \<open>\<open>writeJSON\<close> on a writer: the headers, the status, the body in one call.\<close>

definition write_response :: "response_http \<Rightarrow> ResponseWriter \<Rightarrow> ResponseWriter" where
  "write_response rs w =
     Write (rs_Body rs) (WriteHeader (rs_Status rs) (foldl (\<lambda>w (k, v). Header_Set k v w) w (rs_Header rs)))"

text \<open>What the client receives once the handler has returned.\<close>

fun net :: "ResponseWriter \<Rightarrow> net_writer" where
  "net (NetWriter n) = n"
| "net (statusRecorder w code wrote) = net w"

definition net_response :: "net_writer \<Rightarrow> response_http" where
  "net_response n =
     (case nw_sent n of
        None \<Rightarrow> \<lparr>rs_Status = 200, rs_Header = nw_header n, rs_Body = nw_body n\<rparr>
      | Some (code, hs) \<Rightarrow> \<lparr>rs_Status = code, rs_Header = hs, rs_Body = nw_body n\<rparr>)"

text \<open>
  A recorder is coherent when its flag says whether the header has been sent and its code is the
  one that was sent, or 200, which is what an empty answer gets.
\<close>

fun coherent :: "ResponseWriter \<Rightarrow> bool" where
  "coherent (NetWriter n) \<longleftrightarrow> True"
| "coherent (statusRecorder w code wrote) \<longleftrightarrow>
     coherent w \<and> (wrote \<longleftrightarrow> nw_sent (net w) \<noteq> None) \<and> code = rs_Status (net_response (net w))"

fun layers :: "ResponseWriter \<Rightarrow> nat" where
  "layers (NetWriter n) = 0"
| "layers (statusRecorder w code wrote) = Suc (layers w)"

section \<open>The writer's contract\<close>

text \<open>
  The interface \<open>http.ResponseWriter\<close>: three methods, an invariant, and the writer of \<open>net/http\<close>
  they act on.  \<open>writeJSON\<close> and its callers only use these methods, so what they send is the same
  through any number of recorders.
\<close>

locale response_writer =
  fixes set_hdr :: "string \<Rightarrow> string \<Rightarrow> 'w \<Rightarrow> 'w"
    and write_hdr :: "int \<Rightarrow> 'w \<Rightarrow> 'w"
    and write_body :: "string \<Rightarrow> 'w \<Rightarrow> 'w"
    and view :: "'w \<Rightarrow> net_writer"
    and ok :: "'w \<Rightarrow> bool"
  assumes view_set: "ok x \<Longrightarrow> view (set_hdr k v x) = net_Set k v (view x)"
    and view_write_hdr: "ok x \<Longrightarrow> view (write_hdr code x) = net_WriteHeader code (view x)"
    and view_write_body: "ok x \<Longrightarrow> view (write_body p x) = net_Write p (view x)"
    and ok_set: "ok x \<Longrightarrow> ok (set_hdr k v x)"
    and ok_write_hdr: "ok x \<Longrightarrow> ok (write_hdr code x)"
    and ok_write_body: "ok x \<Longrightarrow> ok (write_body p x)"
begin

definition send :: "response_http \<Rightarrow> 'w \<Rightarrow> 'w" where
  "send rs x =
     write_body (rs_Body rs) (write_hdr (rs_Status rs) (foldl (\<lambda>y (k, v). set_hdr k v y) x (rs_Header rs)))"

lemma set_all:
  "ok x \<Longrightarrow> ok (foldl (\<lambda>y (k, v). set_hdr k v y) x hs) \<and>
     view (foldl (\<lambda>y (k, v). set_hdr k v y) x hs) = foldl (\<lambda>n (k, v). net_Set k v n) (view x) hs"
  by (induction hs arbitrary: x) (auto simp: ok_set view_set)

lemma send_ok: "ok x \<Longrightarrow> ok (send rs x)"
  by (simp add: send_def set_all ok_write_hdr ok_write_body)

lemma net_Set_all:
  "foldl (\<lambda>n (k, v). net_Set k v n) n hs = n\<lparr>nw_header := foldl (\<lambda>m (k, v). map_set k v m) (nw_header n) hs\<rparr>"
  by (induction hs arbitrary: n) (auto simp: net_Set_def)

lemma send_view:
  "ok x \<Longrightarrow> nw_sent (view x) = None \<Longrightarrow>
   view (send rs x) =
     (let hs = foldl (\<lambda>m (k, v). map_set k v m) (nw_header (view x)) (rs_Header rs)
      in \<lparr>nw_header = hs, nw_sent = Some (rs_Status rs, hs), nw_body = nw_body (view x) @ rs_Body rs\<rparr>)"
  by (simp add: send_def set_all ok_write_hdr view_write_hdr view_write_body net_Set_all
      net_Write_def net_WriteHeader_def Let_def)

end

lemma net_Set_response [simp]: "rs_Status (net_response (net_Set k v n)) = rs_Status (net_response n)"
  by (simp add: net_response_def net_Set_def split: option.splits)

lemma net_Set_sent [simp]: "nw_sent (net_Set k v n) = nw_sent n"
  by (simp add: net_Set_def)

lemma net_WriteHeader_sent [simp]: "nw_sent (net_WriteHeader code n) \<noteq> None"
  "nw_sent n \<noteq> None \<Longrightarrow> net_WriteHeader code n = n"
  by (simp_all add: net_WriteHeader_def)

lemma net_Write_after [simp]: "net_Write p (net_WriteHeader 200 n) = net_Write p n"
  by (simp add: net_Write_def net_WriteHeader_def)

lemma net_Write_sent: "nw_sent (net_Write p n) = nw_sent (net_WriteHeader 200 n)"
  by (simp add: net_Write_def Let_def)

lemma net_response_status:
  "nw_sent n = None \<Longrightarrow> rs_Status (net_response (net_WriteHeader code n)) = code"
  "nw_sent (net_Write p n) = nw_sent m \<Longrightarrow> rs_Status (net_response (net_Write p n)) = rs_Status (net_response m)"
  by (simp_all add: net_response_def net_WriteHeader_def split: option.splits prod.splits)

lemma coherent_ops:
  assumes "coherent x"
  shows "net (Header_Set k v x) = net_Set k v (net x)" "coherent (Header_Set k v x)"
    and "net (WriteHeader code x) = net_WriteHeader code (net x)" "coherent (WriteHeader code x)"
    and "net (Write p x) = net_Write p (net x)" "coherent (Write p x)"
proof -
  have Set: "net (Header_Set k v y) = net_Set k v (net y) \<and> coherent (Header_Set k v y)" if "coherent y" for y
    using that by (induction y) simp_all
  have WH: "net (WriteHeader c y) = net_WriteHeader c (net y) \<and> coherent (WriteHeader c y)" if "coherent y" for c y
    using that by (induction y) (simp_all add: net_response_status del: not_None_eq)
  have W: "net (Write p y) = net_Write p (net y) \<and> coherent (Write p y)" if "coherent y" for y
    using that
  proof (induction p y rule: Write.induct)
    case (2 payload y code wrote)
    show ?case
    proof (cases wrote)
      case True
      then have "nw_sent (net_Write payload (net y)) = nw_sent (net y)"
        using "2.prems" by (simp add: net_Write_sent del: not_None_eq)
      then show ?thesis using True 2 by (simp add: net_response_status del: not_None_eq)
    next
      case False
      have "rs_Status (net_response (net_Write payload (net y))) = 200"
        using False "2.prems"
        by (simp add: net_response_status(1) net_response_status(2) [of _ _ "net_WriteHeader 200 (net y)"] net_Write_sent del: not_None_eq)
      then show ?thesis using False 2 WH [of y 200] by (simp add: net_Write_sent del: not_None_eq)
    qed
  qed simp
  show "net (Header_Set k v x) = net_Set k v (net x)" "coherent (Header_Set k v x)" using Set [OF assms] by simp_all
  show "net (WriteHeader code x) = net_WriteHeader code (net x)" "coherent (WriteHeader code x)"
    using WH [OF assms] by simp_all
  show "net (Write p x) = net_Write p (net x)" "coherent (Write p x)" using W [OF assms] by simp_all
qed

interpretation plain: response_writer net_Set net_WriteHeader net_Write "\<lambda>n. n" "\<lambda>_. True"
  by unfold_locales simp_all

interpretation recorded: response_writer Header_Set WriteHeader Write net coherent
  by unfold_locales (simp_all add: coherent_ops)

lemma write_response_recorded: "write_response = recorded.send"
  by (simp add: fun_eq_iff write_response_def recorded.send_def)

text \<open>So a recorder sends what the writer below it would have sent by itself.\<close>

lemma write_response_net:
  assumes "coherent x"
  shows "net (write_response rs x) = plain.send rs (net x)" "coherent (write_response rs x)"
proof -
  let ?y = "foldl (\<lambda>w (k, v). Header_Set k v w) x (rs_Header rs)"
  have y: "coherent ?y" "net ?y = foldl (\<lambda>n (k, v). net_Set k v n) (net x) (rs_Header rs)"
    using recorded.set_all [OF assms, of "rs_Header rs"] by simp_all
  show "net (write_response rs x) = plain.send rs (net x)"
    by (simp only: write_response_def plain.send_def coherent_ops y)
  show "coherent (write_response rs x)"
    by (simp only: write_response_recorded recorded.send_ok [OF assms])
qed

section \<open>Connections and handlers\<close>

text \<open>
  The lines the middleware logs, without durations, addresses and stacks.  A request is served on
  a connection: the world, its response writer and the log so far.
\<close>

datatype log_line =
    PanicRecovered string string string string
  | RequestCompleted string string string int

record connection =
  cn_world :: world
  cn_writer :: ResponseWriter
  cn_log :: "log_line list"

text \<open>
  A handler returns or panics, with what it has done so far, or does not return at all.  Of the
  context it reads the request id.
\<close>

datatype outcome = Returned (connection_of: connection) | Panicked string (connection_of: connection)

type_synonym http_handler = "string option \<Rightarrow> request \<Rightarrow> connection \<Rightarrow> outcome option"

definition requestIDFromContext :: "string option \<Rightarrow> string" where
  "requestIDFromContext context = (case context of None \<Rightarrow> [] | Some v \<Rightarrow> v)"

definition writer_do :: "(ResponseWriter \<Rightarrow> ResponseWriter) \<Rightarrow> connection \<Rightarrow> connection" where
  "writer_do f c = c\<lparr>cn_writer := f (cn_writer c)\<rparr>"

definition log_do :: "log_line \<Rightarrow> connection \<Rightarrow> connection" where
  "log_do line c = c\<lparr>cn_log := cn_log c @ [line]\<rparr>"

definition world_do :: "(world \<Rightarrow> world) \<Rightarrow> connection \<Rightarrow> connection" where
  "world_do f c = c\<lparr>cn_world := f (cn_world c)\<rparr>"

text \<open>
  A new recorder around the writer, which the surrounding code stops using when its handler is done.
\<close>

definition new_recorder :: "connection \<Rightarrow> connection" where
  "new_recorder = writer_do (\<lambda>w. statusRecorder w 200 False)"

definition drop_recorder :: "connection \<Rightarrow> connection" where
  "drop_recorder = writer_do inner_writer"

text \<open>
  What the handlers of \<open>Http\<close> do to the writer: they end with one call of \<open>writeJSON\<close>, which sets the
  content type, sends the header and encodes the body.
\<close>

definition responding :: "handler \<Rightarrow> http_handler" where
  "responding h context r c =
     (case h (requestIDFromContext context) r (cn_world c) of
        None \<Rightarrow> None
      | Some (w, rs) \<Rightarrow> Some (Returned (writer_do (write_response rs) (world_do (\<lambda>_. w) c))))"

section \<open>The middleware\<close>

definition requestIDMiddleware :: "env \<Rightarrow> server \<Rightarrow> http_handler \<Rightarrow> http_handler" where
  "requestIDMiddleware E V inner context r c =
     (let (w1, requestID) =
        (case sanitizeRequestID V (req_RequestID r) of
           Some i \<Rightarrow> (cn_world c, i)
         | None \<Rightarrow> randomRequestID E (cn_world c))
      in inner (Some requestID) r
           (writer_do (Header_Set ''X-Request-Id'' requestID) (world_do (\<lambda>_. w1) c)))"

definition securityHeadersMiddleware :: "http_handler \<Rightarrow> http_handler" where
  "securityHeadersMiddleware inner context r c =
     inner context r (writer_do (\<lambda>w. foldl (\<lambda>w (k, v). Header_Set k v w) w securityHeaders) c)"

definition basicAuth :: "server \<Rightarrow> http_handler \<Rightarrow> http_handler" where
  "basicAuth V inner =
     (if \<not> BasicAuthEnabled (sv_cfg V) then inner
      else (\<lambda>context r c.
        if basic_ok (sv_cfg V) r then inner context r c
        else
          Some (Returned
            (writer_do (write_response (writePublicError (requestIDFromContext context) 401 ''authentication required''))
              (writer_do (Header_Set ''WWW-Authenticate''
                   (''Basic realm='' @ Quote (unicode_print (svc_host (sv_service V))) (BasicAuthRealm (sv_cfg V))
                    @ '', charset='' @ [quote] @ ''UTF-8'' @ [quote])) c)))))"

definition recoverMiddleware :: "http_handler \<Rightarrow> http_handler" where
  "recoverMiddleware inner context r c =
     (case inner context r (new_recorder c) of
        None \<Rightarrow> None
      | Some (Returned c1) \<Rightarrow> Some (Returned (drop_recorder c1))
      | Some (Panicked reason c1) \<Rightarrow>
          (let c2 = log_do (PanicRecovered (requestIDFromContext context) reason (req_Method r) (req_Path r)) c1;
               c3 = (if \<not> wroteHeader (cn_writer c2) then
                       writer_do (write_response
                         (writePublicError (requestIDFromContext context) 500 ''internal server error'')) c2
                     else c2)
           in Some (Returned (drop_recorder c3))))"

text \<open>A panic passes through the other two recorders: the line after \<open>ServeHTTP\<close> is not reached.\<close>

definition logMiddleware :: "http_handler \<Rightarrow> http_handler" where
  "logMiddleware inner context r c =
     (case inner context r (new_recorder c) of
        None \<Rightarrow> None
      | Some (Panicked reason c1) \<Rightarrow> Some (Panicked reason (drop_recorder c1))
      | Some (Returned c1) \<Rightarrow>
          Some (Returned (drop_recorder
            (log_do (RequestCompleted (requestIDFromContext context) (req_Method r) (req_Path r)
               (recorded_code (cn_writer c1))) c1))))"

definition withRoute_handler :: "string \<Rightarrow> http_handler \<Rightarrow> http_handler" where
  "withRoute_handler route inner context r c =
     (case inner context r (new_recorder c) of
        None \<Rightarrow> None
      | Some (Panicked reason c1) \<Rightarrow> Some (Panicked reason (drop_recorder c1))
      | Some (Returned c1) \<Rightarrow>
          Some (Returned (drop_recorder
            (world_do (emit (HTTPRequest route (req_Method r) (status_class (recorded_code (cn_writer c1))))) c1))))"

section \<open>The router\<close>

definition ServeMux :: "env \<Rightarrow> server \<Rightarrow> http_handler" where
  "ServeMux E V context r =
     (if req_Method r = ''POST'' \<and> req_Path r = ''/webhook/grafana'' then
        withRoute_handler ''webhook_grafana'' (responding (webhookReceiver E V)) context r
      else if req_Method r = ''POST'' \<and> req_Path r = ''/webhook/alertmanager'' then
        withRoute_handler ''webhook_alertmanager'' (responding (webhookReceiver E V)) context r
      else if is_get r \<and> req_Path r = ''/health'' then
        withRoute_handler ''health'' (basicAuth V (responding (health E V))) context r
      else if is_get r \<and> req_Path r = ''/readyz'' then
        withRoute_handler ''readyz'' (basicAuth V (responding (health E V))) context r
      else if is_get r \<and> req_Path r = ''/livez'' then
        withRoute_handler ''livez'' (responding livenessHandler) context r
      else if is_get r \<and> req_Path r = ''/metrics'' then
        withRoute_handler ''metrics'' (basicAuth V (responding (\<lambda>_ _ w. Some (w, sv_metrics V w)))) context r
      else responding (\<lambda>_ r w. Some (w, sv_unrouted V (req_Method r) (req_Path r))) context r)"

definition middleware :: "env \<Rightarrow> server \<Rightarrow> http_handler \<Rightarrow> http_handler" where
  "middleware E V mux =
     recoverMiddleware (requestIDMiddleware E V (logMiddleware (securityHeadersMiddleware mux)))"

definition NewRouter :: "env \<Rightarrow> server \<Rightarrow> http_handler" where
  "NewRouter E V = middleware E V (ServeMux E V)"

text \<open>\<open>net/http\<close> starts with an empty header, and a context without a request id.\<close>

definition accept_connection :: "world \<Rightarrow> connection" where
  "accept_connection w =
     \<lparr> cn_world = w, cn_writer = NetWriter \<lparr>nw_header = [], nw_sent = None, nw_body = []\<rparr>, cn_log = [] \<rparr>"

section \<open>Recorders\<close>

lemma connection_simps [simp]:
  "cn_world (writer_do f c) = cn_world c" "cn_writer (writer_do f c) = f (cn_writer c)" "cn_log (writer_do f c) = cn_log c"
  "cn_world (log_do l c) = cn_world c" "cn_writer (log_do l c) = cn_writer c" "cn_log (log_do l c) = cn_log c @ [l]"
  "cn_world (world_do g c) = g (cn_world c)" "cn_writer (world_do g c) = cn_writer c" "cn_log (world_do g c) = cn_log c"
  by (simp_all add: writer_do_def log_do_def world_do_def)

text \<open>A coherent writer is determined by the writer of \<open>net/http\<close> and the number of recorders around it.\<close>

primrec recorders :: "nat \<Rightarrow> net_writer \<Rightarrow> ResponseWriter" where
  "recorders 0 n = NetWriter n"
| "recorders (Suc k) n = statusRecorder (recorders k n) (rs_Status (net_response n)) (nw_sent n \<noteq> None)"

lemma net_recorders [simp]: "net (recorders k n) = n" "layers (recorders k n) = k"
  by (induction k) simp_all

lemma coherent_recorders [simp]: "coherent (recorders k n)"
  by (induction k) (simp_all del: not_None_eq)

lemma coherent_eq: "coherent x \<Longrightarrow> x = recorders (layers x) (net x)"
  by (induction x) (simp_all del: not_None_eq)

lemma layers_ops [simp]:
  "layers (Header_Set k v x) = layers x" "layers (WriteHeader code x) = layers x" "layers (Write p x) = layers x"
proof -
  show "layers (Header_Set k v x) = layers x" by (induction x) simp_all
  have WH: "layers (WriteHeader c y) = layers y" for c y by (induction y) simp_all
  show "layers (WriteHeader code x) = layers x" by (rule WH)
  show "layers (Write p x) = layers x" by (induction p x rule: Write.induct) (simp_all add: WH)
qed

lemma layers_send [simp]: "layers (write_response rs x) = layers x"
proof -
  have "layers (foldl (\<lambda>y (k, v). Header_Set k v y) x hs) = layers x" for hs
    by (induction hs arbitrary: x) auto
  then show ?thesis by (simp add: write_response_def)
qed

lemma recorders_ops [simp]:
  "Header_Set k v (recorders m n) = recorders m (net_Set k v n)"
  "WriteHeader code (recorders m n) = recorders m (net_WriteHeader code n)"
  "Write p (recorders m n) = recorders m (net_Write p n)"
  using coherent_eq [of "Header_Set k v (recorders m n)"] coherent_eq [of "WriteHeader code (recorders m n)"]
    coherent_eq [of "Write p (recorders m n)"] by (simp_all add: coherent_ops)

lemma recorders_Set_all [simp]:
  "foldl (\<lambda>y (k, v). Header_Set k v y) (recorders m n) hs = recorders m (foldl (\<lambda>n (k, v). net_Set k v n) n hs)"
  by (induction hs arbitrary: n) auto

lemma recorders_send [simp]: "write_response rs (recorders m n) = recorders m (plain.send rs n)"
  by (simp add: write_response_def plain.send_def)

lemma recorder_push: "nw_sent n = None \<Longrightarrow> statusRecorder (recorders m n) 200 False = recorders (Suc m) n"
  by (simp add: net_response_def)

text \<open>What is left of a connection when a response has been sent on it.\<close>

definition answered :: "response_http \<Rightarrow> net_writer \<Rightarrow> net_writer" where
  "answered rs n =
     (let rs1 = with_headers (nw_header n) rs
      in \<lparr>nw_header = rs_Header rs1, nw_sent = Some (rs_Status rs1, rs_Header rs1), nw_body = nw_body n @ rs_Body rs1\<rparr>)"

lemma send_answered: "nw_sent n = None \<Longrightarrow> plain.send rs n = answered rs n"
  by (simp add: plain.send_view answered_def with_headers_def Let_def)

lemma answered_response [simp]:
  "net_response (answered rs n) = (with_headers (nw_header n) rs)\<lparr>rs_Body := nw_body n @ rs_Body rs\<rparr>"
  "nw_sent (answered rs n) \<noteq> None"
  by (simp_all add: net_response_def answered_def Let_def with_headers_def)

section \<open>The stack implements the specification\<close>

definition fresh_on :: "nat \<Rightarrow> net_writer \<Rightarrow> world \<Rightarrow> connection" where
  "fresh_on k n w = \<lparr>cn_world = w, cn_writer = recorders k n, cn_log = []\<rparr>"

text \<open>The connection and the context the stack hands to the routes.\<close>

definition entry :: "env \<Rightarrow> server \<Rightarrow> request \<Rightarrow> world \<Rightarrow> connection" where
  "entry E V r w =
     (let (w1, i) = request_id E V r w in
      fresh_on 2 \<lparr>nw_header = (''X-Request-Id'', i) # securityHeaders, nw_sent = None, nw_body = []\<rparr> w1)"

definition entry_id :: "env \<Rightarrow> server \<Rightarrow> request \<Rightarrow> world \<Rightarrow> string" where
  "entry_id E V r w = snd (request_id E V r w)"

lemma securityHeaders_set:
  "foldl (\<lambda>n (k, v). net_Set k v n) \<lparr>nw_header = [(''X-Request-Id'', i)], nw_sent = None, nw_body = []\<rparr> securityHeaders
   = \<lparr>nw_header = (''X-Request-Id'', i) # securityHeaders, nw_sent = None, nw_body = []\<rparr>"
  by (simp add: plain.net_Set_all securityHeaders_def)

lemma fresh_simps [simp]:
  "cn_world (fresh_on k n w) = w" "cn_log (fresh_on k n w) = []" "cn_writer (fresh_on k n w) = recorders k n"
  "world_do f (fresh_on k n w) = fresh_on k n (f w)"
  "writer_do (Header_Set key v) (fresh_on k n w) = fresh_on k (net_Set key v n) w"
  "nw_sent n = None \<Longrightarrow> new_recorder (fresh_on k n w) = fresh_on (Suc k) n w"
  by (simp_all add: fresh_on_def world_do_def writer_do_def new_recorder_def recorder_push del: recorders.simps)

lemma accept_connection_fresh:
  "accept_connection w = fresh_on 0 \<lparr>nw_header = [], nw_sent = None, nw_body = []\<rparr> w"
  by (simp add: accept_connection_def fresh_on_def)

lemma requestIDMiddleware_eq:
  "requestIDMiddleware E V inner None r (fresh_on k n w) =
     inner (Some (entry_id E V r w)) r
       (fresh_on k (net_Set ''X-Request-Id'' (entry_id E V r w) n) (fst (request_id E V r w)))"
  by (simp add: requestIDMiddleware_def entry_id_def request_id_def split_beta Let_def cong: option.case_cong)

lemma entry_eq:
  "entry E V r w = fresh_on (Suc (Suc 0))
     \<lparr>nw_header = (''X-Request-Id'', entry_id E V r w) # securityHeaders, nw_sent = None, nw_body = []\<rparr>
     (fst (request_id E V r w))"
  by (simp add: entry_def entry_id_def split_beta numeral_2_eq_2)

lemma securityHeadersMiddleware_eq:
  "securityHeadersMiddleware inner context r (fresh_on k \<lparr>nw_header = [(''X-Request-Id'', i)], nw_sent = None, nw_body = []\<rparr> w)
   = inner context r (fresh_on k \<lparr>nw_header = (''X-Request-Id'', i) # securityHeaders, nw_sent = None, nw_body = []\<rparr> w)"
  by (simp add: securityHeadersMiddleware_def writer_do_def fresh_on_def securityHeaders_set)

text \<open>The whole stack: what it makes of the outcome of the routes.\<close>

definition completed :: "string \<Rightarrow> request \<Rightarrow> connection \<Rightarrow> connection" where
  "completed i r c =
     log_do (RequestCompleted i (req_Method r) (req_Path r) (recorded_code (cn_writer c))) c"

definition recovered :: "string \<Rightarrow> request \<Rightarrow> connection \<Rightarrow> connection" where
  "recovered reason r c =
     (let c1 = log_do (PanicRecovered [] reason (req_Method r) (req_Path r)) c in
      if \<not> wroteHeader (cn_writer c1)
      then writer_do (write_response (writePublicError [] 500 ''internal server error'')) c1 else c1)"

lemma middleware_eq:
  "middleware E V mux None r (accept_connection w) =
     map_option
       (\<lambda>out. Returned (drop_recorder (case out of
          Returned c \<Rightarrow> drop_recorder (completed (entry_id E V r w) r c)
        | Panicked reason c \<Rightarrow> recovered reason r (drop_recorder c))))
       (mux (Some (entry_id E V r w)) r (entry E V r w))"
proof -
  let ?n = "\<lparr>nw_header = [], nw_sent = None, nw_body = []\<rparr>"
  let ?out = "mux (Some (entry_id E V r w)) r (entry E V r w)"
  have log: "logMiddleware (securityHeadersMiddleware mux) (Some (entry_id E V r w)) r
      (fresh_on (Suc 0) (net_Set ''X-Request-Id'' (entry_id E V r w) ?n) (fst (request_id E V r w)))
    = map_option (\<lambda>out. case out of
          Returned c \<Rightarrow> Returned (drop_recorder (completed (entry_id E V r w) r c))
        | Panicked reason c \<Rightarrow> Panicked reason (drop_recorder c)) ?out"
    by (simp add: logMiddleware_def net_Set_def securityHeadersMiddleware_eq entry_eq [symmetric]
        requestIDFromContext_def completed_def split: option.split outcome.split)
  show ?thesis
    by (simp add: middleware_def recoverMiddleware_def accept_connection_fresh requestIDMiddleware_eq log
        requestIDFromContext_def recovered_def Let_def split: option.split outcome.split)
qed

text \<open>A handler that answers on a fresh connection.\<close>

definition answers :: "(string \<Rightarrow> request \<Rightarrow> world \<Rightarrow> (world \<times> response_http) option) \<Rightarrow> http_handler \<Rightarrow> bool" where
  "answers spec h \<longleftrightarrow>
     (\<forall>i r k n w. nw_sent n = None \<longrightarrow>
        h (Some i) r (fresh_on k n w) =
          map_option (\<lambda>(w1, rs). Returned (fresh_on k (answered rs n) w1)) (spec i r w))"

lemma answersD:
  "answers spec h \<Longrightarrow> nw_sent n = None \<Longrightarrow>
   h (Some i) r (fresh_on k n w) = map_option (\<lambda>(w1, rs). Returned (fresh_on k (answered rs n) w1)) (spec i r w)"
  by (simp add: answers_def)

lemma responding_answers: "answers spec (responding spec)"
  by (auto simp: answers_def responding_def requestIDFromContext_def writer_do_def world_do_def fresh_on_def
      send_answered split: option.split)

lemma send_after:
  "nw_sent n = None \<Longrightarrow>
   writer_do (write_response rs) (fresh_on k (net_Set key v n) w) = fresh_on k (answered (with_headers [(key, v)] rs) n) w"
  if "rs_Header rs = [(key1, v1)]" "key1 \<noteq> key"
  using that by (simp add: writer_do_def fresh_on_def send_answered answered_def with_headers_def net_Set_def)

lemma basicAuth_answers:
  assumes "answers spec h"
  shows "answers (basicAuthMiddleware V spec) (basicAuth V h)"
  unfolding answers_def
proof (intro allI impI)
  fix i r k w and n :: net_writer
  assume n: "nw_sent n = None"
  note deny = send_after [OF _ _ n, where rs = "writePublicError i 401 ''authentication required''",
      unfolded writePublicError_def writeJSON_def, simplified, folded writeJSON_def, folded writePublicError_def]
  show "basicAuth V h (Some i) r (fresh_on k n w) =
      map_option (\<lambda>(w1, rs). Returned (fresh_on k (answered rs n) w1)) (basicAuthMiddleware V spec i r w)"
    using answersD [OF assms n]
    by (simp add: basicAuth_def basicAuthMiddleware_def requestIDFromContext_def
        send_after [OF _ _ n] writePublicError_def writeJSON_def)
qed

lemma recorded_code_recorders [simp]:
  "recorded_code (recorders (Suc k) n) = rs_Status (net_response n)"
  "wroteHeader (recorders (Suc k) n) \<longleftrightarrow> nw_sent n \<noteq> None"
  "inner_writer (recorders (Suc k) n) = recorders k n"
  by (simp_all del: not_None_eq)

lemma drop_fresh [simp]: "drop_recorder (fresh_on (Suc k) n w) = fresh_on k n w"
  by (simp add: drop_recorder_def writer_do_def fresh_on_def)

lemma withRoute_answers:
  assumes "answers spec h"
  shows "answers (withRoute route spec) (withRoute_handler route h)"
  unfolding answers_def
  using answersD [OF assms]
  by (auto simp: withRoute_handler_def withRoute_def split: option.split simp del: recorders.simps)

lemma answers_if:
  "answers s1 h1 \<Longrightarrow> answers s2 h2 \<Longrightarrow>
   answers (\<lambda>i r w. if P r then s1 i r w else s2 i r w) (\<lambda>context r. if P r then h1 context r else h2 context r)"
  by (auto simp: answers_def)

lemma ServeMux_answers: "answers (serve_mux E V) (ServeMux E V)"
  unfolding serve_mux_def [abs_def] ServeMux_def [abs_def]
  by (intro answers_if withRoute_answers basicAuth_answers responding_answers)

text \<open>The connection after the routes have answered \<open>rs\<close> in the world \<open>w\<close> to the request \<open>i\<close>.\<close>

definition finished :: "string \<Rightarrow> request \<Rightarrow> world \<Rightarrow> response_http \<Rightarrow> connection" where
  "finished i r w rs =
     (let rs1 = with_headers ((''X-Request-Id'', i) # securityHeaders) rs in
      \<lparr> cn_world = w,
        cn_writer = NetWriter \<lparr>nw_header = rs_Header rs1, nw_sent = Some (rs_Status rs1, rs_Header rs1), nw_body = rs_Body rs1\<rparr>,
        cn_log = [RequestCompleted i (req_Method r) (req_Path r) (rs_Status rs1)] \<rparr>)"

lemma finished_simps [simp]:
  "cn_world (finished i r w rs) = w"
  "net_response (net (cn_writer (finished i r w rs))) = with_headers ((''X-Request-Id'', i) # securityHeaders) rs"
  by (simp_all add: finished_def net_response_def Let_def)

lemma router_finished:
  "NewRouter E V None r (accept_connection w) =
     map_option (\<lambda>(w', rs). Returned (finished (entry_id E V r w) r w' rs))
       (serve_mux E V (entry_id E V r w) r (fst (request_id E V r w)))"
proof -
  let ?n = "\<lparr>nw_header = (''X-Request-Id'', entry_id E V r w) # securityHeaders, nw_sent = None, nw_body = []\<rparr>"
  have mux: "ServeMux E V (Some (entry_id E V r w)) r (entry E V r w) =
      map_option (\<lambda>(w1, rs). Returned (fresh_on (Suc (Suc 0)) (answered rs ?n) w1))
        (serve_mux E V (entry_id E V r w) r (fst (request_id E V r w)))"
    unfolding entry_eq by (rule answersD [OF ServeMux_answers]) simp
  have sent: "drop_recorder (drop_recorder (completed (entry_id E V r w) r (fresh_on (Suc (Suc 0)) (answered rs ?n) w')))
      = finished (entry_id E V r w) r w' rs" for rs w'
    by (simp add: completed_def log_do_def fresh_on_def drop_recorder_def writer_do_def)
       (simp add: answered_def finished_def Let_def)
  show ?thesis
    unfolding NewRouter_def middleware_eq mux option.map_comp
    by (rule option.map_cong [OF refl]) (simp add: split_beta sent)
qed

text \<open>
  C14: the middleware stack around the routes implements the specification of what a request is
  answered: for every environment, server and request \<open>NewRouter\<close> returns exactly when \<open>handle\<close>
  does, in the same world, and has then sent exactly the status, the headers and the body of
  \<open>handle\<close>, through whatever recorders the middleware has put around the writer; it never panics
  by itself and logs one line with the request id and the status that was sent.
\<close>

theorem router_implements_handle:
  "NewRouter E V None r (accept_connection w) =
     map_option
       (\<lambda>(w', rs). Returned
          \<lparr> cn_world = w',
            cn_writer = NetWriter \<lparr>nw_header = rs_Header rs, nw_sent = Some (rs_Status rs, rs_Header rs),
                                   nw_body = rs_Body rs\<rparr>,
            cn_log = [RequestCompleted (snd (request_id E V r w)) (req_Method r) (req_Path r) (rs_Status rs)] \<rparr>)
       (handle E V r w)"
proof -
  have spec: "handle E V r w =
      map_option (\<lambda>(w2, rs). (w2, with_headers ((''X-Request-Id'', entry_id E V r w) # securityHeaders) rs))
        (serve_mux E V (entry_id E V r w) r (fst (request_id E V r w)))"
    by (simp add: handle_request_id entry_id_def split_beta)
  show ?thesis
    unfolding router_finished entry_id_def [symmetric] spec option.map_comp
    by (rule option.map_cong [OF refl]) (simp add: finished_def split_beta Let_def)
qed

section \<open>Panics\<close>

text \<open>A handler only changes its writer through the three methods.\<close>

inductive uses :: "ResponseWriter \<Rightarrow> ResponseWriter \<Rightarrow> bool" where
  uses_nothing: "uses x x"
| uses_Set: "uses x y \<Longrightarrow> uses x (Header_Set k v y)"
| uses_WriteHeader: "uses x y \<Longrightarrow> uses x (WriteHeader code y)"
| uses_Write: "uses x y \<Longrightarrow> uses x (Write p y)"

lemma uses_recorders:
  assumes "uses (recorders m n) y" and "nw_sent n = None" and "nw_body n = []"
  shows "\<exists>n'. y = recorders m n' \<and> (nw_sent n' = None \<longrightarrow> nw_body n' = [])"
  using assms
proof (induction "recorders m n" y rule: uses.induct)
  case (uses_Set y k v)
  then show ?case by (auto simp: net_Set_def)
next
  case (uses_WriteHeader y code)
  then show ?case by (metis net_WriteHeader_sent(1) recorders_ops(2))
next
  case (uses_Write y p)
  then show ?case by (metis net_WriteHeader_sent(1) net_Write_sent recorders_ops(3))
qed auto

lemma completed_drop:
  "cn_writer c = recorders (Suc k) n \<Longrightarrow>
   cn_writer (drop_recorder (completed i r c)) = recorders k n
   \<and> cn_log (drop_recorder (completed i r c))
     = cn_log c @ [RequestCompleted i (req_Method r) (req_Path r) (rs_Status (net_response n))]"
  by (simp add: completed_def drop_recorder_def del: recorders.simps)

lemma recovered_drop:
  assumes "cn_writer c = recorders (Suc k) n" and "nw_sent n = None \<longrightarrow> nw_body n = []"
  shows "net_response (net (cn_writer (drop_recorder (recovered reason r c)))) =
      (if nw_sent n = None then with_headers (nw_header n) (writePublicError [] 500 ''internal server error'')
       else net_response n)"
    and "cn_log (drop_recorder (recovered reason r c)) = cn_log c @ [PanicRecovered [] reason (req_Method r) (req_Path r)]"
  using assms
  by (simp_all add: recovered_def drop_recorder_def Let_def send_answered with_headers_def
      del: recorders.simps not_None_eq)

lemma recovered_world [simp]: "cn_world (recovered reason r c) = cn_world c" "cn_world (completed i r c) = cn_world c"
  "cn_world (drop_recorder c) = cn_world c" "cn_log (drop_recorder c) = cn_log c"
  by (simp_all add: recovered_def completed_def Let_def drop_recorder_def)

text \<open>
  C17: whatever the routes do with a request, as long as they only use the methods of the writer,
  the stack returns in the world they left.  When they return, the client gets what they sent and
  the log line has the request id and the status that was sent.  When they panic before the header
  is sent, the client gets the headers set so far and a 500 with a public error, but with an empty
  request id, because the recovering middleware is outside the one that sets it; a panic after the
  header leaves the answer as it is.  A panic is logged, again without the request id, and the line
  of a completed request is missing.
\<close>

theorem stack_contains_panics:
  assumes "mux (Some (entry_id E V r w)) r (entry E V r w) = Some out"
    and "uses (cn_writer (entry E V r w)) (cn_writer (connection_of out))"
  shows "\<exists>c. middleware E V mux None r (accept_connection w) = Some (Returned c)
    \<and> cn_world c = cn_world (connection_of out)
    \<and> (case out of
         Returned c1 \<Rightarrow>
           net_response (net (cn_writer c)) = net_response (net (cn_writer c1))
           \<and> cn_log c = cn_log c1 @ [RequestCompleted (entry_id E V r w) (req_Method r) (req_Path r)
               (rs_Status (net_response (net (cn_writer c))))]
       | Panicked reason c1 \<Rightarrow>
           net_response (net (cn_writer c)) =
             (if nw_sent (net (cn_writer c1)) = None
              then with_headers (nw_header (net (cn_writer c1))) (writePublicError [] 500 ''internal server error'')
              else net_response (net (cn_writer c1)))
           \<and> cn_log c = cn_log c1 @ [PanicRecovered [] reason (req_Method r) (req_Path r)])"
proof -
  let ?n = "\<lparr>nw_header = (''X-Request-Id'', entry_id E V r w) # securityHeaders, nw_sent = None, nw_body = []\<rparr>"
  have "uses (recorders (Suc (Suc 0)) ?n) (cn_writer (connection_of out))"
    using assms(2) by (simp add: entry_eq del: recorders.simps)
  then obtain n where n: "cn_writer (connection_of out) = recorders (Suc (Suc 0)) n" "nw_sent n = None \<longrightarrow> nw_body n = []"
    using uses_recorders by fastforce
  show ?thesis
  proof (cases out)
    case (Returned c1)
    then have c1: "cn_writer c1 = recorders (Suc (Suc 0)) n" using n(1) by simp
    then show ?thesis
      using completed_drop [OF c1, of "entry_id E V r w" r]
      by (simp add: middleware_eq assms(1) Returned del: recorders.simps) (simp add: drop_recorder_def)
  next
    case (Panicked reason c1)
    then have c1: "cn_writer (drop_recorder c1) = recorders (Suc 0) n" "net (cn_writer c1) = n"
      using n(1) by (simp_all add: drop_recorder_def)
    show ?thesis
      using recovered_drop [OF c1(1) n(2), of reason r]
      by (simp add: middleware_eq assms(1) Panicked c1(2) del: recorders.simps)
  qed
qed

text \<open>A route that sets a header and panics.\<close>

definition exploding :: http_handler where
  "exploding context r c = Some (Panicked ''boom'' (writer_do (Header_Set ''X-A'' ''1'') c))"

theorem stack_contains_panics_witness:
  "\<exists>c. middleware demo_env demo_server exploding None (demo_request ''GET'' ''/livez'') (accept_connection (demo_world []))
      = Some (Returned c)
    \<and> rs_Status (net_response (net (cn_writer c))) = 500
    \<and> rs_Body (net_response (net (cn_writer c)))
      = ''{'' @ [quote] @ ''error'' @ [quote] @ '':'' @ [quote] @ ''internal server error'' @ [quote] @ ''}'' @ [nl]
    \<and> cn_log c = [PanicRecovered [] ''boom'' ''GET'' ''/livez'']"
proof -
  let ?r = "demo_request ''GET'' ''/livez''" and ?w = "demo_world []"
  let ?e = "entry demo_env demo_server ?r ?w"
  let ?c1 = "writer_do (Header_Set ''X-A'' ''1'') ?e"
  have run: "exploding (Some (entry_id demo_env demo_server ?r ?w)) ?r ?e = Some (Panicked ''boom'' ?c1)"
    by (simp add: exploding_def)
  have used: "uses (cn_writer ?e) (cn_writer (connection_of (Panicked ''boom'' ?c1)))"
    by (simp add: uses_nothing uses_Set)
  have e: "nw_sent (net (Header_Set ''X-A'' ''1'' (cn_writer ?e))) = None" "cn_log ?e = []"
    "req_Method ?r = ''GET''" "req_Path ?r = ''/livez''"
    by (simp_all add: entry_eq del: recorders.simps) (simp_all add: demo_request_def)
  have body: "rs_Body (writePublicError [] 500 ''internal server error'')
      = ''{'' @ [quote] @ ''error'' @ [quote] @ '':'' @ [quote] @ ''internal server error'' @ [quote] @ ''}'' @ [nl]"
    by code_simp
  show ?thesis
    using stack_contains_panics [of exploding demo_env demo_server ?r ?w, OF run used]
    by (auto simp: e body)
qed

end
