(* ===== verification/PropsHttp.thy ===== *)
theory PropsHttp
  imports Middleware
begin

text \<open>
  A webhook from the wire to the table and back: the router, the receiver, the service and the
  store together.
\<close>

section \<open>What a webhook is answered\<close>

text \<open>The messages a client can see in an error, whatever went wrong inside.\<close>

definition public_messages :: "string list" where
  "public_messages =
     [''unauthorized'', ''content type must be application/json'', ''payload exceeds max request size'',
      ''invalid request body'', ''invalid webhook payload'', ''service temporarily unavailable'',
      ''delivery temporarily unavailable'', ''internal server error'']"

definition public_answer :: "server \<Rightarrow> request \<Rightarrow> string \<Rightarrow> world \<Rightarrow> response_http \<Rightarrow> bool" where
  "public_answer V r i w rs \<longleftrightarrow>
     (if rs_Status rs \<in> {200, 202}
      then authorizeWebhook (sv_cfg V) r \<and> requireJSONContentType V r
        \<and> int (length (req_Body r)) \<le> MaxRequestBodyBytes (sv_cfg V)
        \<and> (\<exists>res. rs_Body rs = json_result res @ [nl]
             \<and> (\<exists>row \<in> set (tbl w). c_event_id row = ar_EventID res \<and> c_status row = ar_Status res))
      else rs_Status rs \<in> {400, 401, 413, 415, 500, 502, 503}
        \<and> (\<exists>m \<in> set public_messages. rs_Body rs = rs_Body (writePublicError i (rs_Status rs) m)))"

lemma public_error:
  "code \<in> {400, 401, 413, 415, 500, 502, 503} \<Longrightarrow> m \<in> set public_messages \<Longrightarrow>
   public_answer V r i w (writePublicError i code m)"
  by (auto simp: public_answer_def)

lemma publicErrorMessage_public: "code \<in> {400, 500, 502, 503} \<Longrightarrow> publicErrorMessage code \<in> set public_messages"
  by (auto simp: publicErrorMessage_def public_messages_def)

lemma public_answer_wrapped [simp]:
  "public_answer V r i (emit m w) (with_headers hs rs) = public_answer V r i w rs"
  by (simp add: public_answer_def)

lemma webhookReceiver_public:
  assumes "webhookReceiver E V i r w = Some (w', rs)"
  shows "public_answer V r i w' rs"
proof (cases "authorizeWebhook (sv_cfg V) r \<and> requireJSONContentType V r
    \<and> int (length (req_Body r)) \<le> MaxRequestBodyBytes (sv_cfg V) \<and> req_BodyErr r = None")
  case False
  then show ?thesis
    using assms by (auto simp: webhookReceiver_def Let_def public_messages_def intro!: public_error split: if_splits)
next
  case True
  let ?w = "emit (PayloadSize (length (req_Body r))) w"
  obtain w1 res code e where run: "AcceptWebhook E (sv_service V) (req_Body r) ?w = Some (w1, res, code, e)"
    using assms True by (auto simp: webhookReceiver_def Let_def split: option.splits)
  show ?thesis
  proof (cases e)
    case None
    then have "w' = w1" "rs = writeJSON code (json_result res)"
      using assms True run by (auto simp: webhookReceiver_def Let_def)
    then show ?thesis
      using acknowledged_is_stored [OF run] None True by (auto simp: public_answer_def writeJSON_def)
  next
    case (Some err)
    then have "w' = w1" "rs = writePublicError i code (publicErrorMessage code)"
      using assms True run by (auto simp: webhookReceiver_def Let_def)
    then show ?thesis
      using acknowledged_is_stored [OF run] Some publicErrorMessage_public by (auto intro!: public_error)
  qed
qed

text \<open>
  C7: over the wire a webhook is acknowledged only when it is stored: in every environment, when
  the router answers 200 or 202, the request was authorised, JSON and small enough, and the body
  names an event that is in the table with the status it reports.  Every other answer has one of
  seven codes, and its body is one of eight fixed messages with the request id: nothing of an
  internal error reaches the client.
\<close>

theorem http_acknowledged_is_stored:
  assumes "webhook_route r" and "NewRouter E V None r (accept_connection w) = Some (Returned c)"
  shows "public_answer V r (entry_id E V r w) (cn_world c) (net_response (net (cn_writer c)))"
proof -
  let ?i = "entry_id E V r w" and ?w1 = "fst (request_id E V r w)"
  obtain route where mux: "serve_mux E V ?i r ?w1 = withRoute route (webhookReceiver E V) ?i r ?w1"
    by (rule serve_mux_webhook [OF assms(1)])
  obtain w2 rs where inner: "webhookReceiver E V ?i r ?w1 = Some (w2, rs)"
    and c: "c = finished ?i r (emit (HTTPRequest route (req_Method r) (status_class (rs_Status rs))) w2) rs"
    using assms(2) by (auto simp: router_finished mux withRoute_def)
  show ?thesis using webhookReceiver_public [OF inner] by (simp add: c)
qed

definition good_request :: request where
  "good_request = (demo_request ''POST'' ''/webhook/grafana'')\<lparr>req_BodyErr := None\<rparr>"

theorem http_acknowledged_is_stored_witness:
  "\<exists>c res. NewRouter demo_env demo_server None good_request (accept_connection (demo_world [])) = Some (Returned c)
    \<and> rs_Status (net_response (net (cn_writer c))) = 200
    \<and> rs_Body (net_response (net (cn_writer c))) = json_result res @ [nl]
    \<and> ar_EventID res \<in> c_event_id ` set (tbl (cn_world c))"
proof -
  let ?R = "NewRouter demo_env demo_server None good_request (accept_connection (demo_world []))"
  have route: "webhook_route good_request" by (simp add: good_request_def demo_request_def)
  let ?i = "entry_id demo_env demo_server good_request (demo_world [])"
  let ?w1 = "fst (request_id demo_env demo_server good_request (demo_world []))"
  let ?w = "emit (PayloadSize (length (req_Body good_request))) ?w1"
  have hyps: "fresh_ids_from demo_env (ticks ?w) (tbl ?w)" "keys_ok (tbl ?w)"
    "decode_payload demo_service ''{}'' = Inr demo_payload" "tbl ?w = []"
    by (simp_all add: fresh_ids_from_def demo_env_def keys_ok_def demo_service_def)
  obtain w2 res where run: "AcceptWebhook demo_env demo_service ''{}'' ?w = Some (w2, res, 200, None)"
    using accept_calm [OF demo_calm(1) demo_roomy demo_willing hyps(1-3) demo_renders] hyps(4) by force
  have request: "sv_service demo_server = demo_service" "req_Body good_request = ''{}''" "req_BodyErr good_request = None"
    "authorizeWebhook (cfg demo_service) good_request" "requireJSONContentType demo_server good_request"
    "2 \<le> MaxRequestBodyBytes (cfg demo_service)"
    by (simp_all add: good_request_def demo_request_def demo_server_def demo_service_def demo_cfg_def
        authorizeWebhook_def secureCompare_def requireJSONContentType_def)
  have answer: "webhookReceiver demo_env demo_server ?i good_request ?w1 = Some (w2, writeJSON 200 (json_result res))"
    using run request by (simp add: webhookReceiver_def)
  obtain route where mux: "serve_mux demo_env demo_server ?i good_request ?w1
      = withRoute route (webhookReceiver demo_env demo_server) ?i good_request ?w1"
    by (rule serve_mux_webhook [OF route])
  obtain c where c: "?R = Some (Returned c)" "rs_Status (net_response (net (cn_writer c))) = 200"
    by (auto simp: router_finished mux withRoute_Some [where inner = "webhookReceiver demo_env demo_server", OF answer])
       (simp add: writeJSON_def)
  from http_acknowledged_is_stored [OF route c(1)] obtain res' where
    "rs_Body (net_response (net (cn_writer c))) = json_result res' @ [nl]"
    "ar_EventID res' \<in> c_event_id ` set (tbl (cn_world c))"
    unfolding public_answer_def c(2) by (metis (no_types, lifting) image_eqI insertI1)
  then show ?thesis using c by blast
qed

end
