(* ===== verification/Program.thy ===== *)
theory Program
  imports PropsStartup PropsHttp
begin

text \<open>
  The whole program (\<open>cmd/server/main.go\<close>): the start of \<open>Startup\<close>, then the router and the worker
  loop over whatever requests come and tickers fire, then the shutdown.  The properties here hold
  from the arguments of the process to its exit status.
\<close>

section \<open>Serving\<close>

text \<open>What the running program reacts to: a request on a connection and a ticker of \<open>Run\<close>.\<close>

datatype activity = Request request | Timer ticker

text \<open>
  One after the other, with what every request was answered; \<open>None\<close> is a request that is never
  answered.
\<close>

fun serve_http ::
  "env \<Rightarrow> server \<Rightarrow> activity list \<Rightarrow> world \<Rightarrow> (world \<times> (request \<times> response_http) list) option" where
  "serve_http E V [] w = Some (w, [])"
| "serve_http E V (Timer t # as) w = serve_http E V as (run_tick E (sv_service V) t w)"
| "serve_http E V (Request r # as) w =
     (case NewRouter E V None r (accept_connection w) of
        None \<Rightarrow> None
      | Some out \<Rightarrow>
          map_option (\<lambda>(w', replies). (w', (r, net_response (net (cn_writer (connection_of out)))) # replies))
            (serve_http E V as (cn_world (connection_of out))))"

text \<open>
  The router of \<open>main\<close> gets the services it has built; \<open>T\<close> holds what is not the program's own:
  the parsing of media types, the Unicode classes, the Prometheus handler and the multiplexer's
  answer to an unknown route.
\<close>

definition server_of :: "server \<Rightarrow> 'r app \<Rightarrow> server" where
  "server_of T a = T\<lparr>sv_service := app_service a\<rparr>"

text \<open>
  \<open>main\<close>: the state in which the process ends, the answers it has given and its exit status.  The
  signal, or a listener that fails, ends the activities; \<open>None\<close> is a panic of the start or a
  request that is never answered.
\<close>

definition main ::
  "'r platform \<Rightarrow> server \<Rightarrow> host \<Rightarrow> env \<Rightarrow> string \<Rightarrow> string \<Rightarrow> string list \<Rightarrow> activity list \<Rightarrow> world
   \<Rightarrow> (world \<times> (request \<times> response_http) list \<times> nat) option" where
  "main P T H E version revision args activities w =
     (case startup P H E version revision args w of
        None \<Rightarrow> None
      | Some (w1, Inl e) \<Rightarrow> Some (w1, [], 1)
      | Some (w1, Inr a) \<Rightarrow>
          (case serve_http E (server_of T a) activities (refreshQueueMetrics E (app_service a) w1) of
             None \<Rightarrow> None
           | Some (w2, replies) \<Rightarrow> Some (w2, replies, if Shutdown P \<noteq> None then 1 else 0)))"

section \<open>The table under requests\<close>

lemma Ping_tbl: "Ping E c w = (w', x) \<Longrightarrow> tbl w' = tbl w"
  using sql_exec_tbl [of E c "\<lambda>t. t" w] by (auto simp: Ping_def)

lemma SizeBytes_tbl: "SizeBytes E p w = (w', x) \<Longrightarrow> tbl w' = tbl w"
  by (auto simp: SizeBytes_def Let_def split: sum.splits)

lemma health_tbl: "health E V i r w = Some (w', rs) \<Longrightarrow> tbl w' = tbl w"
  by (auto simp: health_def Let_def split: prod.splits sum.splits if_splits dest!: Ping_tbl SizeBytes_tbl)

text \<open>Through the router a request does to the table what \<open>AcceptWebhook\<close> may do, or nothing.\<close>

context service_steps
begin

lemma receiver: "webhookReceiver E V i r w = Some (w', rs) \<Longrightarrow> R (tbl w) (tbl w')"
  using accept [of "sv_service V" "req_Body r" "emit (PayloadSize (length (req_Body r))) w"] same
  by (auto simp: webhookReceiver_def Let_def split: if_splits option.splits)

lemma routed: "withRoute route inner i r w = Some (w', rs) \<Longrightarrow>
    (\<And>w2 rs2. inner i r w = Some (w2, rs2) \<Longrightarrow> R (tbl w) (tbl w2)) \<Longrightarrow> R (tbl w) (tbl w')"
  by (auto simp: withRoute_def)

lemma guarded: "basicAuthMiddleware V inner i r w = Some (w', rs) \<Longrightarrow>
    (\<And>w2 rs2. inner i r w = Some (w2, rs2) \<Longrightarrow> R (tbl w) (tbl w2)) \<Longrightarrow> R (tbl w) (tbl w')"
  by (auto simp: basicAuthMiddleware_def same split: if_splits)

lemma mux:
  assumes "serve_mux E V i r w = Some (w', rs)"
  shows "R (tbl w) (tbl w')"
proof -
  have health: "health E V i r w = Some (w2, rs2) \<Longrightarrow> R (tbl w) (tbl w2)" for w2 rs2
    using same by (auto dest: health_tbl)
  show ?thesis
    using assms
    by (auto simp: serve_mux_def same livenessHandler_def dest!: receiver health
        elim!: routed guarded split: if_splits)
qed

lemma request:
  assumes "NewRouter E V None r (accept_connection w) = Some out"
  shows "R (tbl w) (tbl (cn_world (connection_of out)))"
  using assms mux by (fastforce simp: router_finished)

lemma serve_http: "serve_http E V as w = Some (w', replies) \<Longrightarrow> R (tbl w) (tbl w')"
proof (induction as arbitrary: w w' replies)
  case (Cons a as)
  show ?case
  proof (cases a)
    case (Timer t)
    then show ?thesis using Cons.IH [of "run_tick E (sv_service V) t w"] Cons.prems tick [of w "sv_service V" t] seq by simp
  next
    case (Request r)
    then obtain out replies' where "NewRouter E V None r (accept_connection w) = Some out"
      and "serve_http E V as (cn_world (connection_of out)) = Some (w', replies')"
      using Cons.prems by (auto split: option.splits)
    then show ?thesis using request Cons.IH seq by blast
  qed
qed (simp add: same)

end

section \<open>What the clients see\<close>

text \<open>On a webhook route: an acknowledgement only to a proper request, and otherwise a public error.\<close>

definition sound_reply :: "server \<Rightarrow> request \<Rightarrow> response_http \<Rightarrow> bool" where
  "sound_reply V r rs \<longleftrightarrow>
     (if rs_Status rs \<in> {200, 202}
      then authorizeWebhook (sv_cfg V) r \<and> requireJSONContentType V r
        \<and> int (length (req_Body r)) \<le> MaxRequestBodyBytes (sv_cfg V)
      else rs_Status rs \<in> {400, 401, 413, 415, 500, 502, 503}
        \<and> (\<exists>i. \<exists>m \<in> set public_messages. rs_Body rs = rs_Body (writePublicError i (rs_Status rs) m)))"

lemma public_sound: "public_answer V r i w rs \<Longrightarrow> sound_reply V r rs"
  unfolding sound_reply_def public_answer_def
  by (cases "rs_Status rs \<in> {200, 202}") (simp_all only: if_True if_False, blast+)

lemma sound_reply_wrapped [simp]: "sound_reply V r (with_headers hs rs) = sound_reply V r rs"
  by (simp add: sound_reply_def)

fun requests :: "activity list \<Rightarrow> request list" where
  "requests [] = []"
| "requests (Request r # as) = r # requests as"
| "requests (Timer t # as) = requests as"

lemma serve_http_replies:
  "serve_http E V as w = Some (w', replies) \<Longrightarrow>
   map fst replies = requests as \<and> (\<forall>(r, rs) \<in> set replies. webhook_route r \<longrightarrow> sound_reply V r rs)"
proof (induction as arbitrary: w w' replies)
  case (Cons a as)
  show ?case
  proof (cases a)
    case (Timer t)
    then show ?thesis using Cons by simp
  next
    case (Request r)
    then obtain out replies' where out: "NewRouter E V None r (accept_connection w) = Some out"
      and rest: "serve_http E V as (cn_world (connection_of out)) = Some (w', replies')"
      and replies: "replies = (r, net_response (net (cn_writer (connection_of out)))) # replies'"
      using Cons.prems by (auto split: option.splits)
    have "sound_reply V r (net_response (net (cn_writer (connection_of out))))" if route: "webhook_route r"
    proof -
      obtain w2 rs where mux: "serve_mux E V (entry_id E V r w) r (fst (request_id E V r w)) = Some (w2, rs)"
        and o: "out = Returned (finished (entry_id E V r w) r w2 rs)"
        using out by (auto simp: router_finished)
      obtain route where "serve_mux E V (entry_id E V r w) r (fst (request_id E V r w))
          = withRoute route (webhookReceiver E V) (entry_id E V r w) r (fst (request_id E V r w))"
        by (rule serve_mux_webhook [OF route])
      with mux have "withRoute route (webhookReceiver E V) (entry_id E V r w) r (fst (request_id E V r w)) = Some (w2, rs)"
        by simp
      then obtain w3 where "webhookReceiver E V (entry_id E V r w) r (fst (request_id E V r w)) = Some (w3, rs)"
        by (auto simp: withRoute_def)
      from public_sound [OF webhookReceiver_public [OF this]] show ?thesis by (simp add: o)
    qed
    then show ?thesis using Cons.IH [OF rest] Request by (auto simp: replies)
  qed
qed simp

section \<open>From start to exit\<close>



end
