(* ===== verification/Recovery.thy ===== *)
theory Recovery
  imports AcceptFacts PropsDelivery
begin

text \<open>
  The recovery loop after an outage: once the store works and Telegram accepts, a pass delivers
  every due event of its batch, and enough passes deliver everything that waits.
\<close>

section \<open>What an event still has to send\<close>

text \<open>
  The parts a delivery of the row would send: the stored ones from the first that is not sent yet,
  or those the payload is rendered to.
\<close>

definition to_send :: "env \<Rightarrow> service \<Rightarrow> row \<Rightarrow> string list \<Rightarrow> bool" where
  "to_send E S r ps \<longleftrightarrow>
     (\<exists>parts. ps = drop (nat (c_sent_parts r)) parts
        \<and> (unmarshal_strings (c_rendered_parts r) = Some (Some parts) \<and> parts \<noteq> []
           \<or> unmarshal_strings (c_rendered_parts r) = Some None
             \<and> (\<exists>payload v v'. decode_payload S (c_original_payload r) = Inr payload
                  \<and> buildMessages E S payload v = (v', Inr parts))))"

definition deliverable :: "env \<Rightarrow> service \<Rightarrow> row \<Rightarrow> bool" where
  "deliverable E S r \<longleftrightarrow> c_rendered_parts r \<noteq> []
     \<and> ((\<exists>parts. unmarshal_strings (c_rendered_parts r) = Some (Some parts) \<and> parts \<noteq> [])
        \<or> unmarshal_strings (c_rendered_parts r) = Some None
          \<and> (\<exists>payload. decode_payload S (c_original_payload r) = Inr payload \<and> renders E S payload))"

lemma framed_lookup: "framed i t u \<Longrightarrow> j \<noteq> i \<Longrightarrow> lookup j u = lookup j t"
  unfolding framed_def lookup_def
  by (induction rule: list_all2_induct) (auto simp: same_delivery_def)

section \<open>One event\<close>

lemma process_delivers:
  assumes calm: "calm_from E k" and k: "k \<le> ticks w" and willing: "willing_from E S k"
    and ok: "keys_ok (tbl w)" and row: "lookup i (tbl w) = Some r" and pend: "c_status r \<in> set pending_statuses"
    and sent: "0 \<le> c_sent_parts r" and can: "deliverable E S r"
  obtains w' r' ps where "ProcessEventByID E S i w = (w', None)" and "lookup i (tbl w') = Some r'"
    and "c_status r' = StatusDelivered" and "to_send E S r ps"
    and "accepted_texts w' = accepted_texts w @ ps" and "k \<le> ticks w'"
proof -
  have delivered: "c_status x = StatusDelivered"
    if "abs_row parts x = attempt l (asked E S) j (abs_row parts r)" "k \<le> j" for parts x l j
    using that(1) ask_all_willing [OF willing that(2), of "drop (nat (c_sent_parts r)) parts"]
    by (simp add: abs_row_def attempt_def verdict_def phase_Delivered)
  consider (stored) parts where "unmarshal_strings (c_rendered_parts r) = Some (Some parts)" "parts \<noteq> []"
    | (fresh) payload where "unmarshal_strings (c_rendered_parts r) = Some None"
        "decode_payload S (c_original_payload r) = Inr payload" "renders E S payload"
    using can unfolding deliverable_def by blast
  then show thesis
  proof cases
    case (stored parts)
    have asks: "ask_all (asked E S) (ticks w + 2) (drop (nat (c_sent_parts r)) parts)
        = (length (drop (nat (c_sent_parts r)) parts), None)"
      using ask_all_willing [OF willing] k by simp
    obtain w' r' where run: "ProcessEventByID E S i w = (w', None)" "lookup i (tbl w') = Some r'"
        "abs_row parts r' = attempt (MaxDeliveryAttempts (cfg S)) (asked E S) (ticks w + 2) (abs_row parts r)"
        "accepted_texts w' = accepted_texts w @ drop (nat (c_sent_parts r)) parts" "ticks w + 2 \<le> ticks w'"
      using process_calm [OF calm k ok row pend stored(1) _ stored(2) sent asks] can
      by (auto simp: deliverable_def)
    have "to_send E S r (drop (nat (c_sent_parts r)) parts)" using stored by (auto simp: to_send_def)
    then show thesis using that [OF run(1,2) delivered [OF run(3)] _ run(4)] run(5) k by simp
  next
    case (fresh payload)
    let ?w1 = "fst (ClaimForSend E Caller i (now E w) (step w))"
    obtain wb parts where build: "buildMessages E S payload ?w1 = (wb, Inr parts)"
      using fresh(3) unfolding renders_def by (metis prod.collapse)
    have kb: "k \<le> ticks wb + 1" using buildMessages_ticks [OF build] k by (simp add: ClaimForSend_ticks)
    have asks: "ask_all (asked E S) (ticks wb + 1) (drop (nat (c_sent_parts r)) parts)
        = (length (drop (nat (c_sent_parts r)) parts), None)"
      by (rule ask_all_willing [OF willing kb])
    obtain w' r' where run: "ProcessEventByID E S i w = (w', None)" "lookup i (tbl w') = Some r'"
        "abs_row parts r' = attempt (MaxDeliveryAttempts (cfg S)) (asked E S) (ticks wb + 1) (abs_row parts r)"
        "accepted_texts w' = accepted_texts w @ drop (nat (c_sent_parts r)) parts" "ticks wb < ticks w'"
      using process_fresh_calm [OF calm k ok row pend fresh(1) _ fresh(2) build sent asks] can
      by (auto simp: deliverable_def)
    have "to_send E S r (drop (nat (c_sent_parts r)) parts)" using fresh(1,2) build by (auto simp: to_send_def)
    then show thesis using that [OF run(1,2) delivered [OF run(3) kb] _ run(4)] run(5) kb by simp
  qed
qed

section \<open>One batch\<close>

lemma recover_loop_delivers:
  assumes calm: "calm_from E k" and willing: "willing_from E S k"
  shows "distinct ids \<Longrightarrow> keys_ok (tbl w) \<Longrightarrow> rows_ok (tbl w) \<Longrightarrow> k \<le> ticks w \<Longrightarrow>
    (\<And>i. i \<in> set ids \<Longrightarrow> \<exists>r. lookup i (tbl w) = Some r \<and> c_status r \<in> set pending_statuses \<and> deliverable E S r) \<Longrightarrow>
    \<exists>w' pss. recover_loop E S ids w = (w', None) \<and> k \<le> ticks w'
      \<and> (\<forall>i \<in> set ids. \<exists>r'. lookup i (tbl w') = Some r' \<and> c_status r' = StatusDelivered)
      \<and> (\<forall>i. i \<notin> set ids \<longrightarrow> lookup i (tbl w') = lookup i (tbl w))
      \<and> list_all2 (\<lambda>i ps. \<exists>r. lookup i (tbl w) = Some r \<and> to_send E S r ps) ids pss
      \<and> accepted_texts w' = accepted_texts w @ concat pss"
proof (induction ids arbitrary: w)
  case (Cons i ids)
  obtain r where r: "lookup i (tbl w) = Some r" "c_status r \<in> set pending_statuses" "deliverable E S r"
    using Cons.prems(5) [of i] by auto
  have sent: "0 \<le> c_sent_parts r" using Cons.prems(3) lookup_in [OF r(1)] by (simp add: rows_ok_def row_ok_def)
  obtain w1 r1 ps where w1: "ProcessEventByID E S i (step w) = (w1, None)" "lookup i (tbl w1) = Some r1"
      "c_status r1 = StatusDelivered" "to_send E S r ps" "accepted_texts w1 = accepted_texts (step w) @ ps" "k \<le> ticks w1"
    by (rule process_delivers [OF calm _ willing _ _ r(2) sent r(3), of "step w" i])
      (use Cons.prems r in auto)
  have other: "lookup j (tbl w1) = lookup j (tbl w)" if "j \<noteq> i" for j
    using framed_lookup [OF _ that] frame.R_ProcessEventByID [of i "step w" E S] w1(1) by simp
  have ok1: "keys_ok (tbl w1)" "rows_ok (tbl w1)"
    using keys.R_process [of "step w" E S i] rows.R_process [of "step w" E S i] Cons.prems(2,3) w1(1) by simp_all
  have same: "lookup j (tbl w1) = lookup j (tbl w)" if "j \<in> set ids" for j
    using Cons.prems(1) other [of j] that by auto
  have rest: "\<exists>r. lookup j (tbl w1) = Some r \<and> c_status r \<in> set pending_statuses \<and> deliverable E S r"
    if "j \<in> set ids" for j
    using Cons.prems(1) Cons.prems(5) [of j] other [of j] that by fastforce
  have "\<exists>w' pss. recover_loop E S ids w1 = (w', None) \<and> k \<le> ticks w'
      \<and> (\<forall>i \<in> set ids. \<exists>r'. lookup i (tbl w') = Some r' \<and> c_status r' = StatusDelivered)
      \<and> (\<forall>i. i \<notin> set ids \<longrightarrow> lookup i (tbl w') = lookup i (tbl w1))
      \<and> list_all2 (\<lambda>i ps. \<exists>r. lookup i (tbl w1) = Some r \<and> to_send E S r ps) ids pss
      \<and> accepted_texts w' = accepted_texts w1 @ concat pss"
    by (rule Cons.IH [OF _ ok1 w1(6) rest]) (use Cons.prems(1) in auto)
  then obtain w' pss where w': "recover_loop E S ids w1 = (w', None)" "k \<le> ticks w'"
      "\<forall>i \<in> set ids. \<exists>r'. lookup i (tbl w') = Some r' \<and> c_status r' = StatusDelivered"
      "\<forall>i. i \<notin> set ids \<longrightarrow> lookup i (tbl w') = lookup i (tbl w1)"
      "list_all2 (\<lambda>i ps. \<exists>r. lookup i (tbl w1) = Some r \<and> to_send E S r ps) ids pss"
      "accepted_texts w' = accepted_texts w1 @ concat pss"
    by blast
  have "list_all2 (\<lambda>i ps. \<exists>r. lookup i (tbl w) = Some r \<and> to_send E S r ps) ids pss"
    using w'(5) by (rule list.rel_mono_strong) (simp add: same)
  moreover have "check_ctx E w = (step w, None)"
    using calm_ctx [OF calm Cons.prems(4)] by (simp add: check_ctx_def)
  moreover have "accepted_texts w' = accepted_texts w @ concat (ps # pss)"
    using w'(6) w1(5) by (simp add: accepted_texts_def)
  ultimately show ?case
    using w' w1(1-4) r(1) other Cons.prems(1)
    by (intro exI [of _ w'] exI [of _ "ps # pss"]) auto
qed simp

lemma distinct_due_ids:
  assumes "keys_ok t"
  shows "distinct (due_ids x n t)"
proof -
  let ?rows = "limit_rows n (sort_key c_created_at (filter (due x) t))"
  have "set ?rows \<subseteq> set t" using set_limit_rows [of n "sort_key c_created_at (filter (due x) t)"] by auto
  then have "inj_on c_event_id (set ?rows)" using assms by (auto simp: keys_ok_def distinct_map intro: inj_on_subset)
  moreover have "distinct ?rows" using assms by (auto simp: keys_ok_def distinct_map intro: distinct_limit_rows)
  ultimately show ?thesis by (simp add: due_ids_def distinct_map)
qed

lemma RecoverPending_delivers:
  assumes calm: "calm_from E (ticks w)" and willing: "willing_from E S (ticks w)"
    and ok: "keys_ok (tbl w)" "rows_ok (tbl w)"
    and can: "\<forall>r \<in> set (tbl w). due (now E w) r \<longrightarrow> deliverable E S r"
  shows "\<exists>w' pss. RecoverPending E S w = (w', None) \<and> ticks w \<le> ticks w'
    \<and> (\<forall>i \<in> set (due_ids (now E w) (WorkerBatchSize (cfg S)) (tbl w)).
         \<exists>r'. lookup i (tbl w') = Some r' \<and> c_status r' = StatusDelivered)
    \<and> (\<forall>i. i \<notin> set (due_ids (now E w) (WorkerBatchSize (cfg S)) (tbl w)) \<longrightarrow> lookup i (tbl w') = lookup i (tbl w))
    \<and> list_all2 (\<lambda>i ps. \<exists>r. lookup i (tbl w) = Some r \<and> to_send E S r ps)
        (due_ids (now E w) (WorkerBatchSize (cfg S)) (tbl w)) pss
    \<and> accepted_texts w' = accepted_texts w @ concat pss"
proof -
  let ?ids = "due_ids (now E w) (WorkerBatchSize (cfg S)) (tbl w)"
  let ?w = "observe ''list_due_event_ids'' None (step (step w))"
  have list: "ListDueEventIDs E Caller (now E w) (WorkerBatchSize (cfg S)) (step w) = (?w, Inr ?ids)"
    using calm_fault [OF calm, of "step w"] by (simp add: ListDueEventIDs_def query_fault_def Let_def)
  have ready: "\<exists>r. lookup i (tbl ?w) = Some r \<and> c_status r \<in> set pending_statuses \<and> deliverable E S r"
    if mem: "i \<in> set ?ids" for i
  proof -
    obtain r where r: "r \<in> set (tbl w)" "c_event_id r = i" "due (now E w) r" using due_ids_sound [OF mem] by blast
    have "lookup i (tbl w) = Some r"
      using ok(1) r(1,2) lookup_unique [OF ok(1) _ r(1,2)] by (cases "lookup i (tbl w)") (auto simp: lookup_def find_None_iff)
    then show ?thesis using r can by (auto simp: due_def)
  qed
  obtain w' pss where "recover_loop E S ?ids ?w = (w', None)" "ticks w \<le> ticks w'"
      "\<forall>i \<in> set ?ids. \<exists>r'. lookup i (tbl w') = Some r' \<and> c_status r' = StatusDelivered"
      "\<forall>i. i \<notin> set ?ids \<longrightarrow> lookup i (tbl w') = lookup i (tbl ?w)"
      "list_all2 (\<lambda>i ps. \<exists>r. lookup i (tbl ?w) = Some r \<and> to_send E S r ps) ?ids pss"
      "accepted_texts w' = accepted_texts ?w @ concat pss"
    using recover_loop_delivers [OF calm willing distinct_due_ids [OF ok(1)], of ?w] ok ready by fastforce
  then show ?thesis
    using list by (intro exI [of _ w'] exI [of _ pss]) (simp add: RecoverPending_def accepted_texts_def)
qed

section \<open>The whole queue\<close>

definition waiting :: "row list \<Rightarrow> string set" where
  "waiting t = {i. \<exists>r. lookup i t = Some r \<and> c_status r \<in> set pending_statuses}"

text \<open>Everything that waits is due and can be rendered.\<close>

definition ready :: "env \<Rightarrow> service \<Rightarrow> world \<Rightarrow> bool" where
  "ready E S w \<longleftrightarrow> keys_ok (tbl w) \<and> rows_ok (tbl w)
     \<and> (\<forall>r \<in> set (tbl w). c_status r \<in> set pending_statuses \<longrightarrow> due (now E w) r \<and> deliverable E S r)"

lemma lookup_mem: "keys_ok t \<Longrightarrow> r \<in> set t \<Longrightarrow> lookup (c_event_id r) t = Some r"
  using lookup_unique [of t "c_event_id r" _ r]
  by (cases "lookup (c_event_id r) t") (auto simp: lookup_def find_None_iff)

lemma waiting_rows:
  assumes "keys_ok t"
  shows "waiting t = c_event_id ` set (filter (\<lambda>r. c_status r \<in> set pending_statuses) t)"
    and "card (waiting t) = length (filter (\<lambda>r. c_status r \<in> set pending_statuses) t)"
proof -
  let ?rows = "filter (\<lambda>r. c_status r \<in> set pending_statuses) t"
  show eq: "waiting t = c_event_id ` set ?rows"
    using lookup_mem [OF assms] by (auto simp: waiting_def image_iff dest: lookup_in lookup_id)
  have "inj_on c_event_id (set ?rows)" "distinct ?rows"
    using assms by (auto simp: keys_ok_def distinct_map intro: inj_on_subset)
  then show "card (waiting t) = length ?rows" unfolding eq by (simp only: card_image distinct_card)
qed

lemma due_later: "due t r \<Longrightarrow> t \<le> u \<Longrightarrow> due u r"
  by (auto simp: due_def split: option.splits)

lemma due_pending: "ready E S w \<Longrightarrow> filter (due (now E w)) (tbl w) = filter (\<lambda>r. c_status r \<in> set pending_statuses) (tbl w)"
  by (rule filter_cong [OF refl]) (auto simp: ready_def due_def)

lemma refresh_ticks: "ticks w \<le> ticks (refreshQueueMetrics E S w)" and refresh_sends: "sends (refreshQueueMetrics E S w) = sends w"
  by (simp_all add: refreshQueueMetrics_def Let_def CountQueued_def OldestQueuedAge_def SizeBytes_def split: sum.split option.split)

text \<open>What one recovery tick does to a ready queue.\<close>

lemma tick_delivers:
  assumes calm: "calm_from E k" and willing: "willing_from E S k" and k: "k \<le> ticks w"
    and clock: "mono (clock E)" and r: "ready E S w" and batch: "0 < WorkerBatchSize (cfg S)"
  obtains w1 ids pss where "run_tick E S RecoveryTick w = w1" and "k \<le> ticks w1" and "ready E S w1"
    and "distinct ids" and "set ids \<subseteq> waiting (tbl w)" and "waiting (tbl w1) = waiting (tbl w) - set ids"
    and "length ids = min (nat (WorkerBatchSize (cfg S))) (card (waiting (tbl w)))"
    and "\<forall>i \<in> set ids. \<exists>r'. lookup i (tbl w1) = Some r' \<and> c_status r' = StatusDelivered"
    and "\<forall>i. i \<notin> set ids \<longrightarrow> lookup i (tbl w1) = lookup i (tbl w)"
    and "list_all2 (\<lambda>i ps. \<exists>r. lookup i (tbl w) = Some r \<and> to_send E S r ps) ids pss"
    and "accepted_texts w1 = accepted_texts w @ concat pss"
proof -
  let ?v = "refreshQueueMetrics E S w"
  let ?ids = "due_ids (now E ?v) (WorkerBatchSize (cfg S)) (tbl w)"
  have v: "tbl ?v = tbl w" "ticks w \<le> ticks ?v" "k \<le> ticks ?v" "accepted_texts ?v = accepted_texts w"
    using refresh_ticks [of w E S] k by (simp_all add: keys.refresh_tbl accepted_texts_def refresh_sends)
  have later: "now E w \<le> now E ?v" using clock v(2) by (simp add: now_def monoD)
  have rv: "ready E S ?v" using r v(1) due_later [OF _ later] by (auto simp: ready_def)
  have calmv: "calm_from E (ticks ?v)" "willing_from E S (ticks ?v)"
    using calm willing v(3) by (auto simp: calm_from_def willing_from_def)
  have ok: "keys_ok (tbl ?v)" "rows_ok (tbl ?v)" and can: "\<forall>r \<in> set (tbl ?v). due (now E ?v) r \<longrightarrow> deliverable E S r"
    using rv by (auto simp: ready_def due_def)
  obtain w1 pss where w1: "RecoverPending E S ?v = (w1, None)" "ticks ?v \<le> ticks w1"
      "\<forall>i \<in> set ?ids. \<exists>r'. lookup i (tbl w1) = Some r' \<and> c_status r' = StatusDelivered"
      "\<forall>i. i \<notin> set ?ids \<longrightarrow> lookup i (tbl w1) = lookup i (tbl w)"
      "list_all2 (\<lambda>i ps. \<exists>r. lookup i (tbl w) = Some r \<and> to_send E S r ps) ?ids pss"
      "accepted_texts w1 = accepted_texts w @ concat pss"
    using RecoverPending_delivers [OF calmv ok can] v(1,4) by auto
  have settled: "StatusDelivered \<notin> set pending_statuses" by (simp add: pending_statuses_def)
  have sub: "set ?ids \<subseteq> waiting (tbl w)"
  proof
    fix i assume "i \<in> set ?ids"
    from due_ids_sound [OF this] show "i \<in> waiting (tbl w)"
      using lookup_mem ok(1) v(1) by (fastforce simp: waiting_def due_def)
  qed
  have left: "waiting (tbl w1) = waiting (tbl w) - set ?ids"
  proof (rule set_eqI)
    fix i
    show "i \<in> waiting (tbl w1) \<longleftrightarrow> i \<in> waiting (tbl w) - set ?ids"
    proof (cases "i \<in> set ?ids")
      case True
      then obtain r' where "lookup i (tbl w1) = Some r'" "c_status r' = StatusDelivered" using w1(3) by blast
      then show ?thesis using True settled by (simp add: waiting_def)
    next
      case False
      then show ?thesis using w1(4) by (simp add: waiting_def)
    qed
  qed
  have "keys_ok (tbl w1)" "rows_ok (tbl w1)"
    using keys.recover [of ?v E S] rows.recover [of ?v E S] ok w1(1) by simp_all
  moreover have "due (now E w1) x \<and> deliverable E S x" if x: "x \<in> set (tbl w1)" "c_status x \<in> set pending_statuses" for x
  proof -
    have l: "lookup (c_event_id x) (tbl w1) = Some x" using lookup_mem [OF \<open>keys_ok (tbl w1)\<close> x(1)] .
    then have "c_event_id x \<notin> set ?ids" using w1(3) settled x(2) by fastforce
    then have "x \<in> set (tbl w)" using l w1(4) lookup_in by fastforce
    moreover have "now E ?v \<le> now E w1" using clock w1(2) by (simp add: now_def monoD)
    ultimately show ?thesis using rv x(2) v(1) due_later by (auto simp: ready_def)
  qed
  ultimately have "ready E S w1" by (simp add: ready_def)
  moreover have "length ?ids = min (nat (WorkerBatchSize (cfg S))) (card (waiting (tbl w)))"
    using batch due_pending [OF rv] waiting_rows(2) ok(1) v(1) by (simp add: due_ids_def limit_rows_def)
  ultimately show thesis
    using that [of w1 ?ids pss] w1 v(3) sub left distinct_due_ids ok(1) v(1) by simp
qed

lemma ticks_drain:
  assumes calm: "calm_from E k" and willing: "willing_from E S k" and clock: "mono (clock E)"
    and batch: "0 < WorkerBatchSize (cfg S)"
  shows "k \<le> ticks w \<Longrightarrow> ready E S w \<Longrightarrow> card (waiting (tbl w)) \<le> n * nat (WorkerBatchSize (cfg S)) \<Longrightarrow>
    \<exists>w' ids pss. foldl (\<lambda>w t. run_tick E S t w) w (replicate n RecoveryTick) = w'
      \<and> distinct ids \<and> set ids = waiting (tbl w)
      \<and> (\<forall>i \<in> set ids. \<exists>r'. lookup i (tbl w') = Some r' \<and> c_status r' = StatusDelivered)
      \<and> (\<forall>i. i \<notin> set ids \<longrightarrow> lookup i (tbl w') = lookup i (tbl w))
      \<and> list_all2 (\<lambda>i ps. \<exists>r. lookup i (tbl w) = Some r \<and> to_send E S r ps) ids pss
      \<and> accepted_texts w' = accepted_texts w @ concat pss"
proof (induction n arbitrary: w)
  case 0
  have "finite (waiting (tbl w))" using "0.prems"(2) by (simp add: waiting_rows(1) ready_def)
  then show ?case using "0.prems"(3) by simp
next
  case (Suc n)
  obtain w1 ids pss where w1: "run_tick E S RecoveryTick w = w1" "k \<le> ticks w1" "ready E S w1"
      "distinct ids" "set ids \<subseteq> waiting (tbl w)" "waiting (tbl w1) = waiting (tbl w) - set ids"
      "length ids = min (nat (WorkerBatchSize (cfg S))) (card (waiting (tbl w)))"
      "\<forall>i \<in> set ids. \<exists>r'. lookup i (tbl w1) = Some r' \<and> c_status r' = StatusDelivered"
      "\<forall>i. i \<notin> set ids \<longrightarrow> lookup i (tbl w1) = lookup i (tbl w)"
      "list_all2 (\<lambda>i ps. \<exists>r. lookup i (tbl w) = Some r \<and> to_send E S r ps) ids pss"
      "accepted_texts w1 = accepted_texts w @ concat pss"
    by (rule tick_delivers [OF calm willing Suc.prems(1) clock Suc.prems(2) batch])
  have "card (waiting (tbl w1)) = card (waiting (tbl w)) - length ids"
    using w1(4,5,6) by (simp add: card_Diff_subset distinct_card)
  then have "card (waiting (tbl w1)) \<le> n * nat (WorkerBatchSize (cfg S))"
    using w1(7) Suc.prems(3) by (simp add: min_def split: if_splits)
  from Suc.IH [OF w1(2,3) this] obtain w' ids' pss' where w':
      "foldl (\<lambda>w t. run_tick E S t w) w1 (replicate n RecoveryTick) = w'"
      "distinct ids'" "set ids' = waiting (tbl w1)"
      "\<forall>i \<in> set ids'. \<exists>r'. lookup i (tbl w') = Some r' \<and> c_status r' = StatusDelivered"
      "\<forall>i. i \<notin> set ids' \<longrightarrow> lookup i (tbl w') = lookup i (tbl w1)"
      "list_all2 (\<lambda>i ps. \<exists>r. lookup i (tbl w1) = Some r \<and> to_send E S r ps) ids' pss'"
      "accepted_texts w' = accepted_texts w1 @ concat pss'"
    by blast
  have same: "lookup i (tbl w1) = lookup i (tbl w)" if "i \<in> set ids'" for i using that w'(3) w1(6,9) by simp
  have "list_all2 (\<lambda>i ps. \<exists>r. lookup i (tbl w) = Some r \<and> to_send E S r ps) ids' pss'"
    using w'(6) by (rule list.rel_mono_strong) (simp add: same)
  then have "list_all2 (\<lambda>i ps. \<exists>r. lookup i (tbl w) = Some r \<and> to_send E S r ps) (ids @ ids') (pss @ pss')"
    by (rule list_all2_appendI [OF w1(10)])
  moreover have "distinct (ids @ ids')" "set (ids @ ids') = waiting (tbl w)" using w1(4,5,6) w'(2,3) by auto
  moreover have "\<exists>r'. lookup i (tbl w') = Some r' \<and> c_status r' = StatusDelivered" if "i \<in> set (ids @ ids')" for i
    using that w1(6,8) w'(3,4,5) by (cases "i \<in> set ids'") auto
  moreover have "lookup i (tbl w') = lookup i (tbl w)" if "i \<notin> set (ids @ ids')" for i
    using that w1(9) w'(5) by simp
  ultimately show ?case
    using w1(1,11) w'(1,7) by (intro exI [of _ w'] exI [of _ "ids @ ids'"] exI [of _ "pss @ pss'"]) simp
qed

section \<open>Property\<close>



end
