(* ===== verification/Dialer.thy ===== *)
theory Dialer
  imports Failure
begin

text \<open>
  \<open>dialContextFromDialer\<close> (\<open>internal/telegram/client.go\<close>): how a dialer without contexts is made one
  that gives up when the context is done.  The call of \<open>Dial\<close> runs in a goroutine of its own and
  leaves its result in a channel of capacity 1; the caller waits for whatever is first.  The two
  goroutines, the channel and the context are a step relation; the dialer (a third-party package)
  is a parameter, of which nothing is assumed but that \<open>Dial\<close> returns.
\<close>

section \<open>The state\<close>

datatype 'c goroutine = Dialing | HasResult "'c result" | Exited

record 'c dial_state =
  ds_goroutine :: "'c goroutine"
  ds_channel :: "'c result list"
  ds_caller :: "'c result option"
  ds_context :: "ctx_err option"

definition dial_capacity :: nat where
  "dial_capacity = 1"

definition dial_start :: "ctx_err option \<Rightarrow> 'c dial_state" where
  "dial_start context = \<lparr>ds_goroutine = Dialing, ds_channel = [], ds_caller = None, ds_context = context\<rparr>"

text \<open>A dialer, and a conn dialer if it has a \<open>DialContext\<close> of its own.\<close>

record 'c dialer =
  Dial :: "string \<Rightarrow> string \<Rightarrow> 'c result"
  DialContext :: "(ctx_err option \<Rightarrow> string \<Rightarrow> string \<Rightarrow> 'c result) option"

text \<open>
  One step: the goroutine gets the result or puts it into the channel, the context ends, or the
  caller takes one of the branches of its \<open>select\<close> that are ready.
\<close>

inductive dial_step :: "'c result \<Rightarrow> 'c dial_state \<Rightarrow> 'c dial_state \<Rightarrow> bool" for dialed where
  step_dial: "ds_goroutine s = Dialing \<Longrightarrow> dial_step dialed s (s\<lparr>ds_goroutine := HasResult dialed\<rparr>)"
| step_put: "ds_goroutine s = HasResult r \<Longrightarrow> length (ds_channel s) < dial_capacity \<Longrightarrow>
    dial_step dialed s (s\<lparr>ds_goroutine := Exited, ds_channel := ds_channel s @ [r]\<rparr>)"
| step_context: "ds_context s = None \<Longrightarrow> dial_step dialed s (s\<lparr>ds_context := Some e\<rparr>)"
| step_give_up: "ds_caller s = None \<Longrightarrow> ds_context s = Some e \<Longrightarrow>
    dial_step dialed s (s\<lparr>ds_caller := Some (Inl (CtxErr e))\<rparr>)"
| step_take: "ds_caller s = None \<Longrightarrow> ds_channel s = r # rs \<Longrightarrow>
    dial_step dialed s (s\<lparr>ds_caller := Some r, ds_channel := rs\<rparr>)"

inductive_cases dial_stepE: "dial_step dialed s s'"

abbreviation dial_run :: "'c result \<Rightarrow> 'c dial_state \<Rightarrow> 'c dial_state \<Rightarrow> bool" where
  "dial_run dialed \<equiv> (dial_step dialed)\<^sup>*\<^sup>*"

text \<open>
  What a call may return, and what it may leave in the channel, which nobody reads any more, when
  both goroutines are done.
\<close>

inductive dialContext ::
  "'c dialer \<Rightarrow> ctx_err option \<Rightarrow> string \<Rightarrow> string \<Rightarrow> 'c result \<Rightarrow> 'c result list \<Rightarrow> bool" for D ended where
  own: "DialContext D = Some f \<Longrightarrow> dialContext D ended network address (f ended network address) []"
| adapted: "DialContext D = None \<Longrightarrow> dial_run (Dial D network address) (dial_start ended) s \<Longrightarrow>
    ds_goroutine s = Exited \<Longrightarrow> ds_caller s = Some r \<Longrightarrow>
    dialContext D ended network address r (ds_channel s)"

section \<open>The invariant\<close>

text \<open>
  The result is in exactly one place: with the goroutine, in the channel, or with the caller; a
  caller that does not have it has the error of a context that is done.
\<close>

definition dial_inv :: "'c result \<Rightarrow> 'c dial_state \<Rightarrow> bool" where
  "dial_inv dialed s \<longleftrightarrow>
     (case ds_goroutine s of
        Exited \<Rightarrow>
          ds_channel s = [dialed] \<and> (ds_caller s = None \<or> (\<exists>e. ds_context s = Some e \<and> ds_caller s = Some (Inl (CtxErr e))))
          \<or> ds_channel s = [] \<and> ds_caller s = Some dialed
      | g \<Rightarrow>
          ds_channel s = [] \<and> (g = Dialing \<or> g = HasResult dialed)
          \<and> (ds_caller s = None \<or> (\<exists>e. ds_context s = Some e \<and> ds_caller s = Some (Inl (CtxErr e)))))"

lemma dial_inv_start: "dial_inv dialed (dial_start context)"
  by (simp add: dial_inv_def dial_start_def)

lemma dial_inv_step: "dial_step dialed s s' \<Longrightarrow> dial_inv dialed s \<Longrightarrow> dial_inv dialed s'"
  by (induction rule: dial_step.induct) (auto simp: dial_inv_def dial_capacity_def split: goroutine.splits)

lemma dial_inv_run: "dial_run dialed s s' \<Longrightarrow> dial_inv dialed s \<Longrightarrow> dial_inv dialed s'"
  by (induction rule: rtranclp_induct) (auto intro: dial_inv_step)

text \<open>Every step uses up something, so a run has at most four.\<close>

definition dial_left :: "'c dial_state \<Rightarrow> nat" where
  "dial_left s = (case ds_goroutine s of Dialing \<Rightarrow> 2 | HasResult r \<Rightarrow> 1 | Exited \<Rightarrow> 0)
     + (if ds_caller s = None then 1 else 0) + (if ds_context s = None then 1 else 0)"

lemma dial_left_step: "dial_step dialed s s' \<Longrightarrow> Suc (dial_left s') = dial_left s"
  by (induction rule: dial_step.induct) (auto simp: dial_left_def)

lemma dial_left_run: "(dial_step dialed ^^ n) s s' \<Longrightarrow> n + dial_left s' = dial_left s"
proof (induction n arbitrary: s')
  case (Suc n)
  then obtain t where "(dial_step dialed ^^ n) s t" "dial_step dialed t s'" by auto
  then show ?case using Suc.IH dial_left_step by fastforce
qed simp

text \<open>The goroutine is never stuck on the channel, which is why the channel has room for one.\<close>

lemma dial_progress:
  assumes "dial_inv dialed s" and "\<nexists>s'. dial_step dialed s s'"
  shows "ds_goroutine s = Exited \<and> ds_caller s \<noteq> None"
proof (rule ccontr)
  assume "\<not> ?thesis"
  then consider "ds_goroutine s = Dialing" | r where "ds_goroutine s = HasResult r"
    | "ds_goroutine s = Exited" "ds_caller s = None"
    by (cases "ds_goroutine s") auto
  then show False
  proof cases
    case 1
    then show False using assms(2) step_dial by blast
  next
    case (2 r)
    then have "length (ds_channel s) < dial_capacity" using assms(1) by (simp add: dial_inv_def dial_capacity_def)
    then show False using 2 assms(2) step_put by blast
  next
    case 3
    then have "ds_channel s = [dialed]" using assms(1) by (auto simp: dial_inv_def)
    then show False using 3 assms(2) step_take [OF 3(2)] by blast
  qed
qed

section \<open>Properties\<close>

text \<open>
  C39: the dial adapter: every run of the two goroutines ends, after at most four steps, and ends
  with both of them done: the goroutine is never stuck on the channel.  The caller then has the
  dialer's result, or the error of a context that is done; in that case the dialer's result, a
  connection perhaps, is what the channel still holds.
\<close>

theorem dial_adapter_ends:
  assumes "(dial_step dialed ^^ n) (dial_start ended) s"
  shows "n \<le> 4 \<and> ((\<exists>s'. dial_step dialed s s')
    \<or> ds_goroutine s = Exited
      \<and> (ds_caller s = Some dialed \<and> ds_channel s = []
         \<or> (\<exists>e. ds_context s = Some e \<and> ds_caller s = Some (Inl (CtxErr e)) \<and> ds_channel s = [dialed])))"
proof -
  have "n \<le> 4"
    using dial_left_run [OF assms] by (auto simp: dial_left_def dial_start_def split: if_splits)
  moreover have "dial_run dialed (dial_start ended) s" using assms by (auto simp: rtranclp_power)
  then have "dial_inv dialed s" by (rule dial_inv_run [OF _ dial_inv_start])
  ultimately show ?thesis using dial_progress [of dialed s] by (auto simp: dial_inv_def)
qed

text \<open>The run in which the context ends first and the dialer answers afterwards.\<close>

definition abandoned :: "'c result \<Rightarrow> ctx_err \<Rightarrow> 'c dial_state" where
  "abandoned dialed e =
     \<lparr>ds_goroutine = Exited, ds_channel = [dialed], ds_caller = Some (Inl (CtxErr e)), ds_context = Some e\<rparr>"

lemma abandoned_run: "(dial_step dialed ^^ 4) (dial_start None) (abandoned dialed e)"
proof -
  let ?s1 = "\<lparr>ds_goroutine = Dialing, ds_channel = [], ds_caller = None, ds_context = Some e\<rparr>"
  let ?s2 = "\<lparr>ds_goroutine = Dialing, ds_channel = [], ds_caller = Some (Inl (CtxErr e)), ds_context = Some e\<rparr>"
  let ?s3 = "\<lparr>ds_goroutine = HasResult dialed, ds_channel = [], ds_caller = Some (Inl (CtxErr e)), ds_context = Some e\<rparr>"
  have "dial_step dialed (dial_start None) ?s1"
    using step_context [of "dial_start None" dialed e] by (simp add: dial_start_def)
  moreover have "dial_step dialed ?s1 ?s2" using step_give_up [of ?s1 e dialed] by simp
  moreover have "dial_step dialed ?s2 ?s3" using step_dial [of ?s2 dialed] by simp
  moreover have "dial_step dialed ?s3 (abandoned dialed e)"
    using step_put [of ?s3 dialed dialed] by (simp add: dial_capacity_def abandoned_def)
  ultimately show ?thesis by (auto simp: numeral_eq_Suc)
qed

lemma abandoned_final: "\<not> dial_step dialed (abandoned dialed e) s"
  by (auto simp: abandoned_def elim: dial_stepE)

theorem dial_adapter_ends_witness:
  "(dial_step (Inr (7::nat)) ^^ 4) (dial_start None) (abandoned (Inr 7) DeadlineExceeded)
   \<and> ds_channel (abandoned (Inr (7::nat)) DeadlineExceeded) = [Inr 7]"
  using dial_adapter_ends [OF abandoned_run [of "Inr (7::nat)" DeadlineExceeded]] abandoned_run abandoned_final
  by (auto simp: abandoned_def)

text \<open>
  A dial that is given up leaks its connection: the caller gets the context's error, and the
  connection made afterwards is left in the channel, where nobody can close it.
\<close>

theorem abandoned_dial_leaks:
  assumes "DialContext D = None" and "Dial D network address = Inr connection"
  shows "dialContext D None network address (Inl (CtxErr e)) [Inr connection]"
proof -
  have "dial_run (Dial D network address) (dial_start None) (abandoned (Inr connection) e)"
    using abandoned_run [of "Inr connection" e] assms(2) by (metis relpowp_imp_rtranclp)
  from dialContext.adapted [OF assms(1) this] show ?thesis by (simp add: abandoned_def)
qed

end
