(* ===== verification/Concurrency.thy ===== *)
theory Concurrency
  imports PropsAccept
begin

text \<open>
  Webhook handlers and the recovery loop run in goroutines of their own and share one connection
  (\<open>MaxOpenConns(1)\<close>), so their SQL statements interleave one at a time.  A worker holds an event
  from the \<open>ClaimForSend\<close> that returned its record until it records an outcome or gives up.
\<close>

section \<open>Interleaved statements\<close>

record system =
  holders :: "(nat \<times> string) set"
  shared :: world

text \<open>
  One statement of one worker.  \<open>may_queue s i\<close>
  says whether \<open>MarkQueued\<close> of \<open>i\<close> may happen in \<open>s\<close>; the code has no restriction.
\<close>

inductive interleave :: "(system \<Rightarrow> string \<Rightarrow> bool) \<Rightarrow> env \<Rightarrow> system \<Rightarrow> system \<Rightarrow> bool"
  for may_queue :: "system \<Rightarrow> string \<Rightarrow> bool" and E :: env where
  create:
    "interleave may_queue E s s'"
      if "CreateReceived E c (new_record i key raw t) (shared s) = (w, r)" "\<forall>p. (p, i) \<notin> holders s"
        "s' = s\<lparr>shared := w\<rparr>"
| queue:
    "interleave may_queue E s s'"
      if "MarkQueued E c i t (shared s) = (w, r)" "may_queue s i" "s' = s\<lparr>shared := w\<rparr>"
| claim:
    "interleave may_queue E s s'"
      if "ClaimForSend E c i t (shared s) = (w, Inr (Some rc))"
        "s' = s\<lparr>holders := insert (p, i) (holders s), shared := w\<rparr>"
| refused:
    "interleave may_queue E s s'"
      if "ClaimForSend E c i t (shared s) = (w, r)" "\<forall>rc. r \<noteq> Inr (Some rc)" "s' = s\<lparr>shared := w\<rparr>"
| save:
    "interleave may_queue E s s'"
      if "(p, i) \<in> holders s" "SaveRenderedParts E c i m ps (shared s) = (w, r)" "s' = s\<lparr>shared := w\<rparr>"
| chunk:
    "interleave may_queue E s s'"
      if "(p, i) \<in> holders s" "MarkChunkSent E c i n mid (shared s) = (w, r)" "s' = s\<lparr>shared := w\<rparr>"
| delivered:
    "interleave may_queue E s s'"
      if "(p, i) \<in> holders s" "MarkDelivered E c i m chat n t (shared s) = (w, r)"
        "s' = s\<lparr>holders := (if r = Inr () then holders s - {(p, i)} else holders s), shared := w\<rparr>"
| failed:
    "interleave may_queue E s s'"
      if "(p, i) \<in> holders s" "MarkFailed E c i m e (shared s) = (w, r)"
        "s' = s\<lparr>holders := holders s - {(p, i)}, shared := w\<rparr>"
| dead:
    "interleave may_queue E s s'"
      if "(p, i) \<in> holders s" "MarkDeadLetter E c i m e (shared s) = (w, r)"
        "s' = s\<lparr>holders := holders s - {(p, i)}, shared := w\<rparr>"
| retry:
    "interleave may_queue E s s'"
      if "(p, i) \<in> holders s" "ScheduleRetry E c i m e x (shared s) = (w, r)"
        "s' = s\<lparr>holders := holders s - {(p, i)}, shared := w\<rparr>"
| give_up:
    "interleave may_queue E s s'"
      if "(p, i) \<in> holders s" "s' = s\<lparr>holders := holders s - {(p, i)}\<rparr>"
| remove:
    "interleave may_queue E s s'"
      if "DeleteByEventIDs E c ids (shared s) = (w, r)" "s' = s\<lparr>shared := w\<rparr>"
| other:
    "interleave may_queue E s s'"
      if "tbl w = tbl (shared s)" "s' = s\<lparr>shared := w\<rparr>"

inductive_cases interleave_cases: "interleave may_queue E s s'"

text \<open>\<open>MarkQueued\<close> as the code uses it, and as it would be if it left claimed events alone.\<close>

definition any_time :: "system \<Rightarrow> string \<Rightarrow> bool" where
  "any_time s i \<longleftrightarrow> True"

definition unclaimed :: "system \<Rightarrow> string \<Rightarrow> bool" where
  "unclaimed s i \<longleftrightarrow> (\<forall>p. (p, i) \<notin> holders s)"

section \<open>Mutual exclusion\<close>

definition busy :: "(nat \<times> string) set \<Rightarrow> row list \<Rightarrow> bool" where
  "busy H t \<longleftrightarrow> (\<forall>(p, i) \<in> H. \<forall>r \<in> set t. c_event_id r = i \<longrightarrow> c_status r \<notin> set pending_statuses)"

definition exclusive :: "(nat \<times> string) set \<Rightarrow> bool" where
  "exclusive H \<longleftrightarrow> (\<forall>p q i. (p, i) \<in> H \<longrightarrow> (q, i) \<in> H \<longrightarrow> p = q)"

lemma busyI:
  "(\<And>p i r. (p, i) \<in> H \<Longrightarrow> r \<in> set t \<Longrightarrow> c_event_id r = i \<Longrightarrow> c_status r \<notin> set pending_statuses) \<Longrightarrow> busy H t"
  by (auto simp: busy_def)

lemma busyD:
  "busy H t \<Longrightarrow> (p, c_event_id r) \<in> H \<Longrightarrow> r \<in> set t \<Longrightarrow> c_status r \<notin> set pending_statuses"
  by (auto simp: busy_def)

lemma updated_row:
  assumes "s \<in> set (update_where P f t)"
  obtains r where "r \<in> set t" and "s = (if P r then f r else r)"
proof -
  obtain r where "r \<in> set t" "s = (if P r then f r else r)" using assms by (auto simp: update_where_def)
  then show thesis by (rule that)
qed

lemma busy_keep:
  assumes "busy H t" and "\<And>r. c_event_id (f r) = c_event_id r"
    and "\<And>r. c_status r \<notin> set pending_statuses \<Longrightarrow> c_status (f r) \<notin> set pending_statuses"
  shows "busy H (update_where P f t)"
proof (rule busyI)
  fix p i s
  assume "(p, i) \<in> H" and s: "s \<in> set (update_where P f t)" "c_event_id s = i"
  then obtain r where r: "r \<in> set t" "s = (if P r then f r else r)" by (auto elim: updated_row)
  then have "c_event_id r = i" using s(2) assms(2) by (auto split: if_splits)
  then have "c_status r \<notin> set pending_statuses" using busyD [OF assms(1)] \<open>(p, i) \<in> H\<close> r(1) by metis
  then show "c_status s \<notin> set pending_statuses" using r(2) assms(3) by auto
qed

lemma busy_free:
  assumes "busy H t" and "\<And>r. c_event_id (f r) = c_event_id r" and "\<And>p. (p, i) \<notin> H'" and "H' \<subseteq> H"
  shows "busy H' (update_id i f t)"
proof (rule busyI)
  fix p j s
  assume h: "(p, j) \<in> H'" and s: "s \<in> set (update_id i f t)" "c_event_id s = j"
  then obtain r where r: "r \<in> set t" "s = (if c_event_id r = i then f r else r)" by (auto elim: updated_row)
  moreover have "c_event_id r \<noteq> i" using h s(2) r(2) assms(2,3) by (metis)
  ultimately show "c_status s \<notin> set pending_statuses" using busyD [OF assms(1)] h s(2) assms(4) by auto
qed

lemma busy_claimed:
  assumes "busy H t"
  shows "busy (insert (p, i) H) (update_where (claimable i) (claim_row x) t)"
proof (rule busyI)
  fix q j s
  assume h: "(q, j) \<in> insert (p, i) H" and s: "s \<in> set (update_where (claimable i) (claim_row x) t)" "c_event_id s = j"
  then obtain r where r: "r \<in> set t" "s = (if claimable i r then claim_row x r else r)" by (auto elim: updated_row)
  show "c_status s \<notin> set pending_statuses"
  proof (cases "claimable i r")
    case True
    then show ?thesis using r(2) by (simp add: claim_row_def pending_statuses_def)
  next
    case False
    then show ?thesis using r s(2) h busyD [OF assms, of q r] by (auto simp: claimable_def)
  qed
qed

lemma busy_subset: "busy H t \<Longrightarrow> H' \<subseteq> H \<Longrightarrow> set u \<subseteq> set t \<Longrightarrow> busy H' u"
  by (fastforce simp: busy_def)

lemma exclusive_remove: "exclusive H \<Longrightarrow> (p, i) \<in> H \<Longrightarrow> (q, i) \<notin> H - {(p, i)}"
  by (auto simp: exclusive_def)

lemma claimed_pending:
  assumes "ClaimForSend E c i t w = (w', Inr (Some rc))"
  shows "\<exists>r \<in> set (tbl w). c_event_id r = i \<and> c_status r \<in> set pending_statuses"
proof (cases "find (claimable i) (tbl w)")
  case None
  then show ?thesis using assms by (auto simp: ClaimForSend_def scanRecord_def Let_def split: option.splits prod.splits)
next
  case (Some r)
  then show ?thesis by (metis claimable_def find_Some_iff nth_mem)
qed

definition system_ok :: "system \<Rightarrow> bool" where
  "system_ok s \<longleftrightarrow> exclusive (holders s) \<and> busy (holders s) (tbl (shared s))"

text \<open>What each statement does to the table.\<close>

lemma updates_tbl:
  "SaveRenderedParts E c i m ps w = (w', r) \<Longrightarrow> tbl w' = tbl w \<or> tbl w' = update_id i (parts_row m ps (now E w)) (tbl w)"
  "MarkChunkSent E c i n mid w = (w', r) \<Longrightarrow> tbl w' = tbl w \<or> tbl w' = update_id i (chunk_row n mid (now E w)) (tbl w)"
  "MarkDelivered E c i m chat n t w = (w', r) \<Longrightarrow> tbl w' = tbl w \<or> tbl w' = update_id i (delivered_row m chat n t) (tbl w)"
  "MarkFailed E c i m e w = (w', r) \<Longrightarrow> tbl w' = tbl w \<or> tbl w' = update_id i (terminal_row StatusFailed m e (now E w)) (tbl w)"
  "MarkDeadLetter E c i m e w = (w', r) \<Longrightarrow> tbl w' = tbl w \<or> tbl w' = update_id i (terminal_row StatusDeadLetter m e (now E w)) (tbl w)"
  "ScheduleRetry E c i m e x w = (w', r) \<Longrightarrow> tbl w' = tbl w \<or> tbl w' = update_id i (retry_row m e x (now E w)) (tbl w)"
  "MarkQueued E c i t w = (w', r) \<Longrightarrow> tbl w' = tbl w \<or> tbl w' = update_id i (queue_row StatusQueued t [] (now E w)) (tbl w)"
  unfolding SaveRenderedParts_def MarkChunkSent_def MarkDelivered_def MarkFailed_def MarkDeadLetter_def markTerminal_def
    ScheduleRetry_def MarkQueued_def updateStatus_def
  by (metis exec_update_tbl fst_conv)+

lemma claim_tbl:
  "ClaimForSend E c i t w = (w', r) \<Longrightarrow> tbl w' = tbl w \<or> tbl w' = update_where (claimable i) (claim_row t) (tbl w)"
  by (metis ClaimForSend_tbl fst_conv)

lemma create_tbl:
  "CreateReceived E c (new_record i key raw t) w = (w', r)
    \<Longrightarrow> tbl w' = tbl w \<or> tbl w' = tbl w @ [insert_row (new_record i key raw t) (marshal_strings None)]"
  by (auto simp: CreateReceived_def Let_def new_record_def split: option.splits if_splits prod.splits db_stage.splits)

lemma row_id:
  "c_event_id (parts_row m ps x r) = c_event_id r" "c_event_id (chunk_row n mid x r) = c_event_id r"
  "c_event_id (delivered_row m chat n x r) = c_event_id r" "c_event_id (terminal_row st m e x r) = c_event_id r"
  "c_event_id (retry_row m e x y r) = c_event_id r" "c_event_id (queue_row st x e y r) = c_event_id r"
  by (simp_all add: row_defs split: option.splits)

lemma row_status:
  "c_status (parts_row m ps x r) = c_status r" "c_status (chunk_row n mid x r) = c_status r"
  "c_status (delivered_row m chat n x r) = StatusDelivered"
  by (simp_all add: row_defs split: option.splits)

lemma delete_subset: "DeleteByEventIDs E c ids w = (w', r) \<Longrightarrow> set (tbl w') \<subseteq> set (tbl w)"
  using DeleteByEventIDs_any [of E c ids w] by (auto simp: delete_ids_def)

text \<open>One statement, with the queueing that leaves claimed events alone.\<close>

lemma busy_release:
  assumes "system_ok s" and "(p, i) \<in> holders s" and "\<And>r. c_event_id (f r) = c_event_id r"
    and "u = tbl (shared s) \<or> u = update_id i f (tbl (shared s))"
  shows "exclusive (holders s - {(p, i)}) \<and> busy (holders s - {(p, i)}) u"
proof -
  have ex: "exclusive (holders s)" and b: "busy (holders s) (tbl (shared s))" using assms(1) by (auto simp: system_ok_def)
  have "busy (holders s - {(p, i)}) (update_id i f (tbl (shared s)))"
    by (rule busy_free [OF b assms(3) exclusive_remove [OF ex assms(2)]]) auto
  then show ?thesis using assms(4) ex busy_subset [OF b] by (auto simp: exclusive_def)
qed

lemma interleave_ok:
  assumes "interleave unclaimed E s s'" and "system_ok s"
  shows "system_ok s'"
proof -
  have ex: "exclusive (holders s)" and b: "busy (holders s) (tbl (shared s))"
    using assms(2) by (auto simp: system_ok_def)
  from assms(1) show ?thesis
  proof cases
    case (create c i key raw t w r)
    have "busy (holders s) (tbl (shared s) @ [insert_row (new_record i key raw t) (marshal_strings None)])"
      using b create(2) by (fastforce simp: busy_def insert_row_def new_record_def)
    then show ?thesis using create_tbl [OF create(1)] create(3) ex b by (auto simp: system_ok_def)
  next
    case (queue c i t w r)
    have "busy (holders s) (update_id i f (tbl (shared s)))" if "\<And>r. c_event_id (f r) = c_event_id r" for f
      using busy_free [OF b that, of i "holders s"] queue(2) by (auto simp: unclaimed_def)
    then show ?thesis using updates_tbl(7) [OF queue(1)] queue(3) ex b by (auto simp: system_ok_def row_id)
  next
    case (claim c i t w rc p)
    have "(q, i) \<notin> holders s" for q using claimed_pending [OF claim(1)] b by (auto simp: busy_def)
    then have "exclusive (insert (p, i) (holders s))" using ex by (auto simp: exclusive_def)
    moreover have "tbl w = update_where (claimable i) (claim_row t) (tbl (shared s))"
      using claim(1) by (auto simp: ClaimForSend_def sql_exec_def scanRecord_def Let_def
          split: option.splits prod.splits db_stage.splits)
    ultimately show ?thesis using busy_claimed [OF b] claim(2) by (simp add: system_ok_def)
  next
    case (refused c i t w r)
    have "busy (holders s) (update_where (claimable i) (claim_row t) (tbl (shared s)))"
      using busy_subset [OF busy_claimed [OF b, of 0 i t]] by auto
    then show ?thesis using claim_tbl [OF refused(1)] refused(3) ex b by (auto simp: system_ok_def)
  next
    case (save p i c m ps w r)
    then show ?thesis
      using updates_tbl(1) [OF save(2)] busy_keep [OF b] ex b by (auto simp: system_ok_def row_id row_status)
  next
    case (chunk p i c n mid w r)
    then show ?thesis
      using updates_tbl(2) [OF chunk(2)] busy_keep [OF b] ex b by (auto simp: system_ok_def row_id row_status)
  next
    case (delivered p i c m chat n t w r)
    then show ?thesis
      using updates_tbl(3) [OF delivered(2)] busy_keep [OF b, of "delivered_row m chat n t"] ex b
        busy_release [OF assms(2) delivered(1), of "delivered_row m chat n t" "tbl w"]
      by (auto simp: system_ok_def row_id row_status pending_statuses_def)
  next
    case (failed p i c m e w r)
    then show ?thesis
      using busy_release [OF assms(2) failed(1) _ updates_tbl(4) [OF failed(2)]] by (simp add: system_ok_def row_id)
  next
    case (dead p i c m e w r)
    then show ?thesis
      using busy_release [OF assms(2) dead(1) _ updates_tbl(5) [OF dead(2)]] by (simp add: system_ok_def row_id)
  next
    case (retry p i c m e x w r)
    then show ?thesis
      using busy_release [OF assms(2) retry(1) _ updates_tbl(6) [OF retry(2)]] by (simp add: system_ok_def row_id)
  next
    case (give_up p i)
    then show ?thesis using busy_release [OF assms(2) give_up(1), of "\<lambda>r. r" "tbl (shared s)"] by (simp add: system_ok_def)
  next
    case (remove c ids w r)
    then show ?thesis using busy_subset [OF b order.refl delete_subset [OF remove(1)]] ex by (simp add: system_ok_def)
  next
    case (other w)
    then show ?thesis using ex b by (simp add: system_ok_def)
  qed
qed

text \<open>
  C9: while \<open>MarkQueued\<close> leaves claimed events alone, a delivery has one worker: from a state in which
  nobody holds anything, no interleaving of the statements of any number of handlers and loops
  lets two workers hold the same event, and no held event can be claimed again.
\<close>

theorem claims_are_exclusive:
  assumes "(interleave unclaimed E)\<^sup>*\<^sup>* s s'" and "holders s = {}"
  shows "(\<forall>p q i. (p, i) \<in> holders s' \<longrightarrow> (q, i) \<in> holders s' \<longrightarrow> p = q)
    \<and> (\<forall>p i. (p, i) \<in> holders s' \<longrightarrow> find (claimable i) (tbl (shared s')) = None)"
proof -
  have "system_ok s'"
    using assms(1)
  proof (induction rule: rtranclp_induct)
    case base
    then show ?case using assms(2) by (simp add: system_ok_def exclusive_def busy_def)
  next
    case (step t u)
    then show ?case using interleave_ok by blast
  qed
  then show ?thesis by (auto simp: system_ok_def exclusive_def busy_def find_None_iff claimable_def)
qed

theorem claims_are_exclusive_witness:
  "\<exists>s'. (interleave unclaimed demo_env)\<^sup>*\<^sup>* \<lparr> holders = {}, shared = demo_world [demo_row StatusQueued] \<rparr> s'
    \<and> (1, ''e1'') \<in> holders s' \<and> find (claimable ''e1'') (tbl (shared s')) = None"
proof -
  let ?s = "\<lparr> holders = {}, shared = demo_world [demo_row StatusQueued] \<rparr>"
  have pend: "c_status (demo_row StatusQueued) \<in> set pending_statuses" by (simp add: pending_statuses_def)
  obtain w rc where "ClaimForSend demo_env Caller ''e1'' 0 (shared ?s) = (w, Inr (Some rc))"
    by (rule claim_calm [OF demo_calm(1) _ _ _ pend demo_parts, where w = "shared ?s" and eventID = "''e1''" and t = 0]) auto
  then have "interleave unclaimed demo_env ?s (?s\<lparr>holders := insert (1, ''e1'') (holders ?s), shared := w\<rparr>)"
    by (rule interleave.claim [where p = 1, OF _ refl])
  then have "(interleave unclaimed demo_env)\<^sup>*\<^sup>* ?s \<lparr> holders = {(1, ''e1'')}, shared = w \<rparr>"
    by (simp add: r_into_rtranclp)
  then show ?thesis using claims_are_exclusive [of demo_env ?s] by (intro exI conjI) (assumption | force)+
qed

section \<open>The queueing of the code\<close>

text \<open>
  In a calm environment in which Telegram accepts everything a worker sends what it has rendered,
  whatever another worker has done to the row in the meantime.
\<close>

lemma send_parts_willing:
  assumes "calm_from E k" and "willing_from E S k" and "k \<le> ticks w"
  shows "\<exists>w'. send_parts E S rc parts index rest w = (w', None)
    \<and> accepted_texts w' = accepted_texts w @ rest \<and> ticks w \<le> ticks w'"
  using assms(3)
proof (induction rest arbitrary: index w)
  case (Cons part rest)
  obtain w1 a where send: "do_send E S part w = (w1, a)" by fastforce
  have "\<exists>m. asked E S (ticks w) part = Inr m" using assms(2) Cons.prems by (auto simp: willing_from_def)
  then obtain m where a: "a = Inr m" "ticks w1 = Suc (ticks w)" "accepted_texts w1 = accepted_texts w @ [part]"
    using send by (auto simp: do_send_def Let_def asked_def accepted_texts_def)
  obtain w2 where mark: "MarkChunkSent E Caller (Rec_EventID rc) (int index + 1) (if index = 0 then Some (MessageID m) else None) w1
      = (w2, Inr ())" and w2: "ticks w2 = Suc (ticks w1)" "sends w2 = sends w1"
    using Cons.prems a(2) by (simp add: MarkChunkSent_def calm_exec [OF assms(1)])
  obtain w3 where "send_parts E S rc parts (Suc index) rest w2 = (w3, None)"
    "accepted_texts w3 = accepted_texts w2 @ rest" "ticks w2 \<le> ticks w3"
    using Cons.IH [of w2 "Suc index"] Cons.prems a(2) w2(1) by auto
  then show ?case using send a mark w2 by (simp add: accepted_texts_def)
qed simp

lemma deliver_willing:
  assumes "calm_from E k" and "willing_from E S k" and "k \<le> ticks w"
    and "Rec_RenderedParts rc = None" and "Rec_SentParts rc = 0"
    and "decode_payload S (Rec_OriginalPayload rc) = Inr payload"
    and "buildMessages E S payload w = (w, Inr parts)"
  shows "\<exists>w'. deliver E S rc w = (w', ''success'', None) \<and> accepted_texts w' = accepted_texts w @ parts \<and> ticks w \<le> ticks w'"
proof -
  obtain w1 where w1: "ensureRenderedParts E S rc w = (w1, Inr parts)" "ticks w1 = Suc (ticks w)" "sends w1 = sends w"
    using assms by (simp add: ensureRenderedParts_def render_parts_def SaveRenderedParts_def calm_exec [OF assms(1)])
  obtain w2 where w2: "send_parts E S rc parts 0 parts w1 = (w2, None)" "accepted_texts w2 = accepted_texts w1 @ parts"
    "ticks w1 \<le> ticks w2"
    using send_parts_willing [OF assms(1,2), of w1 rc parts 0 parts] assms(3) w1(2) by auto
  obtain w3 where w3: "MarkDelivered E Caller (Rec_EventID rc) (joinRendered parts) (TelegramChatID (cfg S))
      (int (length parts)) (now E w2) (step w2) = (w3, Inr ())" "ticks w2 \<le> ticks w3" "sends w3 = sends w2"
    using assms(3) w1(2) w2(3) by (simp add: MarkDelivered_def calm_exec [OF assms(1)])
  show ?thesis
    using w1 w2 w3 assms(5) by (intro exI [of _ w3]) (simp add: deliver_def accepted_texts_def)
qed

lemma demo_messages: "buildMessages demo_env demo_service demo_payload w = (w, Inr [TrimSpace ''disk full''])"
proof -
  have visible: "TrimSpace ''disk full'' \<noteq> []"
    by (simp add: TrimSpace_Nil_iff chunks_ascii ascii_def byte_def space_chunk_def IsSpace_def decode_ascii)
  have "RuneCountInString ''disk full'' = 9"
    by (simp add: RuneCountInString_def chunks_ascii ascii_def byte_def)
  then have "telegramChars (TrimSpace ''disk full'') \<le> MaxTelegramMessageChars"
    using RuneCount_TrimSpace [of "''disk full''"] by (simp add: telegramChars_def MaxTelegramMessageChars_def)
  then show ?thesis
    using visible by (simp add: buildMessages_def buildPassthroughMessages_def demo_service_def demo_cfg_def demo_payload_def
        Let_def splitMessage_def)
qed

text \<open>The recovery loop claims a webhook before its handler has queued it.\<close>

lemma late_queue_claims:
  obtains w1 w2 w3 w4 rcB rcA where
    "CreateReceived demo_env Caller (new_record ''e1'' ''k1'' ''{}'' 0) (demo_world []) = (w1, Inr ())"
    "''e1'' \<in> set (due_ids 0 (WorkerBatchSize (cfg demo_service)) (tbl w1))"
    "ClaimForSend demo_env Caller ''e1'' 1 w1 = (w2, Inr (Some rcB))"
    "MarkQueued demo_env Caller ''e1'' 0 w2 = (w3, Inr ())"
    "ClaimForSend demo_env Caller ''e1'' 2 w3 = (w4, Inr (Some rcA))"
    "Rec_RenderedParts rcB = None" "Rec_SentParts rcB = 0" "Rec_OriginalPayload rcB = ''{}''"
    "Rec_RenderedParts rcA = None" "Rec_SentParts rcA = 0" "Rec_OriginalPayload rcA = ''{}''"
    "accepted_texts w4 = []"
proof -
  let ?row = "fresh_row ''e1'' ''k1'' ''{}'' 0"
  obtain w1 where w1: "CreateReceived demo_env Caller (new_record ''e1'' ''k1'' ''{}'' 0) (demo_world []) = (w1, Inr ())"
    "tbl w1 = [?row]" "sends w1 = []"
    by (rule create_calm [OF demo_calm(1), of 0 "demo_world []" "''e1''" "''k1''" "''{}''" 0]) auto
  have keys: "keys_ok [r]" for r by (simp add: keys_ok_def)
  have row: "c_status ?row \<in> set pending_statuses" "unmarshal_strings (c_rendered_parts ?row) = Some None"
    "c_rendered_parts ?row \<noteq> []" "c_sent_parts ?row = 0" "c_original_payload ?row = ''{}''" "c_event_id ?row = ''e1''"
    by (simp_all add: pending_statuses_def unmarshal_marshal) (simp add: marshal_strings_def)
  have due: "''e1'' \<in> set (due_ids 0 (WorkerBatchSize (cfg demo_service)) (tbl w1))"
    using row by (simp add: due_ids_def w1 due_def limit_rows_def demo_service_def demo_cfg_def fresh_row_def insert_row_def new_record_def)
  obtain w2 rcB where w2: "ClaimForSend demo_env Caller ''e1'' 1 w1 = (w2, Inr (Some rcB))"
    and B: "Rec_RenderedParts rcB = None" "Rec_SentParts rcB = 0" "Rec_OriginalPayload rcB = ''{}''"
    and t2: "tbl w2 = update_where (claimable ''e1'') (claim_row 1) (tbl w1)" and s2: "sends w2 = sends w1"
    by (rule claim_calm [OF demo_calm(1) _ _ _ row(1-3), where w = w1 and eventID = "''e1''" and t = 1 and k = 0])
      (use w1 row keys in \<open>auto simp: lookup_def\<close>)
  obtain w3 where w3: "MarkQueued demo_env Caller ''e1'' 0 w2 = (w3, Inr ())"
    "tbl w3 = update_id ''e1'' (queue_row StatusQueued 0 [] (now demo_env w2)) (tbl w2)" "sends w3 = sends w2"
    by (rule queue_calm [OF demo_calm(1) order.refl, where i = "''e1''" and t = 0 and w = w2])
  let ?late = "queue_row StatusQueued 0 [] (now demo_env w2) (claim_row 1 ?row)"
  have late: "tbl w3 = [?late]" using row by (simp add: w3(2) t2 w1(2) update_where_def claimable_def claim_row_def)
  have row': "c_status ?late \<in> set pending_statuses" "unmarshal_strings (c_rendered_parts ?late) = Some None"
    "c_rendered_parts ?late \<noteq> []" "c_sent_parts ?late = 0" "c_original_payload ?late = ''{}''" "c_event_id ?late = ''e1''"
    using row by (simp_all add: queue_row_def claim_row_def pending_statuses_def)
  obtain w4 rcA where w4: "ClaimForSend demo_env Caller ''e1'' 2 w3 = (w4, Inr (Some rcA))"
    and A: "Rec_RenderedParts rcA = None" "Rec_SentParts rcA = 0" "Rec_OriginalPayload rcA = ''{}''" and s4: "sends w4 = sends w3"
    by (rule claim_calm [OF demo_calm(1) _ _ _ row'(1-3), where w = w3 and eventID = "''e1''" and t = 2 and k = 0])
      (use late row' keys in \<open>auto simp: lookup_def\<close>)
  have "accepted_texts w4 = []" using s4 w3(3) s2 w1(3) by (simp add: accepted_texts_def)
  then show ?thesis using that [OF w1(1) due w2 w3(1) w4 B A] by blast
qed

lemma late_queue_trace:
  assumes "CreateReceived demo_env Caller (new_record ''e1'' ''k1'' ''{}'' 0) (demo_world []) = (w1, Inr ())"
    and "ClaimForSend demo_env Caller ''e1'' 1 w1 = (w2, Inr (Some rcB))"
    and "MarkQueued demo_env Caller ''e1'' 0 w2 = (w3, Inr ())"
    and "ClaimForSend demo_env Caller ''e1'' 2 w3 = (w4, Inr (Some rcA))"
  shows "(interleave any_time demo_env)\<^sup>*\<^sup>* \<lparr> holders = {}, shared = demo_world [] \<rparr>
    \<lparr> holders = {(1, ''e1''), (2, ''e1'')}, shared = w4 \<rparr>"
proof -
  let ?s = "\<lambda>H w. \<lparr> holders = H, shared = w \<rparr>"
  have "interleave any_time demo_env (?s {} (demo_world [])) (?s {} w1)"
    by (rule interleave.create [where c = Caller and i = "''e1''" and key = "''k1''" and raw = "''{}''" and t = 0 and r = "Inr ()"])
      (simp_all add: assms(1))
  moreover have "interleave any_time demo_env (?s {} w1) (?s {(1, ''e1'')} w2)"
    by (rule interleave.claim [where c = Caller and i = "''e1''" and t = 1 and p = 1]) (simp_all add: assms(2))
  moreover have "interleave any_time demo_env (?s {(1, ''e1'')} w2) (?s {(1, ''e1'')} w3)"
    by (rule interleave.queue [where c = Caller and i = "''e1''" and t = 0]) (simp_all add: assms(3) any_time_def)
  moreover have "interleave any_time demo_env (?s {(1, ''e1'')} w3) (?s {(1, ''e1''), (2, ''e1'')} w4)"
    by (rule interleave.claim [where c = Caller and i = "''e1''" and t = 2 and p = 2]) (auto simp: assms(4))
  ultimately show ?thesis by (meson converse_rtranclp_into_rtranclp rtranclp.rtrancl_refl)
qed

text \<open>
  C10: \<open>MarkQueued\<close> takes an event away from its worker: when the recovery loop claims a webhook
  between the handler's \<open>CreateReceived\<close> and its \<open>MarkQueued\<close>, the handler's claim succeeds too, and
  the message goes to Telegram twice, with every statement and every send succeeding.
\<close>

theorem late_queue_sends_twice:
  "\<exists>w1 w2 w3 w4 w5 w6 rcB rcA.
     CreateReceived demo_env Caller (new_record ''e1'' ''k1'' ''{}'' 0) (demo_world []) = (w1, Inr ())
     \<and> ''e1'' \<in> set (due_ids 0 (WorkerBatchSize (cfg demo_service)) (tbl w1))
     \<and> ClaimForSend demo_env Caller ''e1'' 1 w1 = (w2, Inr (Some rcB))
     \<and> MarkQueued demo_env Caller ''e1'' 0 w2 = (w3, Inr ())
     \<and> ClaimForSend demo_env Caller ''e1'' 2 w3 = (w4, Inr (Some rcA))
     \<and> deliver demo_env demo_service rcA w4 = (w5, ''success'', None)
     \<and> deliver demo_env demo_service rcB w5 = (w6, ''success'', None)
     \<and> (interleave any_time demo_env)\<^sup>*\<^sup>* \<lparr> holders = {}, shared = demo_world [] \<rparr>
         \<lparr> holders = {(1, ''e1''), (2, ''e1'')}, shared = w4 \<rparr>
     \<and> accepted_texts w6 = [TrimSpace ''disk full'', TrimSpace ''disk full'']"
proof -
  obtain w1 w2 w3 w4 rcB rcA where
    run: "CreateReceived demo_env Caller (new_record ''e1'' ''k1'' ''{}'' 0) (demo_world []) = (w1, Inr ())"
      "''e1'' \<in> set (due_ids 0 (WorkerBatchSize (cfg demo_service)) (tbl w1))"
      "ClaimForSend demo_env Caller ''e1'' 1 w1 = (w2, Inr (Some rcB))"
      "MarkQueued demo_env Caller ''e1'' 0 w2 = (w3, Inr ())"
      "ClaimForSend demo_env Caller ''e1'' 2 w3 = (w4, Inr (Some rcA))"
    and B: "Rec_RenderedParts rcB = None" "Rec_SentParts rcB = 0" "Rec_OriginalPayload rcB = ''{}''"
    and A: "Rec_RenderedParts rcA = None" "Rec_SentParts rcA = 0" "Rec_OriginalPayload rcA = ''{}''"
    and none: "accepted_texts w4 = []"
    by (rule late_queue_claims)
  have dec: "decode_payload demo_service ''{}'' = Inr demo_payload" by (simp add: demo_service_def)
  note once = deliver_willing [OF demo_calm(1) demo_willing le0 _ _ _ demo_messages]
  obtain w5 where w5: "deliver demo_env demo_service rcA w4 = (w5, ''success'', None)"
    "accepted_texts w5 = accepted_texts w4 @ [TrimSpace ''disk full'']"
    using once [OF A(1,2)] A(3) dec by metis
  obtain w6 where w6: "deliver demo_env demo_service rcB w5 = (w6, ''success'', None)"
    "accepted_texts w6 = accepted_texts w5 @ [TrimSpace ''disk full'']"
    using once [OF B(1,2)] B(3) dec by metis
  show ?thesis
    using run late_queue_trace [OF run(1,3-5)] w5 w6 none by (intro exI conjI) (assumption | simp)+
qed

end
