(* ===== verification/Durability.thy ===== *)
theory Durability
  imports Demo "HOL-Library.Sublist"
begin

text \<open>
  What survives failures.  In any environment (store faults at every stage, cancellations, whatever
  Telegram answers) the row of an event never claims more progress than Telegram has accepted, and
  falls behind by at most one message per attempt.
\<close>

section \<open>The progress of a row\<close>

definition stored :: "row \<Rightarrow> string list" where
  "stored r = (case unmarshal_strings (c_rendered_parts r) of Some (Some ps) \<Rightarrow> ps | _ \<Rightarrow> [])"

text \<open>
  \<open>acc\<close> are the messages accepted so far.  Stored text has passed through JSON, so accepted text is
  compared after the same passage (\<open>scrub\<close>, the identity on valid UTF-8).
\<close>

definition progress :: "row \<Rightarrow> string list \<Rightarrow> bool" where
  "progress r acc \<longleftrightarrow> c_rendered_parts r \<noteq> [] \<and> unmarshal_strings (c_rendered_parts r) \<noteq> None
     \<and> map scrub (stored r) = stored r \<and> 0 \<le> c_sent_parts r \<and> nat (c_sent_parts r) \<le> length (stored r)
     \<and> subseq (take (nat (c_sent_parts r)) (stored r)) (map scrub acc)
     \<and> (c_status r = StatusDelivered \<longrightarrow> subseq (stored r) (map scrub acc))"

text \<open>Updates that leave the parts and the progress alone and deliver nothing.\<close>

definition unspoilt :: "string \<Rightarrow> row list \<Rightarrow> row list \<Rightarrow> bool" where
  "unspoilt i t u \<longleftrightarrow> (\<forall>r. lookup i t = Some r \<longrightarrow> (\<exists>s. lookup i u = Some s
     \<and> c_rendered_parts s = c_rendered_parts r \<and> c_sent_parts s = c_sent_parts r
     \<and> (c_status s = StatusDelivered \<longrightarrow> c_status r = StatusDelivered)))"

lemma unspoilt_update:
  assumes "\<And>r. c_event_id (f r) = c_event_id r" and "\<And>r. c_rendered_parts (f r) = c_rendered_parts r"
    and "\<And>r. c_sent_parts (f r) = c_sent_parts r" and "\<And>r. c_status (f r) \<noteq> StatusDelivered"
  shows "unspoilt i t (update_where P f t)"
  using assms by (auto simp: unspoilt_def lookup_update)

interpretation refused: refusal_steps "unspoilt i" i for i
proof
  show "unspoilt i t t" for t by (simp add: unspoilt_def)
  show "unspoilt i t (update_id i (retry_row m e x y) t)" for t m e x y
    by (rule unspoilt_update) (simp_all add: retry_row_def)
  show "unspoilt i t (update_id i (terminal_row st m e x) t)" if "st \<in> {StatusFailed, StatusDeadLetter}" for t st m e x
    by (rule unspoilt_update) (use that in \<open>auto simp: terminal_row_def\<close>)
qed

lemma progress_unspoilt:
  assumes "unspoilt i t u" and "lookup i t = Some r" and "progress r acc"
  obtains s where "lookup i u = Some s" and "progress s acc" and "stored s = stored r" and "c_sent_parts s = c_sent_parts r"
proof -
  obtain s where s: "lookup i u = Some s" "c_rendered_parts s = c_rendered_parts r" "c_sent_parts s = c_sent_parts r"
    "c_status s = StatusDelivered \<longrightarrow> c_status r = StatusDelivered"
    using assms(1,2) unfolding unspoilt_def by blast
  have "stored s = stored r" by (simp add: stored_def s(2))
  moreover have "progress s acc" using assms(3) s calculation by (auto simp: progress_def)
  ultimately show thesis using that s by blast
qed

section \<open>The state of an event\<close>

text \<open>
  \<open>accounted i base k w\<close>: of the event \<open>i\<close> the messages after \<open>base\<close> were accepted; the row shows them
  but for at most \<open>k\<close>.
\<close>

definition accounted :: "string \<Rightarrow> string list \<Rightarrow> nat \<Rightarrow> world \<Rightarrow> bool" where
  "accounted i base k w \<longleftrightarrow> (\<exists>r acc. lookup i (tbl w) = Some r \<and> accepted_texts w = base @ acc
     \<and> progress r acc \<and> length acc \<le> nat (c_sent_parts r) + k)"

lemma accountedI:
  "lookup i (tbl w) = Some r \<Longrightarrow> accepted_texts w = base @ acc \<Longrightarrow> progress r acc
    \<Longrightarrow> length acc \<le> nat (c_sent_parts r) + k \<Longrightarrow> accounted i base k w"
  by (auto simp: accounted_def)

lemma accounted_refused:
  assumes "unspoilt i (tbl w) (tbl w')" and "sends w' = sends w" and "lookup i (tbl w) = Some r"
    and "accepted_texts w = base @ acc" and "progress r acc" and "length acc \<le> nat (c_sent_parts r) + k"
  shows "accounted i base k w'"
proof -
  obtain s where "lookup i (tbl w') = Some s" "progress s acc" "c_sent_parts s = c_sent_parts r"
    using progress_unspoilt [OF assms(1,3,5)] by metis
  then show ?thesis using assms(2,4,6) by (intro accountedI [of i w' s base acc]) (auto simp: accepted_texts_def)
qed

lemma subseq_snoc: "subseq xs ys \<Longrightarrow> subseq (xs @ [z]) (ys @ [z])"
  by (rule list_emb_append_mono) simp_all

lemma MarkChunkSent_cases:
  assumes "MarkChunkSent E c i n mid w = (w', a)"
  shows "sends w' = sends w" and "a = Inl e \<Longrightarrow> tbl w' = tbl w"
    and "a = Inr u \<Longrightarrow> tbl w' = update_id i (chunk_row n mid (now E w)) (tbl w)"
  using assms by (auto simp: MarkChunkSent_def exec_update_def sql_exec_def observe_def Let_def
      split: option.splits prod.splits db_stage.splits)

lemma MarkDelivered_cases:
  assumes "MarkDelivered E c i m chat n t w = (w', a)"
  shows "sends w' = sends w" and "a = Inl e \<Longrightarrow> tbl w' = tbl w"
    and "a = Inr u \<Longrightarrow> tbl w' = update_id i (delivered_row m chat n t) (tbl w)"
  using assms by (auto simp: MarkDelivered_def exec_update_def sql_exec_def observe_def Let_def
      split: option.splits prod.splits db_stage.splits)

lemma SaveRenderedParts_cases:
  assumes "SaveRenderedParts E c i m ps w = (w', a)"
  shows "sends w' = sends w" and "a = Inl e \<Longrightarrow> tbl w' = tbl w"
    and "a = Inr u \<Longrightarrow> tbl w' = update_id i (parts_row m ps (now E w)) (tbl w)"
  using assms by (auto simp: SaveRenderedParts_def exec_update_def sql_exec_def observe_def Let_def
      split: option.splits prod.splits db_stage.splits)

lemma progress_chunk:
  assumes "progress r acc" and "stored r = map scrub parts" and "index < length parts"
    and "subseq (take index (stored r)) (map scrub acc)"
  shows "progress (chunk_row (int index + 1) mid x r) (acc @ [parts ! index])"
    and "subseq (take (Suc index) (stored r)) (map scrub (acc @ [parts ! index]))"
    and "stored (chunk_row (int index + 1) mid x r) = stored r"
proof -
  let ?r = "chunk_row (int index + 1) mid x r"
  have fields: "c_rendered_parts ?r = c_rendered_parts r" "c_sent_parts ?r = int index + 1" "c_status ?r = c_status r"
    by (simp_all add: chunk_row_def split: option.splits)
  show st: "stored ?r = stored r" by (simp add: stored_def fields)
  have "take (Suc index) (stored r) = take index (stored r) @ [scrub (parts ! index)]"
    using assms(2,3) by (simp add: take_Suc_conv_app_nth)
  then show sub: "subseq (take (Suc index) (stored r)) (map scrub (acc @ [parts ! index]))"
    using subseq_snoc [OF assms(4)] by simp
  have "nat (c_sent_parts ?r) = Suc index" by (simp add: fields)
  moreover have "Suc index \<le> length (stored r)" using assms(2,3) by simp
  moreover have "subseq (stored r) (map scrub (acc @ [parts ! index]))" if "c_status r = StatusDelivered"
    using assms(1) that by (auto simp: progress_def intro: list_emb_append2)
  ultimately show "progress ?r (acc @ [parts ! index])"
    using assms(1) sub by (simp add: progress_def fields st)
qed

section \<open>One attempt\<close>

text \<open>
  The send loop from \<open>index\<close> on.  When it ends early the row is one message behind at most; when it
  ends, every part has been accepted.
\<close>

lemma send_parts_accounted:
  assumes "lookup (Rec_EventID rc) (tbl w) = Some r" and "accepted_texts w = base @ acc" and "progress r acc"
    and "stored r = map scrub parts" and "nat (c_sent_parts r) = index" and "length acc \<le> index + k"
    and "rest = drop index parts"
  shows "\<exists>w' out r' acc'. send_parts E S rc parts index rest w = (w', out)
    \<and> lookup (Rec_EventID rc) (tbl w') = Some r' \<and> accepted_texts w' = base @ acc' \<and> progress r' acc'
    \<and> stored r' = stored r
    \<and> (if out = None then nat (c_sent_parts r') = length parts \<and> length acc' \<le> length parts + k
       else length acc' \<le> nat (c_sent_parts r') + Suc k)"
  using assms
proof (induction rest arbitrary: index w r acc)
  case Nil
  then have "index = length parts" by (simp add: progress_def)
  then show ?case using Nil by auto
next
  case (Cons part rest)
  let ?i = "Rec_EventID rc"
  have index: "index < length parts" using Cons.prems(7) by (metis drop_all list.distinct(1) not_le)
  have part: "part = parts ! index" "rest = drop (Suc index) parts"
    using Cons.prems(7) Cons_nth_drop_Suc [OF index] by (metis list.inject)+
  have sub: "subseq (take index (stored r)) (map scrub acc)"
    using Cons.prems(3,5) by (simp add: progress_def)
  obtain w1 a where send: "do_send E S part w = (w1, a)" by fastforce
  have w1: "tbl w1 = tbl w" "accepted_texts w1 = accepted_texts w @ (if err_of a = None then [part] else [])"
    using send by (auto simp: do_send_def Let_def accepted_texts_def)
  have row1: "lookup ?i (tbl w1) = Some r" using w1 Cons.prems(1) by simp
  show ?case
  proof (cases a)
    case (Inl e)
    obtain w2 e' where h: "handleSendError E S rc parts e w1 = (w2, e')" by fastforce
    have "unspoilt ?i (tbl w1) (tbl w2)" using refused.R_handleSendError [of rc ?i w1 E S parts e] h by simp
    then obtain r2 where r2: "lookup ?i (tbl w2) = Some r2" "progress r2 acc" "stored r2 = stored r" "c_sent_parts r2 = c_sent_parts r"
      using progress_unspoilt [OF _ row1 Cons.prems(3)] by metis
    have "sends w2 = sends w1" using handleSendError_sends [of E S rc parts e w1] h by simp
    then have "accepted_texts w2 = base @ acc" using w1(2) Inl Cons.prems(2) by (simp add: accepted_texts_def)
    then show ?thesis using send Inl h r2 Cons.prems(5,6) by auto
  next
    case (Inr m)
    have acc1: "accepted_texts w1 = base @ (acc @ [part])" using w1(2) Inr Cons.prems(2) by simp
    have longer: "progress r (acc @ [part])"
      using Cons.prems(3) by (auto simp: progress_def intro: list_emb_append2)
    let ?mid = "if index = 0 then Some (MessageID m) else None"
    obtain w2 b where mark: "MarkChunkSent E Caller ?i (int index + 1) ?mid w1 = (w2, b)" by fastforce
    note cases2 = MarkChunkSent_cases [OF mark]
    have acc2: "accepted_texts w2 = base @ (acc @ [part])" using acc1 cases2(1) by (simp add: accepted_texts_def)
    show ?thesis
    proof (cases b)
      case (Inl e)
      have row2: "lookup ?i (tbl w2) = Some r" using cases2(2) [OF Inl] row1 by simp
      let ?w3 = "reschedule E S rc parts e w2"
      have "unspoilt ?i (tbl w2) (tbl ?w3)" by (rule refused.R_reschedule [OF refl])
      then obtain r3 where r3: "lookup ?i (tbl ?w3) = Some r3" "progress r3 (acc @ [part])" "stored r3 = stored r"
        "c_sent_parts r3 = c_sent_parts r"
        using progress_unspoilt [OF _ row2 longer] by metis
      have "accepted_texts ?w3 = base @ (acc @ [part])" using acc2 reschedule_sends by (simp add: accepted_texts_def)
      then show ?thesis using send \<open>a = Inr m\<close> mark Inl r3 Cons.prems(5,6) by auto
    next
      case (Inr u)
      let ?r = "chunk_row (int index + 1) ?mid (now E w1) r"
      have row2: "lookup ?i (tbl w2) = Some ?r"
        using cases2(3) [OF Inr] row1 lookup_id [OF row1] by (simp add: lookup_update row_ids)
      have chunk: "progress ?r (acc @ [part])" "stored ?r = stored r"
        using progress_chunk(1,3) [OF Cons.prems(3,4) index sub, of ?mid "now E w1"] part(1) by simp_all
      have "nat (c_sent_parts ?r) = Suc index" by (simp add: chunk_row_def nat_add_distrib split: option.splits)
      then have "\<exists>w' out r' acc'. send_parts E S rc parts (Suc index) rest w2 = (w', out)
        \<and> lookup ?i (tbl w') = Some r' \<and> accepted_texts w' = base @ acc' \<and> progress r' acc' \<and> stored r' = stored ?r
        \<and> (if out = None then nat (c_sent_parts r') = length parts \<and> length acc' \<le> length parts + k
           else length acc' \<le> nat (c_sent_parts r') + Suc k)"
        using Cons.prems(4,6) chunk by (intro Cons.IH [OF row2 acc2]) (simp_all add: part(2))
      then show ?thesis using send \<open>a = Inr m\<close> mark Inr chunk(2) by auto
    qed
  qed
qed

text \<open>Rendering on first use stores the parts before anything is sent.\<close>

lemma progress_parts:
  assumes "progress r acc" and "stored r = []"
  shows "progress (parts_row m ps x r) acc \<or> c_status r = StatusDelivered"
    and "stored (parts_row m ps x r) = map scrub ps" and "nat (c_sent_parts (parts_row m ps x r)) = 0"
proof -
  let ?r = "parts_row m ps x r"
  have fields: "c_rendered_parts ?r = marshal_strings (Some ps)" "c_sent_parts ?r = c_sent_parts r" "c_status ?r = c_status r"
    by (simp_all add: parts_row_def)
  show st: "stored ?r = map scrub ps" by (simp add: stored_def fields unmarshal_marshal)
  show sent: "nat (c_sent_parts ?r) = 0" using assms by (simp add: fields progress_def)
  show "progress ?r acc \<or> c_status r = StatusDelivered"
    using assms sent by (auto simp: progress_def st fields unmarshal_marshal) (auto simp: marshal_strings_def)
qed

lemma render_tbl:
  assumes "render_parts E S rc w = (w', res)"
  shows "(\<exists>e. res = Inl e \<and> unspoilt (Rec_EventID rc) (tbl w) (tbl w'))
    \<or> (\<exists>parts x. res = Inr parts \<and> tbl w' = update_id (Rec_EventID rc) (parts_row (joinRendered parts) parts x) (tbl w))"
proof (cases "decode_payload S (Rec_OriginalPayload rc)")
  case (Inl e)
  then show ?thesis
    using assms refused.R_render_failed [of rc "Rec_EventID rc" w E "''decode stored payload''" e]
    by (auto simp: render_parts_def render_failed_def case_prod_beta)
next
  case (Inr payload)
  obtain w1 b where build: "buildMessages E S payload w = (w1, b)" by fastforce
  have t1: "tbl w1 = tbl w" using buildMessages_tbl [OF build] by simp
  show ?thesis
  proof (cases b)
    case (Inl e)
    then show ?thesis
      using assms Inr build t1 refused.R_render_failed [of rc "Rec_EventID rc" w1 E "''build alert message''" e]
      by (auto simp: render_parts_def render_failed_def case_prod_beta)
  next
    case b: (Inr parts)
    obtain w2 v where save: "SaveRenderedParts E Caller (Rec_EventID rc) (joinRendered parts) parts w1 = (w2, v)" by fastforce
    show ?thesis
    proof (cases v)
      case (Inl e)
      then show ?thesis
        using assms Inr build b save t1 refused.R_save_failed [of rc "Rec_EventID rc" w2 E S parts e]
          SaveRenderedParts_cases(2) [OF save Inl]
        by (auto simp: render_parts_def save_failed_def case_prod_beta)
    next
      case v: (Inr u)
      then show ?thesis using assms Inr build b save t1 SaveRenderedParts_cases(3) [OF save v] by (auto simp: render_parts_def)
    qed
  qed
qed

lemma ensure_accounted:
  assumes "lookup (Rec_EventID rc) (tbl w) = Some r" and "accepted_texts w = base @ acc" and "progress r acc"
    and "c_status r = StatusSending" and "scanRecordValues r = Inr rc" and run: "ensureRenderedParts E S rc w = (w', res)"
  shows "\<exists>r'. lookup (Rec_EventID rc) (tbl w') = Some r' \<and> accepted_texts w' = base @ acc \<and> progress r' acc
    \<and> c_sent_parts r' = c_sent_parts r \<and> (case res of Inl _ \<Rightarrow> True | Inr parts \<Rightarrow> stored r' = map scrub parts)"
proof -
  let ?i = "Rec_EventID rc"
  have acc: "accepted_texts w' = base @ acc"
    using ensureRenderedParts_sends [of E S rc w] run assms(2) by (simp add: accepted_texts_def)
  obtain ps where ps: "unmarshal_strings (c_rendered_parts r) = Some ps" "Rec_RenderedParts rc = ps"
    using assms(3,5) by (auto simp: progress_def scanRecordValues_def Let_def)
  show ?thesis
  proof (cases "stored r")
    case (Cons p q)
    then have "ps = Some (p # q)" using ps(1) by (auto simp: stored_def split: option.splits)
    then have "w' = w" "res = Inr (p # q)" using run ps(2) by (auto simp: ensureRenderedParts_def)
    moreover have "map scrub (p # q) = p # q" using assms(3) Cons by (simp add: progress_def)
    ultimately show ?thesis using assms acc Cons by auto
  next
    case Nil
    have "render_parts E S rc w = (w', res)"
      using Nil ps run by (auto simp: ensureRenderedParts_def stored_def split: option.splits list.splits)
    then consider (failed) e where "res = Inl e" "unspoilt ?i (tbl w) (tbl w')"
      | (rendered) parts x where "res = Inr parts" "tbl w' = update_id ?i (parts_row (joinRendered parts) parts x) (tbl w)"
      using render_tbl [of E S rc w w' res] by blast
    then show ?thesis
    proof cases
      case failed
      then show ?thesis using progress_unspoilt [OF failed(2) assms(1,3)] acc by (metis sum.case(1))
    next
      case rendered
      let ?r = "parts_row (joinRendered parts) parts x r"
      have "lookup ?i (tbl w') = Some ?r"
        using rendered(2) assms(1) lookup_id [OF assms(1)] by (simp add: lookup_update)
      moreover have "progress ?r acc" "stored ?r = map scrub parts"
        using progress_parts [OF assms(3) Nil] assms(4) by auto
      moreover have "c_sent_parts ?r = c_sent_parts r" by (simp add: parts_row_def)
      ultimately show ?thesis using acc rendered(1) by auto
    qed
  qed
qed

text \<open>Recording the delivery, when every part has been accepted.\<close>

lemma progress_delivered:
  assumes "progress r acc" and "nat (c_sent_parts r) = length (stored r)"
  shows "progress (delivered_row m chat (int (length (stored r))) x r) acc"
  using assms by (simp add: progress_def stored_def delivered_row_def)

lemma finish_accounted:
  assumes "MarkDelivered E c (Rec_EventID rc) m chat (int (length (stored r))) t w = (w', v)"
    and "lookup (Rec_EventID rc) (tbl w) = Some r" and "accepted_texts w = base @ acc" and "progress r acc"
    and "nat (c_sent_parts r) = length (stored r)" and "length acc \<le> length (stored r) + k"
  shows "case v of Inl e \<Rightarrow> accounted (Rec_EventID rc) base k (reschedule E S rc parts e w')
    | Inr _ \<Rightarrow> accounted (Rec_EventID rc) base k w'"
proof -
  note cases' = MarkDelivered_cases [OF assms(1)]
  have acc: "accepted_texts w' = base @ acc" using cases'(1) assms(3) by (simp add: accepted_texts_def)
  show ?thesis
  proof (cases v)
    case (Inl e)
    then have "lookup (Rec_EventID rc) (tbl w') = Some r" using cases'(2) assms(2) by simp
    then have "accounted (Rec_EventID rc) base k (reschedule E S rc parts e w')"
      using assms(5,6) by (intro accounted_refused [OF refused.R_reschedule [OF refl] reschedule_sends _ acc assms(4)]) simp_all
    then show ?thesis by (simp add: Inl)
  next
    case (Inr u)
    then have "lookup (Rec_EventID rc) (tbl w') = Some (delivered_row m chat (int (length (stored r))) t r)"
      using cases'(3) assms(2) lookup_id [OF assms(2)] by (simp add: lookup_update)
    then have "accounted (Rec_EventID rc) base k w'"
      using acc progress_delivered [OF assms(4,5)] assms(6)
      by (intro accountedI [of _ _ "delivered_row m chat (int (length (stored r))) t r" _ acc]) (simp_all add: delivered_row_def)
    then show ?thesis by (simp add: Inr)
  qed
qed

lemma deliver_accounted:
  assumes "lookup (Rec_EventID rc) (tbl w) = Some r" and "accepted_texts w = base @ acc" and "progress r acc"
    and "c_status r = StatusSending" and "length acc \<le> nat (c_sent_parts r) + k" and "scanRecordValues r = Inr rc"
  shows "accounted (Rec_EventID rc) base (Suc k) (fst (deliver E S rc w))"
proof -
  let ?i = "Rec_EventID rc" and ?start = "nat (c_sent_parts r)"
  obtain w1 res where ens: "ensureRenderedParts E S rc w = (w1, res)" by fastforce
  obtain r1 where r1: "lookup ?i (tbl w1) = Some r1" "accepted_texts w1 = base @ acc" "progress r1 acc"
    "c_sent_parts r1 = c_sent_parts r" "case res of Inl _ \<Rightarrow> True | Inr parts \<Rightarrow> stored r1 = map scrub parts"
    using ensure_accounted [OF assms(1-4,6) ens] by blast
  have sent: "Rec_SentParts rc = c_sent_parts r"
    using assms(6) by (auto simp: scanRecordValues_def Let_def split: if_splits option.splits)
  show ?thesis
  proof (cases res)
    case (Inl e)
    then show ?thesis using ens r1 assms(5) by (simp add: deliver_def accountedI)
  next
    case (Inr parts)
    obtain w2 out r2 acc2 where loop: "send_parts E S rc parts ?start (drop ?start parts) w1 = (w2, out)"
      and r2: "lookup ?i (tbl w2) = Some r2" "accepted_texts w2 = base @ acc2" "progress r2 acc2" "stored r2 = stored r1"
      and count: "if out = None then nat (c_sent_parts r2) = length parts \<and> length acc2 \<le> length parts + k
           else length acc2 \<le> nat (c_sent_parts r2) + Suc k"
      using send_parts_accounted [OF r1(1-3), of parts ?start k _ E S] r1(4,5) Inr assms(5) by auto
    have len: "length parts = length (stored r2)" using r2(4) r1(5) Inr by simp
    show ?thesis
    proof (cases out)
      case (Some x)
      then show ?thesis using ens Inr loop r2 count by (cases x) (simp add: deliver_def sent accountedI)
    next
      case None
      obtain w3 v where mark: "MarkDelivered E Caller ?i (joinRendered parts) (TelegramChatID (cfg S))
          (int (length (stored r2))) (now E w2) (step w2) = (w3, v)" by fastforce
      have "case v of Inl e \<Rightarrow> accounted ?i base (Suc k) (reschedule E S rc parts e w3) | Inr _ \<Rightarrow> accounted ?i base (Suc k) w3"
        by (rule finish_accounted [OF mark, of base acc2]) (use r2 count None len in \<open>simp_all add: accepted_texts_def\<close>)
      then show ?thesis
        using ens Inr loop None mark len by (cases v) (simp_all add: deliver_def sent)
    qed
  qed
qed

lemma progress_claim: "progress r acc \<Longrightarrow> progress (claim_row x r) acc"
  and claim_sent: "c_sent_parts (claim_row x r) = c_sent_parts r" "c_status (claim_row x r) = StatusSending"
  by (simp_all add: progress_def stored_def claim_row_def)

lemma process_accounted:
  assumes ok: "keys_ok (tbl w)" and before: "accounted i base k w"
  shows "accounted i base (Suc k) (fst (ProcessEventByID E S i w))"
proof -
  obtain r acc where r: "lookup i (tbl w) = Some r" "accepted_texts w = base @ acc" "progress r acc"
    "length acc \<le> nat (c_sent_parts r) + k"
    using before by (auto simp: accounted_def)
  obtain w1 res where claim: "ClaimForSend E Caller i (now E w) (step w) = (w1, res)" by fastforce
  have sends1: "sends w1 = sends w"
    using claim by (auto simp: ClaimForSend_def sql_exec_def Let_def split: option.splits prod.splits db_stage.splits)
  then have acc1: "accepted_texts w1 = base @ acc" using r(2) by (simp add: accepted_texts_def)
  show ?thesis
  proof (cases "\<exists>rc. res = Inr (Some rc)")
    case False
    let ?r = "if tbl w1 = tbl w then r else if claimable i r then claim_row (now E w) r else r"
    have "tbl w1 = tbl w \<or> tbl w1 = update_where (claimable i) (claim_row (now E w)) (tbl w)"
      using ClaimForSend_tbl [of E Caller i "now E w" "step w"] claim by simp
    then have "lookup i (tbl w1) = Some ?r" using r(1) by (auto simp: lookup_update)
    moreover have "progress ?r acc" "nat (c_sent_parts ?r) = nat (c_sent_parts r)"
      using r(3) progress_claim by (simp_all add: claim_sent)
    ultimately have "accounted i base (Suc k) w1" using acc1 r(4) by (intro accountedI [of i w1 ?r base acc]) simp_all
    then show ?thesis using claim False by (auto simp: ProcessEventByID_def split: sum.splits option.splits)
  next
    case True
    then obtain rc where rc: "res = Inr (Some rc)" by blast
    obtain x where x: "find (claimable i) (tbl w) = Some x" "scanRecordValues (claim_row (now E w) x) = Inr rc"
      and t1: "tbl w1 = update_where (claimable i) (claim_row (now E w)) (tbl w)"
      using claim rc by (auto elim!: ClaimForSend_record)
    have xr: "x = r" "claimable i r"
      using x(1) find_claimable [OF ok r(1)] lookup_id [OF r(1)] by (auto simp: claimable_def split: if_splits)
    have id: "Rec_EventID rc = i" using claim rc by (auto intro: claim_id)
    have "accounted (Rec_EventID rc) base (Suc k) (fst (deliver E S rc w1))"
      using r x(2) t1 xr acc1 progress_claim [OF r(3)]
      by (intro deliver_accounted [of rc w1 "claim_row (now E w) r"]) (simp_all add: id lookup_update claim_sent)
    then show ?thesis
      using claim rc id by (simp add: ProcessEventByID_def case_prod_beta accounted_def accepted_texts_def)
  qed
qed

section \<open>Attempts and restarts\<close>

text \<open>An event that is tried again and again, with crashes that leave it in \<open>sending\<close> in between.\<close>

datatype touch = Try | Reboot

fun touches :: "env \<Rightarrow> service \<Rightarrow> string \<Rightarrow> touch list \<Rightarrow> world \<Rightarrow> world" where
  "touches E S i [] w = w"
| "touches E S i (Try # ts) w = touches E S i ts (fst (ProcessEventByID E S i w))"
| "touches E S i (Reboot # ts) w = touches E S i ts (fst (RequeueSending E Caller (now E w) (step w)))"

lemma restart_accounted:
  assumes "accounted i base k w"
  shows "accounted i base k (fst (RequeueSending E c x w))"
proof -
  let ?w = "fst (RequeueSending E c x w)"
  have "sends ?w = sends w" and "tbl ?w = tbl w \<or> tbl ?w =
      update_where (\<lambda>r. c_status r = StatusSending) (requeue_sending_row x (now E w)) (tbl w)"
    by (auto simp: RequeueSending_def sql_exec_def observe_def Let_def
        split: option.splits prod.splits sum.splits db_stage.splits)
  then have "unspoilt i (tbl w) (tbl ?w)" "sends ?w = sends w"
    using refused.R_refl [of i "tbl w"]
      unspoilt_update [of "requeue_sending_row x (now E w)" i "tbl w" "\<lambda>r. c_status r = StatusSending"]
    by (auto simp: requeue_sending_row_def)
  then show ?thesis using assms accounted_refused unfolding accounted_def by metis
qed

lemma accounted_step: "accounted i base k (step w) = accounted i base k w"
  by (simp add: accounted_def accepted_texts_def)

lemma touches_accounted:
  assumes "keys_ok (tbl w)" and "accounted i base k w"
  shows "accounted i base (k + count_list ts Try) (touches E S i ts w)"
  using assms
proof (induction ts arbitrary: k w)
  case (Cons t ts)
  show ?case
  proof (cases t)
    case Try
    have "keys_ok (tbl (fst (ProcessEventByID E S i w)))" using keys.R_process Cons.prems(1) by blast
    then show ?thesis using Cons.IH [OF _ process_accounted [OF Cons.prems]] Try by simp
  next
    case Reboot
    have "keys_ok (tbl (fst (RequeueSending E Caller (now E w) (step w))))"
      using keys.restart [of "step w"] Cons.prems(1) by fastforce
    then show ?thesis
      using Cons.IH [OF _ restart_accounted] Cons.prems(2) Reboot by (simp add: accounted_step)
  qed
qed simp

text \<open>
  C3: at least once, whatever fails: in every environment (any statement may fail at any stage, the
  context may be done, Telegram may answer anything) and however an event is tried and restarted,
  the progress in its row is backed by accepted messages, in order; it is \<open>delivered\<close> only when
  every stored part was accepted, in order; and every call can repeat at most one message.
\<close>

theorem at_least_once:
  assumes "keys_ok (tbl w)" and "lookup i (tbl w) = Some r" and "c_rendered_parts r = marshal_strings None"
    and "c_sent_parts r = 0" and "c_status r \<noteq> StatusDelivered"
  shows "\<exists>r' acc. lookup i (tbl (touches E S i ts w)) = Some r'
    \<and> accepted_texts (touches E S i ts w) = accepted_texts w @ acc
    \<and> subseq (take (nat (c_sent_parts r')) (stored r')) (map scrub acc)
    \<and> (c_status r' = StatusDelivered \<longrightarrow> subseq (stored r') (map scrub acc))
    \<and> length acc \<le> nat (c_sent_parts r') + count_list ts Try"
proof -
  have "progress r []"
    using assms(3-5) by (simp add: progress_def stored_def unmarshal_marshal) (simp add: marshal_strings_def)
  then have "accounted i (accepted_texts w) 0 w" using assms(2,4) by (intro accountedI [of i w r _ "[]"]) simp_all
  from touches_accounted [OF assms(1) this, of ts E S] show ?thesis
    by (auto simp: accounted_def progress_def)
qed

text \<open>A Telegram that answers every other call, and a store whose fifth statement fails.\<close>

definition flaky_env :: env where
  "flaky_env = demo_env\<lparr>telegram := (\<lambda>k _ _ _. if even k then Inl throttled else Inr \<lparr> MessageID = 7, ChatID = 42 \<rparr>),
     db_fault := (\<lambda>k. if k = 5 then Some (AtExec, ErrText ''disk I/O error'') else None)\<rparr>"

theorem at_least_once_witness:
  "\<exists>r' acc. lookup ''e1'' (tbl (touches flaky_env demo_service ''e1'' [Try, Reboot, Try]
        (demo_world [insert_row (new_record ''e1'' ''k1'' ''{}'' 0) (marshal_strings None)]))) = Some r'
    \<and> accepted_texts (touches flaky_env demo_service ''e1'' [Try, Reboot, Try]
        (demo_world [insert_row (new_record ''e1'' ''k1'' ''{}'' 0) (marshal_strings None)])) = acc
    \<and> subseq (take (nat (c_sent_parts r')) (stored r')) (map scrub acc) \<and> length acc \<le> nat (c_sent_parts r') + 2"
proof -
  let ?r = "insert_row (new_record ''e1'' ''k1'' ''{}'' 0) (marshal_strings None)"
  have "keys_ok (tbl (demo_world [?r]))" "lookup ''e1'' (tbl (demo_world [?r])) = Some ?r"
    "c_rendered_parts ?r = marshal_strings None" "c_sent_parts ?r = 0" "c_status ?r \<noteq> StatusDelivered"
    by (simp_all add: keys_ok_def lookup_def insert_row_def new_record_def)
  from at_least_once [OF this, of flaky_env demo_service "[Try, Reboot, Try]"] show ?thesis
    by (auto simp: accepted_texts_def)
qed

end
